(* ===== verification/Prelude.thy ===== *)
theory Prelude
  imports Main "HOL-Library.AList" "HOL-Library.Multiset" "HOL-Library.Char_ord" "HOL-Library.List_Lexorder"
    "HOL-Library.Product_Lexorder"
begin

text \<open>
  Shared vocabulary of the development: results of code that may raise, the Python list and
  dictionary idioms the backend uses, and the rewrite rules that the component theories rely on.

  \<^item> A computation that may raise is a value of \<open>'e + 'a\<close>: \<open>Inl\<close> carries the exception,
    \<open>Inr\<close> the returned value. \<open>bnd\<close> runs a computation after another one, \<open>require\<close> is an
    \<open>if not ...: raise\<close> statement. A unit of work that raises rolls back, so an operation on the
    database returns the new database only in its \<open>Inr\<close> value.
  \<^item> \<open>next(... for x in xs if p x), None)\<close> is \<^const>\<open>List.find\<close>; a dictionary whose order is
    observable is an association list updated with \<^const>\<open>AList.update\<close>, which keeps the
    position of an existing key as Python does.
  \<^item> An autoincrement primary key is \<open>next_id\<close>: one more than the largest key in the table.
\<close>

named_theorems op_defs "definitions of the operations of a component"
named_theorems frame_simps "fields that an operation leaves alone"
named_theorems inv_intros "preservation rules for the invariants of a component"

subsection \<open>Computations that may raise\<close>

definition bnd :: "'e + 'a \<Rightarrow> ('a \<Rightarrow> 'e + 'b) \<Rightarrow> 'e + 'b" where
  "bnd m k = (case m of Inl e \<Rightarrow> Inl e | Inr x \<Rightarrow> k x)"

definition require :: "bool \<Rightarrow> 'e \<Rightarrow> 'e + 'a \<Rightarrow> 'e + 'a" where
  "require c e k = (if c then k else Inl e)"

lemma bnd_simps [simp]: "bnd (Inl e) k = Inl e" "bnd (Inr x) k = k x"
  by (simp_all add: bnd_def)

lemma require_simps [simp]: "require True e k = k" "require False e k = Inl e"
  by (simp_all add: require_def)

lemma bnd_Inr_iff: "bnd m k = Inr y \<longleftrightarrow> (\<exists>x. m = Inr x \<and> k x = Inr y)"
  by (cases m) auto

lemma bnd_Inl_iff: "bnd m k = Inl e \<longleftrightarrow> m = Inl e \<or> (\<exists>x. m = Inr x \<and> k x = Inl e)"
  by (cases m) auto

lemma require_Inr_iff: "require c e k = Inr y \<longleftrightarrow> c \<and> k = Inr y"
  by (simp add: require_def)

lemma require_Inl_iff: "require c e k = Inl x \<longleftrightarrow> (\<not> c \<and> x = e) \<or> (c \<and> k = Inl x)"
  by (auto simp: require_def)

lemma case_Some_Inr_iff:
  "(case m of None \<Rightarrow> Inl e | Some x \<Rightarrow> k x) = Inr y \<longleftrightarrow> (\<exists>x. m = Some x \<and> k x = Inr y)"
  by (cases m) auto

lemmas ok_iff = bnd_Inr_iff require_Inr_iff

lemma bndE [elim]:
  assumes "bnd m k = Inr y"
  obtains x where "m = Inr x" "k x = Inr y"
  using assms by (auto simp: bnd_Inr_iff)

fun map_res :: "('a \<Rightarrow> 'e + 'b) \<Rightarrow> 'a list \<Rightarrow> 'e + 'b list" where
  "map_res f [] = Inr []"
| "map_res f (x # xs) = bnd (f x) (\<lambda>y. bnd (map_res f xs) (\<lambda>ys. Inr (y # ys)))"

lemma map_res_Inr_iff: "map_res f xs = Inr ys \<longleftrightarrow> list_all2 (\<lambda>x y. f x = Inr y) xs ys"
  by (induction xs arbitrary: ys) (auto simp: bnd_Inr_iff list_all2_Cons1)

fun fold_res :: "('a \<Rightarrow> 's \<Rightarrow> 'e + 's) \<Rightarrow> 'a list \<Rightarrow> 's \<Rightarrow> 'e + 's" where
  "fold_res f [] s = Inr s"
| "fold_res f (x # xs) s = bnd (f x s) (fold_res f xs)"

text \<open>An invariant that every step keeps is kept by the whole loop.\<close>

lemma fold_res_inv:
  assumes "fold_res f xs s = Inr t" "I s"
    and "\<And>x s t. x \<in> set xs \<Longrightarrow> f x s = Inr t \<Longrightarrow> I s \<Longrightarrow> I t"
  shows "I t"
  using assms
proof (induction xs arbitrary: s)
  case Nil
  then show ?case by simp
next
  case (Cons x xs)
  from Cons.prems(1) obtain u where u: "f x s = Inr u" and rest: "fold_res f xs u = Inr t"
    by (auto simp: bnd_Inr_iff)
  from Cons.prems(3)[OF _ u Cons.prems(2)] have "I u" by simp
  with Cons.IH[OF rest] show ?case using Cons.prems(3) by (meson list.set_intros(2))
qed

subsection \<open>Lists, dictionaries, keys\<close>

definition next_id :: "int list \<Rightarrow> int" where
  "next_id ids = (if ids = [] then 1 else max 0 (Max (set ids)) + 1)"

lemma next_id_gt: "x \<in> set ids \<Longrightarrow> x < next_id ids"
proof -
  assume x: "x \<in> set ids"
  then have "x \<le> Max (set ids)" by simp
  then have "x \<le> max 0 (Max (set ids))" by (simp add: le_max_iff_disj)
  with x show ?thesis by (auto simp: next_id_def)
qed

lemma next_id_fresh [simp]: "next_id ids \<notin> set ids"
  using next_id_gt by blast

text \<open>\<open>max(xs, key=f, default=None)\<close>: Python keeps the first of several maximal elements.\<close>

fun max_by_from :: "('a \<Rightarrow> 'k::linorder) \<Rightarrow> 'a \<Rightarrow> 'a list \<Rightarrow> 'a" where
  "max_by_from f b [] = b"
| "max_by_from f b (x # xs) = max_by_from f (if f b < f x then x else b) xs"

definition max_by :: "('a \<Rightarrow> 'k::linorder) \<Rightarrow> 'a list \<Rightarrow> 'a option" where
  "max_by f xs = (case xs of [] \<Rightarrow> None | x # xs \<Rightarrow> Some (max_by_from f x xs))"

lemma max_by_from_mem: "max_by_from f b xs \<in> insert b (set xs)"
proof (induction xs arbitrary: b)
  case (Cons x xs)
  from Cons[of "if f b < f x then x else b"] show ?case by (auto split: if_splits)
qed simp

lemma max_by_from_ge: "y \<in> insert b (set xs) \<Longrightarrow> f y \<le> f (max_by_from f b xs)"
proof (induction xs arbitrary: b y)
  case Nil
  then show ?case by simp
next
  case (Cons x xs)
  let ?b = "if f b < f x then x else b"
  have b: "f ?b \<le> f (max_by_from f ?b xs)" by (rule Cons.IH) simp
  have "f b \<le> f ?b" "f x \<le> f ?b" by auto
  with b have "f b \<le> f (max_by_from f ?b xs)" "f x \<le> f (max_by_from f ?b xs)"
    by (meson order_trans)+
  with Cons show ?case by auto
qed

lemma max_by_Some_mem: "max_by f xs = Some x \<Longrightarrow> x \<in> set xs"
  using max_by_from_mem[of f "hd xs" "tl xs"] by (auto simp: max_by_def split: list.splits)

lemma max_by_Some_ge: "max_by f xs = Some x \<Longrightarrow> y \<in> set xs \<Longrightarrow> f y \<le> f x"
  using max_by_from_ge[of y "hd xs" "tl xs" f] by (auto simp: max_by_def split: list.splits)

lemma max_by_None [simp]: "max_by f xs = None \<longleftrightarrow> xs = []"
  by (simp add: max_by_def split: list.splits)

lemma max_by_Nil [simp]: "max_by f [] = None"
  by simp

lemma find_Some_mem: "List.find P xs = Some x \<Longrightarrow> x \<in> set xs"
  by (auto simp: find_Some_iff)

lemma find_Some_P: "List.find P xs = Some x \<Longrightarrow> P x"
  by (auto simp: find_Some_iff)

lemma find_None_iff_not_ex: "List.find P xs = None \<longleftrightarrow> \<not> (\<exists>x \<in> set xs. P x)"
  by (auto simp: find_None_iff)

text \<open>\<open>at_most_one P xs\<close>: a table with at most one row that satisfies \<open>P\<close>.\<close>

definition at_most_one :: "('a \<Rightarrow> bool) \<Rightarrow> 'a list \<Rightarrow> bool" where
  "at_most_one P xs \<longleftrightarrow> length (filter P xs) \<le> 1"

lemma at_most_one_Nil [simp]: "at_most_one P []"
  by (simp add: at_most_one_def)

lemma at_most_one_cong_filter: "filter P xs = filter Q ys \<Longrightarrow> at_most_one P xs = at_most_one Q ys"
  by (simp add: at_most_one_def)

lemma at_most_one_snoc: "at_most_one P (xs @ [x]) \<longleftrightarrow>
    (if P x then (\<forall>y \<in> set xs. \<not> P y) else at_most_one P xs)"
  by (auto simp: at_most_one_def filter_empty_conv)

lemma at_most_one_unique:
  assumes "at_most_one P xs" "x \<in> set xs" "y \<in> set xs" "P x" "P y"
  shows "x = y"
proof -
  have "x \<in> set (filter P xs)" "y \<in> set (filter P xs)" using assms by auto
  moreover have "length (filter P xs) \<le> 1" using assms(1) by (simp add: at_most_one_def)
  ultimately show ?thesis
    by (cases "filter P xs") auto
qed

lemma at_most_one_map_none:
  "(\<And>x. x \<in> set xs \<Longrightarrow> \<not> P (f x)) \<Longrightarrow> at_most_one P (map f xs)"
  by (simp add: at_most_one_def filter_map comp_def filter_False)

lemma at_most_one_mono:
  assumes "at_most_one P xs" "\<And>x. x \<in> set xs \<Longrightarrow> Q (f x) \<Longrightarrow> P x"
  shows "at_most_one Q (map f xs)"
  using assms
proof (induction xs)
  case (Cons x xs)
  then show ?case by (auto simp: at_most_one_def filter_empty_conv split: if_splits)
qed simp

lemma at_most_one_sort_key [simp]: "at_most_one P (sort_key f xs) = at_most_one P xs"
proof -
  have "mset (filter P (sort_key f xs)) = mset (filter P xs)" by (simp add: mset_filter)
  then have "length (filter P (sort_key f xs)) = length (filter P xs)"
    by (metis size_mset)
  then show ?thesis by (simp add: at_most_one_def)
qed

text \<open>With at most one match, \<open>find\<close> does not depend on the order of the rows.\<close>

lemma find_sort_key:
  assumes "at_most_one P xs"
  shows "List.find P (sort_key f xs) = List.find P xs"
proof (cases "List.find P xs")
  case None
  then have "List.find P (sort_key f xs) = None" by (simp add: find_None_iff)
  with None show ?thesis by simp
next
  case (Some x)
  then have x: "x \<in> set xs" "P x" by (auto dest: find_Some_mem find_Some_P)
  then have "List.find P (sort_key f xs) \<noteq> None" by (auto simp: find_None_iff)
  then obtain y where y: "List.find P (sort_key f xs) = Some y" by blast
  then have "y \<in> set xs" "P y" using find_Some_mem[OF y] find_Some_P[OF y] by auto
  with at_most_one_unique[OF assms] x have "y = x" by blast
  with y Some show ?thesis by simp
qed

text \<open>A table keyed by \<open>key\<close>: replacing the row of one key.\<close>

definition upd_row :: "('a \<Rightarrow> 'k) \<Rightarrow> 'k \<Rightarrow> ('a \<Rightarrow> 'a) \<Rightarrow> 'a list \<Rightarrow> 'a list" where
  "upd_row key k f xs = map (\<lambda>x. if key x = k then f x else x) xs"

lemma upd_row_Nil [simp]: "upd_row key k f [] = []"
  by (simp add: upd_row_def)

lemma length_upd_row [simp]: "length (upd_row key k f xs) = length xs"
  by (simp add: upd_row_def)

lemma map_key_upd_row: "(\<And>x. key (f x) = key x) \<Longrightarrow> map key (upd_row key k f xs) = map key xs"
  by (simp add: upd_row_def)

lemma set_upd_row: "set (upd_row key k f xs) =
    (\<lambda>x. if key x = k then f x else x) ` set xs"
  by (auto simp: upd_row_def)

lemma find_upd_row:
  assumes "\<And>x. key (f x) = key x"
  shows "List.find (\<lambda>x. key x = j) (upd_row key k f xs) =
    (if j = k then map_option f (List.find (\<lambda>x. key x = j) xs) else List.find (\<lambda>x. key x = j) xs)"
  by (induction xs) (auto simp: upd_row_def assms)

lemma mem_upd_row:
  assumes "distinct (map key xs)" "x \<in> set xs"
  shows "y \<in> set (upd_row key (key x) f xs) \<longleftrightarrow> y = f x \<or> (y \<in> set xs \<and> y \<noteq> x)"
proof -
  have u: "z = x" if "z \<in> set xs" "key z = key x" for z
    using inj_onD[of key "set xs" z x] assms that by (simp add: distinct_map)
  have "set (upd_row key (key x) f xs) = (\<lambda>z. if z = x then f x else z) ` set xs"
    unfolding set_upd_row by (rule image_cong) (auto dest: u)
  then show ?thesis using assms(2) by auto
qed

lemma upd_row_comp:
  assumes "\<And>x. key (f x) = key x"
  shows "upd_row key k g (upd_row key k f xs) = upd_row key k (\<lambda>x. g (f x)) xs"
  by (simp add: upd_row_def assms comp_def)

lemma upd_row_cong:
  assumes "\<And>x. x \<in> set xs \<Longrightarrow> key x = k \<Longrightarrow> f x = g x"
  shows "upd_row key k f xs = upd_row key k g xs"
  using assms by (auto simp: upd_row_def)

lemma find_key_unique:
  assumes "distinct (map key xs)" "x \<in> set xs" "List.find (\<lambda>x. key x = k) xs = Some y" "key x = k"
  shows "x = y"
  using assms by (metis (mono_tags, lifting) distinct_map find_Some_P find_Some_mem inj_onD)

lemma find_key_iff:
  assumes "distinct (map key xs)"
  shows "List.find (\<lambda>x. key x = k) xs = Some y \<longleftrightarrow> y \<in> set xs \<and> key y = k"
proof
  assume "y \<in> set xs \<and> key y = k"
  moreover then have "List.find (\<lambda>x. key x = k) xs \<noteq> None" by (auto simp: find_None_iff)
  ultimately show "List.find (\<lambda>x. key x = k) xs = Some y"
    using find_key_unique[OF assms] by fastforce
qed (auto dest: find_Some_mem find_Some_P)

subsection \<open>Interfaces\<close>

text \<open>
  The optimistic lock that every aggregate of the backend carries: a write names the version it was
  read at, succeeds only against that version and moves to the next one. \<open>stale\<close> recognises the
  exception of a refused write.
\<close>

locale optimistic_lock =
  fixes version :: "'s \<Rightarrow> int option"
    and put :: "int \<Rightarrow> 's \<Rightarrow> 'e + 's"
    and stale :: "'e \<Rightarrow> bool"
  assumes write_version: "put v s = Inr t \<Longrightarrow> version s = Some v \<and> version t = Some (v + 1)"
    and write_stale: "version s \<noteq> Some v \<Longrightarrow> \<exists>e. put v s = Inl e \<and> stale e"
begin

lemma no_lost_update:
  assumes "put v s = Inr t"
  shows "\<exists>e. put v t = Inl e \<and> stale e"
proof -
  have "version t \<noteq> Some v" using write_version[OF assms] by simp
  then show ?thesis by (rule write_stale)
qed

lemma write_chain:
  assumes "put v s = Inr t" "put w t = Inr u"
  shows "w = v + 1"
  using write_version[OF assms(1)] write_version[OF assms(2)] by simp

end

text \<open>A transition system with an invariant, and the same with a quantity that never decreases.\<close>

locale invariant_system =
  fixes step :: "'s \<Rightarrow> 's \<Rightarrow> bool"
    and invar :: "'s \<Rightarrow> bool"
  assumes step_invar: "step s t \<Longrightarrow> invar s \<Longrightarrow> invar t"
begin

lemma steps_invar: "step\<^sup>*\<^sup>* s t \<Longrightarrow> invar s \<Longrightarrow> invar t"
  by (induction rule: rtranclp_induct) (auto intro: step_invar)

end

locale monotone_system = invariant_system +
  fixes mea :: "'s \<Rightarrow> 'b::preorder"
  assumes step_mono: "step s t \<Longrightarrow> invar s \<Longrightarrow> mea s \<le> mea t"
begin

lemma steps_mono: "step\<^sup>*\<^sup>* s t \<Longrightarrow> invar s \<Longrightarrow> mea s \<le> mea t"
proof (induction rule: rtranclp_induct)
  case (step t u)
  then have "mea t \<le> mea u" using step_mono steps_invar by blast
  with step show ?case using order_trans by blast
qed simp

end

end
