(* ===== verification/PyNum.thy ===== *)
theory PyNum
  imports Prelude Complex_Main
begin

text \<open>
  The number types of Python that the backend computes with.

  \<^item> \<open>decimal.Decimal\<close> in the default context: an operation is exact and then rounded half-even to
    28 significant digits (\<open>dadd\<close>, \<open>dmul\<close>, \<open>ddiv\<close>, \<open>dsub\<close>). A finite decimal is
    represented by its value, a \<^typ>\<open>rat\<close>; comparisons and the constructor are exact. The exponent
    range is not bounded, and the sign of zero is not kept.
  \<^item> \<open>float\<close>: an IEEE double, again by its value; addition rounds half-even to 53 bits
    (\<open>fadd\<close>). The values the planner adds are multiples of 1 and 0.35, far from the limits of
    the exponent.
  \<^item> \<open>Decimal.quantize\<close> with \<open>ROUND_HALF_UP\<close> is \<open>quantize_half_up\<close>; it raises
    \<open>InvalidOperation\<close> (here \<^const>\<open>None\<close>) when the result needs more than 28 digits.
\<close>

subsection \<open>Rounding to a number of significant digits\<close>

function ndigits :: "int \<Rightarrow> int \<Rightarrow> nat" where
  "ndigits b n = (if n < b \<or> b < 2 then 1 else Suc (ndigits b (n div b)))"
  by pat_completeness auto
termination
  by (relation "measure (\<lambda>(b, n). nat n)") (auto simp: pos_imp_zdiv_nonneg_iff int_div_less_self)

declare ndigits.simps [simp del]

definition pw :: "int \<Rightarrow> int \<Rightarrow> rat" where
  "pw b e = (if 0 \<le> e then of_int b ^ nat e else 1 / of_int b ^ nat (- e))"

definition adj :: "int \<Rightarrow> rat \<Rightarrow> int" where
  "adj b x = (let (p, q) = quotient_of \<bar>x\<bar>;
                  e = int (ndigits b p) - int (ndigits b q)
              in if pw b e \<le> \<bar>x\<bar> then e else e - 1)"

definition round_half_even :: "rat \<Rightarrow> int" where
  "round_half_even x = (let f = \<lfloor>x\<rfloor>; d = x - of_int f in
     if d < 1 / 2 then f else if d > 1 / 2 then f + 1 else if even f then f else f + 1)"

definition round_sig :: "int \<Rightarrow> nat \<Rightarrow> rat \<Rightarrow> rat" where
  "round_sig b p x = (if x = 0 then 0 else
     let u = pw b (adj b x - (int p - 1)) in of_int (round_half_even (x / u)) * u)"

lemma pw_pos [simp]: "0 < b \<Longrightarrow> 0 < pw b e"
  by (simp add: pw_def)

lemma pw_powi: "pw b e = power_int (of_int b) e"
  by (auto simp: pw_def power_int_def field_simps)

lemma pw_add: "0 < b \<Longrightarrow> pw b (d + e) = pw b d * pw b e"
  by (simp add: pw_powi power_int_add)

lemma pw_mono: "0 < b \<Longrightarrow> d \<le> e \<Longrightarrow> pw b d \<le> pw b e"
  by (simp add: pw_powi power_int_increasing)

lemma pw_Ints: "0 \<le> e \<Longrightarrow> pw b e \<in> \<int>"
  by (simp add: pw_def)

lemma ndigits_upper: "2 \<le> b \<Longrightarrow> n < b ^ ndigits b n"
proof (induction b n rule: ndigits.induct)
  case (1 b n)
  show ?case
  proof (cases "n < b")
    case True
    then show ?thesis by (simp add: ndigits.simps[of b n])
  next
    case False
    with 1 have "n div b < b ^ ndigits b (n div b)" by simp
    then have "n div b + 1 \<le> b ^ ndigits b (n div b)" by simp
    then have le: "b * (n div b + 1) \<le> b * b ^ ndigits b (n div b)"
      using 1 by (intro mult_left_mono) auto
    have "n mod b < b" using 1 by simp
    moreover have "b * (n div b) + n mod b = n" by simp
    ultimately have "n < b * (n div b + 1)"
      by (metis add_strict_left_mono distrib_left mult.right_neutral)
    with le have "n < b * b ^ ndigits b (n div b)" by (rule order_less_le_trans[rotated])
    then show ?thesis using False 1 by (simp add: ndigits.simps[of b n])
  qed
qed

lemma ndigits_lower: "2 \<le> b \<Longrightarrow> 0 < n \<Longrightarrow> b ^ (ndigits b n - 1) \<le> n"
proof (induction b n rule: ndigits.induct)
  case (1 b n)
  show ?case
  proof (cases "n < b")
    case True
    with 1 show ?thesis by (simp add: ndigits.simps[of b n])
  next
    case False
    then have "0 < n div b" using 1 by (simp add: pos_imp_zdiv_pos_iff)
    with False 1 have le: "b ^ (ndigits b (n div b) - 1) \<le> n div b" by simp
    have pos: "0 < ndigits b (n div b)" by (simp add: ndigits.simps[of b "n div b"])
    have "b ^ ndigits b (n div b) = b * b ^ (ndigits b (n div b) - 1)"
      using pos by (metis power_eq_if not_gr_zero)
    also have "\<dots> \<le> b * (n div b)" using le 1 by simp
    also have "\<dots> \<le> n" using 1 mult_div_mod_eq[of b n] pos_mod_sign[of b n] by linarith
    finally show ?thesis using False 1 by (simp add: ndigits.simps[of b n])
  qed
qed

lemma ndigits_pos: "0 < ndigits b n"
  by (simp add: ndigits.simps[of b n])

text \<open>The adjusted exponent of a non-zero number: \<open>b\<^sup>e \<le> |x|\<close>.\<close>

lemma pw_adj_le:
  assumes b: "2 \<le> b" and x: "x \<noteq> 0"
  shows "pw b (adj b x) \<le> \<bar>x\<bar>"
proof -
  obtain p q where pq: "quotient_of \<bar>x\<bar> = (p, q)" by fastforce
  have q: "0 < q" using quotient_of_denom_pos[OF pq] .
  have xe: "\<bar>x\<bar> = of_int p / of_int q" using quotient_of_div[OF pq] .
  have "0 < of_int p / (of_int q :: rat)" using x xe by (metis zero_less_abs_iff)
  then have p: "0 < p" using q by (simp add: zero_less_divide_iff)
  let ?k = "ndigits b p" and ?l = "ndigits b q"
  have "(of_int (b ^ (?k - 1)) :: rat) \<le> of_int p"
    using ndigits_lower[OF b p] by (simp only: of_int_le_iff)
  then have lo: "(of_int b :: rat) ^ (?k - 1) \<le> of_int p" by simp
  have "(of_int q :: rat) < of_int (b ^ ?l)"
    using ndigits_upper[OF b] by (simp only: of_int_less_iff)
  then have hi: "of_int q < (of_int b :: rat) ^ ?l" by simp
  have "pw b (int ?k - int ?l - 1) = (of_int b :: rat) ^ (?k - 1) / of_int b ^ ?l"
    using b ndigits_pos[of b p]
    by (simp add: pw_powi power_int_diff of_nat_diff power_int_add field_simps
        flip: power_int_of_nat)
  also have "\<dots> \<le> of_int p / of_int q"
    using lo hi q p b by (intro frac_le) (auto intro: order_less_imp_le)
  finally have "pw b (int ?k - int ?l - 1) \<le> \<bar>x\<bar>" using xe by simp
  then show ?thesis by (simp add: adj_def pq Let_def)
qed

lemma round_half_even_floor: "\<lfloor>x\<rfloor> \<le> round_half_even x" "round_half_even x \<le> \<lceil>x\<rceil>"
proof -
  show "\<lfloor>x\<rfloor> \<le> round_half_even x" by (simp add: round_half_even_def Let_def)
  have "x - of_int \<lfloor>x\<rfloor> = 0 \<or> \<lceil>x\<rceil> = \<lfloor>x\<rfloor> + 1"
    by (metis ceiling_altdef diff_self)
  then show "round_half_even x \<le> \<lceil>x\<rceil>"
    by (auto simp: round_half_even_def Let_def)
qed

lemma round_half_even_int [simp]: "round_half_even (of_int n) = n"
  by (simp add: round_half_even_def)

lemma round_half_even_nonneg: "0 \<le> x \<Longrightarrow> 0 \<le> round_half_even x"
  using round_half_even_floor(1)[of x] by (meson order_trans zero_le_floor)

lemma round_half_even_le: "x \<le> of_int n \<Longrightarrow> round_half_even x \<le> n"
  using round_half_even_floor(2)[of x] by (simp add: ceiling_le_iff order_trans)

lemma round_sig_nonneg [simp]: "0 \<le> x \<Longrightarrow> 2 \<le> b \<Longrightarrow> 0 \<le> round_sig b p x"
proof -
  assume x: "0 \<le> x" and b: "2 \<le> b"
  let ?u = "pw b (adj b x - (int p - 1))"
  have u: "0 < ?u" using b by simp
  then have "0 \<le> round_half_even (x / ?u)" using x by (intro round_half_even_nonneg) simp
  then have "0 \<le> of_int (round_half_even (x / ?u)) * ?u" using u by simp
  then show ?thesis by (simp add: round_sig_def Let_def)
qed

text \<open>A bound that is itself a number of at most \<open>p\<close> digits survives the rounding.\<close>

lemma round_sig_le_pow:
  assumes b: "2 \<le> b" and x: "0 \<le> x" "x \<le> pw b k" and p: "0 < p"
  shows "round_sig b p x \<le> pw b k"
proof (cases "x = 0")
  case True
  then show ?thesis using b by (simp add: round_sig_def order_less_imp_le)
next
  case False
  let ?e = "adj b x - (int p - 1)" and ?u = "pw b (adj b x - (int p - 1))"
  have "pw b (adj b x) \<le> pw b k"
    using pw_adj_le[OF b False] x by simp
  then have "adj b x \<le> k"
    using b power_int_strict_increasing[of k "adj b x" "rat_of_int b"]
    by (force simp: pw_powi)
  then have ek: "0 \<le> k - ?e" using p by simp
  have u: "0 < ?u" using b by simp
  have "pw b k = pw b (k - ?e) * ?u" using b pw_add[of b "k - ?e" ?e] by simp
  moreover obtain n where n: "pw b (k - ?e) = of_int n" using pw_Ints[OF ek] by (auto elim: Ints_cases)
  ultimately have k: "pw b k = of_int n * ?u" by simp
  have "x / ?u \<le> of_int n" using x u k by (simp add: divide_le_eq)
  then have "round_half_even (x / ?u) \<le> n" by (rule round_half_even_le)
  then have "of_int (round_half_even (x / ?u)) * ?u \<le> of_int n * ?u"
    using u by (simp add: mult_right_mono order_less_imp_le)
  with k False show ?thesis by (simp add: round_sig_def Let_def)
qed

subsection \<open>Decimal arithmetic in the default context\<close>

type_synonym dec = rat

definition r28 :: "dec \<Rightarrow> dec" where
  "r28 x = round_sig 10 28 x"

definition dadd :: "dec \<Rightarrow> dec \<Rightarrow> dec" where
  "dadd x y = r28 (x + y)"

definition dsub :: "dec \<Rightarrow> dec \<Rightarrow> dec" where
  "dsub x y = r28 (x - y)"

definition dmul :: "dec \<Rightarrow> dec \<Rightarrow> dec" where
  "dmul x y = r28 (x * y)"

text \<open>Callers divide by constants, by list lengths and by a scale width they have checked.\<close>

definition ddiv :: "dec \<Rightarrow> dec \<Rightarrow> dec" where
  "ddiv x y = r28 (x / y)"

definition dsum :: "dec list \<Rightarrow> dec" where
  "dsum xs = foldl dadd 0 xs"

definition round_half_up :: "rat \<Rightarrow> int" where
  "round_half_up x = (if 0 \<le> x then \<lfloor>x + 1 / 2\<rfloor> else - \<lfloor>- x + 1 / 2\<rfloor>)"

definition quantize_half_up :: "nat \<Rightarrow> dec \<Rightarrow> dec option" where
  "quantize_half_up d x = (let n = round_half_up (x * 10 ^ d) in
     if \<bar>n\<bar> < 10 ^ 28 then Some (of_int n / 10 ^ d) else None)"

lemma r28_nonneg [simp]: "0 \<le> x \<Longrightarrow> 0 \<le> r28 x"
  by (simp add: r28_def)

lemma r28_zero [simp]: "r28 0 = 0"
  by (simp add: r28_def round_sig_def)

lemma r28_le_100: "0 \<le> x \<Longrightarrow> x \<le> 100 \<Longrightarrow> r28 x \<le> 100"
  using round_sig_le_pow[of 10 x 2 28] by (simp add: r28_def pw_def)

lemma dadd_nonneg [simp]: "0 \<le> x \<Longrightarrow> 0 \<le> y \<Longrightarrow> 0 \<le> dadd x y"
  by (simp add: dadd_def)

lemma dmul_nonneg [simp]: "0 \<le> x \<Longrightarrow> 0 \<le> y \<Longrightarrow> 0 \<le> dmul x y"
  by (simp add: dmul_def)

lemma ddiv_nonneg [simp]: "0 \<le> x \<Longrightarrow> 0 \<le> y \<Longrightarrow> 0 \<le> ddiv x y"
  by (simp add: ddiv_def)

lemma foldl_dadd_nonneg: "0 \<le> a \<Longrightarrow> (\<And>x. x \<in> set xs \<Longrightarrow> 0 \<le> x) \<Longrightarrow> 0 \<le> foldl dadd a xs"
  by (induction xs arbitrary: a) auto

lemma dsum_nonneg: "(\<And>x. x \<in> set xs \<Longrightarrow> 0 \<le> x) \<Longrightarrow> 0 \<le> dsum xs"
  by (simp add: dsum_def foldl_dadd_nonneg)

lemma round_half_up_nonneg: "0 \<le> x \<Longrightarrow> 0 \<le> round_half_up x"
  by (simp add: round_half_up_def)

lemma round_half_up_int [simp]: "round_half_up (of_int n) = n"
proof -
  have "\<lfloor>of_int m + 1 / 2 :: rat\<rfloor> = m" for m
    by (simp add: floor_eq_iff)
  from this[of n] this[of "- n"] show ?thesis by (simp add: round_half_up_def)
qed

lemma quantize_half_up_nonneg: "quantize_half_up d x = Some y \<Longrightarrow> 0 \<le> x \<Longrightarrow> 0 \<le> y"
  by (auto simp: quantize_half_up_def Let_def round_half_up_nonneg split: if_splits)

subsection \<open>Double-precision addition\<close>

definition fadd :: "rat \<Rightarrow> rat \<Rightarrow> rat" where
  "fadd x y = round_sig 2 53 (x + y)"

text \<open>The double nearest to 0.35: the value of the literal in the source.\<close>

definition f035 :: rat where
  "f035 = 3152519739159347 / 9007199254740992"

end
