(* ===== verification/PyText.thy ===== *)
theory PyText
  imports PyNum
begin

text \<open>
  Request payloads and the text and number validators that several services share.

  A payload is JSON: \<open>json\<close> has one constructor per JSON type. A float is carried by its
  \<open>str\<close> text, which is all the code reads of it. A payload object is an association list with
  the keys in their order; \<open>jget\<close> is \<open>payload.get(key)\<close>, which does not tell a missing key from
  \<open>null\<close>. A string is a list of code points below 256.
\<close>

datatype json =
    JNull
  | JBool bool
  | JInt int
  | JFloat string
  | JStr string
  | JList "json list"
  | JObj "(string \<times> json) list"

type_synonym payload = "(string \<times> json) list"

definition jget :: "payload \<Rightarrow> string \<Rightarrow> json" where
  "jget p k = (case map_of p k of None \<Rightarrow> JNull | Some v \<Rightarrow> v)"

definition jget_default :: "payload \<Rightarrow> string \<Rightarrow> json \<Rightarrow> json" where
  "jget_default p k d = (case map_of p k of None \<Rightarrow> d | Some v \<Rightarrow> v)"

lemma jget_simps [simp]:
  "jget [] k = JNull"
  "jget ((k', v) # p) k = (if k' = k then v else jget p k)"
  by (simp_all add: jget_def)

lemma jget_default_simps [simp]:
  "jget_default [] k d = d"
  "jget_default ((k', v) # p) k d = (if k' = k then v else jget_default p k d)"
  by (simp_all add: jget_default_def)

subsection \<open>Whitespace\<close>

definition is_ws :: "char \<Rightarrow> bool" where
  "is_ws c \<longleftrightarrow> (let n = (of_char c :: nat) in
     (9 \<le> n \<and> n \<le> 13) \<or> (28 \<le> n \<and> n \<le> 32) \<or> n = 133 \<or> n = 160)"

definition strip :: "string \<Rightarrow> string" where
  "strip s = rev (dropWhile is_ws (rev (dropWhile is_ws s)))"

lemma hd_dropWhile_not: "dropWhile P xs \<noteq> [] \<Longrightarrow> \<not> P (hd (dropWhile P xs))"
  by (rule hd_dropWhile)

lemma strip_last: "strip s \<noteq> [] \<Longrightarrow> \<not> is_ws (last (strip s))"
  unfolding strip_def by (simp add: last_rev hd_dropWhile_not)

lemma strip_hd: "strip s \<noteq> [] \<Longrightarrow> \<not> is_ws (hd (strip s))"
proof -
  assume ne: "strip s \<noteq> []"
  let ?t = "dropWhile is_ws s"
  obtain zs where zs: "rev ?t = zs @ dropWhile is_ws (rev ?t)"
    by (metis takeWhile_dropWhile_id)
  then have t: "?t = strip s @ rev zs" unfolding strip_def by (metis rev_append rev_rev_ident)
  with ne have "hd ?t = hd (strip s)" "?t \<noteq> []" by (metis hd_append2, simp)
  with hd_dropWhile_not[of is_ws s] show ?thesis by simp
qed

lemma strip_Nil [simp]: "strip [] = []"
  by (simp add: strip_def)

lemma strip_idem [simp]: "strip (strip s) = strip s"
proof (cases "strip s = []")
  case True
  then show ?thesis by simp
next
  case False
  have "dropWhile is_ws (strip s) = strip s"
    using strip_hd[OF False] False by (cases "strip s") auto
  moreover have "dropWhile is_ws (rev (strip s)) = rev (strip s)"
    using strip_last[OF False] False by (cases "rev (strip s)") (auto simp: last_rev)
  ultimately show ?thesis by (simp add: strip_def[of "strip s"])
qed

subsection \<open>Decimal literals\<close>

text \<open>
  The finite literals of the \<open>Decimal\<close> constructor: optional sign, digits with an optional
  fraction, optional exponent, after stripping whitespace and removing underscores. \<open>NaN\<close> and
  infinities parse but are not finite.
\<close>

datatype dec_lit = Finite dec | NonFinite

definition is_digit :: "char \<Rightarrow> bool" where
  "is_digit c \<longleftrightarrow> 48 \<le> (of_char c :: nat) \<and> (of_char c :: nat) \<le> 57"

definition digit_val :: "char \<Rightarrow> int" where
  "digit_val c = of_char c - 48"

definition digits_val :: "string \<Rightarrow> int" where
  "digits_val s = foldl (\<lambda>a c. 10 * a + digit_val c) 0 s"

definition lower_char :: "char \<Rightarrow> char" where
  "lower_char c = (if 65 \<le> (of_char c :: nat) \<and> (of_char c :: nat) \<le> 90
     then char_of ((of_char c :: nat) + 32) else c)"

definition split_sign :: "string \<Rightarrow> int \<times> string" where
  "split_sign s = (case s of
     c # r \<Rightarrow> if c = CHR ''-'' then (- 1, r) else if c = CHR ''+'' then (1, r) else (1, s)
   | [] \<Rightarrow> (1, []))"

definition parse_exp :: "string \<Rightarrow> int option" where
  "parse_exp s = (case s of
     [] \<Rightarrow> Some 0
   | c # r \<Rightarrow> if lower_char c = CHR ''e'' then
       (let (sg, d) = split_sign r in
        if d \<noteq> [] \<and> list_all is_digit d then Some (sg * digits_val d) else None)
     else None)"

definition parse_finite :: "string \<Rightarrow> dec option" where
  "parse_finite s = (let ip = takeWhile is_digit s; r = dropWhile is_digit s;
       (fp, r') = (case r of
          c # r2 \<Rightarrow> if c = CHR ''.'' then (takeWhile is_digit r2, dropWhile is_digit r2) else ([], r)
        | [] \<Rightarrow> ([], []))
     in if ip = [] \<and> fp = [] then None
        else map_option (\<lambda>e. of_int (digits_val (ip @ fp)) * pw 10 (e - int (length fp)))
               (parse_exp r'))"

definition parse_decimal :: "string \<Rightarrow> dec_lit option" where
  "parse_decimal s = (let t = filter (\<lambda>c. c \<noteq> CHR ''_'') (strip s); (sg, u) = split_sign t;
       l = map lower_char u in
     if l = ''inf'' \<or> l = ''infinity'' then Some NonFinite
     else if take 3 l = ''nan'' \<and> list_all is_digit (drop 3 l) then Some NonFinite
     else if take 4 l = ''snan'' \<and> list_all is_digit (drop 4 l) then Some NonFinite
     else map_option (\<lambda>x. Finite (of_int sg * x)) (parse_finite u))"

subsection \<open>Validators\<close>

text \<open>The messages of the validators; the field name is the argument the callers pass.\<close>

datatype text_error =
    NotANumber | NotFinite | NotAnInteger | TooLarge | FieldRequired | TextTooLong | TextExpected
  | NotADate | NotAnIsoDate | NotADatetime

definition decimal_of :: "json \<Rightarrow> text_error + dec" where
  "decimal_of v = (case (case v of
        JStr s \<Rightarrow> parse_decimal s
      | JFloat s \<Rightarrow> parse_decimal s
      | JInt n \<Rightarrow> Some (Finite (of_int n))
      | _ \<Rightarrow> None) of
     None \<Rightarrow> Inl NotANumber
   | Some NonFinite \<Rightarrow> Inl NotFinite
   | Some (Finite x) \<Rightarrow> Inr x)"

definition integer_of :: "json \<Rightarrow> int \<Rightarrow> text_error + int" where
  "integer_of v minimum = (case v of
     JInt n \<Rightarrow> if n < minimum then Inl NotAnInteger else Inr n
   | _ \<Rightarrow> Inl NotAnInteger)"

definition required_text :: "json \<Rightarrow> nat \<Rightarrow> text_error + string" where
  "required_text v maximum = (case v of
     JStr s \<Rightarrow> if strip s = [] then Inl FieldRequired
       else if maximum < length (strip s) then Inl TextTooLong else Inr (strip s)
   | _ \<Rightarrow> Inl FieldRequired)"

definition optional_text :: "json \<Rightarrow> nat \<Rightarrow> text_error + string option" where
  "optional_text v maximum = (case v of
     JNull \<Rightarrow> Inr None
   | JStr s \<Rightarrow> if s = [] then Inr None
       else if maximum < length (strip s) then Inl TextTooLong
       else if strip s = [] then Inr None else Inr (Some (strip s))
   | _ \<Rightarrow> Inl TextExpected)"

lemma integer_of_ge: "integer_of v m = Inr n \<Longrightarrow> m \<le> n"
  by (auto simp: integer_of_def split: json.splits if_splits)

lemma required_text_Inr: "required_text v m = Inr s \<Longrightarrow> s \<noteq> [] \<and> length s \<le> m \<and> strip s = s"
  by (auto simp: required_text_def split: json.splits if_splits)

lemma optional_text_Inr:
  "optional_text v m = Inr (Some s) \<Longrightarrow> s \<noteq> [] \<and> length s \<le> m \<and> strip s = s"
  by (auto simp: optional_text_def split: json.splits if_splits)

end
