(* ===== verification/PyDate.thy ===== *)
theory PyDate
  imports PyText
begin

text \<open>
  The part of \<open>datetime.date\<close> that the backend uses, following the algorithms of the standard
  library. A date is the triple (year, month, day), so the lexicographic order of triples is the
  chronological order; \<open>toordinal\<close> numbers the days from 1 January of year 1. Calendar-week
  arithmetic works on ordinals.
\<close>

type_synonym date = "int \<times> int \<times> int"

definition is_leap :: "int \<Rightarrow> bool" where
  "is_leap y \<longleftrightarrow> y mod 4 = 0 \<and> (y mod 100 \<noteq> 0 \<or> y mod 400 = 0)"

definition days_before_year :: "int \<Rightarrow> int" where
  "days_before_year y = (y - 1) * 365 + (y - 1) div 4 - (y - 1) div 100 + (y - 1) div 400"

definition days_in_month :: "int \<Rightarrow> int \<Rightarrow> int" where
  "days_in_month y m = (if m = 2 then (if is_leap y then 29 else 28)
     else if m \<in> {4, 6, 9, 11} then 30 else 31)"

definition days_before_month :: "int \<Rightarrow> int \<Rightarrow> int" where
  "days_before_month y m = [0, 31, 59, 90, 120, 151, 181, 212, 243, 273, 304, 334] ! nat (m - 1)
     + (if 2 < m \<and> is_leap y then 1 else 0)"

definition valid_date :: "date \<Rightarrow> bool" where
  "valid_date t \<longleftrightarrow> (case t of (y, m, d) \<Rightarrow>
     1 \<le> y \<and> y \<le> 9999 \<and> 1 \<le> m \<and> m \<le> 12 \<and> 1 \<le> d \<and> d \<le> days_in_month y m)"

definition toordinal :: "date \<Rightarrow> int" where
  "toordinal t = (case t of (y, m, d) \<Rightarrow> days_before_year y + days_before_month y m + d)"

definition max_ordinal :: int where
  "max_ordinal = 3652059"

definition fromordinal :: "int \<Rightarrow> date" where
  "fromordinal ord = (let n = ord - 1; n400 = n div 146097; n = n mod 146097; year = n400 * 400 + 1;
      n100 = n div 36524; n = n mod 36524; n4 = n div 1461; n = n mod 1461;
      n1 = n div 365; n = n mod 365; year = year + n100 * 100 + n4 * 4 + n1
    in if n1 = 4 \<or> n100 = 4 then (year - 1, 12, 31)
       else let month = (n + 50) div 32; p = days_before_month year month in
         if n < p then (year, month - 1, n - (p - days_in_month year (month - 1)) + 1)
         else (year, month, n - p + 1))"

definition weekday :: "int \<Rightarrow> int" where
  "weekday ord = (ord + 6) mod 7"

subsection \<open>ISO calendar weeks\<close>

definition isoweek1monday :: "int \<Rightarrow> int" where
  "isoweek1monday y = (let f = toordinal (y, 1, 1); fw = (f + 6) mod 7; w = f - fw in
     if 3 < fw then w + 7 else w)"

definition weeks_in_year :: "int \<Rightarrow> int" where
  "weeks_in_year y = (let fw = toordinal (y, 1, 1) mod 7 in
     if fw = 4 \<or> (fw = 3 \<and> is_leap y) then 53 else 52)"

text \<open>\<open>date.fromisocalendar\<close> as an ordinal; \<^const>\<open>None\<close> is its \<open>ValueError\<close>.\<close>

definition fromisocalendar :: "int \<Rightarrow> int \<Rightarrow> int \<Rightarrow> int option" where
  "fromisocalendar y w d = (let ord = isoweek1monday y + (w - 1) * 7 + (d - 1) in
     if 1 \<le> y \<and> y \<le> 9999 \<and> 1 \<le> w \<and> w \<le> weeks_in_year y \<and> 1 \<le> d \<and> d \<le> 7
        \<and> 1 \<le> ord \<and> ord \<le> max_ordinal
     then Some ord else None)"

definition isocalendar :: "date \<Rightarrow> int \<times> int \<times> int" where
  "isocalendar t = (let y = fst t; today = toordinal t; w1 = isoweek1monday y;
      week = (today - w1) div 7; day = (today - w1) mod 7
    in if week < 0 then (let w1' = isoweek1monday (y - 1) in
           (y - 1, (today - w1') div 7 + 1, (today - w1') mod 7 + 1))
       else if 52 \<le> week \<and> isoweek1monday (y + 1) \<le> today then (y + 1, 1, day + 1)
       else (y, week + 1, day + 1))"

subsection \<open>Text forms\<close>

definition int_of_digits :: "string \<Rightarrow> int option" where
  "int_of_digits s = (if s \<noteq> [] \<and> list_all is_digit s then Some (digits_val s) else None)"

definition check_date :: "int \<Rightarrow> int \<Rightarrow> int \<Rightarrow> date option" where
  "check_date y m d = (if valid_date (y, m, d) then Some (y, m, d) else None)"

definition fromisoformat :: "string \<Rightarrow> date option" where
  "fromisoformat s = (if length s \<notin> {7, 8, 10} then None else
     let sep = s ! 4 = CHR ''-''; k = (if sep then 5 else 4); r = drop k s in
     Option.bind (int_of_digits (take 4 s)) (\<lambda>y.
       if take 1 r = ''W'' then
         Option.bind (int_of_digits (take 2 (drop 1 r))) (\<lambda>w. let q = drop 3 r in
           if length (take 2 (drop 1 r)) < 2 then None
           else if q = [] then map_option fromordinal (fromisocalendar y w 1)
           else if (take 1 q = ''-'') \<noteq> sep then None
           else let u = (if sep then drop 1 q else q) in if length u \<noteq> 1 then None else
             Option.bind (int_of_digits u) (\<lambda>d. map_option fromordinal (fromisocalendar y w d)))
       else Option.bind (int_of_digits (take 2 r)) (\<lambda>m. let q = drop 2 r in
         if (take 1 q = ''-'') \<noteq> sep then None
         else let u = (if sep then drop 1 q else q) in if length u \<noteq> 2 then None else
           Option.bind (int_of_digits u) (\<lambda>d. check_date y m d))))"

definition required_date :: "json \<Rightarrow> text_error + date" where
  "required_date v = (case v of
     JStr s \<Rightarrow> (case fromisoformat s of None \<Rightarrow> Inl NotAnIsoDate | Some d \<Rightarrow> Inr d)
   | _ \<Rightarrow> Inl NotADate)"

definition optional_date :: "json \<Rightarrow> text_error + date option" where
  "optional_date v = (if v = JNull \<or> v = JStr [] then Inr None
     else bnd (required_date v) (\<lambda>d. Inr (Some d)))"

text \<open>\<open>date.replace(year=...)\<close>, with 29 February moved to the 28th where the year has none.\<close>

definition add_years :: "date \<Rightarrow> int \<Rightarrow> date option" where
  "add_years t n = (case t of (y, m, d) \<Rightarrow>
     if valid_date (y + n, m, d) then Some (y + n, m, d) else check_date (y + n) 2 28)"

definition char_of_digit :: "int \<Rightarrow> char" where
  "char_of_digit n = char_of (nat (48 + n mod 10))"

fun pad_digits :: "nat \<Rightarrow> int \<Rightarrow> string" where
  "pad_digits 0 n = []"
| "pad_digits (Suc k) n = pad_digits k (n div 10) @ [char_of_digit n]"

definition isoformat :: "date \<Rightarrow> string" where
  "isoformat t = (case t of (y, m, d) \<Rightarrow>
     pad_digits 4 y @ ''-'' @ pad_digits 2 m @ ''-'' @ pad_digits 2 d)"

subsection \<open>Facts\<close>

lemma weekday_range: "0 \<le> weekday n" "weekday n < 7"
  by (simp_all add: weekday_def)

lemma weekday_isoweek1monday: "weekday (isoweek1monday y) = 0"
proof -
  define f where "f = toordinal (y, 1, 1)"
  have "(f - (f + 6) mod 7 + 6) mod 7 = 0" by presburger
  moreover have "(f - (f + 6) mod 7 + 7 + 6) mod 7 = 0" by presburger
  ultimately show ?thesis by (simp add: weekday_def isoweek1monday_def Let_def f_def add.commute)
qed

text \<open>The day number of \<open>fromisocalendar\<close> is the weekday it asks for.\<close>

lemma weekday_fromisocalendar: "fromisocalendar y w d = Some n \<Longrightarrow> weekday n = d - 1"
proof -
  assume a: "fromisocalendar y w d = Some n"
  then have n: "n = isoweek1monday y + (w - 1) * 7 + (d - 1)" and d: "1 \<le> d" "d \<le> 7"
    by (auto simp: fromisocalendar_def Let_def split: if_splits)
  have m: "(isoweek1monday y + 6) mod 7 = 0"
    using weekday_isoweek1monday[of y] by (simp add: weekday_def)
  have "(m + 6) mod 7 = 0 \<Longrightarrow> (m + (w - 1) * 7 + (d - 1) + 6) mod 7 = d - 1" for m
    using d by presburger
  from this[OF m] show ?thesis by (simp add: n weekday_def)
qed

lemma add_years_Some: "add_years (y, m, d) n = Some t \<Longrightarrow> fst t = y + n"
  by (auto simp: add_years_def check_date_def split: if_splits)

lemma fromisoformat_valid_dash:
  "check_date y m d = Some t \<Longrightarrow> t = (y, m, d) \<and> valid_date t"
  by (auto simp: check_date_def split: if_splits)

end
