(* ===== verification/Assess_Rules.thy ===== *)
theory Assess_Rules
  imports PyDate
begin

text \<open>
  The rule configuration of an assessment model (\<open>assessment/rules.py\<close>): the records, the field
  constraints and the cross checks of \<open>AssessmentRules\<close>. A validator returns the rules with their
  texts stripped, or the first constraint that fails. The lemmas at the end state what the rest of
  the assessment relies on: an accepted grade table covers every score from 0 upwards.
\<close>

datatype assess_mode = Committee | Independent

datatype round_mode = RoundNone | HalfUp

datatype threshold_basis = Unrounded | Rounded

record criterion =
  cr_key :: string
  cr_label :: string
  cr_raw_min :: dec
  cr_raw_max :: dec
  cr_weight :: dec

record component =
  co_key :: string
  co_label :: string
  co_mode :: assess_mode
  co_weight :: dec
  co_day_scoped :: bool
  co_required_assessors :: int
  co_max_deviation :: dec
  co_additional_assessor :: bool
  co_criteria :: "criterion list"

record ext_area =
  ea_key :: string
  ea_label :: string
  ea_weight :: dec
  ea_required :: bool

record rounding_stage =
  rs_mode :: round_mode
  rs_digits :: "int option"

record rules =
  ru_components :: "component list"
  ru_external_areas :: "ext_area list"
  ru_intermediate :: rounding_stage
  ru_overall :: rounding_stage
  ru_threshold_basis :: threshold_basis
  ru_grades :: "(string \<times> dec) list"
  ru_overall_min :: dec
  ru_component_minima :: "(string \<times> dec) list"
  ru_external_minima :: "(string \<times> dec) list"
  ru_minimum_members :: int

datatype rules_error =
    TextLength | WeightRange | ScaleInterval | AssessorCount | DeviationRange
  | NoCriteria | CriterionKeysNotUnique | CriterionWeights
  | DigitsRange | DigitsWithoutRounding | PointsRange | QuorumRange
  | NoComponents | ComponentKeysNotUnique | AreaKeysNotUnique | AreaWeights
  | NoGrades | GradesNotDescending | GradesNotCovering | UnknownMinimum

definition text_ok :: "string \<Rightarrow> nat \<Rightarrow> bool" where
  "text_ok s maximum \<longleftrightarrow> 1 \<le> length (strip s) \<and> length (strip s) \<le> maximum"

definition weight_ok :: "dec \<Rightarrow> bool" where
  "weight_ok w \<longleftrightarrow> 1 / 10000000 \<le> w \<and> w \<le> 100"

definition points_ok :: "dec \<Rightarrow> bool" where
  "points_ok x \<longleftrightarrow> 0 \<le> x \<and> x \<le> 100"

definition validate_criterion :: "criterion \<Rightarrow> rules_error + criterion" where
  "validate_criterion c =
     require (text_ok (cr_key c) 100 \<and> text_ok (cr_label c) 300) TextLength (
     require (weight_ok (cr_weight c)) WeightRange (
     require (\<not> cr_raw_max c \<le> cr_raw_min c) ScaleInterval (
     Inr (c\<lparr>cr_key := strip (cr_key c), cr_label := strip (cr_label c)\<rparr>))))"

definition validate_component :: "component \<Rightarrow> rules_error + component" where
  "validate_component c =
     require (text_ok (co_key c) 100 \<and> text_ok (co_label c) 300) TextLength (
     require (weight_ok (co_weight c)) WeightRange (
     require (1 \<le> co_required_assessors c) AssessorCount (
     require (points_ok (co_max_deviation c)) DeviationRange (
     bnd (map_res validate_criterion (co_criteria c)) (\<lambda>cs.
     require (cs \<noteq> []) NoCriteria (
     require (length (map cr_key cs) = card (set (map cr_key cs))) CriterionKeysNotUnique (
     require (dsum (map cr_weight cs) = 100) CriterionWeights (
     Inr (c\<lparr>co_key := strip (co_key c), co_label := strip (co_label c), co_criteria := cs\<rparr>)))))))))"

definition validate_area :: "ext_area \<Rightarrow> rules_error + ext_area" where
  "validate_area a =
     require (text_ok (ea_key a) 100 \<and> text_ok (ea_label a) 300) TextLength (
     require (points_ok (ea_weight a)) WeightRange (
     Inr (a\<lparr>ea_key := strip (ea_key a), ea_label := strip (ea_label a)\<rparr>)))"

definition validate_rounding :: "rounding_stage \<Rightarrow> rules_error + rounding_stage" where
  "validate_rounding r =
     require (case rs_digits r of None \<Rightarrow> True | Some d \<Rightarrow> 0 \<le> d \<and> d \<le> 6) DigitsRange (
     require (\<not> (rs_mode r = RoundNone \<and> rs_digits r \<noteq> None)) DigitsWithoutRounding (Inr r))"

definition validate_grade :: "string \<times> dec \<Rightarrow> rules_error + (string \<times> dec)" where
  "validate_grade g = require (text_ok (fst g) 100) TextLength (
     require (points_ok (snd g)) PointsRange (Inr (strip (fst g), snd g)))"

fun grades_descending :: "dec \<Rightarrow> (string \<times> dec) list \<Rightarrow> bool" where
  "grades_descending previous [] = True"
| "grades_descending previous ((l, m) # gs) = (\<not> previous \<le> m \<and> grades_descending m gs)"

definition validate_cross_references :: "rules \<Rightarrow> rules_error + rules" where
  "validate_cross_references r = (let
       component_keys = map co_key (ru_components r);
       external_keys = map ea_key (ru_external_areas r)
     in require (ru_components r \<noteq> []) NoComponents (
        require (length component_keys = card (set component_keys)) ComponentKeysNotUnique (
        require (set component_keys \<inter> set external_keys = {} \<and>
                 length external_keys = card (set external_keys)) AreaKeysNotUnique (
        require (dsum (map co_weight (ru_components r) @ map ea_weight (ru_external_areas r)) = 100)
          AreaWeights (
        require (ru_grades r \<noteq> []) NoGrades (
        require (grades_descending 101 (ru_grades r)) GradesNotDescending (
        require (snd (last (ru_grades r)) = 0) GradesNotCovering (
        require (set (map fst (ru_component_minima r)) \<subseteq> set component_keys \<and>
                 set (map fst (ru_external_minima r)) \<subseteq> set external_keys) UnknownMinimum (
        Inr r)))))))))"

definition validate_rules :: "rules \<Rightarrow> rules_error + rules" where
  "validate_rules r =
     bnd (map_res validate_component (ru_components r)) (\<lambda>cs.
     bnd (map_res validate_area (ru_external_areas r)) (\<lambda>as.
     bnd (validate_rounding (ru_intermediate r)) (\<lambda>ri.
     bnd (validate_rounding (ru_overall r)) (\<lambda>ro.
     bnd (map_res validate_grade (ru_grades r)) (\<lambda>gs.
     require (points_ok (ru_overall_min r) \<and> list_all points_ok (map snd (ru_component_minima r))
              \<and> list_all points_ok (map snd (ru_external_minima r))) PointsRange (
     require (1 \<le> ru_minimum_members r) QuorumRange (
     validate_cross_references (r\<lparr>ru_components := cs, ru_external_areas := as,
       ru_intermediate := ri, ru_overall := ro, ru_grades := gs\<rparr>))))))))"

subsection \<open>What accepted rules guarantee\<close>

lemma grades_descending_last:
  "grades_descending p gs \<Longrightarrow> gs \<noteq> [] \<Longrightarrow> \<forall>g \<in> set gs. snd (last gs) \<le> snd g"
proof (induction p gs rule: grades_descending.induct)
  case (2 p l m gs)
  show ?case
  proof (cases gs)
    case Nil
    then show ?thesis by simp
  next
    case (Cons h hs)
    obtain l2 m2 where h: "h = (l2, m2)" by (cases h) auto
    from "2.prems" have d: "grades_descending m gs" by simp
    with "2.IH" Cons have all: "\<forall>g \<in> set gs. snd (last gs) \<le> snd g" by simp
    then have "snd (last gs) \<le> m2" using Cons h by auto
    moreover have "m2 < m" using d Cons h by simp
    ultimately show ?thesis using all Cons by auto
  qed
qed simp

lemma validate_cross_references_id: "validate_cross_references r = Inr r' \<Longrightarrow> r' = r"
  by (simp add: validate_cross_references_def Let_def ok_iff)

lemma validate_rules_cross:
  assumes "validate_rules r = Inr r'"
  shows "validate_cross_references r' = Inr r'"
proof -
  from assms obtain q where "validate_cross_references q = Inr r'"
    unfolding validate_rules_def ok_iff by blast
  with validate_cross_references_id show ?thesis by metis
qed

lemma validate_rules_grades:
  assumes "validate_rules r = Inr r'"
  shows "ru_grades r' \<noteq> []" "snd (last (ru_grades r')) = 0" "grades_descending 101 (ru_grades r')"
  using validate_rules_cross[OF assms]
  by (auto simp: validate_cross_references_def Let_def ok_iff)

lemma validate_rules_weights:
  assumes "validate_rules r = Inr r'"
  shows "dsum (map co_weight (ru_components r') @ map ea_weight (ru_external_areas r')) = 100"
  using validate_rules_cross[OF assms]
  by (auto simp: validate_cross_references_def Let_def ok_iff)

lemma validate_component_weight: "validate_component c = Inr c' \<Longrightarrow> 0 < co_weight c'"
  by (auto simp: validate_component_def ok_iff weight_ok_def)

lemma validate_area_weight: "validate_area a = Inr a' \<Longrightarrow> 0 \<le> ea_weight a'"
  by (auto simp: validate_area_def ok_iff points_ok_def)

lemma validate_criterion_props:
  "validate_criterion c = Inr c' \<Longrightarrow> 0 < cr_weight c' \<and> cr_raw_min c' < cr_raw_max c'"
  by (auto simp: validate_criterion_def ok_iff weight_ok_def)

lemma map_res_Ball: "map_res f xs = Inr ys \<Longrightarrow> y \<in> set ys \<Longrightarrow> \<exists>x \<in> set xs. f x = Inr y"
  by (fastforce simp: map_res_Inr_iff list_all2_conv_all_nth in_set_conv_nth)

definition wf_rules :: "rules \<Rightarrow> bool" where
  "wf_rules r \<longleftrightarrow> ru_grades r \<noteq> [] \<and> snd (last (ru_grades r)) = 0
     \<and> (\<forall>c \<in> set (ru_components r). 0 < co_weight c \<and>
          (\<forall>k \<in> set (co_criteria c). 0 < cr_weight k \<and> cr_raw_min k < cr_raw_max k))
     \<and> (\<forall>a \<in> set (ru_external_areas r). 0 \<le> ea_weight a)"

lemma validate_component_criteria:
  assumes "validate_component c = Inr c'" "k \<in> set (co_criteria c')"
  shows "0 < cr_weight k \<and> cr_raw_min k < cr_raw_max k"
  using assms by (auto simp: validate_component_def ok_iff dest!: map_res_Ball
      validate_criterion_props)

lemma validate_rules_wf:
  assumes "validate_rules r = Inr r'"
  shows "wf_rules r'"
proof -
  from assms[unfolded validate_rules_def ok_iff] obtain cs as ri ro gs where
    cs: "map_res validate_component (ru_components r) = Inr cs" and
    as: "map_res validate_area (ru_external_areas r) = Inr as" and
    q: "validate_cross_references (r\<lparr>ru_components := cs, ru_external_areas := as,
          ru_intermediate := ri, ru_overall := ro, ru_grades := gs\<rparr>) = Inr r'"
    by blast
  have qr: "ru_components r' = cs" "ru_external_areas r' = as"
    using validate_cross_references_id[OF q] by simp_all
  have "0 < co_weight c \<and> (\<forall>k \<in> set (co_criteria c). 0 < cr_weight k \<and> cr_raw_min k < cr_raw_max k)"
    if "c \<in> set cs" for c
    using map_res_Ball[OF cs that]
    by (auto dest: validate_component_weight validate_component_criteria)
  moreover have "0 \<le> ea_weight a" if "a \<in> set as" for a
    using map_res_Ball[OF as that] by (auto dest: validate_area_weight)
  ultimately show ?thesis
    using validate_rules_grades[OF assms] qr by (auto simp: wf_rules_def)
qed

end
