(* ===== verification/Assess_Store.thy ===== *)
theory Assess_Store
  imports Assess_Rules
begin

text \<open>
  The stored state of the Assessment component and the commands of its repository
  (\<open>persistence/assessment.py\<close>, \<open>assessment/ports.py\<close>, tables of \<open>persistence/models.py\<close>).

  The database is the list of exam results, each with its child rows in insertion order. Points are
  kept as the decimal that the stored text denotes, calendar days as dates; JSON columns as the
  lists they encode. \<open>load_result\<close> is the query that materialises a snapshot: it orders each child
  table as the \<open>ORDER BY\<close> clauses do. Every write first claims the version of its result
  (\<open>claim\<close>), which is the optimistic lock of the component.
\<close>

datatype result_state = Incomplete | CalculationReady | Determined | Communicated

datatype ind_status = Draft | Submitted | Withdrawn | IndSuperseded

datatype hist_status = Current | Superseded

datatype ext_status = Unconfirmed | Confirmed | Replaced

datatype corr_status = CorrOpen | CorrCompleted

datatype comm_status = CommCurrent | CommObsolete

datatype export_status = ExpDraft | ExpDetermined | ExpSuperseded

datatype export_kind = Machine | Human

datatype closure_status = ClOpen | ClClosed | ClClosedException | ClReopening | ClHistorical

datatype day_status = DyProposed | DyConfirmed | DyCompleted | DyCancelled

record vote =
  v_yes :: "int list"
  v_no :: "int list"
  v_abstain :: "int list"

type_synonym dissent = "(int \<times> string) list"

record individual =
  ia_id :: int
  ia_component_key :: string
  ia_criterion_key :: string
  ia_assessor :: int
  ia_revision :: int
  ia_raw_points :: dec
  ia_normalized :: dec
  ia_rationale :: "string option"
  ia_status :: ind_status
  ia_previous :: "int option"
  ia_change_reason :: "string option"
  ia_submitted_at :: "string option"
  ia_created_at :: string

record comp_assessment =
  ca_id :: int
  ca_component_key :: string
  ca_revision :: int
  ca_points :: dec
  ca_rationale :: "string option"
  ca_participants :: "int list"
  ca_vote :: vote
  ca_dissent :: dissent
  ca_status :: hist_status
  ca_previous :: "int option"
  ca_determined_by :: int
  ca_determined_at :: string

record ext_result =
  ex_id :: int
  ex_area_key :: string
  ex_revision :: int
  ex_points :: dec
  ex_grade :: "string option"
  ex_professional_status :: string
  ex_authority :: string
  ex_source :: string
  ex_status :: ext_status
  ex_recorded_by :: int
  ex_recorded_at :: string
  ex_previous :: "int option"
  ex_correction_reason :: "string option"
  ex_confirmed_by :: "int option"
  ex_confirmed_at :: "string option"

record disclosure =
  di_component_key :: string
  di_by :: int
  di_at :: string

datatype input_kind = ComponentInput | ExternalInput

record calc_input =
  ci_kind :: input_kind
  ci_key :: string
  ci_points :: dec
  ci_weight :: dec
  ci_revision_id :: "int option"

record calc_path =
  cp_inputs :: "calc_input list"
  cp_unrounded :: dec
  cp_rounded :: dec
  cp_basis :: threshold_basis

record calculation =
  rc_id :: int
  rc_version :: int
  rc_fingerprint :: string
  rc_total :: dec
  rc_grade :: string
  rc_passed :: bool
  rc_path :: calc_path
  rc_created_at :: string

record determination =
  rd_id :: int
  rd_revision :: int
  rd_calculation_id :: int
  rd_participants :: "int list"
  rd_vote :: vote
  rd_dissent :: dissent
  rd_status :: hist_status
  rd_previous :: "int option"
  rd_correction_id :: "int option"
  rd_by :: int
  rd_at :: string

record confirmation =
  rf_id :: int
  rf_determination_id :: int
  rf_member :: int
  rf_at :: string

record correction =
  rx_id :: int
  rx_determination_id :: int
  rx_reason :: string
  rx_by :: int
  rx_status :: corr_status
  rx_reopening :: "string option"
  rx_requested_at :: string
  rx_completed_at :: "string option"

record communication =
  rm_id :: int
  rm_determination_id :: int
  rm_method :: string
  rm_responsible :: int
  rm_at :: string
  rm_document_status :: "string option"
  rm_document_reference :: "string option"
  rm_status :: comm_status
  rm_created_at :: string

record retention =
  rr_rule_reference :: string
  rr_period_start :: "date option"
  rr_retain_until :: "date option"
  rr_legal_hold :: bool
  rr_hold_reason :: "string option"
  rr_by :: int
  rr_at :: string

record result_export =
  xp_id :: int
  xp_determination_id :: "int option"
  xp_kind :: export_kind
  xp_status :: export_status
  xp_by :: int
  xp_at :: string

record result_day =
  da_id :: int
  da_date :: string
  da_revision :: int
  da_status :: day_status
  da_closure :: closure_status
  da_reopening_result_ids :: "int list"

record model =
  mo_id :: int
  mo_key :: string
  mo_version :: int
  mo_ihk :: string
  mo_occupation :: string
  mo_specialization :: "string option"
  mo_training_regulation :: string
  mo_exam_regulation :: string
  mo_ihk_guidelines :: string
  mo_valid_from :: date
  mo_valid_until :: "date option"
  mo_rules :: rules
  mo_retention_rule_reference :: string
  mo_retention_years :: int
  mo_created_by :: int

record result =
  re_id :: int
  re_committee_id :: int
  re_round_candidate_id :: int
  re_version :: int
  re_state :: result_state
  re_correction_open :: bool
  re_legacy :: bool
  re_model :: model
  re_participants :: "int list"
  re_days :: "result_day list"
  re_individuals :: "individual list"
  re_components :: "comp_assessment list"
  re_externals :: "ext_result list"
  re_disclosures :: "disclosure list"
  re_calculations :: "calculation list"
  re_determinations :: "determination list"
  re_confirmations :: "confirmation list"
  re_corrections :: "correction list"
  re_communications :: "communication list"
  re_retention :: "retention option"
  re_exports :: "result_export list"

type_synonym db = "result list"

subsection \<open>Exceptions\<close>

datatype assess_msg =
    ResultNotFound | LegacyResult | VersionRequired | VersionConflict
  | UnknownComponent | UnknownCriterion | UnknownArea
  | SubmittedNotBool | RawPointsOutOfScale | PointsOutOfRange
  | ChangeReasonRequired | AfterDisclosure | ContributionsMissing
  | IndependentMode | NotDisclosed | ComponentDetermined | RationaleRequired
  | CorrectionReasonRequired | NotConfirmable | AlreadyDetermined | NotCalculationReady
  | NotDetermined | CorrectionIsOpen | ReopeningRequired | RecordNotConfirmed
  | InputsFrozen | BadParticipants | DuplicateParticipants | VoteIncomplete | VoteNotExact
  | NoMajority | BadDissent | ForeignDissent | NotActualMembers | QuorumMissing
  | RetentionFields | HoldNotBool | HoldReasonRequired | PeriodStartRequired
  | MinimumRetention | RetentionShortened | ReleaseReasonRequired
  | NoTimezone | ModelScale | RoundNotFound | ModelNotFound | EmptyMin | BindingFrozen | ModelValidity | ModelNotApplicable | ModelFields

datatype assess_error =
    ValueErr assess_msg
  | TextErr text_error
  | RulesErr rules_error
  | Forbidden
  | Conflict assess_msg
  | TypeErr
  | StopIteration
  | InvalidOperation
  | IntegrityErr
  | LockErr
  | DayErr
  | AssertionErr
  | RuntimeErr

definition text_res :: "text_error + 'a \<Rightarrow> assess_error + 'a" where
  "text_res m = (case m of Inl e \<Rightarrow> Inl (TextErr e) | Inr x \<Rightarrow> Inr x)"

lemma text_res_Inr [simp]: "text_res m = Inr x \<longleftrightarrow> m = Inr x"
  by (cases m) (auto simp: text_res_def)

definition not_null :: "int option \<Rightarrow> assess_error + int" where
  "not_null m = (case m of None \<Rightarrow> Inl IntegrityErr | Some i \<Rightarrow> Inr i)"

lemma not_null_Inr [simp]: "not_null m = Inr i \<longleftrightarrow> m = Some i"
  by (cases m) (auto simp: not_null_def)

subsection \<open>Queries\<close>

definition load_result :: "result \<Rightarrow> result" where
  "load_result r = r\<lparr>
     re_participants := sorted_list_of_set (set (re_participants r)),
     re_individuals := sort_key (\<lambda>x. (ia_component_key x, ia_criterion_key x, ia_assessor x,
        ia_revision x)) (re_individuals r),
     re_components := sort_key (\<lambda>x. (ca_component_key x, ca_revision x)) (re_components r),
     re_externals := sort_key (\<lambda>x. (ex_area_key x, ex_revision x)) (re_externals r),
     re_disclosures := sort_key di_component_key (re_disclosures r),
     re_calculations := sort_key rc_version (re_calculations r),
     re_determinations := sort_key rd_revision (re_determinations r),
     re_confirmations := sort_key rf_id (re_confirmations r),
     re_corrections := sort_key rx_id (re_corrections r),
     re_communications := sort_key rm_id (re_communications r),
     re_exports := sort_key xp_id (re_exports r)\<rparr>"

definition row_by_id :: "db \<Rightarrow> int \<Rightarrow> result option" where
  "row_by_id db i = List.find (\<lambda>r. re_id r = i) db"

definition result_by_id :: "db \<Rightarrow> int \<Rightarrow> result option" where
  "result_by_id db i = map_option load_result (row_by_id db i)"

definition current_determination :: "result \<Rightarrow> determination option" where
  "current_determination r = List.find (\<lambda>x. rd_status x = Current) (re_determinations r)"

definition open_correction_of :: "result \<Rightarrow> correction option" where
  "open_correction_of r = List.find (\<lambda>x. rx_status x = CorrOpen) (re_corrections r)"

subsection \<open>Repository\<close>

definition claim :: "int \<Rightarrow> int \<Rightarrow> result_state option \<Rightarrow> db \<Rightarrow> assess_error + db" where
  "claim i expected state db = (case row_by_id db i of
     None \<Rightarrow> Inl (Conflict VersionConflict)
   | Some r \<Rightarrow> if re_version r = expected
       then Inr (upd_row re_id i (\<lambda>r. r\<lparr>re_version := re_version r + 1,
              re_state := (case state of None \<Rightarrow> re_state r | Some s \<Rightarrow> s)\<rparr>) db)
       else Inl (Conflict VersionConflict))"

definition table_ids :: "(result \<Rightarrow> int list) \<Rightarrow> db \<Rightarrow> int list" where
  "table_ids f db = concat (map f db)"

definition live_individual :: "string \<Rightarrow> string \<Rightarrow> int \<Rightarrow> individual \<Rightarrow> bool" where
  "live_individual ck kk m x \<longleftrightarrow> ia_component_key x = ck \<and> ia_criterion_key x = kk
     \<and> ia_assessor x = m \<and> ia_status x \<in> {Draft, Submitted, Withdrawn}"

text \<open>
  The row to insert comes with its command fields; the repository supplies the key, the revision
  and the superseded predecessor.
\<close>

definition put_individual :: "int \<Rightarrow> individual \<Rightarrow> result \<Rightarrow> result" where
  "put_individual new c r = (let current = max_by ia_revision
        (filter (live_individual (ia_component_key c) (ia_criterion_key c) (ia_assessor c))
          (re_individuals r));
      superseded = (case current of None \<Rightarrow> re_individuals r
        | Some o' \<Rightarrow> upd_row ia_id (ia_id o') (\<lambda>x. x\<lparr>ia_status := IndSuperseded\<rparr>) (re_individuals r));
      revision = (case current of None \<Rightarrow> 1 | Some o' \<Rightarrow> ia_revision o' + 1)
    in r\<lparr>re_individuals := superseded @ [c\<lparr>ia_id := new, ia_revision := revision\<rparr>]\<rparr>)"

definition save_individual_assessment ::
  "int \<Rightarrow> int \<Rightarrow> individual \<Rightarrow> db \<Rightarrow> assess_error + db" where
  "save_individual_assessment i expected c db = bnd (claim i expected None db) (\<lambda>db.
     Inr (upd_row re_id i
       (put_individual (next_id (table_ids (\<lambda>r. map ia_id (re_individuals r)) db)) c) db))"

definition put_calculation :: "int \<Rightarrow> calculation \<Rightarrow> result \<Rightarrow> result" where
  "put_calculation new c r =
     (if list_ex (\<lambda>x. rc_fingerprint x = rc_fingerprint c) (re_calculations r) then r
      else r\<lparr>re_calculations := re_calculations r @ [c\<lparr>rc_id := new\<rparr>]\<rparr>)"

definition save_calculation ::
  "int \<Rightarrow> int \<Rightarrow> result_state \<Rightarrow> calculation \<Rightarrow> db \<Rightarrow> assess_error + db" where
  "save_calculation i expected state c db = bnd (claim i expected (Some state) db) (\<lambda>db.
     Inr (upd_row re_id i
       (put_calculation (next_id (table_ids (\<lambda>r. map rc_id (re_calculations r)) db)) c) db))"

definition set_result_state :: "int \<Rightarrow> int \<Rightarrow> result_state \<Rightarrow> db \<Rightarrow> assess_error + db" where
  "set_result_state i expected state db = (case row_by_id db i of
     None \<Rightarrow> Inl (Conflict VersionConflict)
   | Some r \<Rightarrow> if re_version r = expected
       then Inr (upd_row re_id i (\<lambda>r. r\<lparr>re_state := state\<rparr>) db)
       else Inl (Conflict VersionConflict))"

definition disclose_component :: "int \<Rightarrow> int \<Rightarrow> disclosure \<Rightarrow> db \<Rightarrow> assess_error + db" where
  "disclose_component i expected c db = bnd (claim i expected None db) (\<lambda>db.
     Inr (upd_row re_id i (\<lambda>r. r\<lparr>re_disclosures := re_disclosures r @ [c]\<rparr>) db))"

definition put_component :: "int \<Rightarrow> comp_assessment \<Rightarrow> result \<Rightarrow> result" where
  "put_component new c r = (let old = List.find
        (\<lambda>x. ca_component_key x = ca_component_key c \<and> ca_status x = Current) (re_components r);
      rows = (case old of None \<Rightarrow> re_components r
        | Some o' \<Rightarrow> upd_row ca_id (ca_id o') (\<lambda>x. x\<lparr>ca_status := Superseded\<rparr>) (re_components r))
    in r\<lparr>re_components := rows @ [c\<lparr>ca_id := new, ca_status := Current,
          ca_participants := sort (ca_participants c)\<rparr>]\<rparr>)"

definition determine_component_row ::
  "int \<Rightarrow> int \<Rightarrow> comp_assessment \<Rightarrow> db \<Rightarrow> assess_error + db" where
  "determine_component_row i expected c db = bnd (claim i expected None db) (\<lambda>db.
     Inr (upd_row re_id i
       (put_component (next_id (table_ids (\<lambda>r. map ca_id (re_components r)) db)) c) db))"

definition put_external :: "int \<Rightarrow> ext_result \<Rightarrow> result \<Rightarrow> result" where
  "put_external new c r = (let old = max_by ex_revision
        (filter (\<lambda>x. ex_area_key x = ex_area_key c) (re_externals r));
      rows = (case old of None \<Rightarrow> re_externals r
        | Some o' \<Rightarrow> upd_row ex_id (ex_id o') (\<lambda>x. x\<lparr>ex_status := Replaced\<rparr>) (re_externals r))
    in r\<lparr>re_externals := rows @ [c\<lparr>ex_id := new, ex_status := Unconfirmed,
          ex_confirmed_by := None, ex_confirmed_at := None\<rparr>]\<rparr>)"

definition record_external_result ::
  "int \<Rightarrow> int \<Rightarrow> result_state \<Rightarrow> ext_result \<Rightarrow> db \<Rightarrow> assess_error + db" where
  "record_external_result i expected state c db = bnd (claim i expected (Some state) db) (\<lambda>db.
     Inr (upd_row re_id i
       (put_external (next_id (table_ids (\<lambda>r. map ex_id (re_externals r)) db)) c) db))"

definition confirm_external_result ::
  "int \<Rightarrow> int \<Rightarrow> int \<Rightarrow> int \<Rightarrow> string \<Rightarrow> db \<Rightarrow> assess_error + db" where
  "confirm_external_result i ext expected m now db = bnd (claim i expected None db) (\<lambda>db.
     case row_by_id db i of None \<Rightarrow> Inl (ValueErr ResultNotFound) | Some r \<Rightarrow>
       (case List.find (\<lambda>x. ex_id x = ext) (re_externals r) of
          None \<Rightarrow> Inl (ValueErr NotConfirmable)
        | Some x \<Rightarrow> if ex_status x \<noteq> Unconfirmed then Inl (ValueErr NotConfirmable) else
            Inr (upd_row re_id i (\<lambda>r. r\<lparr>re_externals := upd_row ex_id ext
              (\<lambda>x. x\<lparr>ex_status := Confirmed, ex_confirmed_by := Some m, ex_confirmed_at := Some now\<rparr>)
              (re_externals r)\<rparr>) db)))"

definition supersede_determination :: "result \<Rightarrow> result" where
  "supersede_determination r = (case current_determination r of None \<Rightarrow> r | Some o' \<Rightarrow>
     r\<lparr>re_determinations := upd_row rd_id (rd_id o') (\<lambda>x. x\<lparr>rd_status := Superseded\<rparr>)
          (re_determinations r),
       re_communications := map (\<lambda>x. if rm_determination_id x = rd_id o' \<and> rm_status x = CommCurrent
          then x\<lparr>rm_status := CommObsolete\<rparr> else x) (re_communications r),
       re_exports := map (\<lambda>x. if xp_determination_id x = Some (rd_id o') \<and> xp_status x = ExpDetermined
          then x\<lparr>xp_status := ExpSuperseded\<rparr> else x) (re_exports r)\<rparr>)"

definition put_determination :: "int \<Rightarrow> determination \<Rightarrow> result \<Rightarrow> result" where
  "put_determination new c r = (let r = supersede_determination r in
     r\<lparr>re_determinations := re_determinations r @ [c\<lparr>rd_id := new, rd_status := Current,
          rd_participants := sort (rd_participants c)\<rparr>],
       re_corrections := (case rd_correction_id c of None \<Rightarrow> re_corrections r
        | Some k \<Rightarrow> upd_row rx_id k (\<lambda>x. x\<lparr>rx_status := CorrCompleted,
             rx_completed_at := Some (rd_at c)\<rparr>) (re_corrections r)),
       re_correction_open := False\<rparr>)"

definition determine_result_row ::
  "int \<Rightarrow> int \<Rightarrow> determination \<Rightarrow> db \<Rightarrow> assess_error + db" where
  "determine_result_row i expected c db = bnd (claim i expected (Some Determined) db) (\<lambda>db.
     Inr (upd_row re_id i
       (put_determination (next_id (table_ids (\<lambda>r. map rd_id (re_determinations r)) db)) c) db))"

definition confirm_record_row :: "int \<Rightarrow> int \<Rightarrow> confirmation \<Rightarrow> db \<Rightarrow> assess_error + db" where
  "confirm_record_row i expected c db = bnd (claim i expected None db) (\<lambda>db.
     Inr (upd_row re_id i (\<lambda>r. r\<lparr>re_confirmations := re_confirmations r @
       [c\<lparr>rf_id := next_id (table_ids (\<lambda>r. map rf_id (re_confirmations r)) db)\<rparr>]\<rparr>) db))"

definition put_correction :: "int \<Rightarrow> correction \<Rightarrow> result \<Rightarrow> result" where
  "put_correction new c r = r\<lparr>re_corrections := re_corrections r @ [c\<lparr>rx_id := new,
     rx_status := CorrOpen, rx_completed_at := None\<rparr>], re_correction_open := True\<rparr>"

definition open_correction_row :: "int \<Rightarrow> int \<Rightarrow> correction \<Rightarrow> db \<Rightarrow> assess_error + db" where
  "open_correction_row i expected c db = bnd (claim i expected None db) (\<lambda>db.
     Inr (upd_row re_id i
       (put_correction (next_id (table_ids (\<lambda>r. map rx_id (re_corrections r)) db)) c) db))"

record reopening_receipt =
  rp_result_id :: int
  rp_version :: int
  rp_determination_id :: "int option"
  rp_participants :: "int list"
  rp_communicated :: bool
  rp_ihk_processed :: bool

definition open_day_reopening_correction ::
  "int \<Rightarrow> int \<Rightarrow> string \<Rightarrow> int \<Rightarrow> string \<Rightarrow> string \<Rightarrow> db \<Rightarrow> assess_error + (db \<times> reopening_receipt)" where
  "open_day_reopening_correction i expected reference m reason requested_at db = (case row_by_id db i of
     None \<Rightarrow> Inl (ValueErr ResultNotFound)
   | Some r \<Rightarrow> (case current_determination r of
       None \<Rightarrow> Inr (db, \<lparr>rp_result_id = i, rp_version = re_version r, rp_determination_id = None,
          rp_participants = [], rp_communicated = False, rp_ihk_processed = False\<rparr>)
     | Some d \<Rightarrow> bnd (claim i expected None db) (\<lambda>db. let
           new = next_id (table_ids (\<lambda>r. map rx_id (re_corrections r)) db);
           comms = filter (\<lambda>x. rm_status x = CommCurrent) (re_communications r)
         in Inr (upd_row re_id i (\<lambda>r. (if open_correction_of r = None
              then put_correction new \<lparr>rx_id = 0, rx_determination_id = rd_id d, rx_reason = reason,
                 rx_by = m, rx_status = CorrOpen, rx_reopening = Some reference,
                 rx_requested_at = requested_at, rx_completed_at = None\<rparr> r
              else r)\<lparr>re_correction_open := True\<rparr>) db,
            \<lparr>rp_result_id = i, rp_version = re_version r + 1, rp_determination_id = Some (rd_id d),
             rp_participants = rd_participants d, rp_communicated = (comms \<noteq> []),
             rp_ihk_processed = list_ex (\<lambda>x. rm_document_status x \<notin> {None, Some []}) comms\<rparr>))))"

definition put_communication :: "int \<Rightarrow> communication \<Rightarrow> result \<Rightarrow> result" where
  "put_communication new c r = r\<lparr>re_communications :=
     map (\<lambda>x. if rm_status x = CommCurrent then x\<lparr>rm_status := CommObsolete\<rparr> else x)
       (re_communications r) @ [c\<lparr>rm_id := new, rm_status := CommCurrent\<rparr>]\<rparr>"

definition communicate_result_row :: "int \<Rightarrow> int \<Rightarrow> communication \<Rightarrow> db \<Rightarrow> assess_error + db" where
  "communicate_result_row i expected c db = bnd (claim i expected (Some Communicated) db) (\<lambda>db.
     Inr (upd_row re_id i
       (put_communication (next_id (table_ids (\<lambda>r. map rm_id (re_communications r)) db)) c) db))"

definition save_retention :: "int \<Rightarrow> int \<Rightarrow> retention \<Rightarrow> db \<Rightarrow> assess_error + db" where
  "save_retention i expected c db = bnd (claim i expected None db) (\<lambda>db.
     Inr (upd_row re_id i (\<lambda>r. r\<lparr>re_retention := Some c\<rparr>) db))"

definition record_export :: "int \<Rightarrow> int \<Rightarrow> result_export \<Rightarrow> db \<Rightarrow> assess_error + db" where
  "record_export i expected c db = (case row_by_id db i of
     None \<Rightarrow> Inl (Conflict VersionConflict)
   | Some r \<Rightarrow> if re_version r \<noteq> expected then Inl (Conflict VersionConflict) else
       Inr (upd_row re_id i (\<lambda>r. r\<lparr>re_exports := re_exports r @
         [c\<lparr>xp_id := next_id (table_ids (\<lambda>r. map xp_id (re_exports r)) db)\<rparr>]\<rparr>) db))"

end
