(* ===== verification/Assess_Calc.thy ===== *)
theory Assess_Calc
  imports Assess_Store
begin

text \<open>
  The result calculation of \<open>ExamResultService\<close>: current individual assessments, component scores,
  weighted total, rounding, grade and pass decision, and the materialised calculation
  (\<open>_current_individuals\<close>, \<open>_component_score\<close>, \<open>_calculation_command\<close>,
  \<open>_matching_calculation\<close>, \<open>_ensure_calculation\<close>). The digest that fingerprints the inputs is a
  parameter of the definitions, like the clock.
\<close>

record calc_payload =
  pl_model :: int
  pl_inputs :: "calc_input list"
  pl_total :: dec

text \<open>
  What a service method takes from outside the component: the clock, SHA-256 over the JSON form of
  the payload, the lifecycle lock (\<open>mutation_lock_checker\<close>; \<^const>\<open>None\<close> when it lets the
  mutation pass), the day-mutation handler, which may refuse or renumber the exam days, and the
  standard library's \<open>datetime.fromisoformat\<close> (the normalised text and whether it has an offset).
\<close>

record env =
  en_now :: string
  en_digest :: "calc_payload \<Rightarrow> string"
  en_lock :: "int \<Rightarrow> payload \<Rightarrow> assess_error option"
  en_datetime :: "string \<Rightarrow> (string \<times> bool) option"
  en_day :: "result \<Rightarrow> string \<Rightarrow> payload \<Rightarrow> int option \<Rightarrow> string option \<Rightarrow> assess_error + result_day list"

definition round_dec :: "dec \<Rightarrow> rounding_stage \<Rightarrow> assess_error + dec" where
  "round_dec x rule = (if rs_mode rule = RoundNone then Inr x
     else case rs_digits rule of None \<Rightarrow> Inl TypeErr
       | Some d \<Rightarrow> (case quantize_half_up (nat d) x of None \<Rightarrow> Inl InvalidOperation | Some y \<Rightarrow> Inr y))"

definition current_individuals :: "result \<Rightarrow> individual list" where
  "current_individuals r = map snd (fold
     (\<lambda>x m. AList.update (ia_component_key x, ia_criterion_key x, ia_assessor x) x m)
     (filter (\<lambda>x. ia_status x \<noteq> IndSuperseded) (re_individuals r)) [])"

definition latest_individual :: "individual list \<Rightarrow> string \<Rightarrow> string \<Rightarrow> int \<Rightarrow> individual option" where
  "latest_individual items ck kk m = max_by ia_revision (filter (\<lambda>x.
     ia_component_key x = ck \<and> ia_criterion_key x = kk \<and> ia_assessor x = m
     \<and> ia_status x \<noteq> IndSuperseded) items)"

definition submitted_for :: "result \<Rightarrow> component \<Rightarrow> individual list" where
  "submitted_for r c = filter (\<lambda>x. ia_component_key x = co_key c \<and> ia_status x = Submitted)
     (current_individuals r)"

definition individual_component_complete :: "result \<Rightarrow> component \<Rightarrow> int list \<Rightarrow> bool" where
  "individual_component_complete r c participants = (let
       criteria = set (map cr_key (co_criteria c)); items = submitted_for r c;
       members = remdups (map ia_assessor items);
       complete = filter (\<lambda>m. m \<in> set participants \<and>
         set (map ia_criterion_key (filter (\<lambda>x. ia_assessor x = m) items)) = criteria) members
     in co_required_assessors c \<le> int (length complete))"

definition committee_current :: "result \<Rightarrow> string \<Rightarrow> comp_assessment option" where
  "committee_current r k =
     List.find (\<lambda>x. ca_component_key x = k \<and> ca_status x = Current) (re_components r)"

text \<open>\<open>by_assessor\<close>: one dictionary of criterion to assessment per assessor, in order of appearance.\<close>

definition by_assessor :: "individual list \<Rightarrow> (int \<times> (string \<times> individual) list) list" where
  "by_assessor items = fold (\<lambda>x m. AList.update (ia_assessor x)
     (AList.update (ia_criterion_key x) x
       (case map_of m (ia_assessor x) of None \<Rightarrow> [] | Some d \<Rightarrow> d)) m) items []"

text \<open>
  The weighted sum of one assessor. The caller has checked that the dictionary has exactly the
  criteria of the component, so the lookup never misses.
\<close>

definition assessor_score :: "component \<Rightarrow> (string \<times> individual) list \<Rightarrow> dec" where
  "assessor_score c d = dsum (map (\<lambda>k. ddiv (dmul (case map_of d (cr_key k) of
      Some x \<Rightarrow> ia_normalized x | None \<Rightarrow> 0) (cr_weight k)) 100) (co_criteria c))"

definition assessor_scores :: "result \<Rightarrow> component \<Rightarrow> assess_error + dec list" where
  "assessor_scores r c = (let
      current = filter (\<lambda>x. ia_assessor x \<in> set (re_participants r)) (submitted_for r c);
      complete = filter (\<lambda>d. set (map fst d) = set (map cr_key (co_criteria c)))
        (map snd (by_assessor current))
    in map_res (\<lambda>d. round_dec (assessor_score c d) (ru_intermediate (mo_rules (re_model r)))) complete)"

definition component_score :: "result \<Rightarrow> component \<Rightarrow> assess_error + dec option" where
  "component_score r c = (if co_mode c = Committee
     then Inr (map_option ca_points (committee_current r (co_key c)))
     else bnd (assessor_scores r c) (\<lambda>scores. let required = co_required_assessors c in
       if int (length scores) < required then Inr None
       else if co_additional_assessor c
          \<and> co_max_deviation c < dsub (Max (set scores)) (Min (set scores))
          \<and> int (length scores) < required + 1 then Inr None
       else Inr (Some (ddiv (dsum scores) (of_nat (length scores))))))"

record calc_state =
  cs_total :: dec
  cs_scores :: "(string \<times> dec) list"
  cs_inputs :: "calc_input list"

definition add_input ::
  "input_kind \<Rightarrow> string \<Rightarrow> dec \<Rightarrow> dec \<Rightarrow> int option \<Rightarrow> calc_state \<Rightarrow> calc_state" where
  "add_input kind key score weight rid s = \<lparr>
     cs_total = dadd (cs_total s) (ddiv (dmul score weight) 100),
     cs_scores = AList.update key score (cs_scores s),
     cs_inputs = cs_inputs s @ [\<lparr>ci_kind = kind, ci_key = key, ci_points = score,
       ci_weight = weight, ci_revision_id = rid\<rparr>]\<rparr>"

text \<open>The two loops of \<open>_calculation_command\<close>; \<open>Inr None\<close> is the early \<open>return None\<close>.\<close>

fun component_inputs ::
  "result \<Rightarrow> component list \<Rightarrow> calc_state \<Rightarrow> assess_error + calc_state option" where
  "component_inputs r [] s = Inr (Some s)"
| "component_inputs r (c # cs) s = bnd (component_score r c) (\<lambda>sc. case sc of
     None \<Rightarrow> Inr None
   | Some score \<Rightarrow>
       component_inputs r cs (add_input ComponentInput (co_key c) score (co_weight c) None s))"

definition active_external :: "result \<Rightarrow> string \<Rightarrow> ext_result option" where
  "active_external r k = List.find (\<lambda>x. ex_area_key x = k \<and> ex_status x \<in> {Confirmed, Unconfirmed})
     (rev (re_externals r))"

fun external_inputs :: "result \<Rightarrow> ext_area list \<Rightarrow> calc_state \<Rightarrow> calc_state option" where
  "external_inputs r [] s = Some s"
| "external_inputs r (a # as) s = (let external = active_external r (ea_key a);
      confirmed = (case external of Some x \<Rightarrow> ex_status x = Confirmed | None \<Rightarrow> False) in
    if ea_required a \<and> \<not> confirmed then None
    else case external of
       Some x \<Rightarrow> if ex_status x = Confirmed
         then external_inputs r as (add_input ExternalInput (ea_key a) (ex_points x) (ea_weight a)
                (Some (ex_id x)) s)
         else external_inputs r as s
     | None \<Rightarrow> external_inputs r as s)"

record outcome =
  oc_rounded :: dec
  oc_threshold :: dec
  oc_grade :: string
  oc_passed :: bool

definition grade_for :: "rules \<Rightarrow> dec \<Rightarrow> string option" where
  "grade_for ru threshold = map_option fst (List.find (\<lambda>g. snd g \<le> threshold) (ru_grades ru))"

definition minima_met :: "(string \<times> dec) list \<Rightarrow> (string \<times> dec) list \<Rightarrow> bool" where
  "minima_met scores minima = list_all (\<lambda>(k, m).
     m \<le> (case map_of scores k of Some x \<Rightarrow> x | None \<Rightarrow> - 1)) minima"

definition outcome_of :: "rules \<Rightarrow> dec \<Rightarrow> (string \<times> dec) list \<Rightarrow> assess_error + outcome" where
  "outcome_of ru weighted_total scores = bnd (round_dec weighted_total (ru_overall ru)) (\<lambda>rounded. let
      threshold = (if ru_threshold_basis ru = Rounded then rounded else weighted_total) in
    case grade_for ru threshold of None \<Rightarrow> Inl StopIteration
    | Some g \<Rightarrow> Inr \<lparr>oc_rounded = rounded, oc_threshold = threshold, oc_grade = g,
        oc_passed = (ru_overall_min ru \<le> threshold \<and> minima_met scores (ru_component_minima ru)
          \<and> minima_met scores (ru_external_minima ru))\<rparr>)"

definition calc_inputs :: "result \<Rightarrow> assess_error + calc_state option" where
  "calc_inputs r = (let ru = mo_rules (re_model r) in
     bnd (component_inputs r (ru_components ru) \<lparr>cs_total = 0, cs_scores = [], cs_inputs = []\<rparr>) (\<lambda>s.
       Inr (case s of None \<Rightarrow> None | Some s \<Rightarrow> external_inputs r (ru_external_areas ru) s)))"

definition has_determination :: "result \<Rightarrow> bool" where
  "has_determination r \<longleftrightarrow> list_ex (\<lambda>x. rd_status x = Current) (re_determinations r)"

definition calculation_command ::
  "env \<Rightarrow> result \<Rightarrow> assess_error + (result_state \<times> calculation) option" where
  "calculation_command e r = bnd (calc_inputs r) (\<lambda>s. case s of None \<Rightarrow> Inr None | Some s \<Rightarrow>
     bnd (outcome_of (mo_rules (re_model r)) (cs_total s) (cs_scores s)) (\<lambda>oc. Inr (Some (
       (if has_determination r then re_state r else CalculationReady),
       \<lparr>rc_id = 0, rc_version = foldl max 0 (map rc_version (re_calculations r)) + 1,
        rc_fingerprint = en_digest e \<lparr>pl_model = mo_id (re_model r), pl_inputs = cs_inputs s,
            pl_total = cs_total s\<rparr>,
        rc_total = oc_rounded oc, rc_grade = oc_grade oc, rc_passed = oc_passed oc,
        rc_path = \<lparr>cp_inputs = cs_inputs s, cp_unrounded = cs_total s, cp_rounded = oc_rounded oc,
            cp_basis = ru_threshold_basis (mo_rules (re_model r))\<rparr>,
        rc_created_at = en_now e\<rparr>))))"

definition match_fingerprint :: "result \<Rightarrow> string \<Rightarrow> calculation option" where
  "match_fingerprint r fp = List.find (\<lambda>c. rc_fingerprint c = fp) (re_calculations r)"

definition matching_calculation :: "env \<Rightarrow> result \<Rightarrow> assess_error + calculation option" where
  "matching_calculation e r = bnd (calculation_command e r) (\<lambda>c. case c of
     None \<Rightarrow> Inr None | Some (_, c) \<Rightarrow> Inr (match_fingerprint r (rc_fingerprint c)))"

definition reload :: "db \<Rightarrow> result \<Rightarrow> result" where
  "reload db r = (case result_by_id db (re_id r) of None \<Rightarrow> r | Some x \<Rightarrow> x)"

definition ensure_calculation :: "env \<Rightarrow> db \<Rightarrow> result \<Rightarrow> assess_error + (db \<times> result)" where
  "ensure_calculation e db r = bnd (calculation_command e r) (\<lambda>c. case c of
     None \<Rightarrow> if \<not> has_determination r \<and> re_state r \<noteq> Incomplete
       then bnd (set_result_state (re_id r) (re_version r) Incomplete db) (\<lambda>db. Inr (db, reload db r))
       else Inr (db, r)
   | Some (state, c) \<Rightarrow> (case match_fingerprint r (rc_fingerprint c) of
       Some _ \<Rightarrow> if \<not> has_determination r \<and> re_state r \<noteq> CalculationReady
         then bnd (set_result_state (re_id r) (re_version r) CalculationReady db)
                (\<lambda>db. Inr (db, reload db r))
         else Inr (db, r)
     | None \<Rightarrow> bnd (save_calculation (re_id r) (re_version r) state c db)
                (\<lambda>db. Inr (db, reload db r))))"

subsection \<open>Scores are never negative\<close>

lemma round_dec_nonneg: "round_dec x rule = Inr y \<Longrightarrow> 0 \<le> x \<Longrightarrow> 0 \<le> y"
  by (auto simp: round_dec_def quantize_half_up_nonneg split: if_splits option.splits)

lemma AList_update_values: "v \<in> set (map snd (AList.update k x m)) \<Longrightarrow> v = x \<or> v \<in> set (map snd m)"
  by (induction m) (auto split: if_splits)

lemma fold_update_values:
  "v \<in> set (map snd (fold (\<lambda>x m. AList.update (f x) x m) xs m)) \<Longrightarrow>
     v \<in> set xs \<or> v \<in> set (map snd m)"
proof (induction xs arbitrary: m)
  case (Cons x xs)
  then show ?case using AList_update_values[of v "f x" x m] by fastforce
qed simp

lemma current_individuals_mem:
  "x \<in> set (current_individuals r) \<Longrightarrow> x \<in> set (re_individuals r) \<and> ia_status x \<noteq> IndSuperseded"
  using fold_update_values[where v = x and m = "[]"
      and xs = "filter (\<lambda>x. ia_status x \<noteq> IndSuperseded) (re_individuals r)"
      and f = "\<lambda>x. (ia_component_key x, ia_criterion_key x, ia_assessor x)"]
  by (auto simp: current_individuals_def)

lemma by_assessor_aux:
  assumes "\<And>d v. d \<in> set (map snd m) \<Longrightarrow> v \<in> set (map snd d) \<Longrightarrow> P v" "\<And>x. x \<in> set xs \<Longrightarrow> P x"
    and "d \<in> set (map snd (fold (\<lambda>x m. AList.update (ia_assessor x)
       (AList.update (ia_criterion_key x) x
         (case map_of m (ia_assessor x) of None \<Rightarrow> [] | Some d \<Rightarrow> d)) m) xs m))"
      "v \<in> set (map snd d)"
  shows "P v"
  using assms
proof (induction xs arbitrary: m)
  case Nil
  then show ?case by simp
next
  case (Cons x xs)
  let ?d = "AList.update (ia_criterion_key x) x
       (case map_of m (ia_assessor x) of None \<Rightarrow> [] | Some d \<Rightarrow> d)"
  have d: "P w" if "w \<in> set (map snd ?d)" for w
  proof -
    from AList_update_values[OF that] show ?thesis
    proof
      assume "w = x"
      then show ?thesis using Cons.prems(2) by simp
    next
      assume "w \<in> set (map snd (case map_of m (ia_assessor x) of None \<Rightarrow> [] | Some d \<Rightarrow> d))"
      then obtain d0 where d0: "map_of m (ia_assessor x) = Some d0" "w \<in> set (map snd d0)"
        by (cases "map_of m (ia_assessor x)") auto
      from map_of_SomeD[OF d0(1)] have "d0 \<in> set (map snd m)" by force
      with d0 show ?thesis using Cons.prems(1) by blast
    qed
  qed
  show ?case
  proof (rule Cons.IH)
    fix d' w
    assume "d' \<in> set (map snd (AList.update (ia_assessor x) ?d m))" and w: "w \<in> set (map snd d')"
    then have "d' = ?d \<or> d' \<in> set (map snd m)" by (metis AList_update_values)
    with d w Cons.prems(1) show "P w" by blast
  next
    show "\<And>x. x \<in> set xs \<Longrightarrow> P x" using Cons.prems(2) by simp
  next
    show "d \<in> set (map snd (fold (\<lambda>x m. AList.update (ia_assessor x)
       (AList.update (ia_criterion_key x) x
         (case map_of m (ia_assessor x) of None \<Rightarrow> [] | Some d \<Rightarrow> d)) m) xs
           (AList.update (ia_assessor x) ?d m)))"
      using Cons.prems(3) by simp
  next
    show "v \<in> set (map snd d)" using Cons.prems(4) .
  qed
qed

lemma by_assessor_values:
  assumes "d \<in> set (map snd (by_assessor xs))" "v \<in> set (map snd d)"
  shows "v \<in> set xs"
  using assms by_assessor_aux[where m = "[]" and P = "\<lambda>v. v \<in> set xs" and xs = xs]
  unfolding by_assessor_def by auto

text \<open>The data the calculation reads: weights and recorded points are not negative.\<close>

definition points_nonneg :: "result \<Rightarrow> bool" where
  "points_nonneg r \<longleftrightarrow> (\<forall>x \<in> set (re_individuals r). 0 \<le> ia_normalized x)
     \<and> (\<forall>x \<in> set (re_components r). 0 \<le> ca_points x)
     \<and> (\<forall>x \<in> set (re_externals r). 0 \<le> ex_points x)"

lemma assessor_score_nonneg:
  assumes "\<And>x. x \<in> set (map snd d) \<Longrightarrow> 0 \<le> ia_normalized x"
    and "\<And>k. k \<in> set (co_criteria c) \<Longrightarrow> 0 < cr_weight k"
  shows "0 \<le> assessor_score c d"
  unfolding assessor_score_def
proof (rule dsum_nonneg)
  fix y
  assume "y \<in> set (map (\<lambda>k. ddiv (dmul (case map_of d (cr_key k) of Some x \<Rightarrow> ia_normalized x
      | None \<Rightarrow> 0) (cr_weight k)) 100) (co_criteria c))"
  then obtain k where k: "k \<in> set (co_criteria c)" and
    y: "y = ddiv (dmul (case map_of d (cr_key k) of Some x \<Rightarrow> ia_normalized x | None \<Rightarrow> 0)
          (cr_weight k)) 100" by auto
  have "0 \<le> (case map_of d (cr_key k) of Some x \<Rightarrow> ia_normalized x | None \<Rightarrow> (0::dec))"
    using assms(1) map_of_SomeD[of d "cr_key k"] by (force split: option.splits)
  with assms(2)[OF k] y show "0 \<le> y" by (simp add: less_imp_le)
qed

lemma assessor_scores_nonneg:
  assumes "assessor_scores r c = Inr ss" "points_nonneg r" "s \<in> set ss"
    and "\<And>k. k \<in> set (co_criteria c) \<Longrightarrow> 0 < cr_weight k"
  shows "0 \<le> s"
proof -
  let ?cur = "filter (\<lambda>x. ia_assessor x \<in> set (re_participants r)) (submitted_for r c)"
  from assms(1,3) obtain d where d: "d \<in> set (map snd (by_assessor ?cur))"
    and s: "round_dec (assessor_score c d) (ru_intermediate (mo_rules (re_model r))) = Inr s"
    using map_res_Ball[OF assms(1)[unfolded assessor_scores_def Let_def] assms(3)] by auto
  have "0 \<le> ia_normalized x" if "x \<in> set (map snd d)" for x
  proof -
    have "x \<in> set ?cur" using by_assessor_values[OF d that] .
    then have "x \<in> set (re_individuals r)"
      using current_individuals_mem by (auto simp: submitted_for_def)
    with assms(2) show ?thesis by (auto simp: points_nonneg_def)
  qed
  from assessor_score_nonneg[OF this assms(4)] round_dec_nonneg[OF s] show ?thesis by blast
qed

lemma component_score_nonneg:
  assumes "component_score r c = Inr (Some s)" "points_nonneg r"
    and "\<And>k. k \<in> set (co_criteria c) \<Longrightarrow> 0 < cr_weight k"
  shows "0 \<le> s"
proof (cases "co_mode c = Committee")
  case True
  with assms show ?thesis
    by (auto simp: component_score_def committee_current_def points_nonneg_def dest!: find_Some_mem)
next
  case False
  with assms obtain ss where ss: "assessor_scores r c = Inr ss"
    and s: "s = ddiv (dsum ss) (of_nat (length ss))"
    by (auto simp: component_score_def ok_iff Let_def split: if_splits)
  have "0 \<le> dsum ss" using assessor_scores_nonneg[OF ss assms(2) _ assms(3)] dsum_nonneg by blast
  with s show ?thesis by simp
qed

lemma add_input_total: "cs_total (add_input kind key score w rid s) =
    dadd (cs_total s) (ddiv (dmul score w) 100)"
  by (simp add: add_input_def)

lemma component_inputs_nonneg:
  assumes "component_inputs r cs s = Inr (Some t)" "points_nonneg r" "0 \<le> cs_total s"
    and "\<And>c. c \<in> set cs \<Longrightarrow> 0 < co_weight c \<and> (\<forall>k \<in> set (co_criteria c). 0 < cr_weight k)"
  shows "0 \<le> cs_total t"
  using assms
proof (induction cs arbitrary: s)
  case Nil
  then show ?case by simp
next
  case (Cons c cs)
  from Cons.prems(1) obtain score where sc: "component_score r c = Inr (Some score)"
    and rest: "component_inputs r cs (add_input ComponentInput (co_key c) score (co_weight c) None s)
      = Inr (Some t)" by (auto simp: ok_iff split: option.splits)
  have c: "0 < co_weight c" "\<And>k. k \<in> set (co_criteria c) \<Longrightarrow> 0 < cr_weight k"
    using Cons.prems(4) by auto
  have "0 \<le> score" using component_score_nonneg[OF sc Cons.prems(2) c(2)] .
  then have "0 \<le> cs_total (add_input ComponentInput (co_key c) score (co_weight c) None s)"
    using c Cons.prems(3) by (simp add: add_input_total less_imp_le)
  then show ?case by (rule Cons.IH[OF rest Cons.prems(2)]) (use Cons.prems(4) in \<open>meson list.set_intros(2)\<close>)
qed

lemma external_inputs_nonneg:
  assumes "external_inputs r as s = Some t" "points_nonneg r" "0 \<le> cs_total s"
    and "\<And>a. a \<in> set as \<Longrightarrow> 0 \<le> ea_weight a"
  shows "0 \<le> cs_total t"
  using assms
proof (induction as arbitrary: s)
  case Nil
  then show ?case by simp
next
  case (Cons a as)
  have pts: "0 \<le> ex_points x" if "active_external r (ea_key a) = Some x" for x
    using that Cons.prems(2) by (auto simp: active_external_def points_nonneg_def dest!: find_Some_mem)
  from Cons.prems(1) obtain s' where s': "external_inputs r as s' = Some t"
    and "s' = s \<or> (\<exists>x. active_external r (ea_key a) = Some x \<and>
       s' = add_input ExternalInput (ea_key a) (ex_points x) (ea_weight a) (Some (ex_id x)) s)"
    by (auto simp: Let_def split: if_splits option.splits)
  then have "0 \<le> cs_total s'"
    using Cons.prems(3,4) pts by (auto simp: add_input_total)
  with Cons.IH[OF s' Cons.prems(2)] Cons.prems(4) show ?case by simp
qed

lemma calc_inputs_nonneg:
  assumes "calc_inputs r = Inr (Some s)" "points_nonneg r" "wf_rules (mo_rules (re_model r))"
  shows "0 \<le> cs_total s"
proof -
  from assms(1) obtain t where
    t: "component_inputs r (ru_components (mo_rules (re_model r)))
         \<lparr>cs_total = 0, cs_scores = [], cs_inputs = []\<rparr> = Inr (Some t)"
    and s: "external_inputs r (ru_external_areas (mo_rules (re_model r))) t = Some s"
    by (auto simp: calc_inputs_def Let_def ok_iff split: option.splits)
  have "0 \<le> cs_total t"
    by (rule component_inputs_nonneg[OF t assms(2)]) (use assms(3) in \<open>auto simp: wf_rules_def\<close>)
  then show ?thesis
    by (rule external_inputs_nonneg[OF s assms(2)]) (use assms(3) in \<open>auto simp: wf_rules_def\<close>)
qed

lemma grade_for_total:
  assumes "ru_grades ru \<noteq> []" "snd (last (ru_grades ru)) = 0" "0 \<le> t"
  shows "\<exists>g. grade_for ru t = Some g"
proof -
  have "last (ru_grades ru) \<in> set (ru_grades ru)" using assms(1) by simp
  then have "List.find (\<lambda>g. snd g \<le> t) (ru_grades ru) \<noteq> None"
    using assms(2,3) by (metis find_None_iff)
  then show ?thesis by (auto simp: grade_for_def)
qed

end
