(* ===== verification/Assess_Service.thy ===== *)
theory Assess_Service
  imports Assess_Calc
begin

text \<open>
  The use cases of \<open>ExamResultService\<close> (\<open>assessment/service.py\<close>) on one exam result: each
  definition is one service method, with its payload validation, its authorisation and state
  guards in the order of the source, the repository command it issues, the day-mutation callback,
  the recalculation and the projection it returns. A write runs in one transaction: an exception
  anywhere leaves the database as it was.
\<close>

record actor =
  ac_committees :: "int list"
  ac_members :: "int list"
  ac_management :: "int list"
  ac_member_by_committee :: "(int \<times> int) list"

definition member_id_for :: "actor \<Rightarrow> result \<Rightarrow> int option" where
  "member_id_for a r = map_of (ac_member_by_committee a) (re_committee_id r)"

definition can_manage :: "actor \<Rightarrow> int \<Rightarrow> bool" where
  "can_manage a c \<longleftrightarrow> c \<in> set (ac_management a)"

definition can_read :: "actor \<Rightarrow> int \<Rightarrow> bool" where
  "can_read a c \<longleftrightarrow> c \<in> set (ac_committees a)"

definition participates :: "actor \<Rightarrow> result \<Rightarrow> bool" where
  "participates a r \<longleftrightarrow> (case member_id_for a r of None \<Rightarrow> False
     | Some m \<Rightarrow> m \<in> set (re_participants r))"

subsection \<open>Validators of the service\<close>

definition required_result_version :: "payload \<Rightarrow> assess_error + int" where
  "required_result_version p = (case jget p ''version'' of
     JInt n \<Rightarrow> if n < 1 then Inl (ValueErr VersionRequired) else Inr n
   | _ \<Rightarrow> Inl (ValueErr VersionRequired))"

definition find_component :: "rules \<Rightarrow> string \<Rightarrow> assess_error + component" where
  "find_component ru k = (case List.find (\<lambda>c. co_key c = k) (ru_components ru) of
     None \<Rightarrow> Inl (ValueErr UnknownComponent) | Some c \<Rightarrow> Inr c)"

definition find_criterion :: "component \<Rightarrow> string \<Rightarrow> assess_error + criterion" where
  "find_criterion c k = (case List.find (\<lambda>x. cr_key x = k) (co_criteria c) of
     None \<Rightarrow> Inl (ValueErr UnknownCriterion) | Some x \<Rightarrow> Inr x)"

definition find_area :: "rules \<Rightarrow> string \<Rightarrow> assess_error + ext_area" where
  "find_area ru k = (case List.find (\<lambda>x. ea_key x = k) (ru_external_areas ru) of
     None \<Rightarrow> Inl (ValueErr UnknownArea) | Some x \<Rightarrow> Inr x)"

definition participant_set :: "json \<Rightarrow> assess_error + int list" where
  "participant_set raw = (case raw of
     JList xs \<Rightarrow> (let ids = map (\<lambda>x. case x of JInt n \<Rightarrow> n | _ \<Rightarrow> 0) xs in
       if list_ex (\<lambda>n. n < 1) ids then Inl (ValueErr BadParticipants)
       else if card (set ids) \<noteq> length ids then Inl (ValueErr DuplicateParticipants)
       else Inr (sort ids))
   | _ \<Rightarrow> Inl (ValueErr BadParticipants))"

definition validate_vote :: "json \<Rightarrow> int list \<Rightarrow> assess_error + vote" where
  "validate_vote raw members = (case raw of
     JObj o' \<Rightarrow> if set (map fst o') \<noteq> {''yes'', ''no'', ''abstain''} then Inl (ValueErr VoteIncomplete)
       else bnd (participant_set (jget o' ''yes'')) (\<lambda>y.
         bnd (participant_set (jget o' ''no'')) (\<lambda>n.
         bnd (participant_set (jget o' ''abstain'')) (\<lambda>a.
         if set y \<union> set n \<union> set a \<noteq> set members \<or>
            length y + length n + length a \<noteq> length members then Inl (ValueErr VoteNotExact)
         else if length y \<le> length n then Inl (ValueErr NoMajority)
         else Inr \<lparr>v_yes = y, v_no = n, v_abstain = a\<rparr>)))
   | _ \<Rightarrow> Inl (ValueErr VoteIncomplete))"

definition validate_dissent :: "json \<Rightarrow> int list \<Rightarrow> assess_error + dissent" where
  "validate_dissent raw members = (case raw of
     JList xs \<Rightarrow> map_res (\<lambda>x. case x of
         JObj o' \<Rightarrow> if set (map fst o') \<noteq> {''member_id'', ''statement''} then Inl (ValueErr BadDissent)
           else bnd (text_res (integer_of (jget o' ''member_id'') 1)) (\<lambda>m.
             if m \<notin> set members then Inl (ValueErr ForeignDissent)
             else bnd (text_res (required_text (jget o' ''statement'') 3000)) (\<lambda>s. Inr (m, s)))
       | _ \<Rightarrow> Inl (ValueErr BadDissent)) xs
   | _ \<Rightarrow> Inl (ValueErr BadDissent))"

definition assert_quorum :: "rules \<Rightarrow> int list \<Rightarrow> int list \<Rightarrow> assess_error + unit" where
  "assert_quorum ru chosen actual =
     (if chosen = [] \<or> \<not> set chosen \<subseteq> set actual then Inl (ValueErr NotActualMembers)
      else if int (length chosen) < ru_minimum_members ru then Inl (ValueErr QuorumMissing)
      else Inr ())"

definition required_access :: "db \<Rightarrow> actor \<Rightarrow> int \<Rightarrow> assess_error + result" where
  "required_access db a i = (case result_by_id db i of
     None \<Rightarrow> Inl (ValueErr ResultNotFound)
   | Some r \<Rightarrow> if re_legacy r then Inl (ValueErr LegacyResult)
       else if \<not> participates a r \<and> \<not> can_manage a (re_committee_id r) then Inl Forbidden
       else Inr r)"

definition assert_inputs_mutable :: "result \<Rightarrow> assess_error + unit" where
  "assert_inputs_mutable r =
     (if re_state r \<in> {Determined, Communicated} \<and> \<not> re_correction_open r
      then Inl (Conflict InputsFrozen) else Inr ())"

definition check_mutation_allowed :: "env \<Rightarrow> int \<Rightarrow> payload \<Rightarrow> assess_error + unit" where
  "check_mutation_allowed e i p = (case en_lock e i p of None \<Rightarrow> Inr () | Some x \<Rightarrow> Inl x)"

subsection \<open>Projection\<close>

record permissions =
  pm_assess_own :: bool
  pm_disclose :: bool
  pm_determine_component :: bool
  pm_manage_external :: bool
  pm_determine_result :: bool
  pm_confirm_record :: bool
  pm_coordinate_correction :: bool
  pm_communicate :: bool
  pm_manage_retention :: bool

record view =
  vw_id :: int
  vw_round_candidate_id :: int
  vw_day_revisions :: "(int \<times> int) list"
  vw_version :: int
  vw_state :: result_state
  vw_correction_open :: bool
  vw_legacy :: bool
  vw_model :: model
  vw_participants :: "int list"
  vw_disclosures :: "disclosure list"
  vw_individuals :: "individual list"
  vw_counts :: "(string \<times> nat \<times> nat) list"
  vw_components :: "comp_assessment list"
  vw_externals :: "ext_result list"
  vw_calculations :: "calculation list"
  vw_current_calculation :: "calculation option"
  vw_determinations :: "(determination \<times> int list) list"
  vw_current_determination :: "(determination \<times> int list) option"
  vw_corrections :: "correction list"
  vw_communications :: "communication list"
  vw_retention :: "retention option"
  vw_exports :: "result_export list"
  vw_permissions :: permissions

definition assert_projection_access :: "result \<Rightarrow> actor \<Rightarrow> assess_error + unit" where
  "assert_projection_access r a =
     (if \<not> participates a r \<and> \<not> can_manage a (re_committee_id r) then Inl Forbidden else Inr ())"

definition disclosed_keys :: "result \<Rightarrow> string set" where
  "disclosed_keys r = set (map di_component_key (re_disclosures r))"

definition visible_individuals :: "result \<Rightarrow> actor \<Rightarrow> individual list" where
  "visible_individuals r a = filter (\<lambda>x. Some (ia_assessor x) = member_id_for a r
     \<or> (ia_component_key x \<in> disclosed_keys r \<and> participates a r)) (re_individuals r)"

definition assessment_counts :: "result \<Rightarrow> (string \<times> nat \<times> nat) list" where
  "assessment_counts r = (let items = current_individuals r in
     map (\<lambda>k. (k, length (filter (\<lambda>x. ia_component_key x = k \<and> ia_status x = Draft) items),
                  length (filter (\<lambda>x. ia_component_key x = k \<and> ia_status x = Submitted) items)))
       (sorted_list_of_set (set (map ia_component_key items))))"

definition confirmed_by :: "result \<Rightarrow> int \<Rightarrow> int list" where
  "confirmed_by r d = sorted_list_of_set (set (map rf_member
     (filter (\<lambda>c. rf_determination_id c = d) (re_confirmations r))))"

definition required_external_complete :: "result \<Rightarrow> bool" where
  "required_external_complete r = list_all (\<lambda>a. \<not> ea_required a \<or>
     list_ex (\<lambda>x. ex_area_key x = ea_key a \<and> ex_status x = Confirmed) (re_externals r))
     (ru_external_areas (mo_rules (re_model r)))"

definition content_mutable :: "result \<Rightarrow> bool" where
  "content_mutable r = list_all (\<lambda>d. da_closure d = ClOpen \<or>
     (da_closure d = ClReopening \<and> re_id r \<in> set (da_reopening_result_ids d))) (re_days r)"

definition project :: "env \<Rightarrow> result \<Rightarrow> actor \<Rightarrow> assess_error + view" where
  "project e r a = bnd (assert_projection_access r a) (\<lambda>_.
     bnd (matching_calculation e r) (\<lambda>calc. let
       part = participates a r; manage = can_manage a (re_committee_id r);
       all_disclosed = list_all (\<lambda>c. co_key c \<in> disclosed_keys r)
          (ru_components (mo_rules (re_model r)));
       current = current_determination r; mutable = content_mutable r
     in Inr \<lparr>vw_id = re_id r, vw_round_candidate_id = re_round_candidate_id r,
       vw_day_revisions = map (\<lambda>d. (da_id d, da_revision d)) (re_days r),
       vw_version = re_version r,
       vw_state = (if calc = None \<and> current = None then Incomplete else re_state r),
       vw_correction_open = re_correction_open r, vw_legacy = re_legacy r, vw_model = re_model r,
       vw_participants = sorted_list_of_set (set (re_participants r)),
       vw_disclosures = re_disclosures r,
       vw_individuals = visible_individuals r a,
       vw_counts = assessment_counts r,
       vw_components = re_components r, vw_externals = re_externals r,
       vw_calculations = (if all_disclosed then re_calculations r else []),
       vw_current_calculation = (if all_disclosed \<and> required_external_complete r then calc else None),
       vw_determinations = map (\<lambda>d. (d, confirmed_by r (rd_id d))) (re_determinations r),
       vw_current_determination = map_option (\<lambda>d. (d, confirmed_by r (rd_id d))) current,
       vw_corrections = re_corrections r, vw_communications = re_communications r,
       vw_retention = re_retention r, vw_exports = re_exports r,
       vw_permissions = \<lparr>pm_assess_own = (mutable \<and> part), pm_disclose = (mutable \<and> part \<and> manage),
         pm_determine_component = (mutable \<and> part \<and> manage), pm_manage_external = manage,
         pm_determine_result = (part \<and> manage), pm_confirm_record = part,
         pm_coordinate_correction = (mutable \<and> manage), pm_communicate = manage,
         pm_manage_retention = manage\<rparr>\<rparr>))"

subsection \<open>The common frame of a write\<close>

definition with_view :: "env \<Rightarrow> actor \<Rightarrow> db \<Rightarrow> result \<Rightarrow> assess_error + (db \<times> view)" where
  "with_view e a db r = bnd (project e r a) (\<lambda>v. Inr (db, v))"

definition complete_result_day_mutation ::
  "env \<Rightarrow> int \<Rightarrow> string \<Rightarrow> payload \<Rightarrow> int option \<Rightarrow> string option \<Rightarrow> db \<Rightarrow> assess_error + db" where
  "complete_result_day_mutation e i kind p m reason db = (case result_by_id db i of
     None \<Rightarrow> Inl AssertionErr
   | Some r \<Rightarrow> bnd (en_day e r kind p m reason) (\<lambda>days.
       Inr (upd_row re_id i (\<lambda>r. r\<lparr>re_days := days\<rparr>) db)))"

text \<open>
  After the repository command: the day mutation, the reloaded snapshot, the recalculation for the
  commands that change inputs, and the view.
\<close>

definition finish :: "env \<Rightarrow> actor \<Rightarrow> int \<Rightarrow> string \<Rightarrow> payload \<Rightarrow> int option \<Rightarrow> string option \<Rightarrow> bool \<Rightarrow>
    db \<Rightarrow> assess_error + (db \<times> view)" where
  "finish e a i kind p m reason recalculate db =
     bnd (complete_result_day_mutation e i kind p m reason db) (\<lambda>db.
       case result_by_id db i of None \<Rightarrow> Inl AssertionErr | Some r \<Rightarrow>
         if recalculate then bnd (ensure_calculation e db r) (\<lambda>(db, r). with_view e a db r)
         else with_view e a db r)"

subsection \<open>Individual assessments\<close>

definition normalize_points :: "criterion \<Rightarrow> dec \<Rightarrow> dec" where
  "normalize_points c raw =
     ddiv (dmul (dsub raw (cr_raw_min c)) 100) (dsub (cr_raw_max c) (cr_raw_min c))"

definition save_individual :: "env \<Rightarrow> actor \<Rightarrow> int \<Rightarrow> payload \<Rightarrow> db \<Rightarrow> assess_error + (db \<times> view)" where
  "save_individual e a i p db =
     bnd (required_result_version p) (\<lambda>expected.
     bnd (text_res (required_text (jget p ''component_key'') 100)) (\<lambda>ck.
     bnd (text_res (required_text (jget p ''criterion_key'') 100)) (\<lambda>kk.
     bnd (case jget_default p ''submitted'' (JBool False) of JBool b \<Rightarrow> Inr b
          | _ \<Rightarrow> Inl (ValueErr SubmittedNotBool)) (\<lambda>submitted.
     bnd (check_mutation_allowed e i p) (\<lambda>_.
     bnd (required_access db a i) (\<lambda>r.
     case member_id_for a r of None \<Rightarrow> Inl Forbidden | Some m \<Rightarrow>
     require (m \<in> set (re_participants r)) Forbidden (
     bnd (find_component (mo_rules (re_model r)) ck) (\<lambda>co.
     bnd (find_criterion co kk) (\<lambda>cr.
     bnd (text_res (decimal_of (jget p ''raw_points''))) (\<lambda>raw.
     require (\<not> (raw < cr_raw_min cr \<or> cr_raw_max cr < raw)) (ValueErr RawPointsOutOfScale) (
     bnd (text_res (optional_text (jget p ''rationale'') 4000)) (\<lambda>rationale.
     bnd (text_res (optional_text (jget p ''change_reason'') 2000)) (\<lambda>change_reason.
     let normalized = normalize_points cr raw;
         current = latest_individual (re_individuals r) ck kk m;
         status = (if submitted then Submitted else Draft)
     in if (case current of None \<Rightarrow> False | Some c \<Rightarrow> ia_raw_points c = raw
              \<and> ia_normalized c = normalized \<and> ia_rationale c = rationale \<and> ia_status c = status)
        then with_view e a db r
        else bnd (assert_inputs_mutable r) (\<lambda>_.
          require (\<not> ((ck \<in> disclosed_keys r \<or> re_correction_open r) \<and> change_reason = None))
            (ValueErr ChangeReasonRequired) (
          bnd (save_individual_assessment i expected \<lparr>ia_id = 0, ia_component_key = ck,
             ia_criterion_key = kk, ia_assessor = m, ia_revision = 0, ia_raw_points = raw,
             ia_normalized = normalized, ia_rationale = rationale, ia_status = status,
             ia_previous = map_option ia_id current, ia_change_reason = change_reason,
             ia_submitted_at = (if submitted then Some (en_now e) else None),
             ia_created_at = en_now e\<rparr> db)
          (finish e a i ''result_assessment'' p (Some m) change_reason True)))
     )))))))))))))"

definition withdraw_individual ::
  "env \<Rightarrow> actor \<Rightarrow> int \<Rightarrow> int \<Rightarrow> payload \<Rightarrow> db \<Rightarrow> assess_error + (db \<times> view)" where
  "withdraw_individual e a i assessment_id p db =
     bnd (required_result_version p) (\<lambda>expected.
     bnd (text_res (required_text (jget p ''reason'') 2000)) (\<lambda>reason.
     bnd (check_mutation_allowed e i p) (\<lambda>_.
     bnd (required_access db a i) (\<lambda>r.
     case List.find (\<lambda>x. ia_id x = assessment_id) (re_individuals r) of
       None \<Rightarrow> Inl Forbidden
     | Some x \<Rightarrow>
       require (member_id_for a r = Some (ia_assessor x) \<and> ia_assessor x \<in> set (re_participants r)
          \<and> ia_status x \<in> {Draft, Submitted}) Forbidden (
       require (ia_component_key x \<notin> disclosed_keys r) (Conflict AfterDisclosure) (
       bnd (assert_inputs_mutable r) (\<lambda>_.
       bnd (save_individual_assessment i expected (x\<lparr>ia_status := Withdrawn,
          ia_previous := Some (ia_id x), ia_change_reason := Some reason, ia_submitted_at := None,
          ia_created_at := en_now e\<rparr>) db)
       (finish e a i ''result_assessment'' p (member_id_for a r) (Some reason) True))))))))"

definition disclose :: "env \<Rightarrow> actor \<Rightarrow> int \<Rightarrow> payload \<Rightarrow> db \<Rightarrow> assess_error + (db \<times> view)" where
  "disclose e a i p db =
     bnd (required_result_version p) (\<lambda>expected.
     bnd (text_res (required_text (jget p ''component_key'') 100)) (\<lambda>ck.
     bnd (check_mutation_allowed e i p) (\<lambda>_.
     bnd (required_access db a i) (\<lambda>r.
     bnd (find_component (mo_rules (re_model r)) ck) (\<lambda>co.
     if ck \<in> disclosed_keys r then with_view e a db r else
     require (participates a r \<and> can_manage a (re_committee_id r)) Forbidden (
     bnd (assert_inputs_mutable r) (\<lambda>_.
     bnd (if co_mode co = Committee
          then Inr (individual_component_complete r co (re_participants r))
          else bnd (component_score r co) (\<lambda>s. Inr (s \<noteq> None))) (\<lambda>complete.
     require complete (ValueErr ContributionsMissing) (
     bnd (not_null (member_id_for a r)) (\<lambda>m.
     bnd (disclose_component i expected \<lparr>di_component_key = ck, di_by = m, di_at = en_now e\<rparr> db)
     (finish e a i ''result_disclosure'' p (Some m) None False)))))))))))"

end
