(* ===== verification/Assess_Decide.thy ===== *)
theory Assess_Decide
  imports Assess_Service
begin

text \<open>
  The deciding half of \<open>ExamResultService\<close>: committee assessments, external results, the
  determination of the result, its record, correction, communication, retention, exports and the
  day completion report.
\<close>

subsection \<open>Committee assessment and external results\<close>

definition outside_span :: "dec \<Rightarrow> dec list \<Rightarrow> bool" where
  "outside_span points individual \<longleftrightarrow> individual \<noteq> [] \<and>
     (points < Min (set individual) \<or> Max (set individual) < points)"

definition determine_component :: "env \<Rightarrow> actor \<Rightarrow> int \<Rightarrow> payload \<Rightarrow> db \<Rightarrow> assess_error + (db \<times> view)" where
  "determine_component e a i p db =
     bnd (required_result_version p) (\<lambda>expected.
     bnd (text_res (required_text (jget p ''component_key'') 100)) (\<lambda>ck.
     bnd (text_res (decimal_of (jget p ''points''))) (\<lambda>points.
     require (\<not> (points < 0 \<or> 100 < points)) (ValueErr PointsOutOfRange) (
     bnd (text_res (optional_text (jget p ''rationale'') 4000)) (\<lambda>rationale.
     bnd (check_mutation_allowed e i p) (\<lambda>_.
     bnd (required_access db a i) (\<lambda>r. let ru = mo_rules (re_model r) in
     bnd (find_component ru ck) (\<lambda>co.
     require (co_mode co = Committee) (ValueErr IndependentMode) (
     case member_id_for a r of None \<Rightarrow> Inl Forbidden | Some m \<Rightarrow>
     require (m \<in> set (re_participants r) \<and> can_manage a (re_committee_id r)) Forbidden (
     require (ck \<in> disclosed_keys r) (ValueErr NotDisclosed) (
     bnd (participant_set (jget p ''participant_member_ids'')) (\<lambda>chosen.
     bnd (assert_quorum ru chosen (re_participants r)) (\<lambda>_.
     bnd (validate_vote (jget p ''vote'') chosen) (\<lambda>vote.
     bnd (validate_dissent (jget_default p ''dissent'' (JList [])) chosen) (\<lambda>dissent.
     let current = committee_current r ck in
     if current \<noteq> None \<and> \<not> re_correction_open r then
       (if ca_points (the current) = points \<and> ca_rationale (the current) = rationale
           \<and> set (ca_participants (the current)) = set chosen
           \<and> ca_vote (the current) = vote \<and> ca_dissent (the current) = dissent
        then with_view e a db r else Inl (Conflict ComponentDetermined))
     else bnd (assert_inputs_mutable r) (\<lambda>_.
       require (\<not> (outside_span points (map ia_normalized (submitted_for r co)) \<and> rationale = None))
         (ValueErr RationaleRequired) (
       bnd (determine_component_row i expected \<lparr>ca_id = 0, ca_component_key = ck,
          ca_revision = (case current of None \<Rightarrow> 1 | Some c \<Rightarrow> ca_revision c + 1),
          ca_points = points, ca_rationale = rationale, ca_participants = sort chosen,
          ca_vote = vote, ca_dissent = dissent, ca_status = Current,
          ca_previous = map_option ca_id current, ca_determined_by = m,
          ca_determined_at = en_now e\<rparr> db)
       (finish e a i ''result_assessment'' p (Some m) rationale True)))
     )))))))))))))))"

definition record_external :: "env \<Rightarrow> actor \<Rightarrow> int \<Rightarrow> payload \<Rightarrow> db \<Rightarrow> assess_error + (db \<times> view)" where
  "record_external e a i p db =
     bnd (required_result_version p) (\<lambda>expected.
     bnd (text_res (required_text (jget p ''area_key'') 100)) (\<lambda>ak.
     bnd (text_res (decimal_of (jget p ''points''))) (\<lambda>points.
     require (\<not> (points < 0 \<or> 100 < points)) (ValueErr PointsOutOfRange) (
     bnd (text_res (optional_text (jget p ''grade'') 100)) (\<lambda>grade.
     bnd (text_res (required_text (jget p ''professional_status'') 300)) (\<lambda>status.
     bnd (text_res (required_text (jget p ''determining_authority'') 500)) (\<lambda>authority.
     bnd (text_res (required_text (jget p ''source_reference'') 1000)) (\<lambda>source.
     bnd (text_res (optional_text (jget p ''correction_reason'') 2000)) (\<lambda>reason.
     bnd (check_mutation_allowed e i p) (\<lambda>_.
     bnd (required_access db a i) (\<lambda>r.
     require (can_manage a (re_committee_id r)) Forbidden (
     bnd (find_area (mo_rules (re_model r)) ak) (\<lambda>area.
     let current = active_external r ak in
     require (\<not> (current \<noteq> None \<and> reason = None)) (ValueErr CorrectionReasonRequired) (
     bnd (assert_inputs_mutable r) (\<lambda>_.
     bnd (not_null (member_id_for a r)) (\<lambda>m.
     bnd (record_external_result i expected
        (if has_determination r \<or> \<not> ea_required area then re_state r else Incomplete)
        \<lparr>ex_id = 0, ex_area_key = ak,
         ex_revision = (case current of None \<Rightarrow> 1 | Some c \<Rightarrow> ex_revision c + 1),
         ex_points = points, ex_grade = grade, ex_professional_status = status,
         ex_authority = authority, ex_source = source, ex_status = Unconfirmed,
         ex_recorded_by = m, ex_recorded_at = en_now e, ex_previous = map_option ex_id current,
         ex_correction_reason = reason, ex_confirmed_by = None, ex_confirmed_at = None\<rparr> db)
     (finish e a i ''result_external'' p (Some m) reason True)))))))))))))))))"

definition confirm_external ::
  "env \<Rightarrow> actor \<Rightarrow> int \<Rightarrow> int \<Rightarrow> payload \<Rightarrow> db \<Rightarrow> assess_error + (db \<times> view)" where
  "confirm_external e a i ext p db =
     bnd (required_result_version p) (\<lambda>expected.
     bnd (check_mutation_allowed e i p) (\<lambda>_.
     bnd (required_access db a i) (\<lambda>r.
     require (can_manage a (re_committee_id r)) Forbidden (
     case List.find (\<lambda>x. ex_id x = ext) (re_externals r) of
       None \<Rightarrow> Inl (ValueErr NotConfirmable)
     | Some x \<Rightarrow>
       if ex_status x = Confirmed \<and> ex_confirmed_by x = member_id_for a r then with_view e a db r else
       require (ex_status x = Unconfirmed) (ValueErr NotConfirmable) (
       require (Some (ex_recorded_by x) \<noteq> member_id_for a r) Forbidden (
       bnd (assert_inputs_mutable r) (\<lambda>_.
       bnd (not_null (member_id_for a r)) (\<lambda>m.
       bnd (confirm_external_result i ext expected m (en_now e) db)
       (finish e a i ''result_external'' p (Some m) None True)))))))))"

subsection \<open>Determination, record, correction, communication\<close>

definition determine_result :: "env \<Rightarrow> actor \<Rightarrow> int \<Rightarrow> payload \<Rightarrow> db \<Rightarrow> assess_error + (db \<times> view)" where
  "determine_result e a i p db =
     bnd (required_result_version p) (\<lambda>expected.
     bnd (check_mutation_allowed e i p) (\<lambda>_.
     bnd (required_access db a i) (\<lambda>r.
     case member_id_for a r of None \<Rightarrow> Inl Forbidden | Some m \<Rightarrow>
     require (m \<in> set (re_participants r) \<and> can_manage a (re_committee_id r)) Forbidden (
     bnd (participant_set (jget p ''participant_member_ids'')) (\<lambda>chosen.
     bnd (assert_quorum (mo_rules (re_model r)) chosen (re_participants r)) (\<lambda>_.
     bnd (validate_vote (jget p ''vote'') chosen) (\<lambda>vote.
     bnd (validate_dissent (jget_default p ''dissent'' (JList [])) chosen) (\<lambda>dissent.
     let current = current_determination r in
     if current \<noteq> None \<and> \<not> re_correction_open r then
       (if set (rd_participants (the current)) = set chosen \<and> rd_vote (the current) = vote
           \<and> rd_dissent (the current) = dissent
        then with_view e a db r else Inl (Conflict AlreadyDetermined))
     else require (re_version r = expected) (Conflict VersionConflict) (
       bnd (assert_inputs_mutable r) (\<lambda>_.
       bnd (ensure_calculation e db r) (\<lambda>(db, r).
       bnd (matching_calculation e r) (\<lambda>calc. case calc of
         None \<Rightarrow> Inl (ValueErr NotCalculationReady)
       | Some c \<Rightarrow> let current = current_determination r in
         bnd (determine_result_row i (re_version r) \<lparr>rd_id = 0,
            rd_revision = (case current of None \<Rightarrow> 1 | Some d \<Rightarrow> rd_revision d + 1),
            rd_calculation_id = rc_id c, rd_participants = sort chosen, rd_vote = vote,
            rd_dissent = dissent, rd_status = Current, rd_previous = map_option rd_id current,
            rd_correction_id = map_option rx_id (open_correction_of r), rd_by = m,
            rd_at = en_now e\<rparr> db)
         (finish e a i ''result_determine'' p (Some m) None False)
       )))))))))))) "

definition confirm_record :: "env \<Rightarrow> actor \<Rightarrow> int \<Rightarrow> payload \<Rightarrow> db \<Rightarrow> assess_error + (db \<times> view)" where
  "confirm_record e a i p db =
     bnd (required_result_version p) (\<lambda>expected.
     bnd (check_mutation_allowed e i p) (\<lambda>_.
     bnd (required_access db a i) (\<lambda>r.
     case current_determination r of None \<Rightarrow> Inl (ValueErr NotDetermined) | Some d \<Rightarrow>
     (case member_id_for a r of None \<Rightarrow> Inl Forbidden | Some m \<Rightarrow>
     require (m \<in> set (rd_participants d)) Forbidden (
     if list_ex (\<lambda>x. rf_determination_id x = rd_id d \<and> rf_member x = m) (re_confirmations r)
     then with_view e a db r else
     require (\<not> re_correction_open r) (Conflict CorrectionIsOpen) (
     bnd (confirm_record_row i expected \<lparr>rf_id = 0, rf_determination_id = rd_id d, rf_member = m,
        rf_at = en_now e\<rparr> db)
     (finish e a i ''result_confirm_record'' p (Some m) None False)))))))"

definition open_correction :: "env \<Rightarrow> actor \<Rightarrow> int \<Rightarrow> payload \<Rightarrow> db \<Rightarrow> assess_error + (db \<times> view)" where
  "open_correction e a i p db =
     bnd (required_result_version p) (\<lambda>expected.
     bnd (text_res (required_text (jget p ''reason'') 3000)) (\<lambda>reason.
     bnd (text_res (optional_text (jget p ''reopening_reference'') 1000)) (\<lambda>reopening.
     bnd (check_mutation_allowed e i p) (\<lambda>_.
     bnd (required_access db a i) (\<lambda>r.
     case member_id_for a r of None \<Rightarrow> Inl Forbidden | Some m \<Rightarrow>
     require (can_manage a (re_committee_id r)) Forbidden (
     case current_determination r of None \<Rightarrow> Inl (ValueErr NotDetermined) | Some d \<Rightarrow>
     (case open_correction_of r of
        Some x \<Rightarrow> if rx_reason x = reason then with_view e a db r
          else Inl (Conflict CorrectionIsOpen)
      | None \<Rightarrow>
        require (\<not> (list_ex (\<lambda>y. da_status y = DyCompleted) (re_days r) \<and> reopening = None))
          (ValueErr ReopeningRequired) (
        bnd (open_correction_row i expected \<lparr>rx_id = 0, rx_determination_id = rd_id d,
           rx_reason = reason, rx_by = m, rx_status = CorrOpen, rx_reopening = reopening,
           rx_requested_at = en_now e, rx_completed_at = None\<rparr> db)
        (finish e a i ''result_correction'' p (Some m) (Some reason) False)))))))))"

definition required_datetime :: "env \<Rightarrow> json \<Rightarrow> assess_error + string" where
  "required_datetime e v = (case v of
     JStr s \<Rightarrow> (case en_datetime e s of None \<Rightarrow> Inl (TextErr NotADatetime)
       | Some (t, tz) \<Rightarrow> if tz then Inr t else Inl (ValueErr NoTimezone))
   | _ \<Rightarrow> Inl (TextErr NotADatetime))"

definition communicate :: "env \<Rightarrow> actor \<Rightarrow> int \<Rightarrow> payload \<Rightarrow> db \<Rightarrow> assess_error + (db \<times> view)" where
  "communicate e a i p db =
     bnd (required_result_version p) (\<lambda>expected.
     bnd (text_res (required_text (jget p ''method'') 300)) (\<lambda>mth.
     bnd (required_datetime e (jget p ''communicated_at'')) (\<lambda>communicated_at.
     bnd (check_mutation_allowed e i p) (\<lambda>_.
     bnd (required_access db a i) (\<lambda>r.
     case member_id_for a r of None \<Rightarrow> Inl Forbidden | Some m \<Rightarrow>
     require (can_manage a (re_committee_id r)) Forbidden (
     case current_determination r of None \<Rightarrow> Inl (ValueErr NotDetermined) | Some d \<Rightarrow>
     require (\<not> re_correction_open r) (ValueErr NotDetermined) (
     require (set (confirmed_by r (rd_id d)) = set (rd_participants d)) (ValueErr RecordNotConfirmed) (
     if (case List.find (\<lambda>x. rm_determination_id x = rd_id d \<and> rm_status x = CommCurrent)
            (re_communications r) of None \<Rightarrow> False
         | Some x \<Rightarrow> rm_method x = mth \<and> rm_at x = communicated_at)
     then with_view e a db r
     else bnd (text_res (optional_text (jget p ''external_document_status'') 300)) (\<lambda>ds.
       bnd (text_res (optional_text (jget p ''external_document_reference'') 1000)) (\<lambda>dr.
       bnd (communicate_result_row i expected \<lparr>rm_id = 0, rm_determination_id = rd_id d,
          rm_method = mth, rm_responsible = m, rm_at = communicated_at,
          rm_document_status = ds, rm_document_reference = dr, rm_status = CommCurrent,
          rm_created_at = en_now e\<rparr> db)
       (finish e a i ''result_communicate'' p (Some m) None False)))))))))))"

subsection \<open>Retention and exports\<close>

record retention_request =
  rq_period_start :: "date option"
  rq_retain_until :: "date option"
  rq_legal_hold :: bool
  rq_hold_reason :: "string option"
  rq_release_reason :: json

definition retention_fields :: "string set" where
  "retention_fields = {''version'', ''period_start'', ''retain_until'', ''legal_hold'',
     ''hold_reason'', ''release_reason''}"

definition retention_payload :: "payload \<Rightarrow> assess_error + retention_request" where
  "retention_payload p =
     require (set (map fst p) \<subseteq> retention_fields) (ValueErr RetentionFields) (
     bnd (case jget_default p ''legal_hold'' (JBool False) of JBool b \<Rightarrow> Inr b
          | _ \<Rightarrow> Inl (ValueErr HoldNotBool)) (\<lambda>hold.
     bnd (text_res (optional_text (jget p ''hold_reason'') 3000)) (\<lambda>hold_reason.
     require (\<not> (hold \<and> hold_reason = None)) (ValueErr HoldReasonRequired) (
     bnd (text_res (optional_date (jget p ''period_start''))) (\<lambda>period_start.
     bnd (text_res (optional_date (jget p ''retain_until''))) (\<lambda>retain_until.
     require (\<not> (retain_until \<noteq> None \<and> period_start = None)) (ValueErr PeriodStartRequired) (
     Inr \<lparr>rq_period_start = period_start, rq_retain_until = retain_until, rq_legal_hold = hold,
       rq_hold_reason = hold_reason, rq_release_reason = jget p ''release_reason''\<rparr>)))))))"

definition same_retention :: "retention option \<Rightarrow> model \<Rightarrow> retention_request \<Rightarrow> bool" where
  "same_retention old mo q = (case old of None \<Rightarrow> False | Some o' \<Rightarrow>
     rr_rule_reference o' = mo_retention_rule_reference mo
     \<and> rr_period_start o' = rq_period_start q \<and> rr_retain_until o' = rq_retain_until q
     \<and> rr_legal_hold o' = rq_legal_hold q \<and> rr_hold_reason o' = rq_hold_reason q)"

definition retention_hold_reason ::
  "retention option \<Rightarrow> model \<Rightarrow> retention_request \<Rightarrow> assess_error + string option" where
  "retention_hold_reason old mo q =
     bnd (case rq_period_start q of None \<Rightarrow> Inr ()
        | Some s \<Rightarrow> (case rq_retain_until q of None \<Rightarrow> Inl (ValueErr MinimumRetention)
            | Some u \<Rightarrow> (case add_years s (mo_retention_years mo) of
                None \<Rightarrow> Inl (TextErr NotADate)
              | Some t \<Rightarrow> if u < t then Inl (ValueErr MinimumRetention) else Inr ()))) (\<lambda>_.
     bnd (case old of None \<Rightarrow> Inr () | Some o' \<Rightarrow> (case rr_retain_until o' of None \<Rightarrow> Inr ()
        | Some t \<Rightarrow> (case rq_retain_until q of None \<Rightarrow> Inl (ValueErr RetentionShortened)
            | Some u \<Rightarrow> if u < t then Inl (ValueErr RetentionShortened) else Inr ()))) (\<lambda>_.
     if (case old of None \<Rightarrow> False | Some o' \<Rightarrow> rr_legal_hold o') \<and> \<not> rq_legal_hold q
     then bnd (text_res (optional_text (rq_release_reason q) 3000)) (\<lambda>release. case release of
            None \<Rightarrow> Inl (ValueErr ReleaseReasonRequired)
          | Some s \<Rightarrow> Inr (Some (''Freigabe: '' @ s)))
     else Inr (rq_hold_reason q)))"

definition set_retention :: "env \<Rightarrow> actor \<Rightarrow> int \<Rightarrow> payload \<Rightarrow> db \<Rightarrow> assess_error + (db \<times> view)" where
  "set_retention e a i p db =
     bnd (retention_payload p) (\<lambda>q.
     bnd (required_result_version p) (\<lambda>expected.
     bnd (required_access db a i) (\<lambda>r.
     case member_id_for a r of None \<Rightarrow> Inl Forbidden | Some m \<Rightarrow>
     require (can_manage a (re_committee_id r)) Forbidden (
     if same_retention (re_retention r) (re_model r) q then with_view e a db r else
     require (re_version r = expected) (Conflict VersionConflict) (
     bnd (retention_hold_reason (re_retention r) (re_model r) q) (\<lambda>hold_reason.
     bnd (save_retention i expected \<lparr>rr_rule_reference = mo_retention_rule_reference (re_model r),
        rr_period_start = rq_period_start q, rr_retain_until = rq_retain_until q,
        rr_legal_hold = rq_legal_hold q, rr_hold_reason = hold_reason, rr_by = m,
        rr_at = en_now e\<rparr> db)
     (finish e a i ''result_retention'' p (Some m) None False)))))))"

definition export_result ::
  "export_kind \<Rightarrow> env \<Rightarrow> actor \<Rightarrow> int \<Rightarrow> db \<Rightarrow> assess_error + (db \<times> export_status \<times> view)" where
  "export_result kind e a i db =
     bnd (required_access db a i) (\<lambda>r.
     case member_id_for a r of None \<Rightarrow> Inl Forbidden | Some m \<Rightarrow> let
       d = current_determination r; status = (if d = None then ExpDraft else ExpDetermined) in
     bnd (record_export i (re_version r) \<lparr>xp_id = 0, xp_determination_id = map_option rd_id d,
        xp_kind = kind, xp_status = status, xp_by = m, xp_at = en_now e\<rparr> db) (\<lambda>db.
     case result_by_id db i of None \<Rightarrow> Inl AssertionErr | Some r \<Rightarrow>
       bnd (project e r a) (\<lambda>v. Inr (db, status, v))))"

definition machine_export :: "env \<Rightarrow> actor \<Rightarrow> int \<Rightarrow> db \<Rightarrow> assess_error + (db \<times> export_status \<times> view)" where
  "machine_export = export_result Machine"

record human_view =
  hv_id :: int
  hv_state :: result_state
  hv_model :: model
  hv_externals :: "ext_result list"
  hv_components :: "comp_assessment list"
  hv_current_calculation :: "calculation option"
  hv_current_determination :: "(determination \<times> int list) option"
  hv_correction_open :: bool
  hv_communications :: "communication list"

definition human_of :: "view \<Rightarrow> human_view" where
  "human_of v = \<lparr>hv_id = vw_id v, hv_state = vw_state v, hv_model = vw_model v,
     hv_externals = vw_externals v, hv_components = vw_components v,
     hv_current_calculation = vw_current_calculation v,
     hv_current_determination = vw_current_determination v,
     hv_correction_open = vw_correction_open v, hv_communications = vw_communications v\<rparr>"

definition human_export ::
  "env \<Rightarrow> actor \<Rightarrow> int \<Rightarrow> db \<Rightarrow> assess_error + (db \<times> export_status \<times> human_view)" where
  "human_export e a i db = bnd (export_result Human e a i db) (\<lambda>(db, st, v). Inr (db, st, human_of v))"

text \<open>
  Reading a result materialises a missing calculation: the read path only writes when the inputs
  are complete and no stored calculation matches them.
\<close>

definition read_result :: "env \<Rightarrow> actor \<Rightarrow> int \<Rightarrow> db \<Rightarrow> assess_error + (db \<times> view option)" where
  "read_result e a i db = (case result_by_id db i of None \<Rightarrow> Inr (db, None)
   | Some r \<Rightarrow> bnd (assert_projection_access r a) (\<lambda>_.
       bnd (calculation_command e r) (\<lambda>c.
       if (case c of None \<Rightarrow> True | Some (_, c) \<Rightarrow> match_fingerprint r (rc_fingerprint c) \<noteq> None)
       then bnd (project e r a) (\<lambda>v. Inr (db, Some v))
       else bnd (ensure_calculation e db r) (\<lambda>(db, r).
         bnd (project e r a) (\<lambda>v. Inr (db, Some v))))))"

definition reopen_result_for_day :: "int \<Rightarrow> int \<Rightarrow> string \<Rightarrow> int \<Rightarrow> string \<Rightarrow> string \<Rightarrow> db \<Rightarrow>
    assess_error + (db \<times> reopening_receipt)" where
  "reopen_result_for_day i expected reference m reason requested_at db = (case result_by_id db i of
     None \<Rightarrow> Inl (ValueErr ResultNotFound)
   | Some r \<Rightarrow> if re_version r \<noteq> expected then Inl (Conflict VersionConflict)
     else case current_determination r of
       None \<Rightarrow> Inr (db, \<lparr>rp_result_id = i, rp_version = re_version r, rp_determination_id = None,
          rp_participants = [], rp_communicated = False, rp_ihk_processed = False\<rparr>)
     | Some d \<Rightarrow> open_day_reopening_correction i expected reference m reason requested_at db)"

text \<open>\<open>completion_for_day\<close> guards the report by the committee of the day.\<close>

subsection \<open>Day completion\<close>

datatype slot_execution = SxOpen | SxStarted | SxCompleted | SxCancelled

datatype slot_result = NoResult | LegacyRow int | UnboundRow int | BoundRow result

record completion_slot =
  sl_id :: int
  sl_execution :: slot_execution
  sl_result :: slot_result

datatype completion_state = NotRequired | NotBound | NoResultData | ModelMissing | InState result_state

record completion_row =
  cr_slot_id :: int
  cr_result_id :: "int option"
  cr_state :: completion_state
  cr_correction_open :: bool
  cr_day_assessments :: "(string \<times> bool) list"
  cr_day_complete :: bool
  cr_external_pending :: "string list"
  cr_determination_pending :: bool
  cr_confirmations_complete :: bool
  cr_close_ready :: bool

definition day_component_complete :: "result \<Rightarrow> component \<Rightarrow> bool" where
  "day_component_complete r c = (if co_mode c = Committee
     then list_ex (\<lambda>x. ca_component_key x = co_key c \<and> ca_status x = Current) (re_components r)
     else individual_component_complete r c (re_participants r))"

definition record_confirmed :: "result \<Rightarrow> bool" where
  "record_confirmed r = (case current_determination r of None \<Rightarrow> True
     | Some d \<Rightarrow> set (confirmed_by r (rd_id d)) = set (rd_participants d))"

definition slot_result_id :: "slot_result \<Rightarrow> int option" where
  "slot_result_id s = (case s of NoResult \<Rightarrow> None | LegacyRow i \<Rightarrow> Some i | UnboundRow i \<Rightarrow> Some i
     | BoundRow r \<Rightarrow> Some (re_id r))"

definition plain_row :: "int \<Rightarrow> int option \<Rightarrow> completion_state \<Rightarrow> bool \<Rightarrow> completion_row" where
  "plain_row i rid st ok = \<lparr>cr_slot_id = i, cr_result_id = rid, cr_state = st,
     cr_correction_open = False, cr_day_assessments = [], cr_day_complete = ok,
     cr_external_pending = [], cr_determination_pending = False, cr_confirmations_complete = ok,
     cr_close_ready = ok\<rparr>"

definition completion_row_of :: "completion_slot \<Rightarrow> completion_row" where
  "completion_row_of s = (if sl_execution s = SxCancelled
       then plain_row (sl_id s) (slot_result_id (sl_result s)) NotRequired True
     else case sl_result s of
       NoResult \<Rightarrow> plain_row (sl_id s) None NotBound False
     | LegacyRow i \<Rightarrow> plain_row (sl_id s) (Some i) NoResultData True
     | UnboundRow i \<Rightarrow> plain_row (sl_id s) (Some i) ModelMissing False
     | BoundRow r \<Rightarrow> let ru = mo_rules (re_model r);
         day = map (\<lambda>c. (co_key c, day_component_complete r c))
           (filter co_day_scoped (ru_components ru));
         pending_ext = map ea_key (filter (\<lambda>a. ea_required a \<and> \<not> list_ex (\<lambda>x.
           ex_area_key x = ea_key a \<and> ex_status x = Confirmed) (re_externals r))
           (ru_external_areas ru));
         confirmed = record_confirmed r; day_complete = list_all snd day;
         pending = (re_state r = CalculationReady)
       in \<lparr>cr_slot_id = sl_id s, cr_result_id = Some (re_id r), cr_state = InState (re_state r),
         cr_correction_open = re_correction_open r, cr_day_assessments = day,
         cr_day_complete = day_complete, cr_external_pending = pending_ext,
         cr_determination_pending = pending, cr_confirmations_complete = confirmed,
         cr_close_ready = (day_complete \<and> \<not> pending \<and> confirmed \<and> \<not> re_correction_open r)\<rparr>)"

definition completion_from_snapshot :: "completion_slot list \<Rightarrow> completion_row list \<times> bool" where
  "completion_from_snapshot slots = (let rows = map completion_row_of slots in
     (rows, list_all cr_close_ready rows))"

definition completion_for_day ::
  "actor \<Rightarrow> (int \<times> completion_slot list) option \<Rightarrow> assess_error + (completion_row list \<times> bool) option" where
  "completion_for_day a day = (case day of None \<Rightarrow> Inr None
   | Some (committee, slots) \<Rightarrow> require (can_read a committee) Forbidden (
       Inr (Some (completion_from_snapshot slots))))"

end
