(* ===== verification/Assess_Inv.thy ===== *)
theory Assess_Inv
  imports Assess_Decide
begin

text \<open>
  The invariant of a stored exam result, table by table, and its preservation by the repository
  commands. Each group below takes one child table: what a well-formed history of that table is,
  and that the command which writes it keeps it so.
\<close>

subsection \<open>Individual assessments\<close>

definition inv_individuals :: "individual list \<Rightarrow> bool" where
  "inv_individuals xs \<longleftrightarrow> distinct (map ia_id xs)
     \<and> (\<forall>ck kk m. at_most_one (live_individual ck kk m) xs)
     \<and> (\<forall>x \<in> set xs. 0 \<le> ia_normalized x)"

lemma at_most_one_upd_row:
  assumes "at_most_one P xs" "\<And>x. Q (f x) \<Longrightarrow> P x" "\<And>x. Q x \<Longrightarrow> P x"
  shows "at_most_one Q (upd_row key k f xs)"
  unfolding upd_row_def by (rule at_most_one_mono[OF assms(1)]) (use assms(2,3) in \<open>auto split: if_splits\<close>)

lemma distinct_key_snoc:
  assumes "distinct (map key xs)" "\<And>x. key (f x) = key x" "key y \<notin> set (map key xs)"
  shows "distinct (map key (upd_row key k f xs @ [y]))"
proof -
  have m: "map key (upd_row key k f xs) = map key xs" by (rule map_key_upd_row) (rule assms(2))
  have "distinct (map key xs @ [key y])" using assms(1,3) by simp
  then show ?thesis by (simp only: map_append m list.map)
qed

lemma put_individual_rows: "re_individuals (put_individual new c r) =
    (case max_by ia_revision (filter (live_individual (ia_component_key c) (ia_criterion_key c)
        (ia_assessor c)) (re_individuals r)) of
      None \<Rightarrow> re_individuals r @ [c\<lparr>ia_id := new, ia_revision := 1\<rparr>]
    | Some o' \<Rightarrow> upd_row ia_id (ia_id o') (\<lambda>x. x\<lparr>ia_status := IndSuperseded\<rparr>) (re_individuals r)
        @ [c\<lparr>ia_id := new, ia_revision := ia_revision o' + 1\<rparr>])"
  by (simp add: put_individual_def Let_def split: option.splits)

lemma live_individual_upd [simp]:
  "\<not> live_individual ck kk m (x\<lparr>ia_status := IndSuperseded\<rparr>)"
  "live_individual ck kk m (x\<lparr>ia_id := a, ia_revision := b\<rparr>) = live_individual ck kk m x"
  by (simp_all add: live_individual_def)

lemma put_individual_inv:
  assumes inv: "inv_individuals (re_individuals r)" and new: "new \<notin> set (map ia_id (re_individuals r))"
    and c: "0 \<le> ia_normalized c"
  shows "inv_individuals (re_individuals (put_individual new c r))"
proof -
  let ?xs = "re_individuals r"
  let ?live = "live_individual (ia_component_key c) (ia_criterion_key c) (ia_assessor c)"
  have one: "at_most_one (live_individual ck kk m) ?xs" for ck kk m
    using inv by (simp add: inv_individuals_def)
  show ?thesis
  proof (cases "max_by ia_revision (filter ?live ?xs)")
    case None
    then have none: "\<not> ?live x" if "x \<in> set ?xs" for x using that by (simp add: filter_empty_conv)
    have "\<not> live_individual ck kk m x" if "x \<in> set ?xs" "live_individual ck kk m c" for ck kk m x
      using none[OF that(1)] that(2) by (auto simp: live_individual_def)
    then show ?thesis using inv new c None one
      by (auto simp: put_individual_rows inv_individuals_def at_most_one_snoc)
  next
    case (Some o')
    then have o': "o' \<in> set ?xs" "?live o'" using max_by_Some_mem[OF Some] by auto
    let ?ys = "upd_row ia_id (ia_id o') (\<lambda>x. x\<lparr>ia_status := IndSuperseded\<rparr>) ?xs"
    let ?new = "c\<lparr>ia_id := new, ia_revision := ia_revision o' + 1\<rparr>"
    have gone: "\<not> ?live x" if "x \<in> set ?ys" for x
      using that at_most_one_unique[OF one _ o'(1) _ o'(2)] by (auto simp: set_upd_row)
    have "\<not> live_individual ck kk m x" if "x \<in> set ?ys" "live_individual ck kk m c" for ck kk m x
      using gone[OF that(1)] that(2) by (auto simp: live_individual_def)
    moreover have "at_most_one (live_individual ck kk m) ?ys" for ck kk m
      by (rule at_most_one_upd_row[OF one]) simp_all
    ultimately have "at_most_one (live_individual ck kk m) (?ys @ [?new])" for ck kk m
      by (simp add: at_most_one_snoc)
    moreover have "distinct (map ia_id (?ys @ [?new]))"
      by (rule distinct_key_snoc) (use inv new in \<open>auto simp: inv_individuals_def\<close>)
    moreover have "\<forall>x \<in> set (?ys @ [?new]). 0 \<le> ia_normalized x"
      using inv c by (auto simp: inv_individuals_def set_upd_row)
    ultimately show ?thesis using Some by (simp add: put_individual_rows inv_individuals_def)
  qed
qed

subsection \<open>Committee assessments\<close>

definition vote_ok :: "int list \<Rightarrow> vote \<Rightarrow> bool" where
  "vote_ok members v \<longleftrightarrow> distinct members \<and> distinct (v_yes v @ v_no v @ v_abstain v)
     \<and> set (v_yes v @ v_no v @ v_abstain v) = set members \<and> length (v_no v) < length (v_yes v)"

definition inv_components :: "comp_assessment list \<Rightarrow> bool" where
  "inv_components xs \<longleftrightarrow> distinct (map ca_id xs)
     \<and> (\<forall>k. at_most_one (\<lambda>x. ca_component_key x = k \<and> ca_status x = Current) xs)
     \<and> (\<forall>x \<in> set xs. 0 \<le> ca_points x \<and> ca_points x \<le> 100 \<and> vote_ok (ca_participants x) (ca_vote x))"

lemma put_component_rows: "re_components (put_component new c r) =
    (case List.find (\<lambda>x. ca_component_key x = ca_component_key c \<and> ca_status x = Current)
        (re_components r) of None \<Rightarrow> re_components r
     | Some o' \<Rightarrow> upd_row ca_id (ca_id o') (\<lambda>x. x\<lparr>ca_status := Superseded\<rparr>) (re_components r))
    @ [c\<lparr>ca_id := new, ca_status := Current, ca_participants := sort (ca_participants c)\<rparr>]"
  by (simp add: put_component_def Let_def split: option.splits)

lemma vote_ok_sort [simp]: "vote_ok (sort ms) v = vote_ok ms v"
  by (simp add: vote_ok_def)

lemma put_component_inv:
  assumes inv: "inv_components (re_components r)" and new: "new \<notin> set (map ca_id (re_components r))"
    and c: "0 \<le> ca_points c" "ca_points c \<le> 100" "vote_ok (ca_participants c) (ca_vote c)"
  shows "inv_components (re_components (put_component new c r))"
proof -
  let ?xs = "re_components r" and ?cur = "\<lambda>k x. ca_component_key x = k \<and> ca_status x = Current"
  have one: "at_most_one (?cur k) ?xs" for k using inv by (simp add: inv_components_def)
  show ?thesis
  proof (cases "List.find (?cur (ca_component_key c)) ?xs")
    case None
    then have "\<forall>x \<in> set ?xs. \<not> ?cur (ca_component_key c) x" by (auto simp: find_None_iff)
    then show ?thesis using inv new c
      by (auto simp: put_component_rows None inv_components_def at_most_one_snoc)
  next
    case (Some o')
    note o' = find_Some_mem[OF Some] find_Some_P[OF Some]
    let ?ys = "upd_row ca_id (ca_id o') (\<lambda>x. x\<lparr>ca_status := Superseded\<rparr>) ?xs"
    let ?new = "c\<lparr>ca_id := new, ca_status := Current, ca_participants := sort (ca_participants c)\<rparr>"
    have gone: "\<not> ?cur (ca_component_key c) x" if "x \<in> set ?ys" for x
      using that at_most_one_unique[OF one _ o'(1) _ o'(2)] by (auto simp: set_upd_row)
    have "at_most_one (?cur k) ?ys" for k by (rule at_most_one_upd_row[OF one]) simp_all
    with gone have "at_most_one (?cur k) (?ys @ [?new])" for k by (auto simp: at_most_one_snoc)
    moreover have "distinct (map ca_id (?ys @ [?new]))"
      by (rule distinct_key_snoc) (use inv new in \<open>auto simp: inv_components_def\<close>)
    moreover have "\<forall>x \<in> set (?ys @ [?new]). 0 \<le> ca_points x \<and> ca_points x \<le> 100
        \<and> vote_ok (ca_participants x) (ca_vote x)"
      using inv c by (auto simp: inv_components_def set_upd_row)
    ultimately show ?thesis using Some by (simp add: put_component_rows inv_components_def)
  qed
qed

subsection \<open>External results\<close>

definition active :: "string \<Rightarrow> ext_result \<Rightarrow> bool" where
  "active k x \<longleftrightarrow> ex_area_key x = k \<and> ex_status x \<noteq> Replaced"

definition inv_externals :: "ext_result list \<Rightarrow> bool" where
  "inv_externals xs \<longleftrightarrow> distinct (map ex_id xs)
     \<and> (\<forall>k. at_most_one (active k) xs)
     \<and> (\<forall>x \<in> set xs. ex_status x = Replaced \<longrightarrow>
          (\<exists>y \<in> set xs. active (ex_area_key x) y \<and> ex_revision x < ex_revision y))
     \<and> (\<forall>x \<in> set xs. 0 \<le> ex_points x \<and> ex_points x \<le> 100)
     \<and> (\<forall>x \<in> set xs. ex_status x = Confirmed \<longrightarrow>
          (\<exists>m. ex_confirmed_by x = Some m \<and> m \<noteq> ex_recorded_by x))"

lemma inv_externalsD:
  assumes "inv_externals xs"
  shows "distinct (map ex_id xs)" "at_most_one (active k) xs"
    "x \<in> set xs \<Longrightarrow> ex_status x = Replaced \<Longrightarrow>
       \<exists>y \<in> set xs. active (ex_area_key x) y \<and> ex_revision x < ex_revision y"
    "x \<in> set xs \<Longrightarrow> 0 \<le> ex_points x \<and> ex_points x \<le> 100"
    "x \<in> set xs \<Longrightarrow> ex_status x = Confirmed \<Longrightarrow> \<exists>m. ex_confirmed_by x = Some m \<and> m \<noteq> ex_recorded_by x"
  using assms unfolding inv_externals_def by blast+

lemma put_external_rows: "re_externals (put_external new c r) =
    (case max_by ex_revision (filter (\<lambda>x. ex_area_key x = ex_area_key c) (re_externals r)) of
       None \<Rightarrow> re_externals r
     | Some o' \<Rightarrow> upd_row ex_id (ex_id o') (\<lambda>x. x\<lparr>ex_status := Replaced\<rparr>) (re_externals r))
    @ [c\<lparr>ex_id := new, ex_status := Unconfirmed, ex_confirmed_by := None, ex_confirmed_at := None\<rparr>]"
  by (simp add: put_external_def Let_def split: option.splits)

text \<open>The row with the greatest revision of an area is its active row.\<close>

lemma newest_external_active:
  assumes "inv_externals xs" "max_by ex_revision (filter (\<lambda>x. ex_area_key x = k) xs) = Some x"
  shows "x \<in> set xs" "active k x"
proof -
  have x: "x \<in> set xs" "ex_area_key x = k" using max_by_Some_mem[OF assms(2)] by auto
  then show "x \<in> set xs" by simp
  show "active k x"
  proof (rule ccontr)
    assume "\<not> active k x"
    with x assms(1) obtain y where y: "y \<in> set xs" "active k y" "ex_revision x < ex_revision y"
      by (auto simp: inv_externals_def active_def)
    then have "ex_revision y \<le> ex_revision x"
      using max_by_Some_ge[OF assms(2)] by (simp add: active_def)
    with y(3) show False by simp
  qed
qed

lemma put_external_inv:
  assumes inv: "inv_externals (re_externals r)" and new: "new \<notin> set (map ex_id (re_externals r))"
    and c: "0 \<le> ex_points c" "ex_points c \<le> 100"
    and later: "\<And>x. x \<in> set (re_externals r) \<Longrightarrow> active (ex_area_key c) x \<Longrightarrow> ex_revision x < ex_revision c"
  shows "inv_externals (re_externals (put_external new c r))"
proof -
  let ?xs = "re_externals r" and ?k = "ex_area_key c"
  let ?new = "c\<lparr>ex_id := new, ex_status := Unconfirmed, ex_confirmed_by := None, ex_confirmed_at := None\<rparr>"
  have one: "at_most_one (active k) ?xs" for k using inv by (simp add: inv_externals_def)
  show ?thesis
  proof (cases "max_by ex_revision (filter (\<lambda>x. ex_area_key x = ?k) ?xs)")
    case None
    then have "\<forall>x \<in> set ?xs. \<not> active ?k x" by (auto simp: filter_empty_conv active_def)
    then have "at_most_one (active k) (?xs @ [?new])" for k
      using one[of k] by (auto simp: at_most_one_snoc active_def)
    then show ?thesis using inv new c
      by (auto simp: put_external_rows None inv_externals_def)
  next
    case (Some o')
    note o' = newest_external_active[OF inv Some]
    let ?ys = "upd_row ex_id (ex_id o') (\<lambda>x. x\<lparr>ex_status := Replaced\<rparr>) ?xs"
    have ys: "x \<in> set ?ys \<longleftrightarrow> x = o'\<lparr>ex_status := Replaced\<rparr> \<or> (x \<in> set ?xs \<and> x \<noteq> o')" for x
      by (rule mem_upd_row[OF inv_externalsD(1)[OF inv] o'(1)])
    have gone: "\<not> active ?k x" if "x \<in> set ?ys" for x
      using that at_most_one_unique[OF one _ o'(1) _ o'(2)] by (auto simp: ys active_def)
    have "at_most_one (active k) ?ys" for k
      by (rule at_most_one_upd_row[OF one]) (simp_all add: active_def)
    with gone have "at_most_one (active k) (?ys @ [?new])" for k
      by (auto simp: at_most_one_snoc active_def)
    moreover have "distinct (map ex_id (?ys @ [?new]))"
      by (rule distinct_key_snoc) (use inv new in \<open>auto simp: inv_externals_def\<close>)
    moreover have "\<exists>y \<in> set (?ys @ [?new]). active (ex_area_key x) y \<and> ex_revision x < ex_revision y"
      if x: "x \<in> set (?ys @ [?new])" "ex_status x = Replaced" for x
    proof (cases "ex_area_key x = ?k")
      case True
      have "x = o'\<lparr>ex_status := Replaced\<rparr> \<or> x \<in> set ?xs" using x by (auto simp: ys)
      then have "\<exists>z \<in> set ?xs. active ?k z \<and> ex_revision x \<le> ex_revision z"
      proof
        assume "x = o'\<lparr>ex_status := Replaced\<rparr>"
        then show ?thesis using o' by (intro bexI[of _ o']) auto
      next
        assume "x \<in> set ?xs"
        with inv_externalsD(3)[OF inv this x(2)] True show ?thesis by (auto intro: less_imp_le)
      qed
      with later have "ex_revision x < ex_revision c" by fastforce
      with True show ?thesis by (auto simp: active_def)
    next
      case False
      with x o' have "x \<in> set ?xs" by (auto simp: ys active_def)
      with x(2) inv obtain y where "y \<in> set ?xs" "active (ex_area_key x) y" "ex_revision x < ex_revision y"
        by (auto simp: inv_externals_def)
      moreover from this False o' have "y \<noteq> o'" by (auto simp: active_def)
      ultimately show ?thesis by (auto simp: ys)
    qed
    moreover have "\<forall>x \<in> set (?ys @ [?new]). 0 \<le> ex_points x \<and> ex_points x \<le> 100"
      using inv c o' by (auto simp: inv_externals_def ys)
    moreover have "\<forall>x \<in> set (?ys @ [?new]). ex_status x = Confirmed \<longrightarrow>
        (\<exists>m. ex_confirmed_by x = Some m \<and> m \<noteq> ex_recorded_by x)"
      using inv by (auto simp: inv_externals_def ys)
    ultimately show ?thesis using Some by (simp add: put_external_rows inv_externals_def)
  qed
qed

definition confirm_row :: "int \<Rightarrow> int \<Rightarrow> string \<Rightarrow> ext_result list \<Rightarrow> ext_result list" where
  "confirm_row ext m now xs = upd_row ex_id ext
     (\<lambda>x. x\<lparr>ex_status := Confirmed, ex_confirmed_by := Some m, ex_confirmed_at := Some now\<rparr>) xs"

lemma confirm_row_inv:
  assumes inv: "inv_externals xs" and x: "x \<in> set xs" "ex_id x = ext" "ex_status x = Unconfirmed"
    and m: "m \<noteq> ex_recorded_by x"
  shows "inv_externals (confirm_row ext m now xs)"
proof -
  let ?f = "\<lambda>x. x\<lparr>ex_status := Confirmed, ex_confirmed_by := Some m, ex_confirmed_at := Some now\<rparr>"
  let ?ys = "upd_row ex_id ext ?f xs"
  have uniq: "y = x" if "y \<in> set xs" "ex_id y = ext" for y
    using inj_onD[of ex_id "set xs" y x] inv_externalsD(1)[OF inv] that x by (simp add: distinct_map)
  have ys: "y \<in> set ?ys \<longleftrightarrow> y = ?f x \<or> (y \<in> set xs \<and> y \<noteq> x)" for y
    using mem_upd_row[OF inv_externalsD(1)[OF inv] x(1), of y ?f] x(2) by simp
  have "at_most_one (active k) ?ys" for k
  proof -
    have "at_most_one (active k) (map (\<lambda>y. if ex_id y = ext then ?f y else y) xs)"
      by (rule at_most_one_mono[where P = "active k"])
        (use inv uniq x(3) in \<open>auto simp: inv_externals_def active_def split: if_splits\<close>)
    then show ?thesis by (simp add: upd_row_def)
  qed
  moreover have "\<exists>z \<in> set ?ys. active (ex_area_key y) z \<and> ex_revision y < ex_revision z"
    if y: "y \<in> set ?ys" "ex_status y = Replaced" for y
  proof -
    from y inv obtain z where z: "z \<in> set xs" "active (ex_area_key y) z" "ex_revision y < ex_revision z"
      by (auto simp: ys inv_externals_def)
    show ?thesis
    proof (cases "z = x")
      case True
      with z x show ?thesis by (intro bexI[of _ "?f x"]) (auto simp: ys active_def)
    next
      case False
      with z show ?thesis by (intro bexI[of _ z]) (auto simp: ys)
    qed
  qed
  moreover have "distinct (map ex_id ?ys)"
    using inv_externalsD(1)[OF inv] by (subst map_key_upd_row) simp_all
  moreover have "\<forall>y \<in> set ?ys. 0 \<le> ex_points y \<and> ex_points y \<le> 100"
    using inv_externalsD(4)[OF inv] x(1) by (auto simp: ys)
  moreover have "\<forall>y \<in> set ?ys. ex_status y = Confirmed \<longrightarrow>
      (\<exists>m. ex_confirmed_by y = Some m \<and> m \<noteq> ex_recorded_by y)"
    using inv_externalsD(5)[OF inv] m by (auto simp: ys)
  ultimately show ?thesis by (simp add: inv_externals_def confirm_row_def)
qed

subsection \<open>Determinations, corrections, communications\<close>

text \<open>
  Determinations are a numbered history whose last entry, and only that one, is current.
\<close>

definition history :: "determination list \<Rightarrow> bool" where
  "history ds \<longleftrightarrow> distinct (map rd_id ds)
     \<and> map rd_revision ds = map int [1..<Suc (length ds)]
     \<and> (\<forall>d \<in> set (butlast ds). rd_status d = Superseded)
     \<and> (ds \<noteq> [] \<longrightarrow> rd_status (last ds) = Current)
     \<and> (\<forall>d \<in> set ds. vote_ok (rd_participants d) (rd_vote d))"

lemma history_at_most_one: "history ds \<Longrightarrow> at_most_one (\<lambda>d. rd_status d = Current) ds"
  by (cases ds rule: rev_cases) (auto simp: history_def at_most_one_snoc)

lemma history_find: "history ds \<Longrightarrow>
    List.find (\<lambda>d. rd_status d = Current) ds = (if ds = [] then None else Some (last ds))"
proof (cases ds rule: rev_cases)
  case (snoc xs d)
  assume h: "history ds"
  then have "rd_status d = Current" using snoc by (simp add: history_def)
  then have "List.find (\<lambda>d. rd_status d = Current) ds \<noteq> None" using snoc by (auto simp: find_None_iff)
  then obtain e where e: "List.find (\<lambda>d. rd_status d = Current) ds = Some e" by blast
  have "e = d" by (rule at_most_one_unique[OF history_at_most_one[OF h]])
    (use find_Some_mem[OF e] find_Some_P[OF e] snoc \<open>rd_status d = Current\<close> in auto)
  with e snoc show ?thesis by simp
qed simp

lemma history_supersede:
  assumes "history ds" "ds \<noteq> []"
  shows "upd_row rd_id (rd_id (last ds)) (\<lambda>x. x\<lparr>rd_status := Superseded\<rparr>) ds =
    map (\<lambda>x. x\<lparr>rd_status := Superseded\<rparr>) ds"
proof -
  from assms(2) obtain xs d where ds: "ds = xs @ [d]" by (metis rev_exhaust)
  have d: "rd_id d \<notin> rd_id ` set xs" and xs: "\<forall>x \<in> set xs. rd_status x = Superseded"
    using assms(1) ds by (auto simp: history_def)
  from d have "\<forall>x \<in> set xs. rd_id x \<noteq> rd_id d" by (metis imageI)
  with xs show ?thesis using ds by (auto simp: upd_row_def)
qed

lemma history_snoc:
  assumes "history ds" "new \<notin> set (map rd_id ds)" "rd_revision c = int (length ds) + 1"
    and "vote_ok (rd_participants c) (rd_vote c)" "rd_id c = new" "rd_status c = Current"
  shows "history (map (\<lambda>x. x\<lparr>rd_status := Superseded\<rparr>) ds @ [c])"
  using assms by (auto simp: history_def comp_def)

lemma history_last_revision: "history ds \<Longrightarrow> ds \<noteq> [] \<Longrightarrow> rd_revision (last ds) = int (length ds)"
proof -
  assume h: "history ds" "ds \<noteq> []"
  have "rd_revision (last ds) = last (map rd_revision ds)" using h(2) by (simp add: last_map)
  also have "\<dots> = last (map int [1..<Suc (length ds)])" using h(1) by (simp add: history_def)
  also have "\<dots> = int (length ds)" using h(2) by (cases ds rule: rev_cases) simp_all
  finally show ?thesis .
qed

text \<open>
  The decision part of a result: the state column, the correction flag and the histories agree.
\<close>

definition inv_decision :: "result_state \<Rightarrow> determination list \<Rightarrow> calculation list \<Rightarrow> bool" where
  "inv_decision st ds cs \<longleftrightarrow> history ds \<and> (st \<in> {Determined, Communicated} \<longleftrightarrow> ds \<noteq> [])
     \<and> (\<forall>d \<in> set ds. rd_calculation_id d \<in> set (map rc_id cs))"

definition inv_corrections :: "bool \<Rightarrow> determination list \<Rightarrow> correction list \<Rightarrow> bool" where
  "inv_corrections op ds xs \<longleftrightarrow> distinct (map rx_id xs)
     \<and> at_most_one (\<lambda>x. rx_status x = CorrOpen) xs
     \<and> (op \<longleftrightarrow> (\<exists>x \<in> set xs. rx_status x = CorrOpen)) \<and> (op \<longrightarrow> ds \<noteq> [])"

definition inv_communications :: "result_state \<Rightarrow> determination list \<Rightarrow> communication list \<Rightarrow> bool" where
  "inv_communications st ds ms \<longleftrightarrow> at_most_one (\<lambda>x. rm_status x = CommCurrent) ms
     \<and> (\<forall>x \<in> set ms. rm_status x = CommCurrent \<longrightarrow> ds \<noteq> [] \<and> rm_determination_id x = rd_id (last ds))
     \<and> (st = Communicated \<longleftrightarrow> (\<exists>x \<in> set ms. rm_status x = CommCurrent))"

text \<open>Nobody signs a determination without having taken part, and none is announced unsigned.\<close>

definition signed_by :: "confirmation list \<Rightarrow> int \<Rightarrow> int set" where
  "signed_by fs d = rf_member ` {f \<in> set fs. rf_determination_id f = d}"

definition inv_record :: "determination list \<Rightarrow> confirmation list \<Rightarrow> communication list \<Rightarrow> bool" where
  "inv_record ds fs ms \<longleftrightarrow>
     (\<forall>f \<in> set fs. \<exists>d \<in> set ds. rd_id d = rf_determination_id f \<and> rf_member f \<in> set (rd_participants d))
     \<and> (\<forall>x \<in> set ms. \<exists>d \<in> set ds. rd_id d = rm_determination_id x
          \<and> set (rd_participants d) \<subseteq> signed_by fs (rd_id d))"

definition inv_exports :: "determination list \<Rightarrow> result_export list \<Rightarrow> bool" where
  "inv_exports ds es \<longleftrightarrow> (\<forall>x \<in> set es. xp_status x = ExpDetermined \<longrightarrow>
     ds \<noteq> [] \<and> xp_determination_id x = Some (rd_id (last ds)))"

lemma set_confirmed_by: "set (confirmed_by r d) = signed_by (re_confirmations r) d"
  by (auto simp: confirmed_by_def signed_by_def)

definition inv_calculations :: "calculation list \<Rightarrow> bool" where
  "inv_calculations cs \<longleftrightarrow> distinct (map rc_id cs) \<and> distinct (map rc_fingerprint cs)"

definition result_inv :: "result \<Rightarrow> bool" where
  "result_inv r \<longleftrightarrow> inv_individuals (re_individuals r) \<and> inv_components (re_components r)
     \<and> inv_externals (re_externals r)
     \<and> inv_decision (re_state r) (re_determinations r) (re_calculations r)
     \<and> inv_corrections (re_correction_open r) (re_determinations r) (re_corrections r)
     \<and> inv_communications (re_state r) (re_determinations r) (re_communications r)
     \<and> inv_record (re_determinations r) (re_confirmations r) (re_communications r)
     \<and> inv_exports (re_determinations r) (re_exports r)
     \<and> inv_calculations (re_calculations r) \<and> wf_rules (mo_rules (re_model r))"

lemma result_inv_history: "result_inv r \<Longrightarrow> history (re_determinations r)"
  by (simp add: result_inv_def inv_decision_def)

lemma current_determination_last: "result_inv r \<Longrightarrow> current_determination r =
    (if re_determinations r = [] then None else Some (last (re_determinations r)))"
  by (simp add: current_determination_def history_find result_inv_history)

lemma has_determination_iff: "result_inv r \<Longrightarrow> has_determination r \<longleftrightarrow> re_determinations r \<noteq> []"
  using current_determination_last[of r]
  by (auto simp: has_determination_def current_determination_def list_ex_iff find_None_iff
      split: if_splits dest: find_Some_mem find_Some_P)

lemma put_calculation_inv:
  assumes "inv_calculations (re_calculations r)" "new \<notin> set (map rc_id (re_calculations r))"
  shows "inv_calculations (re_calculations (put_calculation new c r))"
  using assms by (auto simp: put_calculation_def inv_calculations_def list_ex_iff)

end
