(* ===== verification/Assess_Machine.thy ===== *)
theory Assess_Machine
  imports Assess_Inv
begin

text \<open>
  The abstract exam result: what may happen to one stored result, as a transition relation with the
  professional guards and without requests, actors or tables of other results. \<open>rstep_inv\<close> shows by
  rule induction that every transition keeps \<^const>\<open>result_inv\<close>; \<open>Assess_Sim\<close> shows that the service
  methods only ever make these transitions.
\<close>

definition claimed :: "result_state option \<Rightarrow> result \<Rightarrow> result" where
  "claimed s r = r\<lparr>re_version := re_version r + 1,
     re_state := (case s of None \<Rightarrow> re_state r | Some s \<Rightarrow> s)\<rparr>"

definition inputs_mutable :: "result \<Rightarrow> bool" where
  "inputs_mutable r \<longleftrightarrow> re_state r \<notin> {Determined, Communicated} \<or> re_correction_open r"

definition retention_kept :: "retention option \<Rightarrow> retention \<Rightarrow> bool" where
  "retention_kept old c \<longleftrightarrow> (case old of None \<Rightarrow> True | Some o' \<Rightarrow>
     (case rr_retain_until o' of None \<Rightarrow> True | Some t \<Rightarrow>
        (case rr_retain_until c of None \<Rightarrow> False | Some u \<Rightarrow> t \<le> u))
     \<and> (rr_legal_hold o' \<and> \<not> rr_legal_hold c \<longrightarrow> rr_hold_reason c \<noteq> None))"

inductive rstep :: "result \<Rightarrow> result \<Rightarrow> bool" where
  individual: "inputs_mutable r \<Longrightarrow> new \<notin> set (map ia_id (re_individuals r)) \<Longrightarrow> 0 \<le> ia_normalized c \<Longrightarrow>
    rstep r (put_individual new c (claimed None r))"
| calculation: "new \<notin> set (map rc_id (re_calculations r)) \<Longrightarrow>
    s = (if has_determination r then re_state r else CalculationReady) \<Longrightarrow>
    rstep r (put_calculation new c (claimed (Some s) r))"
| readiness: "\<not> has_determination r \<Longrightarrow> s \<in> {Incomplete, CalculationReady} \<Longrightarrow>
    rstep r (r\<lparr>re_state := s\<rparr>)"
| disclosure: "inputs_mutable r \<Longrightarrow>
    rstep r ((claimed None r)\<lparr>re_disclosures := re_disclosures r @ [d]\<rparr>)"
| committee: "inputs_mutable r \<Longrightarrow> new \<notin> set (map ca_id (re_components r)) \<Longrightarrow>
    0 \<le> ca_points k \<Longrightarrow> ca_points k \<le> 100 \<Longrightarrow> vote_ok (ca_participants k) (ca_vote k) \<Longrightarrow>
    rstep r (put_component new k (claimed None r))"
| external: "inputs_mutable r \<Longrightarrow> new \<notin> set (map ex_id (re_externals r)) \<Longrightarrow>
    s = re_state r \<or> (s = Incomplete \<and> \<not> has_determination r) \<Longrightarrow>
    0 \<le> ex_points x \<Longrightarrow> ex_points x \<le> 100 \<Longrightarrow>
    (\<And>y. y \<in> set (re_externals r) \<Longrightarrow> active (ex_area_key x) y \<Longrightarrow> ex_revision y < ex_revision x) \<Longrightarrow>
    rstep r (put_external new x (claimed (Some s) r))"
| external_confirmed: "inputs_mutable r \<Longrightarrow> x \<in> set (re_externals r) \<Longrightarrow> ex_status x = Unconfirmed \<Longrightarrow>
    m \<noteq> ex_recorded_by x \<Longrightarrow>
    rstep r ((claimed None r)\<lparr>re_externals := confirm_row (ex_id x) m now (re_externals r)\<rparr>)"
| determination: "inputs_mutable r \<Longrightarrow> new \<notin> set (map rd_id (re_determinations r)) \<Longrightarrow>
    rd_revision t = int (length (re_determinations r)) + 1 \<Longrightarrow>
    rd_calculation_id t \<in> set (map rc_id (re_calculations r)) \<Longrightarrow>
    vote_ok (rd_participants t) (rd_vote t) \<Longrightarrow>
    rd_correction_id t = map_option rx_id (open_correction_of r) \<Longrightarrow>
    rstep r (put_determination new t (claimed (Some Determined) r))"
| confirmation: "re_determinations r \<noteq> [] \<Longrightarrow> \<not> re_correction_open r \<Longrightarrow>
    rf_determination_id f = rd_id (last (re_determinations r)) \<Longrightarrow>
    rf_member f \<in> set (rd_participants (last (re_determinations r))) \<Longrightarrow>
    rstep r ((claimed None r)\<lparr>re_confirmations := re_confirmations r @ [f]\<rparr>)"
| correction: "re_determinations r \<noteq> [] \<Longrightarrow> open_correction_of r = None \<Longrightarrow>
    new \<notin> set (map rx_id (re_corrections r)) \<Longrightarrow>
    rstep r (put_correction new q (claimed None r))"
| reopening: "open_correction_of r \<noteq> None \<Longrightarrow>
    rstep r ((claimed None r)\<lparr>re_correction_open := True\<rparr>)"
| communication: "re_determinations r \<noteq> [] \<Longrightarrow> \<not> re_correction_open r \<Longrightarrow>
    rm_determination_id n = rd_id (last (re_determinations r)) \<Longrightarrow>
    set (rd_participants (last (re_determinations r)))
      \<subseteq> signed_by (re_confirmations r) (rd_id (last (re_determinations r))) \<Longrightarrow>
    rstep r (put_communication new n (claimed (Some Communicated) r))"
| retention: "retention_kept (re_retention r) t' \<Longrightarrow>
    rstep r ((claimed None r)\<lparr>re_retention := Some t'\<rparr>)"
| export: "(xp_status p = ExpDetermined \<longrightarrow> re_determinations r \<noteq> []
      \<and> xp_determination_id p = Some (rd_id (last (re_determinations r)))) \<Longrightarrow>
    rstep r (r\<lparr>re_exports := re_exports r @ [p]\<rparr>)"
| days: "rstep r (r\<lparr>re_days := ds\<rparr>)"
| participants: "rstep r (r\<lparr>re_participants := ps\<rparr>)"

inductive_simps rstep_from: "rstep r r'"

lemma claimed_simps [simp]:
  "re_version (claimed s r) = re_version r + 1"
  "re_state (claimed s r) = (case s of None \<Rightarrow> re_state r | Some s \<Rightarrow> s)"
  "re_id (claimed s r) = re_id r" "re_model (claimed s r) = re_model r"
  "re_individuals (claimed s r) = re_individuals r" "re_components (claimed s r) = re_components r"
  "re_externals (claimed s r) = re_externals r" "re_calculations (claimed s r) = re_calculations r"
  "re_determinations (claimed s r) = re_determinations r"
  "re_confirmations (claimed s r) = re_confirmations r"
  "re_corrections (claimed s r) = re_corrections r"
  "re_communications (claimed s r) = re_communications r"
  "re_exports (claimed s r) = re_exports r" "re_correction_open (claimed s r) = re_correction_open r"
  "re_disclosures (claimed s r) = re_disclosures r" "re_retention (claimed s r) = re_retention r"
  "re_days (claimed s r) = re_days r" "re_participants (claimed s r) = re_participants r"
  "re_legacy (claimed s r) = re_legacy r" "re_committee_id (claimed s r) = re_committee_id r"
  "re_round_candidate_id (claimed s r) = re_round_candidate_id r"
  by (simp_all add: claimed_def)

lemma put_versions [simp]:
  "re_version (put_individual a c r) = re_version r"
  "re_version (put_component a k r) = re_version r"
  "re_version (put_external a x r) = re_version r"
  "re_version (put_correction a q r) = re_version r"
  "re_version (put_communication a n r) = re_version r"
  "re_version (put_determination a t r) = re_version r"
  by (simp_all add: put_individual_def put_component_def put_external_def put_correction_def
      put_communication_def put_determination_def supersede_determination_def Let_def
      split: option.splits)

subsection \<open>Every transition keeps the invariant\<close>

lemma inv_decision_state:
  assumes "result_inv r" "s = re_state r \<or> (s \<in> {Incomplete, CalculationReady} \<and> \<not> has_determination r)"
  shows "inv_decision s (re_determinations r) (re_calculations r)"
    "inv_communications s (re_determinations r) (re_communications r)"
proof -
  have "s = re_state r \<or> (s \<in> {Incomplete, CalculationReady} \<and> re_determinations r = [])"
    using assms has_determination_iff by blast
  with assms(1) show "inv_decision s (re_determinations r) (re_calculations r)"
    "inv_communications s (re_determinations r) (re_communications r)"
    by (auto simp: result_inv_def inv_decision_def inv_communications_def)
qed

lemma put_calculation_frame [simp]:
  "re_individuals (put_calculation a c r) = re_individuals r"
  "re_components (put_calculation a c r) = re_components r"
  "re_externals (put_calculation a c r) = re_externals r"
  "re_corrections (put_calculation a c r) = re_corrections r"
  "re_communications (put_calculation a c r) = re_communications r"
  "re_confirmations (put_calculation a c r) = re_confirmations r"
  "re_exports (put_calculation a c r) = re_exports r"
  "re_model (put_calculation a c r) = re_model r"
  "re_correction_open (put_calculation a c r) = re_correction_open r"
  "re_id (put_calculation a c r) = re_id r"
  "re_version (put_calculation a c r) = re_version r"
  "re_retention (put_calculation a c r) = re_retention r"
  "re_disclosures (put_calculation a c r) = re_disclosures r"
  "re_state (put_calculation a c r) = re_state r"
  "re_determinations (put_calculation a c r) = re_determinations r"
  "set (re_calculations r) \<subseteq> set (re_calculations (put_calculation a c r))"
  by (auto simp: put_calculation_def)

lemma inv_decision_mono:
  "inv_decision s ds cs \<Longrightarrow> set cs \<subseteq> set cs' \<Longrightarrow> inv_decision s ds cs'"
  unfolding inv_decision_def by fastforce

lemma rstep_calculation_inv:
  assumes "result_inv r" "new \<notin> set (map rc_id (re_calculations r))"
    and s: "s = (if has_determination r then re_state r else CalculationReady)"
  shows "result_inv (put_calculation new c (claimed (Some s) r))"
proof -
  let ?r = "put_calculation new c (claimed (Some s) r)"
  have s': "s = re_state r \<or> (s \<in> {Incomplete, CalculationReady} \<and> \<not> has_determination r)"
    using s by auto
  have "inv_decision s (re_determinations r) (re_calculations ?r)"
    using inv_decision_mono[OF inv_decision_state(1)[OF assms(1) s']] put_calculation_frame(16)[of "claimed (Some s) r"]
    by simp
  moreover have "inv_calculations (re_calculations ?r)"
    by (rule put_calculation_inv) (use assms in \<open>auto simp: result_inv_def\<close>)
  ultimately show ?thesis using assms(1) inv_decision_state(2)[OF assms(1) s']
    by (simp add: result_inv_def)
qed

text \<open>A new determination supersedes the old one with its announcement and its exports.\<close>

lemma supersede_rows:
  assumes "result_inv r"
  shows "re_determinations (supersede_determination r) =
      map (\<lambda>x. x\<lparr>rd_status := Superseded\<rparr>) (re_determinations r)"
    and "\<forall>x \<in> set (re_communications (supersede_determination r)). rm_status x \<noteq> CommCurrent"
    and "\<forall>x \<in> set (re_exports (supersede_determination r)). xp_status x \<noteq> ExpDetermined"
    and "map rm_determination_id (re_communications (supersede_determination r)) =
      map rm_determination_id (re_communications r)"
proof -
  have cur: "current_determination r =
      (if re_determinations r = [] then None else Some (last (re_determinations r)))"
    by (rule current_determination_last[OF assms])
  show "re_determinations (supersede_determination r) =
      map (\<lambda>x. x\<lparr>rd_status := Superseded\<rparr>) (re_determinations r)"
    using history_supersede[OF result_inv_history[OF assms]]
    by (simp add: supersede_determination_def cur)
  show "\<forall>x \<in> set (re_communications (supersede_determination r)). rm_status x \<noteq> CommCurrent"
    using assms by (auto simp: supersede_determination_def cur result_inv_def inv_communications_def)
  show "\<forall>x \<in> set (re_exports (supersede_determination r)). xp_status x \<noteq> ExpDetermined"
    using assms by (auto simp: supersede_determination_def cur result_inv_def inv_exports_def)
  show "map rm_determination_id (re_communications (supersede_determination r)) =
      map rm_determination_id (re_communications r)"
    by (simp add: supersede_determination_def split: option.splits)
qed

lemma supersede_frame [simp]:
  "re_individuals (supersede_determination r) = re_individuals r"
  "re_components (supersede_determination r) = re_components r"
  "re_externals (supersede_determination r) = re_externals r"
  "re_calculations (supersede_determination r) = re_calculations r"
  "re_corrections (supersede_determination r) = re_corrections r"
  "re_confirmations (supersede_determination r) = re_confirmations r"
  "re_model (supersede_determination r) = re_model r"
  "re_state (supersede_determination r) = re_state r"
  "re_id (supersede_determination r) = re_id r"
  "re_version (supersede_determination r) = re_version r"
  "re_retention (supersede_determination r) = re_retention r"
  "re_disclosures (supersede_determination r) = re_disclosures r"
  by (simp_all add: supersede_determination_def split: option.splits)

lemma completed_corrections:
  assumes "inv_corrections op ds xs" "op' = map_option rx_id (List.find (\<lambda>x. rx_status x = CorrOpen) xs)"
  shows "inv_corrections False ds' (case op' of None \<Rightarrow> xs
    | Some k \<Rightarrow> upd_row rx_id k (\<lambda>x. x\<lparr>rx_status := CorrCompleted, rx_completed_at := t\<rparr>) xs)"
proof (cases "List.find (\<lambda>x. rx_status x = CorrOpen) xs")
  case None
  then have "\<forall>x \<in> set xs. rx_status x \<noteq> CorrOpen" by (auto simp: find_None_iff)
  then show ?thesis using assms None by (auto simp: inv_corrections_def)
next
  case (Some o')
  let ?f = "\<lambda>x. x\<lparr>rx_status := CorrCompleted, rx_completed_at := t\<rparr>"
  have d: "distinct (map rx_id xs)" "at_most_one (\<lambda>x. rx_status x = CorrOpen) xs"
    using assms(1) by (auto simp: inv_corrections_def)
  have "\<forall>x \<in> set (upd_row rx_id (rx_id o') ?f xs). rx_status x \<noteq> CorrOpen"
    using mem_upd_row[OF d(1) find_Some_mem[OF Some], of _ ?f]
      at_most_one_unique[OF d(2) _ find_Some_mem[OF Some] _ find_Some_P[OF Some]] by auto
  moreover have "distinct (map rx_id (upd_row rx_id (rx_id o') ?f xs))"
    using d(1) by (subst map_key_upd_row) simp_all
  moreover have "at_most_one (\<lambda>x. rx_status x = CorrOpen) (upd_row rx_id (rx_id o') ?f xs)"
    by (rule at_most_one_upd_row[OF d(2)]) simp_all
  ultimately show ?thesis using assms(2) Some by (simp add: inv_corrections_def)
qed

lemma inv_record_determinations:
  assumes "inv_record ds fs ms" "map rm_determination_id ms' = map rm_determination_id ms"
    and "\<And>d. d \<in> set ds \<Longrightarrow> \<exists>d' \<in> set ds'. rd_id d' = rd_id d \<and> rd_participants d' = rd_participants d"
  shows "inv_record ds' fs ms'"
proof -
  have ms: "\<exists>y \<in> set ms. rm_determination_id y = rm_determination_id x" if "x \<in> set ms'" for x
    using that assms(2) by (metis (mono_tags, lifting) image_iff list.set_map)
  have f: "\<exists>d \<in> set ds'. rd_id d = rf_determination_id f \<and> rf_member f \<in> set (rd_participants d)"
    if "f \<in> set fs" for f
    using that assms(1,3) unfolding inv_record_def by metis
  have "\<exists>d \<in> set ds'. rd_id d = rm_determination_id x \<and> set (rd_participants d) \<subseteq> signed_by fs (rd_id d)"
    if "x \<in> set ms'" for x
    using ms[OF that] assms(1,3) unfolding inv_record_def by metis
  with f show ?thesis by (simp add: inv_record_def)
qed

lemma put_determination_simps:
  "re_determinations (put_determination new t r) = re_determinations (supersede_determination r) @
     [t\<lparr>rd_id := new, rd_status := Current, rd_participants := sort (rd_participants t)\<rparr>]"
  "re_corrections (put_determination new t r) = (case rd_correction_id t of None \<Rightarrow> re_corrections r
     | Some k \<Rightarrow> upd_row rx_id k (\<lambda>x. x\<lparr>rx_status := CorrCompleted, rx_completed_at := Some (rd_at t)\<rparr>)
         (re_corrections r))"
  "re_correction_open (put_determination new t r) = False"
  "re_communications (put_determination new t r) = re_communications (supersede_determination r)"
  "re_exports (put_determination new t r) = re_exports (supersede_determination r)"
  "re_individuals (put_determination new t r) = re_individuals r"
  "re_components (put_determination new t r) = re_components r"
  "re_externals (put_determination new t r) = re_externals r"
  "re_calculations (put_determination new t r) = re_calculations r"
  "re_confirmations (put_determination new t r) = re_confirmations r"
  "re_model (put_determination new t r) = re_model r"
  "re_state (put_determination new t r) = re_state r"
  "re_id (put_determination new t r) = re_id r"
  "re_version (put_determination new t r) = re_version r"
  "re_retention (put_determination new t r) = re_retention r"
  "re_disclosures (put_determination new t r) = re_disclosures r"
  by (simp_all add: put_determination_def Let_def split: option.splits)

lemma supersede_claimed: "supersede_determination (claimed s r) = claimed s (supersede_determination r)"
  by (simp add: supersede_determination_def current_determination_def claimed_def split: option.splits)

lemma rstep_determination_inv:
  assumes inv: "result_inv r" and new: "new \<notin> set (map rd_id (re_determinations r))"
    and t: "rd_revision t = int (length (re_determinations r)) + 1"
      "rd_calculation_id t \<in> set (map rc_id (re_calculations r))"
      "vote_ok (rd_participants t) (rd_vote t)" "rd_correction_id t = map_option rx_id (open_correction_of r)"
  shows "result_inv (put_determination new t (claimed (Some Determined) r))"
proof -
  let ?new = "t\<lparr>rd_id := new, rd_status := Current, rd_participants := sort (rd_participants t)\<rparr>"
  let ?ds = "map (\<lambda>x. x\<lparr>rd_status := Superseded\<rparr>) (re_determinations r) @ [?new]"
  note rows = supersede_rows[OF inv]
  have "history ?ds" by (rule history_snoc[OF result_inv_history[OF inv] new]) (use t in simp_all)
  then have "inv_decision Determined ?ds (re_calculations r)"
    using inv t(2) by (auto simp: result_inv_def inv_decision_def)
  moreover have "inv_corrections False ?ds (re_corrections (put_determination new t (claimed (Some Determined) r)))"
    unfolding put_determination_simps(2) claimed_simps
    by (rule completed_corrections[where ds = "re_determinations r" and op = "re_correction_open r"])
      (use inv t(4) in \<open>simp_all add: result_inv_def open_correction_of_def\<close>)
  moreover have "inv_communications Determined ?ds (re_communications (supersede_determination r))"
    using rows(2) by (auto simp: inv_communications_def at_most_one_def filter_empty_conv)
  moreover have "inv_record ?ds (re_confirmations r) (re_communications (supersede_determination r))"
    by (rule inv_record_determinations[OF _ rows(4), where ds = "re_determinations r"])
      (use inv in \<open>auto simp: result_inv_def\<close>)
  moreover have "inv_exports ?ds (re_exports (supersede_determination r))"
    using rows(3) by (auto simp: inv_exports_def)
  ultimately show ?thesis using inv rows(1)
    by (simp add: result_inv_def put_determination_simps supersede_claimed)
qed

lemma inv_record_confirm:
  assumes "inv_record ds fs ms" "d \<in> set ds" "rf_determination_id f = rd_id d"
    "rf_member f \<in> set (rd_participants d)"
  shows "inv_record ds (fs @ [f]) ms"
proof -
  have mono: "signed_by fs k \<subseteq> signed_by (fs @ [f]) k" for k by (auto simp: signed_by_def)
  have "\<exists>d \<in> set ds. rd_id d = rm_determination_id x
      \<and> set (rd_participants d) \<subseteq> signed_by (fs @ [f]) (rd_id d)" if "x \<in> set ms" for x
    using that assms(1) mono unfolding inv_record_def by (meson subset_trans)
  moreover have "\<exists>d \<in> set ds. rd_id d = rf_determination_id g \<and> rf_member g \<in> set (rd_participants d)"
    if "g \<in> set (fs @ [f])" for g
  proof (cases "g = f")
    case True
    with assms(2-4) show ?thesis by (intro bexI[of _ d]) simp_all
  next
    case False
    with that assms(1) show ?thesis unfolding inv_record_def by simp
  qed
  ultimately show ?thesis by (simp add: inv_record_def)
qed

lemma inv_communications_snoc:
  assumes "\<forall>x \<in> set ms. rm_status x \<noteq> CommCurrent" "ds \<noteq> []" "rm_status n = CommCurrent"
    "rm_determination_id n = rd_id (last ds)"
  shows "inv_communications Communicated ds (ms @ [n])"
  using assms by (auto simp: inv_communications_def at_most_one_snoc)

lemma rstep_communication_inv:
  assumes inv: "result_inv r" and r: "re_determinations r \<noteq> []"
    "rm_determination_id n = rd_id (last (re_determinations r))"
    "set (rd_participants (last (re_determinations r)))
      \<subseteq> signed_by (re_confirmations r) (rd_id (last (re_determinations r)))"
  shows "result_inv (put_communication new n (claimed (Some Communicated) r))"
proof -
  let ?d = "last (re_determinations r)" and ?n = "n\<lparr>rm_id := new, rm_status := CommCurrent\<rparr>"
  let ?old = "map (\<lambda>x. if rm_status x = CommCurrent then x\<lparr>rm_status := CommObsolete\<rparr> else x)
    (re_communications r)"
  have d: "?d \<in> set (re_determinations r)" using r(1) by simp
  have none: "\<forall>x \<in> set ?old. rm_status x \<noteq> CommCurrent" by auto
  have comm: "inv_communications Communicated (re_determinations r) (?old @ [?n])"
    by (rule inv_communications_snoc[OF none r(1)]) (simp_all add: r(2))
  have "inv_record (re_determinations r) (re_confirmations r) ?old"
  proof (rule inv_record_determinations)
    show "inv_record (re_determinations r) (re_confirmations r) (re_communications r)"
      using inv by (simp add: result_inv_def)
    show "map rm_determination_id ?old = map rm_determination_id (re_communications r)" by simp
  qed blast
  moreover have "\<exists>d \<in> set (re_determinations r). rd_id d = rm_determination_id ?n
      \<and> set (rd_participants d) \<subseteq> signed_by (re_confirmations r) (rd_id d)"
    using d r(2,3) by (intro bexI[of _ ?d]) simp_all
  ultimately have "inv_record (re_determinations r) (re_confirmations r) (?old @ [?n])"
    by (simp add: inv_record_def)
  moreover have "inv_decision Communicated (re_determinations r) (re_calculations r)"
    using inv r(1) by (auto simp: result_inv_def inv_decision_def)
  ultimately show ?thesis using inv comm by (simp add: result_inv_def put_communication_def)
qed

lemma rstep_correction_inv:
  assumes inv: "result_inv r" and r: "re_determinations r \<noteq> []" "open_correction_of r = None"
    "new \<notin> set (map rx_id (re_corrections r))"
  shows "result_inv (put_correction new q (claimed None r))"
proof -
  have "\<forall>x \<in> set (re_corrections r). rx_status x \<noteq> CorrOpen"
    using r(2) by (auto simp: open_correction_of_def find_None_iff)
  with inv r show ?thesis
    by (auto simp: result_inv_def put_correction_def inv_corrections_def at_most_one_snoc)
qed

lemma rstep_inv: "rstep r r' \<Longrightarrow> result_inv r \<Longrightarrow> result_inv r'"
proof (induction rule: rstep.induct)
  case (individual r new c)
  then have "inv_individuals (re_individuals (put_individual new c (claimed None r)))"
    by (intro put_individual_inv) (simp_all add: result_inv_def)
  with individual show ?case by (simp add: result_inv_def put_individual_def Let_def)
next
  case (calculation new r s c)
  then show ?case using rstep_calculation_inv by blast
next
  case (readiness r s)
  then show ?case using inv_decision_state[of r s] by (simp add: result_inv_def)
next
  case (disclosure r d)
  then show ?case by (simp add: result_inv_def)
next
  case (committee r new k)
  then have "inv_components (re_components (put_component new k (claimed None r)))"
    by (intro put_component_inv) (simp_all add: result_inv_def)
  with committee show ?case by (simp add: result_inv_def put_component_def Let_def)
next
  case (external r new s x)
  then have "inv_externals (re_externals (put_external new x (claimed (Some s) r)))"
    by (intro put_external_inv) (auto simp: result_inv_def)
  moreover have "inv_decision s (re_determinations r) (re_calculations r)"
    "inv_communications s (re_determinations r) (re_communications r)"
    using external inv_decision_state[of r s] by auto
  ultimately show ?case using external.prems by (simp add: result_inv_def put_external_def Let_def)
next
  case (external_confirmed r x m now)
  then have "inv_externals (confirm_row (ex_id x) m now (re_externals r))"
    by (intro confirm_row_inv) (simp_all add: result_inv_def)
  with external_confirmed show ?case by (simp add: result_inv_def)
next
  case (determination r new t)
  then show ?case using rstep_determination_inv by blast
next
  case (confirmation r f)
  then have "inv_record (re_determinations r) (re_confirmations r @ [f]) (re_communications r)"
    by (intro inv_record_confirm[where d = "last (re_determinations r)"]) (simp_all add: result_inv_def)
  with confirmation show ?case by (simp add: result_inv_def)
next
  case (correction r new q)
  then show ?case using rstep_correction_inv by blast
next
  case (reopening r)
  then have "re_correction_open r"
    by (auto simp: result_inv_def inv_corrections_def open_correction_of_def
        dest: find_Some_mem find_Some_P)
  with reopening show ?case by (simp add: result_inv_def)
next
  case (communication r n new)
  then show ?case using rstep_communication_inv by blast
next
  case (export p r)
  then show ?case by (auto simp: result_inv_def inv_exports_def)
qed (simp_all add: result_inv_def)

interpretation exam_result: invariant_system rstep result_inv
  by unfold_locales (rule rstep_inv)

end
