(* ===== verification/Assess_Sim.thy ===== *)
theory Assess_Sim
  imports Assess_Machine
begin

text \<open>
  The service methods refine the abstract exam result: a method that returns has either left the
  database alone or moved exactly the row of its result along \<^const>\<open>rstep\<close>. Claims, generated
  keys, sorted snapshots and the recalculation disappear in this view.
\<close>

definition db_inv :: "db \<Rightarrow> bool" where
  "db_inv db \<longleftrightarrow> distinct (map re_id db) \<and> (\<forall>r \<in> set db. result_inv r)"

definition moves :: "int \<Rightarrow> db \<Rightarrow> db \<Rightarrow> bool" where
  "moves i db db' \<longleftrightarrow> (\<exists>r r'. row_by_id db i = Some r \<and> rstep\<^sup>*\<^sup>* r r' \<and> db' = upd_row re_id i (\<lambda>_. r') db)"

definition version_of :: "db \<Rightarrow> int \<Rightarrow> int" where
  "version_of db i = (case row_by_id db i of None \<Rightarrow> 0 | Some r \<Rightarrow> re_version r)"

text \<open>
  A method that returns moved its row, and if it changed anything then the request named the stored
  version and that version is spent.
\<close>

definition changes :: "int \<Rightarrow> payload \<Rightarrow> db \<Rightarrow> db \<Rightarrow> bool" where
  "changes i p db db' \<longleftrightarrow> moves i db db' \<and> (db' = db \<or>
     (\<exists>n. required_result_version p = Inr n \<and> version_of db i = n \<and> n < version_of db' i))"

subsection \<open>Rows and claims\<close>

lemma rstep_frame: "rstep r r' \<Longrightarrow> re_id r' = re_id r \<and> re_model r' = re_model r
    \<and> re_committee_id r' = re_committee_id r \<and> re_legacy r' = re_legacy r
    \<and> re_round_candidate_id r' = re_round_candidate_id r"
  by (induction rule: rstep.induct)
    (simp_all add: put_individual_def put_calculation_def put_component_def put_external_def
      put_determination_def put_correction_def put_communication_def supersede_determination_def
      Let_def split: option.splits)

lemma rsteps_frame: "rstep\<^sup>*\<^sup>* r r' \<Longrightarrow> re_id r' = re_id r \<and> re_model r' = re_model r
    \<and> re_committee_id r' = re_committee_id r \<and> re_legacy r' = re_legacy r
    \<and> re_round_candidate_id r' = re_round_candidate_id r"
  by (induction rule: rtranclp_induct) (auto dest: rstep_frame)

lemma rstep_version: "rstep r r' \<Longrightarrow> re_version r \<le> re_version r'"
  by (induction rule: rstep.induct) simp_all

lemma rsteps_version: "rstep\<^sup>*\<^sup>* r r' \<Longrightarrow> re_version r \<le> re_version r'"
  by (induction rule: rtranclp_induct) (auto dest: rstep_version)

lemma row_by_id_SomeD: "row_by_id db i = Some r \<Longrightarrow> r \<in> set db \<and> re_id r = i"
  by (auto simp: row_by_id_def dest: find_Some_mem find_Some_P)

lemma db_inv_row: "db_inv db \<Longrightarrow> row_by_id db i = Some r \<Longrightarrow> result_inv r"
  by (auto simp: db_inv_def dest: row_by_id_SomeD)

lemma row_upd [simp]: "re_id r' = i \<Longrightarrow> row_by_id (upd_row re_id i (\<lambda>_. r') db) j =
    (if j = i then map_option (\<lambda>_. r') (row_by_id db i) else row_by_id db j)"
proof -
  assume "re_id r' = i"
  then have "upd_row re_id i (\<lambda>_. r') db = upd_row re_id i (\<lambda>r. if re_id r = i then r' else r) db"
    by (intro upd_row_cong) auto
  then show ?thesis using find_upd_row[of re_id "\<lambda>r. if re_id r = i then r' else r" j i db]
      \<open>re_id r' = i\<close> by (auto simp: row_by_id_def option.map_comp comp_def intro: option.map_cong0
        dest: find_Some_P split: if_splits intro!: option.map_cong)
qed

lemma upd_row_row: "distinct (map re_id db) \<Longrightarrow> row_by_id db i = Some r \<Longrightarrow>
    upd_row re_id i F db = upd_row re_id i (\<lambda>_. F r) db"
  unfolding row_by_id_def by (rule upd_row_cong) (metis find_key_unique)

lemma upd_row_same: "distinct (map re_id db) \<Longrightarrow> row_by_id db i = Some r \<Longrightarrow>
    upd_row re_id i (\<lambda>_. r) db = db"
  using upd_row_row[of db i r "\<lambda>x. x"] by (simp add: upd_row_def)

lemma upd_row_const2: "re_id r' = i \<Longrightarrow>
    upd_row re_id i (\<lambda>_. r'') (upd_row re_id i (\<lambda>_. r') db) = upd_row re_id i (\<lambda>_. r'') db"
  by (auto simp: upd_row_def)

lemma distinct_upd: "re_id r' = i \<Longrightarrow> map re_id (upd_row re_id i (\<lambda>_. r') db) = map re_id db"
  by (simp add: upd_row_def)

lemma moves_refl: "distinct (map re_id db) \<Longrightarrow> row_by_id db i = Some r \<Longrightarrow> moves i db db"
  unfolding moves_def using upd_row_same[of db i r] by (intro exI[of _ r]) simp

lemma moves_trans:
  assumes "moves i db db1" "moves i db1 db2"
  shows "moves i db db2"
proof -
  from assms(1) obtain r r1 where r: "row_by_id db i = Some r" "rstep\<^sup>*\<^sup>* r r1"
    "db1 = upd_row re_id i (\<lambda>_. r1) db" by (auto simp: moves_def)
  then have id1: "re_id r1 = i" using rsteps_frame row_by_id_SomeD by metis
  from assms(2) obtain r1' r2 where r2: "row_by_id db1 i = Some r1'" "rstep\<^sup>*\<^sup>* r1' r2"
    "db2 = upd_row re_id i (\<lambda>_. r2) db1" by (auto simp: moves_def)
  have "r1' = r1" using r2(1) r id1 by simp
  with r r2 id1 show ?thesis unfolding moves_def
    by (intro exI[of _ r] exI[of _ r2]) (simp add: upd_row_const2)
qed

lemma moves_rstep:
  assumes "row_by_id db i = Some r" "rstep r r'"
  shows "moves i db (upd_row re_id i (\<lambda>_. r') db)"
  using assms unfolding moves_def by blast

lemma moves_row:
  assumes "moves i db db'"
  obtains r' where "row_by_id db' i = Some r'"
proof -
  from assms obtain r r' where r: "row_by_id db i = Some r" "rstep\<^sup>*\<^sup>* r r'"
    "db' = upd_row re_id i (\<lambda>_. r') db" by (auto simp: moves_def)
  have "re_id r' = i" using rsteps_frame[OF r(2)] row_by_id_SomeD[OF r(1)] by simp
  with r that show thesis by simp
qed

lemma moves_inv:
  assumes "moves i db db'" "db_inv db"
  shows "db_inv db'"
proof -
  from assms(1) obtain r r' where r: "row_by_id db i = Some r" "rstep\<^sup>*\<^sup>* r r'"
    "db' = upd_row re_id i (\<lambda>_. r') db" by (auto simp: moves_def)
  have "result_inv r'" using exam_result.steps_invar[OF r(2) db_inv_row[OF assms(2) r(1)]] .
  moreover have "re_id r' = i" using rsteps_frame[OF r(2)] row_by_id_SomeD[OF r(1)] by simp
  ultimately show ?thesis using assms(2) r(3)
    by (auto simp: db_inv_def distinct_upd set_upd_row)
qed

lemma claim_Inr: "claim i v s db = Inr db1 \<longleftrightarrow>
    (\<exists>r. row_by_id db i = Some r \<and> re_version r = v \<and> db1 = upd_row re_id i (claimed s) db)"
proof -
  have "(\<lambda>r. r\<lparr>re_version := re_version r + 1,
      re_state := (case s of None \<Rightarrow> re_state r | Some s \<Rightarrow> s)\<rparr>) = claimed s"
    by (simp add: fun_eq_iff claimed_def)
  then show ?thesis by (auto simp: claim_def split: option.splits)
qed

lemma fresh_id: "row_by_id db i = Some r \<Longrightarrow> next_id (table_ids f db) \<notin> set (f r)"
proof
  assume r: "row_by_id db i = Some r" "next_id (table_ids f db) \<in> set (f r)"
  then have "next_id (table_ids f db) \<in> set (table_ids f db)"
    by (auto simp: table_ids_def dest: row_by_id_SomeD)
  then show False by simp
qed

lemma table_ids_claimed: "(\<And>r. f (claimed s r) = f r) \<Longrightarrow> table_ids f (upd_row re_id i (claimed s) db) = table_ids f db"
  by (simp add: table_ids_def upd_row_def comp_def if_distrib cong: if_cong)

text \<open>The shape of every repository command: claim the version, then rewrite the claimed row.\<close>

lemma command_row:
  assumes "distinct (map re_id db)" "row_by_id db i = Some r"
    and "bnd (claim i v s db) (\<lambda>db. Inr (upd_row re_id i (F db) db)) = Inr db'"
  shows "re_version r = v"
    "db' = upd_row re_id i (\<lambda>_. F (upd_row re_id i (claimed s) db) (claimed s r)) db"
proof -
  from assms(3) obtain r0 where r0: "row_by_id db i = Some r0" "re_version r0 = v"
    and db': "db' = upd_row re_id i (F (upd_row re_id i (claimed s) db)) (upd_row re_id i (claimed s) db)"
    by (auto simp: bnd_Inr_iff claim_Inr)
  from r0 assms(2) show "re_version r = v" by simp
  have "db' = upd_row re_id i (\<lambda>x. F (upd_row re_id i (claimed s) db) (claimed s x)) db"
    unfolding db' by (rule upd_row_comp) simp
  then show "db' = upd_row re_id i (\<lambda>_. F (upd_row re_id i (claimed s) db) (claimed s r)) db"
    using upd_row_row[OF assms(1,2)] by simp
qed

subsection \<open>Snapshots\<close>

lemma load_simps [simp]:
  "re_id (load_result r) = re_id r" "re_version (load_result r) = re_version r"
  "re_state (load_result r) = re_state r" "re_model (load_result r) = re_model r"
  "re_correction_open (load_result r) = re_correction_open r"
  "re_committee_id (load_result r) = re_committee_id r" "re_legacy (load_result r) = re_legacy r"
  "re_retention (load_result r) = re_retention r" "re_days (load_result r) = re_days r"
  "set (re_participants (load_result r)) = set (re_participants r)"
  "set (re_individuals (load_result r)) = set (re_individuals r)"
  "set (re_components (load_result r)) = set (re_components r)"
  "set (re_externals (load_result r)) = set (re_externals r)"
  "set (re_calculations (load_result r)) = set (re_calculations r)"
  "set (re_determinations (load_result r)) = set (re_determinations r)"
  "set (re_confirmations (load_result r)) = set (re_confirmations r)"
  "set (re_corrections (load_result r)) = set (re_corrections r)"
  "set (re_communications (load_result r)) = set (re_communications r)"
  "set (re_disclosures (load_result r)) = set (re_disclosures r)"
  "inputs_mutable (load_result r) = inputs_mutable r"
  "has_determination (load_result r) = has_determination r"
  by (simp_all add: load_result_def inputs_mutable_def has_determination_def list_ex_iff)

lemma load_current_determination:
  "result_inv r \<Longrightarrow> current_determination (load_result r) = current_determination r"
  unfolding current_determination_def load_result_def
  by (simp add: find_sort_key history_at_most_one result_inv_history)

lemma load_open_correction:
  "result_inv r \<Longrightarrow> open_correction_of (load_result r) = open_correction_of r"
  unfolding open_correction_of_def load_result_def
  by (simp add: find_sort_key result_inv_def inv_corrections_def)

lemma load_points_nonneg [simp]: "points_nonneg (load_result r) = points_nonneg r"
  by (simp add: points_nonneg_def)

lemma result_inv_points: "result_inv r \<Longrightarrow> points_nonneg r"
  by (auto simp: points_nonneg_def result_inv_def inv_individuals_def inv_components_def
      inv_externals_def)

lemma result_by_id_Some: "result_by_id db i = Some r \<longleftrightarrow>
    (\<exists>r0. row_by_id db i = Some r0 \<and> r = load_result r0)"
  by (auto simp: result_by_id_def)

lemma inputs_mutable_iff: "assert_inputs_mutable r = Inr u \<longleftrightarrow> inputs_mutable r"
  by (simp add: assert_inputs_mutable_def inputs_mutable_def)

subsection \<open>Recalculation\<close>

lemma set_result_state_row:
  assumes "db_inv db" "row_by_id db i = Some r" "set_result_state i v s db = Inr db'"
  shows "db' = upd_row re_id i (\<lambda>_. r\<lparr>re_state := s\<rparr>) db"
proof -
  have "db' = upd_row re_id i (\<lambda>r. r\<lparr>re_state := s\<rparr>) db"
    using assms(2,3) by (auto simp: set_result_state_def split: if_splits)
  moreover have "distinct (map re_id db)" using assms(1) by (simp add: db_inv_def)
  note upd_row_row[OF this assms(2), of "\<lambda>r. r\<lparr>re_state := s\<rparr>"]
  ultimately show ?thesis by metis
qed

lemma save_calculation_row:
  assumes "db_inv db" "row_by_id db i = Some r" "save_calculation i v s c db = Inr db'"
  obtains new where "new \<notin> set (map rc_id (re_calculations r))"
    "db' = upd_row re_id i (\<lambda>_. put_calculation new c (claimed (Some s) r)) db"
proof -
  let ?ids = "\<lambda>r. map rc_id (re_calculations r)"
  have d: "distinct (map re_id db)" using assms(1) by (simp add: db_inv_def)
  have "db' = upd_row re_id i (\<lambda>_. put_calculation (next_id (table_ids ?ids db)) c (claimed (Some s) r)) db"
    using command_row(2)[OF d assms(2) assms(3)[unfolded save_calculation_def]]
    by (simp add: table_ids_claimed)
  with fresh_id[OF assms(2), of ?ids] that show thesis by blast
qed

lemma calculation_command_state: "calculation_command e r = Inr (Some (s, c)) \<Longrightarrow>
    s = (if has_determination r then re_state r else CalculationReady)"
  by (auto simp: calculation_command_def bnd_Inr_iff split: option.splits)

text \<open>The recalculation moves the row by at most one step and never touches a decision.\<close>

definition same_decision :: "result \<Rightarrow> result \<Rightarrow> bool" where
  "same_decision r r' \<longleftrightarrow> re_determinations r' = re_determinations r
     \<and> re_correction_open r' = re_correction_open r \<and> re_corrections r' = re_corrections r
     \<and> re_communications r' = re_communications r \<and> re_confirmations r' = re_confirmations r
     \<and> re_individuals r' = re_individuals r \<and> re_components r' = re_components r
     \<and> re_externals r' = re_externals r"

lemma ensure_calculation_row:
  assumes "db_inv db" "row_by_id db i = Some r" "ensure_calculation e db (load_result r) = Inr (db', r')"
  obtains r1 where "rstep\<^sup>*\<^sup>* r r1" "db' = upd_row re_id i (\<lambda>_. r1) db" "r' = load_result r1"
    "same_decision r r1"
proof -
  note goal = that
  have i: "re_id r = i" using row_by_id_SomeD[OF assms(2)] by simp
  from assms(3) obtain c where c: "calculation_command e (load_result r) = Inr c"
    by (auto simp: ensure_calculation_def bnd_Inr_iff)
  note ens = assms(3)[unfolded ensure_calculation_def c bnd_simps]
  have stay: thesis if "db' = db" "r' = load_result r"
    using goal[of r] that upd_row_same[OF _ assms(2)] assms(1)
    by (simp add: same_decision_def db_inv_def)
  have move: thesis if "rstep r r1" "db' = upd_row re_id i (\<lambda>_. r1) db" "r' = reload db' (load_result r)"
      "same_decision r r1" for r1
  proof -
    have "re_id r1 = i" using rstep_frame[OF that(1)] i by simp
    then have "r' = load_result r1" using that(2,3) assms(2) i by (simp add: reload_def result_by_id_def)
    with that show thesis using goal[of r1] by blast
  qed
  have state: thesis if "set_result_state i v s db = Inr db'" "\<not> has_determination r"
      "s \<in> {Incomplete, CalculationReady}" "r' = reload db' (load_result r)" for v s
    by (rule move[OF rstep.readiness[OF that(2,3)] set_result_state_row[OF assms(1,2) that(1)] that(4)])
      (simp add: same_decision_def)
  show thesis
  proof (cases c)
    case None
    with ens i show ?thesis by (auto simp: bnd_Inr_iff intro: stay state split: if_split_asm)
  next
    case (Some sc)
    obtain st cc where sc: "sc = (st, cc)" by fastforce
    with c Some have st: "st = (if has_determination r then re_state r else CalculationReady)"
      using calculation_command_state[of e "load_result r" st cc] by simp
    have save: thesis if "save_calculation i v st cc db = Inr db'" "r' = reload db' (load_result r)" for v
      using save_calculation_row[OF assms(1,2) that(1)]
    proof cases
      case (1 new)
      show thesis by (rule move[OF rstep.calculation[OF 1(1) st] 1(2) that(2)])
        (simp add: same_decision_def)
    qed
    with ens i Some sc show ?thesis
      by (auto simp: bnd_Inr_iff intro: stay state save split: if_split_asm option.splits)
  qed
qed

lemma ensure_calculation_moves:
  assumes "db_inv db" "row_by_id db i = Some r" "ensure_calculation e db (load_result r) = Inr (db', r')"
  shows "moves i db db'"
  using ensure_calculation_row[OF assms] assms(2) by (auto simp: moves_def)

lemma with_view_Inr: "with_view e a db r = Inr (db', v) \<longleftrightarrow> db' = db \<and> project e r a = Inr v"
  by (auto simp: with_view_def bnd_Inr_iff)

lemma finish_moves:
  assumes "db_inv db" "row_by_id db i = Some r" "finish e a i kind p m reason b db = Inr (db', v)"
  shows "moves i db db'"
proof -
  from assms(3) obtain db1 r1 where db1: "complete_result_day_mutation e i kind p m reason db = Inr db1"
    and r1: "row_by_id db1 i = Some r1" and fin: "(if b then bnd (ensure_calculation e db1 (load_result r1))
          (\<lambda>(db, r). with_view e a db r) else with_view e a db1 (load_result r1)) = Inr (db', v)"
    unfolding finish_def by (auto simp: bnd_Inr_iff result_by_id_def split: option.splits)
  from db1 assms(2) obtain days where days: "db1 = upd_row re_id i (\<lambda>r. r\<lparr>re_days := days\<rparr>) db"
    by (auto simp: complete_result_day_mutation_def bnd_Inr_iff result_by_id_def split: option.splits)
  have d: "distinct (map re_id db)" using assms(1) by (simp add: db_inv_def)
  have "db1 = upd_row re_id i (\<lambda>_. r\<lparr>re_days := days\<rparr>) db"
    unfolding days by (rule upd_row_row[OF d assms(2)])
  then have m1: "moves i db db1" using moves_rstep[OF assms(2) rstep.days] by simp
  then have "db_inv db1" using moves_inv assms(1) by blast
  then have "moves i db1 db'" using fin r1 ensure_calculation_moves moves_refl[OF _ r1]
    by (auto simp: bnd_Inr_iff with_view_Inr db_inv_def split: if_splits)
  with m1 show ?thesis by (rule moves_trans)
qed

lemma moves_version: "moves i db db' \<Longrightarrow> version_of db i \<le> version_of db' i"
proof -
  assume "moves i db db'"
  then obtain r r' where r: "row_by_id db i = Some r" "rstep\<^sup>*\<^sup>* r r'"
    "db' = upd_row re_id i (\<lambda>_. r') db" by (auto simp: moves_def)
  have "re_id r' = i" using rsteps_frame[OF r(2)] row_by_id_SomeD[OF r(1)] by simp
  with r show ?thesis using rsteps_version[OF r(2)] by (simp add: version_of_def)
qed

lemma changes_refl: "db_inv db \<Longrightarrow> row_by_id db i = Some r \<Longrightarrow> changes i p db db"
  using moves_refl by (simp add: changes_def db_inv_def)

text \<open>A claimed write followed by the common frame.\<close>

lemma write_moves:
  assumes inv: "db_inv db" and r: "row_by_id db i = Some r"
    and cmd: "bnd (claim i v s db) (\<lambda>db. Inr (upd_row re_id i (F db) db)) = Inr db1"
    and step: "rstep r (F (upd_row re_id i (claimed s) db) (claimed s r))
      \<and> re_version (F (upd_row re_id i (claimed s) db) (claimed s r)) = re_version r + 1"
    and fin: "finish e a i kind p m reason b db1 = Inr (db', w)"
  shows "moves i db db' \<and> version_of db i = v \<and> v < version_of db' i"
proof -
  let ?r1 = "F (upd_row re_id i (claimed s) db) (claimed s r)"
  have d: "distinct (map re_id db)" using inv by (simp add: db_inv_def)
  note cr = command_row[OF d r cmd]
  have m1: "moves i db db1" unfolding cr(2) by (rule moves_rstep[OF r]) (use step in blast)
  obtain r1 where r1: "row_by_id db1 i = Some r1" using moves_row[OF m1] .
  note m2 = finish_moves[OF moves_inv[OF m1 inv] r1 fin]
  have "re_id ?r1 = i" using rstep_frame step row_by_id_SomeD[OF r] by metis
  then have "version_of db1 i = re_version r + 1" using step r by (simp add: version_of_def cr(2))
  with moves_version[OF m2] have "re_version r < version_of db' i" by simp
  then show ?thesis using moves_trans[OF m1 m2] cr(1) r by (simp add: version_of_def)
qed

lemma write_changes:
  assumes "db_inv db" "row_by_id db i = Some r"
    and "bnd (claim i v s db) (\<lambda>db. Inr (upd_row re_id i (F db) db)) = Inr db1"
    and "rstep r (F (upd_row re_id i (claimed s) db) (claimed s r))
      \<and> re_version (F (upd_row re_id i (claimed s) db) (claimed s r)) = re_version r + 1"
    and "finish e a i kind p m reason b db1 = Inr (db', w)" "required_result_version p = Inr v"
  shows "changes i p db db'"
  using write_moves[OF assms(1-5)] assms(6) by (simp add: changes_def)

end
