(* ===== verification/Assess_Steps.thy ===== *)
theory Assess_Steps
  imports Assess_Sim
begin

text \<open>
  One refinement lemma per service method, the step relation of the component, and its invariant.
\<close>

lemma required_access_Inr:
  assumes "required_access db a i = Inr r"
  obtains r0 where "row_by_id db i = Some r0" "r = load_result r0" "\<not> re_legacy r0"
    "participates a r \<or> can_manage a (re_committee_id r0)"
  using assms by (auto simp: required_access_def result_by_id_def split: option.splits if_splits)

lemma normalize_points_nonneg:
  "cr_raw_min c < cr_raw_max c \<Longrightarrow> cr_raw_min c \<le> raw \<Longrightarrow> 0 \<le> normalize_points c raw"
  by (simp add: normalize_points_def dsub_def)

lemma find_criterion_wf:
  assumes "wf_rules ru" "find_component ru ck = Inr co" "find_criterion co kk = Inr cr"
  shows "cr_raw_min cr < cr_raw_max cr"
  using assms by (auto simp: find_component_def find_criterion_def wf_rules_def split: option.splits
      dest!: find_Some_mem)

lemma save_individual_assessment_changes:
  assumes "db_inv db" "row_by_id db i = Some r" "save_individual_assessment i n c db = Inr db1"
    "finish e a i kind p m reason b db1 = Inr (db', w)" "required_result_version p = Inr n"
    "inputs_mutable r" "0 \<le> ia_normalized c"
  shows "changes i p db db'"
proof (rule write_changes[OF assms(1,2) assms(3)[unfolded save_individual_assessment_def] _ assms(4,5)])
  let ?r1 = "put_individual (next_id (table_ids (\<lambda>r. map ia_id (re_individuals r))
      (upd_row re_id i (claimed None) db))) c (claimed None r)"
  show "rstep r ?r1 \<and> re_version ?r1 = re_version r + 1"
    using fresh_id[OF assms(2), of "\<lambda>r. map ia_id (re_individuals r)"] assms(6,7)
    by (auto simp: table_ids_claimed intro!: rstep.individual)
qed

lemma save_individual_changes:
  assumes inv: "db_inv db" and op: "save_individual e a i p db = Inr (db', v)"
  shows "changes i p db db'"
proof -
  from op[unfolded save_individual_def bnd_Inr_iff] obtain r where r: "required_access db a i = Inr r"
    by blast
  from required_access_Inr[OF r] obtain r0 where r0: "row_by_id db i = Some r0" "r = load_result r0" .
  have refl: "changes i p db db" by (rule changes_refl[OF inv r0(1)])
  have wf: "wf_rules (mo_rules (re_model r0))" using db_inv_row[OF inv r0(1)] by (simp add: result_inv_def)
  obtain m where m: "member_id_for a (load_result r0) = Some m"
    using op r r0 by (auto simp: save_individual_def bnd_Inr_iff split: option.splits)
  show ?thesis using op refl r r0 m unfolding save_individual_def
    by (auto simp: ok_iff Let_def with_view_Inr inputs_mutable_iff split: if_split_asm
        intro!: save_individual_assessment_changes[OF inv r0(1)] normalize_points_nonneg
        intro: find_criterion_wf[OF wf])
qed

lemma withdraw_individual_changes:
  assumes inv: "db_inv db" and op: "withdraw_individual e a i k p db = Inr (db', v)"
  shows "changes i p db db'"
proof -
  from op[unfolded withdraw_individual_def bnd_Inr_iff] obtain r where r: "required_access db a i = Inr r"
    by blast
  from required_access_Inr[OF r] obtain r0 where r0: "row_by_id db i = Some r0" "r = load_result r0" .
  obtain x where x: "List.find (\<lambda>x. ia_id x = k) (re_individuals (load_result r0)) = Some x"
    using op r r0 by (auto simp: withdraw_individual_def bnd_Inr_iff split: option.splits)
  have "x \<in> set (re_individuals r0)" using find_Some_mem[OF x] by simp
  then have "0 \<le> ia_normalized x"
    using db_inv_row[OF inv r0(1)] by (simp add: result_inv_def inv_individuals_def)
  then show ?thesis using op r r0 x unfolding withdraw_individual_def
    by (auto simp: ok_iff inputs_mutable_iff intro!: save_individual_assessment_changes[OF inv r0(1)])
qed

lemma disclose_changes:
  assumes inv: "db_inv db" and op: "disclose e a i p db = Inr (db', v)"
  shows "changes i p db db'"
proof -
  from op[unfolded disclose_def bnd_Inr_iff] obtain r where r: "required_access db a i = Inr r"
    by blast
  from required_access_Inr[OF r] obtain r0 where r0: "row_by_id db i = Some r0" "r = load_result r0" .
  have refl: "changes i p db db" by (rule changes_refl[OF inv r0(1)])
  have wr: "changes i p db db'" if "disclose_component i n c db = Inr db1"
      "finish e a i kind p m reason b db1 = Inr (db', v)" "required_result_version p = Inr n" "inputs_mutable r0" for n c db1 kind m reason b
    by (rule write_changes[OF inv r0(1) that(1)[unfolded disclose_component_def] _ that(2,3)])
      (use rstep.disclosure[OF that(4)] in simp)
  show ?thesis using op refl r r0 unfolding disclose_def
    by (auto simp: ok_iff with_view_Inr inputs_mutable_iff split: if_split_asm intro!: wr)
qed

subsection \<open>Votes\<close>

lemma participant_set_Inr: "participant_set raw = Inr ms \<Longrightarrow> distinct ms \<and> (\<forall>m \<in> set ms. 1 \<le> m)"
proof (cases raw)
  case (JList xs)
  assume "participant_set raw = Inr ms"
  moreover define ids where "ids = map (\<lambda>x. case x of JInt n \<Rightarrow> n | _ \<Rightarrow> 0) xs"
  ultimately have "\<not> list_ex (\<lambda>n. n < 1) ids" "card (set ids) = length ids" "ms = sort ids"
    using JList by (auto simp: participant_set_def Let_def ids_def split: if_split_asm)
  then show ?thesis by (auto simp: list_ex_iff not_less card_distinct)
qed (simp_all add: participant_set_def)

lemma validate_vote_ok:
  assumes "participant_set raw = Inr ms" "validate_vote v ms = Inr vote"
  shows "vote_ok ms vote"
proof -
  from assms(2) obtain y n b where
    part: "distinct y" "distinct n" "distinct b"
    and all: "set y \<union> set n \<union> set b = set ms" "length y + length n + length b = length ms"
    and maj: "length n < length y" and vote: "vote = \<lparr>v_yes = y, v_no = n, v_abstain = b\<rparr>"
    by (auto simp: validate_vote_def bnd_Inr_iff dest!: participant_set_Inr split: json.splits if_splits)
  have ms: "distinct ms" using participant_set_Inr[OF assms(1)] by simp
  have "set (y @ n @ b) = set ms" using all(1) by auto
  moreover have "length (y @ n @ b) = card (set ms)" using all(2) distinct_card[OF ms] by simp
  ultimately have "distinct (y @ n @ b)" by (metis card_distinct)
  with all maj vote ms show ?thesis by (auto simp: vote_ok_def)
qed

lemma determine_component_changes:
  assumes inv: "db_inv db" and op: "determine_component e a i p db = Inr (db', v)"
  shows "changes i p db db'"
proof -
  from op[unfolded determine_component_def bnd_Inr_iff require_Inr_iff]
  obtain r where r: "required_access db a i = Inr r" by blast
  from required_access_Inr[OF r] obtain r0 where r0: "row_by_id db i = Some r0" "r = load_result r0" .
  have refl: "changes i p db db" by (rule changes_refl[OF inv r0(1)])
  obtain m where m: "member_id_for a (load_result r0) = Some m"
    using op r r0 by (auto simp: determine_component_def ok_iff Let_def split: option.splits)
  have wr: "changes i p db db'" if "determine_component_row i n c db = Inr db1"
      "finish e a i kind p m reason b db1 = Inr (db', v)" "required_result_version p = Inr n" "inputs_mutable r0"
      "0 \<le> ca_points c" "ca_points c \<le> 100" "vote_ok (ca_participants c) (ca_vote c)"
    for n c db1 kind m reason b
  proof (rule write_changes[OF inv r0(1) that(1)[unfolded determine_component_row_def] _ that(2,3)])
    let ?r1 = "put_component (next_id (table_ids (\<lambda>r. map ca_id (re_components r))
        (upd_row re_id i (claimed None) db))) c (claimed None r0)"
    show "rstep r0 ?r1 \<and> re_version ?r1 = re_version r0 + 1"
      using fresh_id[OF r0(1), of "\<lambda>r. map ca_id (re_components r)"] that(4-7)
      by (auto simp: table_ids_claimed intro!: rstep.committee)
  qed
  show ?thesis using op refl r r0 m unfolding determine_component_def
    by (auto simp: ok_iff Let_def with_view_Inr inputs_mutable_iff split: if_split_asm
        intro!: wr intro: validate_vote_ok)
qed

subsection \<open>External results\<close>

lemma active_external_load:
  assumes "result_inv r" "y \<in> set (re_externals r)" "active k y"
  shows "active_external (load_result r) k = Some y"
proof -
  let ?P = "\<lambda>x. ex_area_key x = k \<and> ex_status x \<in> {Confirmed, Unconfirmed}"
  have P: "?P x \<longleftrightarrow> active k x" for x by (cases "ex_status x") (auto simp: active_def)
  have one: "at_most_one (active k) (re_externals r)"
    using assms(1) by (simp add: result_inv_def inv_externals_def)
  have mem: "x \<in> set (rev (re_externals (load_result r))) \<longleftrightarrow> x \<in> set (re_externals r)" for x by simp
  have "List.find ?P (rev (re_externals (load_result r))) \<noteq> None"
    using assms(2,3) P mem by (metis (mono_tags, lifting) find_None_iff)
  then obtain x where x: "List.find ?P (rev (re_externals (load_result r))) = Some x" by blast
  have "x = y"
    by (rule at_most_one_unique[OF one]) (use find_Some_mem[OF x] find_Some_P[OF x] P mem assms in auto)
  with x show ?thesis by (simp add: active_external_def)
qed

lemma record_external_result_changes:
  assumes inv: "db_inv db" and r: "row_by_id db i = Some r"
    and cmd: "record_external_result i n s c db = Inr db1"
    and fin: "finish e a i kind p m reason b db1 = Inr (db', w)"
    and ver: "required_result_version p = Inr n"
    and c: "inputs_mutable r" "s = re_state r \<or> (s = Incomplete \<and> \<not> has_determination r)"
      "0 \<le> ex_points c" "ex_points c \<le> 100"
      "ex_revision c = (case active_external (load_result r) (ex_area_key c) of None \<Rightarrow> 1
         | Some x \<Rightarrow> ex_revision x + 1)"
  shows "changes i p db db'"
proof (rule write_changes[OF inv r cmd[unfolded record_external_result_def] _ fin ver])
  let ?r1 = "put_external (next_id (table_ids (\<lambda>r. map ex_id (re_externals r))
      (upd_row re_id i (claimed (Some s)) db))) c (claimed (Some s) r)"
  have "ex_revision y < ex_revision c" if "y \<in> set (re_externals r)" "active (ex_area_key c) y" for y
    using active_external_load[OF db_inv_row[OF inv r] that] c(5) by simp
  then show "rstep r ?r1 \<and> re_version ?r1 = re_version r + 1"
    using fresh_id[OF r, of "\<lambda>r. map ex_id (re_externals r)"] c(1-4)
    by (auto simp: table_ids_claimed intro!: rstep.external)
qed

lemma record_external_changes:
  assumes inv: "db_inv db" and op: "record_external e a i p db = Inr (db', v)"
  shows "changes i p db db'"
proof -
  from op[unfolded record_external_def bnd_Inr_iff require_Inr_iff]
  obtain r where r: "required_access db a i = Inr r" by blast
  from required_access_Inr[OF r] obtain r0 where r0: "row_by_id db i = Some r0" "r = load_result r0" .
  show ?thesis using op r r0 unfolding record_external_def Let_def
    by (auto simp: ok_iff inputs_mutable_iff intro!: record_external_result_changes[OF inv r0(1)])
qed

lemma confirm_external_result_changes:
  assumes inv: "db_inv db" and r: "row_by_id db i = Some r" and mut: "inputs_mutable r"
    and cmd: "confirm_external_result i ext n m now db = Inr db1"
    and fin: "finish e a i kind p m' reason b db1 = Inr (db', w)"
    and ver: "required_result_version p = Inr n"
    and x: "List.find (\<lambda>x. ex_id x = ext) (re_externals (load_result r)) = Some x"
      "ex_status x = Unconfirmed" "ex_recorded_by x \<noteq> m"
  shows "changes i p db db'"
proof -
  have x': "x \<in> set (re_externals r)" "ex_id x = ext"
    using find_Some_mem[OF x(1)] find_Some_P[OF x(1)] by auto
  have "bnd (claim i n None db) (\<lambda>db. Inr (upd_row re_id i
      (\<lambda>r. r\<lparr>re_externals := confirm_row ext m now (re_externals r)\<rparr>) db)) = Inr db1"
    using cmd by (auto simp: confirm_external_result_def bnd_Inr_iff confirm_row_def
        split: option.splits if_splits)
  then show ?thesis
    by (rule write_changes[OF inv r _ _ fin ver])
      (use rstep.external_confirmed[OF mut x'(1) x(2), of m now] x(3) x'(2) in auto)
qed

lemma confirm_external_changes:
  assumes inv: "db_inv db" and op: "confirm_external e a i k p db = Inr (db', v)"
  shows "changes i p db db'"
proof -
  from op[unfolded confirm_external_def bnd_Inr_iff]
  obtain r where r: "required_access db a i = Inr r" by blast
  from required_access_Inr[OF r] obtain r0 where r0: "row_by_id db i = Some r0" "r = load_result r0" .
  have refl: "changes i p db db" by (rule changes_refl[OF inv r0(1)])
  obtain x where x: "List.find (\<lambda>x. ex_id x = k) (re_externals (load_result r0)) = Some x"
    using op r r0 by (auto simp: confirm_external_def ok_iff split: option.splits)
  show ?thesis
  proof (cases "ex_status x = Confirmed \<and> ex_confirmed_by x = member_id_for a (load_result r0)")
    case True
    with op r r0 x refl show ?thesis
      by (auto simp: confirm_external_def ok_iff with_view_Inr)
  next
    case False
    from op[unfolded confirm_external_def r bnd_Inr_iff] False x r0 obtain n m db1 where
      g: "ex_status x = Unconfirmed" "Some (ex_recorded_by x) \<noteq> member_id_for a (load_result r0)"
        "inputs_mutable r0" "member_id_for a (load_result r0) = Some m"
      and w: "confirm_external_result i k n m (en_now e) db = Inr db1"
        "finish e a i ''result_external'' p (Some m) None True db1 = Inr (db', v)"
        "required_result_version p = Inr n"
      by (auto simp: ok_iff inputs_mutable_iff)
    show ?thesis
      by (rule confirm_external_result_changes[OF inv r0(1) g(3) w x g(1)]) (use g in auto)
  qed
qed

end
