(* ===== verification/Assess_Decide_Steps.thy ===== *)
theory Assess_Decide_Steps
  imports Assess_Steps
begin

text \<open>
  Refinement lemmas of the deciding methods.
\<close>

subsection \<open>Determination\<close>

lemma inputs_mutable_inv:
  "result_inv r \<Longrightarrow> inputs_mutable r \<longleftrightarrow> re_determinations r = [] \<or> re_correction_open r"
  by (auto simp: inputs_mutable_def result_inv_def inv_decision_def)

lemma matching_calculation_mem:
  "matching_calculation e r = Inr (Some c) \<Longrightarrow> c \<in> set (re_calculations r)"
  by (auto simp: matching_calculation_def match_fingerprint_def bnd_Inr_iff split: option.splits
      dest: find_Some_mem)

lemma determine_result_row_moves:
  assumes inv: "db_inv db" and r: "row_by_id db i = Some r"
    and cmd: "determine_result_row i n t db = Inr db1"
    and fin: "finish e a i kind p m reason b db1 = Inr (db', w)"
    and t: "inputs_mutable r" "rd_revision t = (case current_determination (load_result r) of None \<Rightarrow> 1
        | Some d \<Rightarrow> rd_revision d + 1)"
      "rd_calculation_id t \<in> set (map rc_id (re_calculations r))"
      "vote_ok (rd_participants t) (rd_vote t)"
      "rd_correction_id t = map_option rx_id (open_correction_of (load_result r))"
  shows "moves i db db' \<and> version_of db i = n \<and> n < version_of db' i"
proof (rule write_moves[OF inv r cmd[unfolded determine_result_row_def] _ fin])
  have ri: "result_inv r" by (rule db_inv_row[OF inv r])
  let ?r1 = "put_determination (next_id (table_ids (\<lambda>r. map rd_id (re_determinations r))
      (upd_row re_id i (claimed (Some Determined)) db))) t (claimed (Some Determined) r)"
  have "rd_revision t = int (length (re_determinations r)) + 1"
    using t(2) ri history_last_revision[OF result_inv_history[OF ri]]
    by (simp add: load_current_determination current_determination_last split: if_splits)
  then show "rstep r ?r1 \<and> re_version ?r1 = re_version r + 1"
    using fresh_id[OF r, of "\<lambda>r. map rd_id (re_determinations r)"] t ri
    by (auto simp: table_ids_claimed load_open_correction intro!: rstep.determination)
qed

lemma determine_result_Inr:
  assumes "determine_result e a i p db = Inr (db', v)"
  obtains r where "row_by_id db i = Some r" "db' = db"
  | r n m chosen vote dissent db0 r1 c db1 where "row_by_id db i = Some r"
      "member_id_for a (load_result r) = Some m" "m \<in> set (re_participants r)"
      "can_manage a (re_committee_id r)" "inputs_mutable r"
      "required_result_version p = Inr (re_version r)"
      "participant_set (jget p ''participant_member_ids'') = Inr chosen"
      "assert_quorum (mo_rules (re_model r)) chosen (re_participants (load_result r)) = Inr ()"
      "validate_vote (jget p ''vote'') chosen = Inr vote"
      "ensure_calculation e db (load_result r) = Inr (db0, r1)"
      "matching_calculation e r1 = Inr (Some c)"
      "determine_result_row i n \<lparr>rd_id = 0,
            rd_revision = (case current_determination r1 of None \<Rightarrow> 1 | Some d \<Rightarrow> rd_revision d + 1),
            rd_calculation_id = rc_id c, rd_participants = sort chosen, rd_vote = vote,
            rd_dissent = dissent, rd_status = Current,
            rd_previous = map_option rd_id (current_determination r1),
            rd_correction_id = map_option rx_id (open_correction_of r1), rd_by = m,
            rd_at = en_now e\<rparr> db0 = Inr db1"
      "finish e a i ''result_determine'' p (Some m) None False db1 = Inr (db', v)"
proof -
  note goal = that
  from assms[unfolded determine_result_def bnd_Inr_iff]
  obtain r where r: "required_access db a i = Inr r" by blast
  from required_access_Inr[OF r] obtain r0 where r0: "row_by_id db i = Some r0" "r = load_result r0" .
  obtain m where m: "member_id_for a (load_result r0) = Some m"
    using assms r r0 by (auto simp: determine_result_def bnd_Inr_iff split: option.splits)
  show thesis
  proof (cases "current_determination r \<noteq> None \<and> \<not> re_correction_open r")
    case True
    with assms r r0 m have "db' = db"
      by (auto simp: determine_result_def ok_iff with_view_Inr Let_def split: if_split_asm)
    with r0 goal(1) show thesis by blast
  next
    case False
    from assms[unfolded determine_result_def r] False[unfolded r0(2)] m r0(2)
    obtain n chosen vote dissent db0 r1 c db1 where
      "m \<in> set (re_participants r0)" "can_manage a (re_committee_id r0)" "inputs_mutable r0"
      "required_result_version p = Inr (re_version r0)"
      "participant_set (jget p ''participant_member_ids'') = Inr chosen"
      "assert_quorum (mo_rules (re_model r0)) chosen (re_participants (load_result r0)) = Inr ()"
      "validate_vote (jget p ''vote'') chosen = Inr vote"
      "ensure_calculation e db (load_result r0) = Inr (db0, r1)"
      "matching_calculation e r1 = Inr (Some c)"
      "determine_result_row i n \<lparr>rd_id = 0,
            rd_revision = (case current_determination r1 of None \<Rightarrow> 1 | Some d \<Rightarrow> rd_revision d + 1),
            rd_calculation_id = rc_id c, rd_participants = sort chosen, rd_vote = vote,
            rd_dissent = dissent, rd_status = Current,
            rd_previous = map_option rd_id (current_determination r1),
            rd_correction_id = map_option rx_id (open_correction_of r1), rd_by = m,
            rd_at = en_now e\<rparr> db0 = Inr db1"
      "finish e a i ''result_determine'' p (Some m) None False db1 = Inr (db', v)"
      by (auto simp: ok_iff case_Some_Inr_iff inputs_mutable_iff Let_def)
    with r0(1) m goal(2) show thesis by blast
  qed
qed

lemma determine_result_changes:
  assumes inv: "db_inv db" and op: "determine_result e a i p db = Inr (db', v)"
  shows "changes i p db db'"
  using op
proof (cases rule: determine_result_Inr)
  case (1 r)
  then show ?thesis using changes_refl[OF inv] by simp
next
  case (2 r n m chosen vote dissent db0 r1' c db1)
  obtain r1 where r1: "rstep\<^sup>*\<^sup>* r r1" "db0 = upd_row re_id i (\<lambda>_. r1) db" "r1' = load_result r1"
    "same_decision r r1" using ensure_calculation_row[OF inv 2(1,10)] .
  have m0: "moves i db db0" using r1 2(1) by (auto simp: moves_def)
  have row1: "row_by_id db0 i = Some r1"
    using r1(2) rsteps_frame[OF r1(1)] row_by_id_SomeD[OF 2(1)] 2(1) by simp
  have inv0: "db_inv db0" by (rule moves_inv[OF m0 inv])
  have "inputs_mutable r1"
    using 2(5) r1(4) inputs_mutable_inv[OF db_inv_row[OF inv 2(1)]]
      inputs_mutable_inv[OF db_inv_row[OF inv0 row1]] by (simp add: same_decision_def)
  moreover have "c \<in> set (re_calculations r1)" using matching_calculation_mem[OF 2(11)] r1(3) by simp
  ultimately have "moves i db0 db' \<and> version_of db0 i = n \<and> n < version_of db' i"
    by (intro determine_result_row_moves[OF inv0 row1 2(12,13)])
      (use r1(3) validate_vote_ok[OF 2(7,9)] in \<open>auto\<close>)
  with moves_trans[OF m0] moves_version[OF m0] 2(1,6) show ?thesis
    by (simp add: changes_def version_of_def[of db])
qed

subsection \<open>Record, correction, communication\<close>

lemma confirm_record_changes:
  assumes inv: "db_inv db" and op: "confirm_record e a i p db = Inr (db', v)"
  shows "changes i p db db'"
proof -
  from op[unfolded confirm_record_def bnd_Inr_iff]
  obtain r where r: "required_access db a i = Inr r" by blast
  from required_access_Inr[OF r] obtain r0 where r0: "row_by_id db i = Some r0" "r = load_result r0" .
  have ri: "result_inv r0" by (rule db_inv_row[OF inv r0(1)])
  have refl: "changes i p db db" by (rule changes_refl[OF inv r0(1)])
  have cur: "current_determination (load_result r0) =
      (if re_determinations r0 = [] then None else Some (last (re_determinations r0)))"
    using ri by (simp add: load_current_determination current_determination_last)
  have wr: "changes i p db db'" if "confirm_record_row i n f db = Inr db1"
      "finish e a i kind p m reason b db1 = Inr (db', v)" "required_result_version p = Inr n" "re_determinations r0 \<noteq> []"
      "\<not> re_correction_open r0" "rf_determination_id f = rd_id (last (re_determinations r0))"
      "rf_member f \<in> set (rd_participants (last (re_determinations r0)))" for n f db1 kind m reason b
    by (rule write_changes[OF inv r0(1) that(1)[unfolded confirm_record_row_def] _ that(2,3)])
      (use rstep.confirmation[of r0 "f\<lparr>rf_id := _\<rparr>"] that(4-7) in simp)
  show ?thesis using op refl r r0 unfolding confirm_record_def
    by (auto simp: ok_iff case_Some_Inr_iff with_view_Inr cur split: if_split_asm intro!: wr)
qed

lemma open_correction_changes:
  assumes inv: "db_inv db" and op: "open_correction e a i p db = Inr (db', v)"
  shows "changes i p db db'"
proof -
  from op[unfolded open_correction_def bnd_Inr_iff]
  obtain r where r: "required_access db a i = Inr r" by blast
  from required_access_Inr[OF r] obtain r0 where r0: "row_by_id db i = Some r0" "r = load_result r0" .
  have ri: "result_inv r0" by (rule db_inv_row[OF inv r0(1)])
  have refl: "changes i p db db" by (rule changes_refl[OF inv r0(1)])
  have cur: "current_determination (load_result r0) =
      (if re_determinations r0 = [] then None else Some (last (re_determinations r0)))"
    using ri by (simp add: load_current_determination current_determination_last)
  have wr: "changes i p db db'" if "open_correction_row i n q db = Inr db1"
      "finish e a i kind p m reason b db1 = Inr (db', v)" "required_result_version p = Inr n" "re_determinations r0 \<noteq> []"
      "open_correction_of r0 = None" for n q db1 kind m reason b
  proof (rule write_changes[OF inv r0(1) that(1)[unfolded open_correction_row_def] _ that(2,3)])
    let ?r1 = "put_correction (next_id (table_ids (\<lambda>r. map rx_id (re_corrections r))
        (upd_row re_id i (claimed None) db))) q (claimed None r0)"
    show "rstep r0 ?r1 \<and> re_version ?r1 = re_version r0 + 1"
      using fresh_id[OF r0(1), of "\<lambda>r. map rx_id (re_corrections r)"] that(4,5)
      by (auto simp: table_ids_claimed intro!: rstep.correction)
  qed
  show ?thesis
  proof (cases "open_correction_of r0")
    case None
    with op r r0 ri show ?thesis unfolding open_correction_def
      by (auto simp: ok_iff case_Some_Inr_iff cur load_open_correction split: if_split_asm intro!: wr)
  next
    case (Some x)
    with op refl r r0 ri show ?thesis unfolding open_correction_def
      by (auto simp: ok_iff case_Some_Inr_iff with_view_Inr cur load_open_correction split: if_split_asm)
  qed
qed

lemma communicate_changes:
  assumes inv: "db_inv db" and op: "communicate e a i p db = Inr (db', v)"
  shows "changes i p db db'"
proof -
  from op[unfolded communicate_def bnd_Inr_iff]
  obtain r where r: "required_access db a i = Inr r" by blast
  from required_access_Inr[OF r] obtain r0 where r0: "row_by_id db i = Some r0" "r = load_result r0" .
  have ri: "result_inv r0" by (rule db_inv_row[OF inv r0(1)])
  have refl: "changes i p db db" by (rule changes_refl[OF inv r0(1)])
  have cur: "current_determination (load_result r0) =
      (if re_determinations r0 = [] then None else Some (last (re_determinations r0)))"
    using ri by (simp add: load_current_determination current_determination_last)
  have signed: "set (confirmed_by (load_result r0) d) = signed_by (re_confirmations r0) d" for d
    by (simp add: set_confirmed_by signed_by_def)
  have wr: "changes i p db db'" if "communicate_result_row i n c db = Inr db1"
      "finish e a i kind p m reason b db1 = Inr (db', v)" "required_result_version p = Inr n" "re_determinations r0 \<noteq> []"
      "\<not> re_correction_open r0" "rm_determination_id c = rd_id (last (re_determinations r0))"
      "signed_by (re_confirmations r0) (rd_id (last (re_determinations r0)))
         = set (rd_participants (last (re_determinations r0)))" for n c db1 kind m reason b
    by (rule write_changes[OF inv r0(1) that(1)[unfolded communicate_result_row_def] _ that(2,3)])
      (rule conjI[OF rstep.communication], use that(4-7) in simp_all)
  show ?thesis using op refl r r0 unfolding communicate_def
    by (auto simp: ok_iff case_Some_Inr_iff with_view_Inr cur signed split: if_split_asm intro!: wr)
qed

subsection \<open>Retention, exports, reads, reopening\<close>

lemma retention_hold_reason_kept:
  assumes "retention_hold_reason old mo q = Inr h" "rr_retain_until c = rq_retain_until q"
    "rr_legal_hold c = rq_legal_hold q" "rr_hold_reason c = h"
  shows "retention_kept old c"
proof (cases old)
  case None
  then show ?thesis by (simp add: retention_kept_def)
next
  case (Some o')
  have "case rr_retain_until o' of None \<Rightarrow> True
      | Some t \<Rightarrow> (case rr_retain_until c of None \<Rightarrow> False | Some u \<Rightarrow> t \<le> u)"
    using assms(1,2) Some by (auto simp: retention_hold_reason_def bnd_Inr_iff not_less
        simp del: less_prod_simp less_eq_prod_simp split: option.splits if_split_asm)
  moreover have "h \<noteq> None" if "rr_legal_hold o'" "\<not> rr_legal_hold c"
    using assms(1,3) Some that by (auto simp: retention_hold_reason_def bnd_Inr_iff split: option.split_asm)
  ultimately show ?thesis using Some assms(4) by (auto simp: retention_kept_def)
qed

lemma set_retention_changes:
  assumes inv: "db_inv db" and op: "set_retention e a i p db = Inr (db', v)"
  shows "changes i p db db'"
proof -
  from op[unfolded set_retention_def bnd_Inr_iff]
  obtain r where r: "required_access db a i = Inr r" by blast
  from required_access_Inr[OF r] obtain r0 where r0: "row_by_id db i = Some r0" "r = load_result r0" .
  have refl: "changes i p db db" by (rule changes_refl[OF inv r0(1)])
  have wr: "changes i p db db'" if "save_retention i n c db = Inr db1"
      "finish e a i kind p m reason b db1 = Inr (db', v)" "required_result_version p = Inr n" "retention_kept (re_retention r0) c"
    for n c db1 kind m reason b
    by (rule write_changes[OF inv r0(1) that(1)[unfolded save_retention_def] _ that(2,3)])
      (use rstep.retention[OF that(4)] in simp)
  show ?thesis using op refl r r0 unfolding set_retention_def
    by (auto simp: ok_iff case_Some_Inr_iff with_view_Inr split: if_split_asm
        intro!: wr intro: retention_hold_reason_kept)
qed

lemma export_result_moves:
  assumes inv: "db_inv db" and op: "export_result kind e a i db = Inr (db', st, v)"
  shows "moves i db db'"
proof -
  from op[unfolded export_result_def bnd_Inr_iff]
  obtain r where r: "required_access db a i = Inr r" by blast
  from required_access_Inr[OF r] obtain r0 where r0: "row_by_id db i = Some r0" "r = load_result r0" .
  have ri: "result_inv r0" by (rule db_inv_row[OF inv r0(1)])
  have d: "distinct (map re_id db)" using inv by (simp add: db_inv_def)
  have cur: "current_determination (load_result r0) =
      (if re_determinations r0 = [] then None else Some (last (re_determinations r0)))"
    using ri by (simp add: load_current_determination current_determination_last)
  from op r r0 obtain c m where c: "record_export i (re_version r0) c db = Inr db'"
    "c = \<lparr>xp_id = 0, xp_determination_id = map_option rd_id (current_determination (load_result r0)),
        xp_kind = kind, xp_status = (if current_determination (load_result r0) = None then ExpDraft
          else ExpDetermined), xp_by = m, xp_at = en_now e\<rparr>"
    by (auto simp: export_result_def ok_iff case_Some_Inr_iff Let_def)
  obtain new where "db' = upd_row re_id i (\<lambda>r. r\<lparr>re_exports := re_exports r @ [c\<lparr>xp_id := new\<rparr>]\<rparr>) db"
    using c(1) r0(1) by (auto simp: record_export_def split: if_split_asm)
  then have db': "db' = upd_row re_id i (\<lambda>_. r0\<lparr>re_exports := re_exports r0 @ [c\<lparr>xp_id := new\<rparr>]\<rparr>) db"
    using upd_row_row[OF d r0(1), of "\<lambda>r. r\<lparr>re_exports := re_exports r @ [c\<lparr>xp_id := new\<rparr>]\<rparr>"] by metis
  show ?thesis unfolding db'
    by (rule moves_rstep[OF r0(1)], rule rstep.export) (simp add: c(2) cur)
qed

lemma read_result_moves:
  assumes inv: "db_inv db" and op: "read_result e a i db = Inr (db', v)"
  shows "db' = db \<or> moves i db db'"
proof (cases "row_by_id db i")
  case None
  with op show ?thesis by (simp add: read_result_def result_by_id_def)
next
  case (Some r)
  with op show ?thesis using ensure_calculation_moves[OF inv Some]
    by (auto simp: read_result_def result_by_id_def bnd_Inr_iff split: if_split_asm)
qed

lemma reopen_result_for_day_moves:
  assumes inv: "db_inv db" and op: "reopen_result_for_day i n ref m reason t db = Inr (db', c)"
  shows "moves i db db'"
proof -
  from op obtain r where r: "row_by_id db i = Some r"
    by (auto simp: reopen_result_for_day_def result_by_id_def split: option.split_asm)
  have d: "distinct (map re_id db)" using inv by (simp add: db_inv_def)
  have ri: "result_inv r" by (rule db_inv_row[OF inv r])
  have refl: "moves i db db" by (rule moves_refl[OF d r])
  show ?thesis
  proof (cases "re_determinations r = []")
    case True
    with op r ri refl show ?thesis
      by (auto simp: reopen_result_for_day_def result_by_id_def load_current_determination
          current_determination_last split: if_split_asm)
  next
    case False
    let ?d = "last (re_determinations r)"
    let ?q = "\<lparr>rx_id = 0, rx_determination_id = rd_id ?d, rx_reason = reason, rx_by = m,
      rx_status = CorrOpen, rx_reopening = Some ref, rx_requested_at = t, rx_completed_at = None\<rparr>"
    let ?F = "\<lambda>db r. (if open_correction_of r = None
      then put_correction (next_id (table_ids (\<lambda>r. map rx_id (re_corrections r)) db)) ?q r
      else r)\<lparr>re_correction_open := True\<rparr>"
    have "bnd (claim i n None db) (\<lambda>db. Inr (upd_row re_id i (?F db) db)) = Inr db'"
      using op r ri False
      by (auto simp: reopen_result_for_day_def result_by_id_def load_current_determination
          current_determination_last open_day_reopening_correction_def Let_def bnd_Inr_iff
          split: if_split_asm)
    from command_row(2)[OF d r this]
    have db': "db' = upd_row re_id i (\<lambda>_. ?F (upd_row re_id i (claimed None) db) (claimed None r)) db" .
    have oc: "open_correction_of (claimed None r) = open_correction_of r"
      by (simp add: open_correction_of_def)
    have "rstep r (?F (upd_row re_id i (claimed None) db) (claimed None r))"
    proof (cases "open_correction_of r = None")
      case True
      let ?new = "next_id (table_ids (\<lambda>r. map rx_id (re_corrections r)) db)"
      have "rstep r (put_correction ?new ?q (claimed None r))"
        by (rule rstep.correction[OF False True])
          (use fresh_id[OF r, of "\<lambda>r. map rx_id (re_corrections r)"] in simp)
      moreover have "(put_correction ?new ?q (claimed None r))\<lparr>re_correction_open := True\<rparr>
          = put_correction ?new ?q (claimed None r)" by (simp add: put_correction_def)
      ultimately show ?thesis using True oc by (simp add: table_ids_claimed)
    next
      case nn: False
      from rstep.reopening[OF this] nn oc show ?thesis by auto
    qed
    from moves_rstep[OF r this] show ?thesis unfolding db' .
  qed
qed

end
