(* ===== verification/Assess_Binding.thy ===== *)
theory Assess_Binding
  imports Assess_Decide_Steps
begin

text \<open>
  Assessment models and their binding to exam rounds: \<open>create_model\<close>, \<open>bind_round\<close>,
  \<open>_assert_model_applicable\<close> of the service and \<open>create_model\<close>, \<open>bind_round\<close>,
  \<open>ensure_round_results\<close>, \<open>round_has_assessment_inputs\<close> of the repository.

  A snapshot reads the model of a result through the binding of its round, so a rebinding is a
  change of \<^const>\<open>re_model\<close> in every result of that round. The \<open>rules\<close> member of the payload enters
  already parsed (\<open>raw\<close>): pydantic's coercion of JSON to the field types is library code, its
  validators are \<^const>\<open>validate_rules\<close>.
\<close>

record binding =
  bi_round :: int
  bi_model :: int
  bi_version :: int
  bi_by :: int
  bi_reason :: string
  bi_at :: string

record planned_candidate =
  pc_id :: int
  pc_specialization :: string
  pc_active :: bool

record planning =
  pn_round :: int
  pn_committee :: int
  pn_effective :: date
  pn_candidates :: "planned_candidate list"

record committee_identity =
  id_occupation :: string
  id_ihk :: string

record world =
  w_models :: "model list"
  w_bindings :: "binding list"
  w_results :: db

subsection \<open>Models\<close>

definition model_fields :: "string set" where
  "model_fields = {''model_key'', ''version'', ''ihk'', ''occupation'', ''specialization'',
     ''training_regulation'', ''exam_regulation'', ''ihk_guidelines'', ''valid_from'', ''valid_until'',
     ''official_scale_min'', ''official_scale_max'', ''rules'', ''retention_rule_reference'',
     ''retention_years''}"

definition create_model_row :: "model \<Rightarrow> world \<Rightarrow> assess_error + (world \<times> model)" where
  "create_model_row c w =
     (if list_ex (\<lambda>m. mo_key m = mo_key c \<and> mo_version m = mo_version c) (w_models w)
      then Inl IntegrityErr
      else let m = c\<lparr>mo_id := next_id (map mo_id (w_models w))\<rparr>
        in Inr (w\<lparr>w_models := w_models w @ [m]\<rparr>, m))"

definition create_model :: "actor \<Rightarrow> rules \<Rightarrow> payload \<Rightarrow> world \<Rightarrow> assess_error + (world \<times> model)" where
  "create_model a raw p w =
     require (ac_management a \<noteq> []) Forbidden (
     require (set (map fst p) \<subseteq> model_fields) (ValueErr ModelFields) (
     bnd (case validate_rules raw of Inl e \<Rightarrow> Inl (RulesErr e) | Inr ru \<Rightarrow> Inr ru) (\<lambda>ru.
     bnd (text_res (decimal_of (jget_default p ''official_scale_min'' (JInt 0)))) (\<lambda>lo.
     bnd (text_res (decimal_of (jget_default p ''official_scale_max'' (JInt 100)))) (\<lambda>hi.
     require (\<not> (lo \<noteq> 0 \<or> hi \<noteq> 100)) (ValueErr ModelScale) (
     bnd (text_res (required_date (jget p ''valid_from''))) (\<lambda>valid_from.
     bnd (text_res (optional_date (jget p ''valid_until''))) (\<lambda>valid_until.
     require (case valid_until of None \<Rightarrow> True | Some u \<Rightarrow> \<not> u < valid_from) (ValueErr ModelValidity) (
     bnd (text_res (integer_of (jget_default p ''retention_years'' (JInt 15)) 15)) (\<lambda>years.
     require (ac_members a \<noteq> []) (ValueErr EmptyMin) (
     bnd (text_res (required_text (jget p ''model_key'') 100)) (\<lambda>key.
     bnd (text_res (integer_of (jget p ''version'') 1)) (\<lambda>version.
     bnd (text_res (required_text (jget p ''ihk'') 300)) (\<lambda>ihk.
     bnd (text_res (required_text (jget p ''occupation'') 300)) (\<lambda>occupation.
     bnd (text_res (optional_text (jget p ''specialization'') 300)) (\<lambda>specialization.
     bnd (text_res (required_text (jget p ''training_regulation'') 1000)) (\<lambda>training.
     bnd (text_res (required_text (jget p ''exam_regulation'') 1000)) (\<lambda>exam.
     bnd (text_res (required_text (jget p ''ihk_guidelines'') 2000)) (\<lambda>guidelines.
     bnd (text_res (required_text (jget p ''retention_rule_reference'') 1000)) (\<lambda>reference.
     create_model_row \<lparr>mo_id = 0, mo_key = key, mo_version = version, mo_ihk = ihk,
       mo_occupation = occupation, mo_specialization = specialization,
       mo_training_regulation = training, mo_exam_regulation = exam, mo_ihk_guidelines = guidelines,
       mo_valid_from = valid_from, mo_valid_until = valid_until, mo_rules = ru,
       mo_retention_rule_reference = reference, mo_retention_years = years,
       mo_created_by = Min (set (ac_members a))\<rparr> w))))))))))))))))))))"

subsection \<open>Binding\<close>

definition model_by_id :: "world \<Rightarrow> int \<Rightarrow> model option" where
  "model_by_id w i = List.find (\<lambda>m. mo_id m = i) (w_models w)"

definition binding_for_round :: "world \<Rightarrow> int \<Rightarrow> binding option" where
  "binding_for_round w i = List.find (\<lambda>b. bi_round b = i) (w_bindings w)"

definition assert_model_applicable ::
  "planning \<Rightarrow> committee_identity option \<Rightarrow> model \<Rightarrow> assess_error + unit" where
  "assert_model_applicable pn ident m = (case ident of None \<Rightarrow> Inl (ValueErr ModelNotApplicable)
   | Some c \<Rightarrow>
     require (id_occupation c = mo_occupation m) (ValueErr ModelNotApplicable) (
     require (id_ihk c = mo_ihk m) (ValueErr ModelNotApplicable) (
     require (\<not> (pn_effective pn < mo_valid_from m \<or>
         (case mo_valid_until m of None \<Rightarrow> False | Some u \<Rightarrow> u < pn_effective pn)))
       (ValueErr ModelNotApplicable) (
     require (case mo_specialization m of None \<Rightarrow> True
         | Some s \<Rightarrow> set (map pc_specialization (filter pc_active (pn_candidates pn))) = {s})
       (ValueErr ModelNotApplicable) (Inr ())))))"

definition in_round :: "planning \<Rightarrow> result \<Rightarrow> bool" where
  "in_round pn r \<longleftrightarrow> re_round_candidate_id r \<in> set (map pc_id (pn_candidates pn))"

definition has_inputs :: "result \<Rightarrow> bool" where
  "has_inputs r \<longleftrightarrow> re_individuals r \<noteq> [] \<or> re_components r \<noteq> [] \<or> re_externals r \<noteq> []
     \<or> re_calculations r \<noteq> [] \<or> re_determinations r \<noteq> []"

definition round_has_assessment_inputs :: "world \<Rightarrow> planning \<Rightarrow> bool" where
  "round_has_assessment_inputs w pn = list_ex (\<lambda>r. in_round pn r \<and> has_inputs r) (w_results w)"

definition bind_round_row ::
  "planning \<Rightarrow> model \<Rightarrow> int option \<Rightarrow> int \<Rightarrow> string \<Rightarrow> string \<Rightarrow> world \<Rightarrow> assess_error + world" where
  "bind_round_row pn m expected by' reason now w = bnd (case binding_for_round w (pn_round pn) of
       None \<Rightarrow> require (expected = None) (Conflict VersionConflict) (
         Inr (w\<lparr>w_bindings := w_bindings w @ [\<lparr>bi_round = pn_round pn, bi_model = mo_id m,
           bi_version = 1, bi_by = by', bi_reason = reason, bi_at = now\<rparr>]\<rparr>))
     | Some b \<Rightarrow> require (expected = Some (bi_version b)) (Conflict VersionConflict) (
         Inr (w\<lparr>w_bindings := upd_row bi_round (pn_round pn) (\<lambda>b. b\<lparr>bi_model := mo_id m,
           bi_version := bi_version b + 1, bi_by := by', bi_reason := reason, bi_at := now\<rparr>)
           (w_bindings w)\<rparr>))) (\<lambda>w.
     Inr (w\<lparr>w_results := map (\<lambda>r. if in_round pn r then r\<lparr>re_model := m\<rparr> else r) (w_results w)\<rparr>))"

definition new_result :: "planning \<Rightarrow> model \<Rightarrow> int \<Rightarrow> int \<Rightarrow> result" where
  "new_result pn m i rc = \<lparr>re_id = i, re_committee_id = pn_committee pn, re_round_candidate_id = rc,
     re_version = 1, re_state = Incomplete, re_correction_open = False, re_legacy = False,
     re_model = m, re_participants = [], re_days = [], re_individuals = [], re_components = [],
     re_externals = [], re_disclosures = [], re_calculations = [], re_determinations = [],
     re_confirmations = [], re_corrections = [], re_communications = [], re_retention = None,
     re_exports = []\<rparr>"

definition ensure_round_results :: "planning \<Rightarrow> model \<Rightarrow> db \<Rightarrow> db" where
  "ensure_round_results pn m db = fold (\<lambda>c db.
     if pc_active c \<and> pc_id c \<notin> set (map re_round_candidate_id db)
     then db @ [new_result pn m (next_id (map re_id db)) (pc_id c)] else db) (pn_candidates pn) db"

definition bind_round :: "env \<Rightarrow> actor \<Rightarrow> planning option \<Rightarrow> committee_identity option \<Rightarrow> int \<Rightarrow>
    payload \<Rightarrow> world \<Rightarrow> assess_error + (world \<times> binding)" where
  "bind_round e a planning ident round_id p w =
     bnd (text_res (integer_of (jget p ''assessment_model_version_id'') 1)) (\<lambda>model_id.
     bnd (text_res (required_text (jget p ''reason'') 1000)) (\<lambda>reason.
     bnd (if jget p ''version'' = JNull then Inr None
          else bnd (text_res (integer_of (jget p ''version'') 1)) (\<lambda>v. Inr (Some v))) (\<lambda>expected.
     bnd (check_mutation_allowed e round_id p) (\<lambda>_.
     case planning of None \<Rightarrow> Inl (ValueErr RoundNotFound) | Some pn \<Rightarrow>
     (case map_of (ac_member_by_committee a) (pn_committee pn) of None \<Rightarrow> Inl Forbidden | Some m \<Rightarrow>
     require (can_manage a (pn_committee pn)) Forbidden (
     case model_by_id w model_id of None \<Rightarrow> Inl (ValueErr ModelNotFound) | Some mo \<Rightarrow>
     bnd (assert_model_applicable pn ident mo) (\<lambda>_.
     let current = binding_for_round w round_id in
     if (case current of None \<Rightarrow> False | Some b \<Rightarrow> bi_model b = mo_id mo) then Inr (w, the current) else
     require (case current of None \<Rightarrow> True | Some b \<Rightarrow> expected = Some (bi_version b))
       (Conflict VersionConflict) (
     require (\<not> (current \<noteq> None \<and> round_has_assessment_inputs w pn)) (Conflict BindingFrozen) (
     bnd (bind_round_row pn mo (map_option bi_version current) m reason (en_now e) w) (\<lambda>w.
     case binding_for_round w round_id of None \<Rightarrow> Inl RuntimeErr | Some b \<Rightarrow>
       Inr (w\<lparr>w_results := ensure_round_results pn mo (w_results w)\<rparr>, b)))))))))))"

end
