(* ===== verification/Assess_Reach.thy ===== *)
theory Assess_Reach
  imports Assess_Binding "HOL-Library.Sublist"
begin

text \<open>
  The Assessment component as a transition system: a step is a service method that returns, or one of
  the changes other components make to what a snapshot shows (protocol participants, exam days).
  Every reachable state satisfies \<open>world_inv\<close>; versions never decrease and histories only grow.
\<close>

datatype command =
    SaveIndividual payload | WithdrawIndividual int payload | Disclose payload
  | DetermineComponent payload | RecordExternal payload | ConfirmExternal int payload
  | DetermineResult payload | ConfirmRecord payload | OpenCorrection payload | Communicate payload
  | SetRetention payload | MachineExport | HumanExport

definition stored :: "assess_error + (db \<times> 'a) \<Rightarrow> assess_error + db" where
  "stored m = bnd m (\<lambda>(db, _). Inr db)"

fun run_command :: "env \<Rightarrow> actor \<Rightarrow> int \<Rightarrow> command \<Rightarrow> db \<Rightarrow> assess_error + db" where
  "run_command e a i (SaveIndividual p) db = stored (save_individual e a i p db)"
| "run_command e a i (WithdrawIndividual k p) db = stored (withdraw_individual e a i k p db)"
| "run_command e a i (Disclose p) db = stored (disclose e a i p db)"
| "run_command e a i (DetermineComponent p) db = stored (determine_component e a i p db)"
| "run_command e a i (RecordExternal p) db = stored (record_external e a i p db)"
| "run_command e a i (ConfirmExternal k p) db = stored (confirm_external e a i k p db)"
| "run_command e a i (DetermineResult p) db = stored (determine_result e a i p db)"
| "run_command e a i (ConfirmRecord p) db = stored (confirm_record e a i p db)"
| "run_command e a i (OpenCorrection p) db = stored (open_correction e a i p db)"
| "run_command e a i (Communicate p) db = stored (communicate e a i p db)"
| "run_command e a i (SetRetention p) db = stored (set_retention e a i p db)"
| "run_command e a i MachineExport db = stored (machine_export e a i db)"
| "run_command e a i HumanExport db = stored (human_export e a i db)"

fun_cases run_command_Inr: "run_command e a i c db = Inr db'"

lemma stored_Inr: "stored m = Inr db \<longleftrightarrow> (\<exists>v. m = Inr (db, v))"
    "Inr db = stored m \<longleftrightarrow> (\<exists>v. m = Inr (db, v))"
  by (cases m; force simp: stored_def)+

fun command_payload :: "command \<Rightarrow> payload option" where
  "command_payload (SaveIndividual p) = Some p"
| "command_payload (WithdrawIndividual k p) = Some p"
| "command_payload (Disclose p) = Some p"
| "command_payload (DetermineComponent p) = Some p"
| "command_payload (RecordExternal p) = Some p"
| "command_payload (ConfirmExternal k p) = Some p"
| "command_payload (DetermineResult p) = Some p"
| "command_payload (ConfirmRecord p) = Some p"
| "command_payload (OpenCorrection p) = Some p"
| "command_payload (Communicate p) = Some p"
| "command_payload (SetRetention p) = Some p"
| "command_payload MachineExport = None"
| "command_payload HumanExport = None"

lemmas service_changes = save_individual_changes withdraw_individual_changes disclose_changes
  determine_component_changes record_external_changes confirm_external_changes
  determine_result_changes confirm_record_changes open_correction_changes communicate_changes
  set_retention_changes

lemma run_command_changes:
  assumes "db_inv db" "run_command e a i c db = Inr db'" "command_payload c = Some p"
  shows "changes i p db db'"
  using assms(2,3) service_changes[OF assms(1)]
  by (cases rule: run_command_Inr) (fastforce simp: stored_Inr)+

lemma run_command_moves:
  assumes "db_inv db" "run_command e a i c db = Inr db'"
  shows "moves i db db'"
proof (cases "command_payload c")
  case None
  with assms(2) show ?thesis using export_result_moves[OF assms(1)]
    by (cases c) (auto simp: stored_Inr bnd_Inr_iff machine_export_def human_export_def)
next
  case (Some p)
  from run_command_changes[OF assms this] show ?thesis by (simp add: changes_def)
qed

inductive assess_step :: "world \<Rightarrow> world \<Rightarrow> bool" where
  model: "create_model a raw p w = Inr (w', m) \<Longrightarrow> assess_step w w'"
| bind: "bind_round e a pn ident i p w = Inr (w', b) \<Longrightarrow> assess_step w w'"
| command: "run_command e a i c (w_results w) = Inr db \<Longrightarrow> assess_step w (w\<lparr>w_results := db\<rparr>)"
| read: "read_result e a i (w_results w) = Inr (db, v) \<Longrightarrow> assess_step w (w\<lparr>w_results := db\<rparr>)"
| reopen: "reopen_result_for_day i n ref m reason t (w_results w) = Inr (db, q) \<Longrightarrow>
     assess_step w (w\<lparr>w_results := db\<rparr>)"
| protocol: "row_by_id (w_results w) i = Some r \<Longrightarrow>
     assess_step w (w\<lparr>w_results := upd_row re_id i (\<lambda>_. r\<lparr>re_participants := ps\<rparr>) (w_results w)\<rparr>)"
| exam_days: "row_by_id (w_results w) i = Some r \<Longrightarrow>
     assess_step w (w\<lparr>w_results := upd_row re_id i (\<lambda>_. r\<lparr>re_days := ds\<rparr>) (w_results w)\<rparr>)"

definition empty_world :: world where
  "empty_world = \<lparr>w_models = [], w_bindings = [], w_results = []\<rparr>"

definition world_inv :: "world \<Rightarrow> bool" where
  "world_inv w \<longleftrightarrow> db_inv (w_results w) \<and> distinct (map re_round_candidate_id (w_results w))
     \<and> distinct (map mo_id (w_models w)) \<and> distinct (map bi_round (w_bindings w))
     \<and> (\<forall>m \<in> set (w_models w). wf_rules (mo_rules m))"

text \<open>Every method on one result is a move of its row; the two others work on models and bindings.\<close>

lemma assess_step_cases:
  assumes "assess_step w w'" "db_inv (w_results w)"
  obtains (model) a raw p m where "create_model a raw p w = Inr (w', m)"
  | (bind) e a pn ident i p b where "bind_round e a pn ident i p w = Inr (w', b)"
  | (stay) "w' = w"
  | (row) i db where "moves i (w_results w) db" "w' = w\<lparr>w_results := db\<rparr>"
  using assms
proof (induction rule: assess_step.induct)
  case (command e a i c w db)
  show ?case by (rule command(5)[OF run_command_moves[OF command(6,1)] refl])
next
  case (read e a i w db v)
  then show ?case using read_result_moves[of "w_results w" e a i db v] by auto
next
  case (reopen i n ref m reason t w db q)
  show ?case by (rule reopen(5)[OF reopen_result_for_day_moves[OF reopen(6,1)] refl])
next
  case (protocol w i r ps)
  show ?case by (rule protocol(5)[OF moves_rstep[OF protocol(1) rstep.participants] refl])
next
  case (exam_days w i r ds)
  show ?case by (rule exam_days(5)[OF moves_rstep[OF exam_days(1) rstep.days] refl])
qed blast+

subsection \<open>Models and bindings\<close>

lemma create_model_Inr:
  assumes "create_model a raw p w = Inr (w', m)"
  shows "w' = w\<lparr>w_models := w_models w @ [m]\<rparr>" "mo_id m = next_id (map mo_id (w_models w))"
    "validate_rules raw = Inr (mo_rules m)" "15 \<le> mo_retention_years m"
    "\<forall>x \<in> set (w_models w). mo_key x = mo_key m \<longrightarrow> mo_version x \<noteq> mo_version m"
proof -
  from assms[unfolded create_model_def ok_iff] obtain ru years k n ihk oc sp tr ex gu vf vu ref where
    ru: "(case validate_rules raw of Inl e \<Rightarrow> Inl (RulesErr e) | Inr ru \<Rightarrow> Inr ru) = Inr ru"
    and y: "text_res (integer_of (jget_default p ''retention_years'' (JInt 15)) 15) = Inr years"
    and c: "create_model_row \<lparr>mo_id = 0, mo_key = k, mo_version = n, mo_ihk = ihk,
       mo_occupation = oc, mo_specialization = sp, mo_training_regulation = tr,
       mo_exam_regulation = ex, mo_ihk_guidelines = gu, mo_valid_from = vf, mo_valid_until = vu,
       mo_rules = ru, mo_retention_rule_reference = ref, mo_retention_years = years,
       mo_created_by = Min (set (ac_members a))\<rparr> w = Inr (w', m)"
    by blast
  have "15 \<le> years" using y integer_of_ge by auto
  with ru c show "w' = w\<lparr>w_models := w_models w @ [m]\<rparr>" "mo_id m = next_id (map mo_id (w_models w))"
    "validate_rules raw = Inr (mo_rules m)" "15 \<le> mo_retention_years m"
    "\<forall>x \<in> set (w_models w). mo_key x = mo_key m \<longrightarrow> mo_version x \<noteq> mo_version m"
    by (auto simp: create_model_row_def Let_def list_ex_iff split: if_split_asm sum.split_asm)
qed

lemma ensure_round_results_inv:
  assumes "db_inv db" "distinct (map re_round_candidate_id db)" "wf_rules (mo_rules m)"
  shows "db_inv (ensure_round_results pn m db)
    \<and> distinct (map re_round_candidate_id (ensure_round_results pn m db))"
proof -
  let ?add = "\<lambda>c db. if pc_active c \<and> pc_id c \<notin> set (map re_round_candidate_id db)
     then db @ [new_result pn m (next_id (map re_id db)) (pc_id c)] else db"
  have new: "result_inv (new_result pn m i k)" for i k
    using assms(3) by (simp add: result_inv_def new_result_def inv_individuals_def inv_components_def
        inv_externals_def inv_decision_def history_def inv_corrections_def inv_communications_def
        inv_record_def inv_exports_def inv_calculations_def)
  have "db_inv (fold ?add cs db) \<and> distinct (map re_round_candidate_id (fold ?add cs db))" for cs
    using assms(1,2)
  proof (induction cs arbitrary: db)
    case (Cons c cs)
    have "db_inv (?add c db) \<and> distinct (map re_round_candidate_id (?add c db))"
      using Cons.prems new next_id_fresh[of "map re_id db"] by (auto simp: db_inv_def new_result_def)
    then show ?case using Cons.IH[of "?add c db"] by simp
  qed simp
  then show ?thesis by (simp add: ensure_round_results_def)
qed

lemma result_inv_rebind: "result_inv r \<Longrightarrow> wf_rules (mo_rules m) \<Longrightarrow> result_inv (r\<lparr>re_model := m\<rparr>)"
  by (simp add: result_inv_def)

lemma bind_round_Inr:
  assumes "bind_round e a planning ident i p w = Inr (w', b)"
  obtains "w' = w" "binding_for_round w i = Some b"
  | pn mo w1 m reason where "planning = Some pn" "can_manage a (pn_committee pn)"
      "mo \<in> set (w_models w)" "assert_model_applicable pn ident mo = Inr ()"
      "binding_for_round w i = None \<or> \<not> round_has_assessment_inputs w pn"
      "bind_round_row pn mo (map_option bi_version (binding_for_round w i)) m reason (en_now e) w = Inr w1"
      "binding_for_round w1 i = Some b"
      "w' = w1\<lparr>w_results := ensure_round_results pn mo (w_results w1)\<rparr>"
proof -
  note goal = that
  let ?cur = "binding_for_round w i"
  from assms obtain k reason expected pn m mo where pn: "planning = Some pn"
    "can_manage a (pn_committee pn)" and mo: "model_by_id w k = Some mo"
    and app: "assert_model_applicable pn ident mo = Inr ()"
    and rest: "(if case ?cur of None \<Rightarrow> False | Some b \<Rightarrow> bi_model b = mo_id mo
        then Inr (w, the ?cur)
        else require (case ?cur of None \<Rightarrow> True | Some b \<Rightarrow> expected = Some (bi_version b))
          (Conflict VersionConflict) (
          require (\<not> (?cur \<noteq> None \<and> round_has_assessment_inputs w pn)) (Conflict BindingFrozen) (
          bnd (bind_round_row pn mo (map_option bi_version ?cur) m reason (en_now e) w) (\<lambda>w.
            case binding_for_round w i of None \<Rightarrow> Inl RuntimeErr | Some b \<Rightarrow>
              Inr (w\<lparr>w_results := ensure_round_results pn mo (w_results w)\<rparr>, b))))) = Inr (w', b)"
    unfolding bind_round_def Let_def by (auto simp: ok_iff case_Some_Inr_iff)
  have mem: "mo \<in> set (w_models w)" using mo by (auto simp: model_by_id_def dest: find_Some_mem)
  show thesis
  proof (cases "case ?cur of None \<Rightarrow> False | Some b \<Rightarrow> bi_model b = mo_id mo")
    case True
    with rest goal(1) show thesis by (auto split: option.split_asm)
  next
    case False
    with rest obtain w1 where "?cur = None \<or> \<not> round_has_assessment_inputs w pn"
      "bind_round_row pn mo (map_option bi_version ?cur) m reason (en_now e) w = Inr w1"
      "binding_for_round w1 i = Some b"
      "w' = w1\<lparr>w_results := ensure_round_results pn mo (w_results w1)\<rparr>"
      by (auto simp: ok_iff case_Some_Inr_iff)
    with pn mem app goal(2) show thesis by blast
  qed
qed

lemma bind_round_row_inv:
  assumes "bind_round_row pn mo expected m reason now w = Inr w1" "world_inv w" "mo \<in> set (w_models w)"
  shows "world_inv w1" "w_models w1 = w_models w"
proof -
  let ?rs = "map (\<lambda>r. if in_round pn r then r\<lparr>re_model := mo\<rparr> else r) (w_results w)"
  from assms(1) have w1: "w_models w1 = w_models w" "w_results w1 = ?rs"
    by (auto simp: bind_round_row_def ok_iff split: option.split_asm)
  have "distinct (map bi_round (w_bindings w1))"
  proof (cases "binding_for_round w (pn_round pn)")
    case None
    then have "pn_round pn \<notin> bi_round ` set (w_bindings w)"
      by (auto simp: binding_for_round_def find_None_iff)
    with None assms(1,2) show ?thesis
      by (auto simp: bind_round_row_def ok_iff world_inv_def)
  next
    case (Some b)
    with assms(1) have "map bi_round (w_bindings w1) = map bi_round (w_bindings w)"
      by (auto simp: bind_round_row_def ok_iff upd_row_def)
    with assms(2) show ?thesis by (simp add: world_inv_def)
  qed
  moreover have ids: "map re_id ?rs = map re_id (w_results w)"
    "map re_round_candidate_id ?rs = map re_round_candidate_id (w_results w)" by simp_all
  moreover have "\<forall>r \<in> set ?rs. result_inv r"
    using assms(2,3) result_inv_rebind by (auto simp: world_inv_def db_inv_def)
  ultimately show "world_inv w1" using assms(2) w1 unfolding world_inv_def db_inv_def by metis
  show "w_models w1 = w_models w" by (rule w1(1))
qed

lemma bind_round_inv:
  assumes "bind_round e a planning ident i p w = Inr (w', b)" "world_inv w"
  shows "world_inv w'"
  using assms(1)
proof (cases rule: bind_round_Inr)
  case 1
  with assms(2) show ?thesis by simp
next
  case (2 pn mo w1 m reason)
  note w1 = bind_round_row_inv[OF 2(6) assms(2) 2(3)]
  have "wf_rules (mo_rules mo)" using 2(3) assms(2) by (simp add: world_inv_def)
  with w1(1) 2(8) show ?thesis
    using ensure_round_results_inv[of "w_results w1" mo pn] by (simp add: world_inv_def)
qed

lemma create_model_inv:
  assumes "create_model a raw p w = Inr (w', m)" "world_inv w"
  shows "world_inv w'"
  using create_model_Inr[OF assms(1)] assms(2) validate_rules_wf[of raw]
    next_id_fresh[of "map mo_id (w_models w)"]
  by (auto simp: world_inv_def)

lemma moves_candidates:
  assumes "moves i db db'" "distinct (map re_id db)"
  shows "map re_round_candidate_id db' = map re_round_candidate_id db"
proof -
  from assms(1) obtain r r' where r: "row_by_id db i = Some r" "rstep\<^sup>*\<^sup>* r r'"
    "db' = upd_row re_id i (\<lambda>_. r') db" by (auto simp: moves_def)
  have "re_round_candidate_id r' = re_round_candidate_id x" if "x \<in> set db" "re_id x = i" for x
    using find_key_unique[OF assms(2) that(1) r(1)[unfolded row_by_id_def] that(2)] rsteps_frame[OF r(2)]
    by simp
  then show ?thesis unfolding r(3) upd_row_def by simp
qed

lemma assess_step_inv: "assess_step w w' \<Longrightarrow> world_inv w \<Longrightarrow> world_inv w'"
proof -
  assume s: "assess_step w w'" and inv: "world_inv w"
  have db: "db_inv (w_results w)" using inv by (simp add: world_inv_def)
  from s db show ?thesis
  proof (cases rule: assess_step_cases)
    case (row i db')
    then show ?thesis using inv moves_inv[OF row(1) db] moves_candidates[OF row(1)]
      by (simp add: world_inv_def db_inv_def)
  qed (use inv create_model_inv bind_round_inv in blast)+
qed

interpretation assessment: invariant_system assess_step world_inv
  by unfold_locales (rule assess_step_inv)

lemma empty_world_inv: "world_inv empty_world"
  by (simp add: world_inv_def empty_world_def db_inv_def)

subsection \<open>Versions and histories\<close>

interpretation result_version: monotone_system rstep result_inv re_version
  by unfold_locales (rule rstep_version)

text \<open>
  What a later state owes to an earlier one, table by table: every row that was there is still there,
  at its place and with its content; only the status columns may move, and only forward. New rows
  come after them.
\<close>

definition kept :: "('a \<Rightarrow> 'a \<Rightarrow> bool) \<Rightarrow> 'a list \<Rightarrow> 'a list \<Rightarrow> bool" where
  "kept R xs ys \<longleftrightarrow> length xs \<le> length ys \<and> list_all2 R xs (take (length xs) ys)"

lemma kept_refl: "(\<And>x. R x x) \<Longrightarrow> kept R xs xs"
  by (simp add: kept_def list_all2_refl)

lemma kept_nth: "kept R xs ys \<longleftrightarrow> length xs \<le> length ys \<and> (\<forall>n < length xs. R (xs ! n) (ys ! n))"
  by (auto simp: kept_def list_all2_conv_all_nth)

lemma kept_trans: "kept R xs ys \<Longrightarrow> kept R ys zs \<Longrightarrow> (\<And>x y z. R x y \<Longrightarrow> R y z \<Longrightarrow> R x z) \<Longrightarrow> kept R xs zs"
  unfolding kept_nth by (meson le_trans less_le_trans)

lemma kept_append: "kept R xs (map f xs @ us) \<longleftrightarrow> (\<forall>x \<in> set xs. R x (f x))"
  by (auto simp: kept_def list_all2_map2 list.rel_refl_strong list_all2_same)

lemma kept_snoc: "(\<And>x. R x x) \<Longrightarrow> kept R xs (xs @ us)"
  using kept_append[of R xs id us] by simp

lemma kept_map: "kept R xs (map f xs) \<longleftrightarrow> (\<forall>x \<in> set xs. R x (f x))"
  using kept_append[of R xs f "[]"] by simp

lemma kept_upd: "(\<And>x. R x x) \<Longrightarrow> (\<And>x. x \<in> set xs \<Longrightarrow> key x = k \<Longrightarrow> R x (f x)) \<Longrightarrow> kept R xs (upd_row key k f xs)"
  by (simp add: upd_row_def kept_map)

lemma kept_upd_append: "(\<And>x. R x x) \<Longrightarrow> (\<And>x. x \<in> set xs \<Longrightarrow> key x = k \<Longrightarrow> R x (f x)) \<Longrightarrow>
    kept R xs (upd_row key k f xs @ us)"
  by (simp add: upd_row_def kept_append)

definition individual_kept :: "individual \<Rightarrow> individual \<Rightarrow> bool" where
  "individual_kept x y \<longleftrightarrow> y = x \<or> y = x\<lparr>ia_status := IndSuperseded\<rparr>"

definition component_kept :: "comp_assessment \<Rightarrow> comp_assessment \<Rightarrow> bool" where
  "component_kept x y \<longleftrightarrow> y = x \<or> y = x\<lparr>ca_status := Superseded\<rparr>"

text \<open>An external result keeps what was recorded; it may be confirmed once and be replaced.\<close>

definition external_kept :: "ext_result \<Rightarrow> ext_result \<Rightarrow> bool" where
  "external_kept x y \<longleftrightarrow>
     y = x\<lparr>ex_status := ex_status y, ex_confirmed_by := ex_confirmed_by y, ex_confirmed_at := ex_confirmed_at y\<rparr>
     \<and> (ex_status y = ex_status x \<or> ex_status y = Replaced \<or> (ex_status x = Unconfirmed \<and> ex_status y = Confirmed))
     \<and> (ex_status x = Unconfirmed \<and> ex_status y \<noteq> Unconfirmed
        \<or> ex_confirmed_by y = ex_confirmed_by x \<and> ex_confirmed_at y = ex_confirmed_at x)"

definition determination_kept :: "determination \<Rightarrow> determination \<Rightarrow> bool" where
  "determination_kept x y \<longleftrightarrow> y = x \<or> y = x\<lparr>rd_status := Superseded\<rparr>"

definition correction_kept :: "correction \<Rightarrow> correction \<Rightarrow> bool" where
  "correction_kept x y \<longleftrightarrow> y = x \<or> (rx_status x = CorrOpen
     \<and> (\<exists>t. y = x\<lparr>rx_status := CorrCompleted, rx_completed_at := t\<rparr>))"

definition communication_kept :: "communication \<Rightarrow> communication \<Rightarrow> bool" where
  "communication_kept x y \<longleftrightarrow> y = x \<or> y = x\<lparr>rm_status := CommObsolete\<rparr>"

definition export_kept :: "result_export \<Rightarrow> result_export \<Rightarrow> bool" where
  "export_kept x y \<longleftrightarrow> y = x \<or> (xp_status x = ExpDetermined \<and> y = x\<lparr>xp_status := ExpSuperseded\<rparr>)"

lemmas row_kept_defs = individual_kept_def component_kept_def external_kept_def determination_kept_def
  correction_kept_def communication_kept_def export_kept_def

text \<open>
  Calculations, disclosures and signatures have no status: their tables only grow. The retention row
  is the one record that a command replaces (\<open>retention_kept\<close> says how).
\<close>

definition extends :: "result \<Rightarrow> result \<Rightarrow> bool" where
  "extends r r' \<longleftrightarrow> kept individual_kept (re_individuals r) (re_individuals r')
     \<and> kept component_kept (re_components r) (re_components r')
     \<and> kept external_kept (re_externals r) (re_externals r')
     \<and> kept determination_kept (re_determinations r) (re_determinations r')
     \<and> kept correction_kept (re_corrections r) (re_corrections r')
     \<and> kept communication_kept (re_communications r) (re_communications r')
     \<and> kept export_kept (re_exports r) (re_exports r')
     \<and> prefix (re_calculations r) (re_calculations r') \<and> prefix (re_disclosures r) (re_disclosures r')
     \<and> prefix (re_confirmations r) (re_confirmations r')"

lemma row_kept_refl [simp]:
  "individual_kept a a" "component_kept b b" "external_kept c c" "determination_kept d d"
  "correction_kept f f" "communication_kept g g" "export_kept h h"
  by (simp_all add: row_kept_defs)

lemma external_kept_trans: "external_kept x y \<Longrightarrow> external_kept y z \<Longrightarrow> external_kept x z"
  unfolding external_kept_def by (cases x; cases y; cases z) auto

lemma row_kept_trans:
  "individual_kept a a' \<Longrightarrow> individual_kept a' a'' \<Longrightarrow> individual_kept a a''"
  "component_kept b b' \<Longrightarrow> component_kept b' b'' \<Longrightarrow> component_kept b b''"
  "determination_kept d d' \<Longrightarrow> determination_kept d' d'' \<Longrightarrow> determination_kept d d''"
  "correction_kept f f' \<Longrightarrow> correction_kept f' f'' \<Longrightarrow> correction_kept f f''"
  "communication_kept g g' \<Longrightarrow> communication_kept g' g'' \<Longrightarrow> communication_kept g g''"
  "export_kept h h' \<Longrightarrow> export_kept h' h'' \<Longrightarrow> export_kept h h''"
  by (auto simp: row_kept_defs)

lemma extends_refl [simp]: "extends r r"
  by (simp add: extends_def kept_refl)

lemma extends_trans:
  assumes "extends r r'" "extends r' r''"
  shows "extends r r''"
  using assms unfolding extends_def
  by (meson kept_trans row_kept_trans external_kept_trans prefix_order.trans)

lemma supersede_rows_kept:
  "kept determination_kept (re_determinations r) (re_determinations (supersede_determination r) @ us)"
  "kept communication_kept (re_communications r) (re_communications (supersede_determination r))"
  "kept export_kept (re_exports r) (re_exports (supersede_determination r))"
  by (auto simp: supersede_determination_def row_kept_defs kept_map kept_refl
      intro!: kept_upd_append kept_snoc split: option.split)

lemma put_determination_corrections:
  assumes "result_inv r" "rd_correction_id t = map_option rx_id (open_correction_of r)"
  shows "kept correction_kept (re_corrections r) (re_corrections (put_determination new t (claimed s r)))"
proof (cases "open_correction_of r")
  case None
  then show ?thesis using assms(2) by (simp add: put_determination_simps kept_refl)
next
  case (Some q)
  have d: "distinct (map rx_id (re_corrections r))" using assms(1) by (simp add: result_inv_def inv_corrections_def)
  have q: "q \<in> set (re_corrections r)" "rx_status q = CorrOpen"
    using Some find_Some_mem find_Some_P by (fastforce simp: open_correction_of_def)+
  have "correction_kept x (x\<lparr>rx_status := CorrCompleted, rx_completed_at := u\<rparr>)"
    if "x \<in> set (re_corrections r)" "rx_id x = rx_id q" for x u
  proof -
    have "x = q" using d that q(1) by (metis distinct_map inj_onD)
    with q(2) show ?thesis by (auto simp: correction_kept_def)
  qed
  then show ?thesis using assms(2) Some by (auto simp: put_determination_simps intro!: kept_upd)
qed

lemma rstep_extends:
  assumes "rstep r r'" "result_inv r"
  shows "extends r r'"
  using assms
proof (induction rule: rstep.induct)
  case (individual r new c)
  have "kept individual_kept (re_individuals r) (re_individuals (put_individual new c (claimed None r)))"
    by (auto simp: put_individual_def Let_def individual_kept_def intro!: kept_snoc kept_upd_append split: option.split)
  then show ?case by (simp add: extends_def kept_refl put_individual_def Let_def)
next
  case (committee r new k)
  have "kept component_kept (re_components r) (re_components (put_component new k (claimed None r)))"
    by (auto simp: put_component_def Let_def component_kept_def intro!: kept_snoc kept_upd_append split: option.split)
  then show ?case by (simp add: extends_def kept_refl put_component_def Let_def)
next
  case (external r new s x)
  have "kept external_kept (re_externals r) (re_externals (put_external new x (claimed (Some s) r)))"
    by (auto simp: put_external_def Let_def external_kept_def intro!: kept_snoc kept_upd_append split: option.split)
  then show ?case by (simp add: extends_def kept_refl put_external_def Let_def)
next
  case (external_confirmed r x m now)
  have d: "distinct (map ex_id (re_externals r))" using external_confirmed.prems by (simp add: result_inv_def inv_externals_def)
  have "external_kept y (y\<lparr>ex_status := Confirmed, ex_confirmed_by := Some m, ex_confirmed_at := Some now\<rparr>)"
    if "y \<in> set (re_externals r)" "ex_id y = ex_id x" for y
  proof -
    have "y = x" using d that external_confirmed.hyps(2) by (metis distinct_map inj_onD)
    with external_confirmed.hyps(3) show ?thesis by (simp add: external_kept_def)
  qed
  then have "kept external_kept (re_externals r) (confirm_row (ex_id x) m now (re_externals r))"
    by (auto simp: confirm_row_def intro!: kept_upd)
  then show ?case by (simp add: extends_def kept_refl)
next
  case (determination r new t)
  note put_determination_corrections[OF determination.prems determination.hyps(6), of new "Some Determined"]
  moreover have "kept determination_kept (re_determinations r)
      (re_determinations (put_determination new t (claimed (Some Determined) r)))"
    "kept communication_kept (re_communications r) (re_communications (put_determination new t (claimed (Some Determined) r)))"
    "kept export_kept (re_exports r) (re_exports (put_determination new t (claimed (Some Determined) r)))"
    using supersede_rows_kept[of "claimed (Some Determined) r"] by (simp_all add: put_determination_simps)
  ultimately show ?case by (simp add: extends_def kept_refl put_determination_simps)
next
  case (communication r n new)
  have "kept communication_kept (re_communications r) (re_communications (put_communication new n (claimed (Some Communicated) r)))"
    by (simp add: put_communication_def kept_append communication_kept_def)
  then show ?case by (simp add: extends_def kept_refl put_communication_def)
qed (simp_all add: extends_def kept_refl kept_snoc put_calculation_def put_correction_def)

lemma rsteps_extends: "rstep\<^sup>*\<^sup>* r r' \<Longrightarrow> result_inv r \<Longrightarrow> extends r r'"
proof (induction rule: rtranclp_induct)
  case (step y z)
  then have "extends y z" using rstep_extends exam_result.steps_invar by blast
  with step show ?case using extends_trans by blast
qed simp

end
