(* ===== verification/Assess_Sample.thy ===== *)
theory Assess_Sample
  imports Assess_Reach
begin

text \<open>
  A small exam used as a concrete instance: one committee-assessed component (60 percent), one
  required external area (40 percent), two examiners. The lemmas evaluate the service methods on it.
\<close>

definition sample_rules :: rules where
  "sample_rules = \<lparr>ru_components = [\<lparr>co_key = ''talk'', co_label = ''Talk'', co_mode = Committee,
       co_weight = 60, co_day_scoped = True, co_required_assessors = 2, co_max_deviation = 100,
       co_additional_assessor = False,
       co_criteria = [\<lparr>cr_key = ''content'', cr_label = ''Content'', cr_raw_min = 0, cr_raw_max = 50,
         cr_weight = 100\<rparr>]\<rparr>],
     ru_external_areas = [\<lparr>ea_key = ''written'', ea_label = ''Written'', ea_weight = 40,
       ea_required = True\<rparr>],
     ru_intermediate = \<lparr>rs_mode = RoundNone, rs_digits = None\<rparr>,
     ru_overall = \<lparr>rs_mode = HalfUp, rs_digits = Some 0\<rparr>, ru_threshold_basis = Rounded,
     ru_grades = [(''pass'', 50), (''fail'', 0)], ru_overall_min = 50, ru_component_minima = [],
     ru_external_minima = [], ru_minimum_members = 2\<rparr>"

definition chair :: actor where
  "chair = \<lparr>ac_committees = [7], ac_members = [1], ac_management = [7],
     ac_member_by_committee = [(7, 1)]\<rparr>"

definition sample_env :: env where
  "sample_env = \<lparr>en_now = ''2026-01-01'', en_digest = (\<lambda>p. ''fp''), en_lock = (\<lambda>_ _. None),
     en_datetime = (\<lambda>s. Some (s, True)), en_day = (\<lambda>r _ _ _ _. Inr (re_days r))\<rparr>"

definition model_payload :: payload where
  "model_payload = [(''model_key'', JStr ''fi''), (''version'', JInt 1), (''ihk'', JStr ''Berlin''),
     (''occupation'', JStr ''FI''), (''training_regulation'', JStr ''t''),
     (''exam_regulation'', JStr ''e''), (''ihk_guidelines'', JStr ''g''),
     (''valid_from'', JStr ''2026-01-01''), (''retention_rule_reference'', JStr ''r'')]"

definition sample_model :: model where
  "sample_model = \<lparr>mo_id = 1, mo_key = ''fi'', mo_version = 1, mo_ihk = ''Berlin'',
     mo_occupation = ''FI'', mo_specialization = None, mo_training_regulation = ''t'',
     mo_exam_regulation = ''e'', mo_ihk_guidelines = ''g'', mo_valid_from = (2026, 1, 1),
     mo_valid_until = None, mo_rules = sample_rules, mo_retention_rule_reference = ''r'',
     mo_retention_years = 15, mo_created_by = 1\<rparr>"

definition sample_planning :: planning where
  "sample_planning = \<lparr>pn_round = 3, pn_committee = 7, pn_effective = (2026, 4, 1),
     pn_candidates = [\<lparr>pc_id = 11, pc_specialization = ''AE'', pc_active = True\<rparr>]\<rparr>"

definition bind_payload :: payload where
  "bind_payload = [(''assessment_model_version_id'', JInt 1), (''reason'', JStr ''r'')]"

definition sample_identity :: committee_identity where
  "sample_identity = \<lparr>id_occupation = ''FI'', id_ihk = ''Berlin''\<rparr>"

definition sample_binding :: binding where
  "sample_binding = \<lparr>bi_round = 3, bi_model = 1, bi_version = 1, bi_by = 1, bi_reason = ''r'',
     bi_at = ''2026-01-01''\<rparr>"

definition world_modelled :: world where
  "world_modelled = \<lparr>w_models = [sample_model], w_bindings = [], w_results = []\<rparr>"

definition world_bound :: world where
  "world_bound = \<lparr>w_models = [sample_model], w_bindings = [sample_binding],
     w_results = [new_result sample_planning sample_model 1 11]\<rparr>"

lemma sample_create: "create_model chair sample_rules model_payload empty_world
    = Inr (world_modelled, sample_model)"
  by code_simp

lemma sample_bind: "bind_round sample_env chair (Some sample_planning) (Some sample_identity) 3
    bind_payload world_modelled = Inr (world_bound, sample_binding)"
  by code_simp

lemma sample_reachable: "assess_step\<^sup>*\<^sup>* empty_world world_bound"
  using assess_step.model[OF sample_create] assess_step.bind[OF sample_bind]
  by (meson converse_rtranclp_into_rtranclp r_into_rtranclp)

text \<open>The exam after the committee has assessed the talk and the written part is confirmed.\<close>

definition sample_vote :: vote where
  "sample_vote = \<lparr>v_yes = [1, 2], v_no = [], v_abstain = []\<rparr>"

definition sample_external :: ext_result where
  "sample_external = \<lparr>ex_id = 1, ex_area_key = ''written'', ex_revision = 1, ex_points = 70,
     ex_grade = None, ex_professional_status = ''s'', ex_authority = ''a'', ex_source = ''q'',
     ex_status = Confirmed, ex_recorded_by = 1, ex_recorded_at = ''t'', ex_previous = None,
     ex_correction_reason = None, ex_confirmed_by = Some 2, ex_confirmed_at = Some ''t''\<rparr>"

definition sample_result :: result where
  "sample_result = (new_result sample_planning sample_model 1 11)\<lparr>re_participants := [1, 2],
     re_disclosures := [\<lparr>di_component_key = ''talk'', di_by = 1, di_at = ''t''\<rparr>],
     re_components := [\<lparr>ca_id = 1, ca_component_key = ''talk'', ca_revision = 1, ca_points = 80,
       ca_rationale = None, ca_participants = [1, 2], ca_vote = sample_vote, ca_dissent = [],
       ca_status = Current, ca_previous = None, ca_determined_by = 1, ca_determined_at = ''t''\<rparr>],
     re_externals := [sample_external]\<rparr>"

definition vote_payload :: payload where
  "vote_payload = [(''version'', JInt 1), (''participant_member_ids'', JList [JInt 1, JInt 2]),
     (''vote'', JObj [(''yes'', JList [JInt 1, JInt 2]), (''no'', JList []), (''abstain'', JList [])])]"

definition sample_calculation :: calculation where
  "sample_calculation = \<lparr>rc_id = 1, rc_version = 1, rc_fingerprint = ''fp'', rc_total = 76,
     rc_grade = ''pass'', rc_passed = True,
     rc_path = \<lparr>cp_inputs = [
         \<lparr>ci_kind = ComponentInput, ci_key = ''talk'', ci_points = 80, ci_weight = 60,
           ci_revision_id = None\<rparr>,
         \<lparr>ci_kind = ExternalInput, ci_key = ''written'', ci_points = 70, ci_weight = 40,
           ci_revision_id = Some 1\<rparr>],
       cp_unrounded = 76, cp_rounded = 76, cp_basis = Rounded\<rparr>,
     rc_created_at = ''2026-01-01''\<rparr>"

definition sample_determined :: result where
  "sample_determined = sample_result\<lparr>re_version := 3, re_state := Determined,
     re_calculations := [sample_calculation],
     re_determinations := [\<lparr>rd_id = 1, rd_revision = 1, rd_calculation_id = 1,
       rd_participants = [1, 2], rd_vote = sample_vote, rd_dissent = [], rd_status = Current,
       rd_previous = None, rd_correction_id = None, rd_by = 1, rd_at = ''2026-01-01''\<rparr>]\<rparr>"

lemma sample_rules_wf: "wf_rules sample_rules"
  by (simp add: wf_rules_def sample_rules_def)

lemma new_result_inv: "wf_rules (mo_rules m) \<Longrightarrow> result_inv (new_result pn m i k)"
  by (simp add: result_inv_def new_result_def inv_individuals_def inv_components_def
      inv_externals_def inv_decision_def history_def inv_corrections_def inv_communications_def
      inv_record_def inv_exports_def inv_calculations_def)

lemma sample_inv: "result_inv sample_result" "result_inv sample_determined"
  using sample_rules_wf
  by (simp_all add: result_inv_def sample_result_def sample_determined_def new_result_def
      sample_external_def sample_model_def sample_vote_def sample_calculation_def vote_ok_def
      inv_individuals_def inv_components_def inv_externals_def inv_decision_def history_def
      inv_corrections_def inv_communications_def inv_record_def inv_exports_def
      inv_calculations_def at_most_one_def active_def insert_commute)

lemma sample_db_inv: "db_inv [sample_result]" "db_inv [sample_determined]"
  using sample_inv by (simp_all add: db_inv_def)

lemma sample_determine:
  "run_command sample_env chair 1 (DetermineResult vote_payload) [sample_result]
     = Inr [sample_determined]"
  by code_simp

end
