(* ===== verification/Assess_Props.thy ===== *)
theory Assess_Props
  imports Assess_Sample
begin

text \<open>
  The properties of the Assessment component, each with a concrete instance.
\<close>

subsection \<open>Supporting lemmas\<close>

lemma retention_kept_steps:
  assumes "rstep\<^sup>*\<^sup>* r r'" "re_retention r = Some o'" "rr_retain_until o' = Some t"
  shows "\<exists>n u. re_retention r' = Some n \<and> rr_retain_until n = Some u \<and> t \<le> u"
  using assms(1)
proof (induction rule: rtranclp_induct)
  case base
  with assms(2,3) show ?case by (intro exI[of _ o'] exI[of _ t]) simp
next
  case (step s s')
  then obtain n u where n: "re_retention s = Some n" "rr_retain_until n = Some u" "t \<le> u" by blast
  have "re_retention s' = re_retention s \<or> (\<exists>m v. re_retention s' = Some m \<and> rr_retain_until m = Some v \<and> u \<le> v)"
    using step(2) n(1,2)
  proof (cases rule: rstep.cases)
    case (retention c)
    then show ?thesis using n by (auto simp: retention_kept_def split: option.splits)
  qed (simp_all add: put_individual_def put_component_def put_external_def put_correction_def
      put_communication_def put_determination_def Let_def)
  with n show ?case by (metis order_trans)
qed

fun input_command :: "command \<Rightarrow> bool" where
  "input_command (SaveIndividual p) = True"
| "input_command (WithdrawIndividual k p) = True"
| "input_command (Disclose p) = True"
| "input_command (DetermineComponent p) = True"
| "input_command (RecordExternal p) = True"
| "input_command (ConfirmExternal k p) = True"
| "input_command _ = False"

lemma required_access_row: "required_access db a i = Inr r \<Longrightarrow> row_by_id db i = Some r0 \<Longrightarrow> r = load_result r0"
  using required_access_Inr by fastforce

lemma input_command_frozen:
  assumes "row_by_id db i = Some r" "\<not> inputs_mutable r" "input_command c" "run_command e a i c db = Inr db'"
  shows "db' = db"
proof -
  have no: "assert_inputs_mutable (load_result r) \<noteq> Inr ()" using assms(2) by (simp add: inputs_mutable_iff)
  from assms(4,3) show ?thesis
    by (cases rule: run_command_Inr)
      (auto simp: stored_Inr save_individual_def withdraw_individual_def disclose_def determine_component_def
        record_external_def confirm_external_def ok_iff case_Some_Inr_iff Let_def with_view_Inr no
        dest!: required_access_row[OF _ assms(1)] split: if_split_asm)
qed

subsection \<open>Which errors a calculation can raise\<close>

lemma round_dec_error: "round_dec x rule = Inl e \<Longrightarrow> e \<in> {TypeErr, InvalidOperation}"
  by (auto simp: round_dec_def split: if_splits option.splits)

lemma map_res_error: "map_res f xs = Inl e \<Longrightarrow> \<exists>x \<in> set xs. f x = Inl e"
  by (induction xs) (auto simp: bnd_Inl_iff)

lemma component_score_error: "component_score r c = Inl e \<Longrightarrow> e \<in> {TypeErr, InvalidOperation}"
  by (auto simp: component_score_def bnd_Inl_iff Let_def assessor_scores_def
      dest!: map_res_error round_dec_error split: if_splits)

lemma component_inputs_error: "component_inputs r cs s = Inl e \<Longrightarrow> e \<in> {TypeErr, InvalidOperation}"
proof (induction cs arbitrary: s)
  case (Cons c cs)
  from Cons.prems consider "component_score r c = Inl e"
    | s' where "component_inputs r cs s' = Inl e"
    by (auto simp: bnd_Inl_iff split: option.splits)
  then show ?case using component_score_error Cons.IH by cases blast+
qed simp

lemma outcome_of_error:
  assumes "outcome_of ru t scores = Inl e" "0 \<le> t" "ru_grades ru \<noteq> []" "snd (last (ru_grades ru)) = 0"
  shows "e \<in> {TypeErr, InvalidOperation}"
proof (cases "round_dec t (ru_overall ru)")
  case (Inl x)
  with assms(1) round_dec_error[OF Inl] show ?thesis by (simp add: outcome_of_def)
next
  case (Inr y)
  have "0 \<le> (if ru_threshold_basis ru = Rounded then y else t)"
    using round_dec_nonneg[OF Inr assms(2)] assms(2) by simp
  from grade_for_total[OF assms(3,4) this] Inr assms(1) show ?thesis
    by (auto simp: outcome_of_def Let_def)
qed

lemma calculation_error:
  assumes "result_inv r" "calculation_command e (load_result r) = Inl x"
  shows "x \<in> {TypeErr, InvalidOperation}"
proof (cases "calc_inputs (load_result r)")
  case (Inl y)
  with assms(2) have "x = y" by (simp add: calculation_command_def)
  with Inl show ?thesis using component_inputs_error
    by (auto simp: calc_inputs_def Let_def bnd_Inl_iff)
next
  case (Inr s)
  with assms(2) obtain t where t: "calc_inputs (load_result r) = Inr (Some t)"
    "outcome_of (mo_rules (re_model r)) (cs_total t) (cs_scores t) = Inl x"
    by (auto simp: calculation_command_def bnd_Inl_iff split: option.splits)
  have wf: "wf_rules (mo_rules (re_model r))" using assms(1) by (simp add: result_inv_def)
  have "0 \<le> cs_total t"
    using calc_inputs_nonneg[OF t(1)] result_inv_points[OF assms(1)] wf by simp
  with outcome_of_error[OF t(2)] wf show ?thesis by (simp add: wf_rules_def)
qed

subsection \<open>The calculation on record\<close>

lemma confirmed_inputs:
  assumes "external_inputs r as s = Some t" "ci \<in> set (cs_inputs t)" "ci \<notin> set (cs_inputs s)"
  shows "\<exists>x \<in> set (re_externals r). ex_status x = Confirmed \<and> ci_key ci = ex_area_key x
    \<and> ci_revision_id ci = Some (ex_id x) \<and> ci_points ci = ex_points x"
  using assms
proof (induction as arbitrary: s)
  case (Cons a as)
  show ?case
  proof (cases "external_inputs r as s = Some t")
    case True
    then show ?thesis using Cons by blast
  next
    case False
    with Cons.prems(1) obtain x where x: "active_external r (ea_key a) = Some x" "ex_status x = Confirmed"
      and rest: "external_inputs r as (add_input ExternalInput (ea_key a) (ex_points x) (ea_weight a)
        (Some (ex_id x)) s) = Some t"
      by (auto simp: Let_def split: if_splits option.splits)
    have mem: "x \<in> set (re_externals r)" "ex_area_key x = ea_key a"
      using find_Some_mem[OF x(1)[unfolded active_external_def]]
        find_Some_P[OF x(1)[unfolded active_external_def]] by auto
    show ?thesis
    proof (cases "ci \<in> set (cs_inputs (add_input ExternalInput (ea_key a) (ex_points x) (ea_weight a)
        (Some (ex_id x)) s))")
      case True
      with Cons.prems(3) have "ci = \<lparr>ci_kind = ExternalInput, ci_key = ea_key a, ci_points = ex_points x,
          ci_weight = ea_weight a, ci_revision_id = Some (ex_id x)\<rparr>" by (simp add: add_input_def)
      with mem x(2) show ?thesis by (intro bexI[of _ x]) simp_all
    next
      case False
      from Cons.IH[OF rest Cons.prems(2) this] show ?thesis .
    qed
  qed
qed simp

subsection \<open>Recalculating twice\<close>

definition same_inputs :: "result \<Rightarrow> result \<Rightarrow> bool" where
  "same_inputs r r' \<longleftrightarrow> re_individuals r' = re_individuals r \<and> re_components r' = re_components r
     \<and> re_externals r' = re_externals r \<and> re_participants r' = re_participants r
     \<and> re_model r' = re_model r \<and> re_determinations r' = re_determinations r"

lemma same_inputs_load: "same_inputs r r' \<Longrightarrow> same_inputs (load_result r) (load_result r')"
  by (simp add: same_inputs_def load_result_def)

lemma component_score_cong: "same_inputs r r' \<Longrightarrow> component_score r' c = component_score r c"
  by (simp add: same_inputs_def component_score_def committee_current_def assessor_scores_def
      submitted_for_def current_individuals_def Let_def)

lemma component_inputs_cong: "same_inputs r r' \<Longrightarrow> component_inputs r' cs = component_inputs r cs"
  by (induction cs) (simp_all add: fun_eq_iff component_score_cong)

lemma external_inputs_cong: "same_inputs r r' \<Longrightarrow> external_inputs r' as = external_inputs r as"
proof (induction as)
  case (Cons a as)
  have "active_external r' k = active_external r k" for k
    using Cons.prems by (simp add: active_external_def same_inputs_def)
  then show ?case
    unfolding fun_eq_iff external_inputs.simps Cons.IH[OF Cons.prems] by simp
qed (simp add: fun_eq_iff)

lemma calc_inputs_cong:
  assumes "same_inputs r r'"
  shows "calc_inputs r' = calc_inputs r"
proof -
  have "re_model r' = re_model r" using assms by (simp add: same_inputs_def)
  then show ?thesis
    unfolding calc_inputs_def component_inputs_cong[OF assms] external_inputs_cong[OF assms] by simp
qed

text \<open>Equal inputs give a calculation with the same fingerprint.\<close>

lemma calculation_command_cong:
  assumes "same_inputs r r'"
  shows "calculation_command e r = Inr None \<Longrightarrow> calculation_command e r' = Inr None"
    "calculation_command e r = Inr (Some (s, c)) \<Longrightarrow> \<exists>c'. rc_fingerprint c' = rc_fingerprint c \<and>
       calculation_command e r' = Inr (Some (if has_determination r' then re_state r' else CalculationReady, c'))"
proof -
  have mo: "re_model r' = re_model r" using assms by (simp add: same_inputs_def)
  note ci = calc_inputs_cong[OF assms]
  show "calculation_command e r' = Inr None" if "calculation_command e r = Inr None"
    using that ci by (auto simp: calculation_command_def bnd_Inr_iff split: option.splits)
  show "\<exists>c'. rc_fingerprint c' = rc_fingerprint c \<and> calculation_command e r' =
      Inr (Some (if has_determination r' then re_state r' else CalculationReady, c'))"
    if c: "calculation_command e r = Inr (Some (s, c))"
  proof -
    from c obtain y oc where y: "calc_inputs r = Inr (Some y)"
      "outcome_of (mo_rules (re_model r)) (cs_total y) (cs_scores y) = Inr oc"
      and fp: "rc_fingerprint c = en_digest e \<lparr>pl_model = mo_id (re_model r), pl_inputs = cs_inputs y,
        pl_total = cs_total y\<rparr>"
      by (auto simp: calculation_command_def bnd_Inr_iff split: option.splits)
    show ?thesis using y fp ci mo by (simp add: calculation_command_def)
  qed
qed

lemma ensure_calculation_once:
  assumes "db_inv db" "row_by_id db i = Some r" "ensure_calculation e db (load_result r) = Inr (db', r')"
  shows "ensure_calculation e db' r' = Inr (db', r')"
proof -
  have i: "re_id r = i" using row_by_id_SomeD[OF assms(2)] by simp
  from assms(3) obtain c where c: "calculation_command e (load_result r) = Inr c"
    by (auto simp: ensure_calculation_def bnd_Inr_iff)
  note ens = assms(3)[unfolded ensure_calculation_def c bnd_simps]
  have reload: "reload (upd_row re_id i (\<lambda>_. r1) db) (load_result r) = load_result r1"
    if "re_id r1 = i" for r1
    using that i assms(2) by (simp add: reload_def result_by_id_def)
  show ?thesis
  proof (cases c)
    case None
    show ?thesis
    proof (cases "\<not> has_determination r \<and> re_state r \<noteq> Incomplete")
      case True
      with ens None i have st: "set_result_state i (re_version r) Incomplete db = Inr db'"
        "r' = reload db' (load_result r)" by (auto simp: bnd_Inr_iff)
      note db' = set_result_state_row[OF assms(1,2) st(1)]
      let ?r1 = "r\<lparr>re_state := Incomplete\<rparr>"
      have r': "r' = load_result ?r1" using st(2) reload[of ?r1] i db' by simp
      have "same_inputs (load_result r) (load_result ?r1)"
        by (rule same_inputs_load) (simp add: same_inputs_def)
      from calculation_command_cong(1)[OF this] c None have "calculation_command e r' = Inr None"
        using r' by simp
      then show ?thesis using r' by (simp add: ensure_calculation_def)
    next
      case False
      with ens None have "db' = db" "r' = load_result r" by auto
      with c None False show ?thesis by (auto simp: ensure_calculation_def)
    qed
  next
    case (Some sc)
    obtain s k where sc: "sc = (s, k)" by fastforce
    have s: "s = (if has_determination r then re_state r else CalculationReady)"
      using calculation_command_state c Some sc by fastforce
    show ?thesis
    proof (cases "match_fingerprint (load_result r) (rc_fingerprint k)")
      case None
      with ens Some sc i have st: "save_calculation i (re_version r) s k db = Inr db'"
        "r' = reload db' (load_result r)" by (auto simp: bnd_Inr_iff)
      obtain new where new: "db' = upd_row re_id i (\<lambda>_. put_calculation new k (claimed (Some s) r)) db"
        using save_calculation_row[OF assms(1,2) st(1)] by metis
      let ?r1 = "put_calculation new k (claimed (Some s) r)"
      have r': "r' = load_result ?r1" using st(2) reload[of ?r1] i new by simp
      have si: "same_inputs (load_result r) (load_result ?r1)"
        by (rule same_inputs_load) (simp add: same_inputs_def put_calculation_def)
      have hd: "has_determination ?r1 = has_determination r" by (simp add: has_determination_def)
      have "\<exists>y \<in> set (re_calculations ?r1). rc_fingerprint y = rc_fingerprint k"
        by (auto simp: put_calculation_def list_ex_iff)
      then have m: "match_fingerprint r' (rc_fingerprint k) \<noteq> None"
        unfolding r' match_fingerprint_def by (auto simp: find_None_iff)
      from calculation_command_cong(2)[OF si] c Some sc obtain k' where
        "rc_fingerprint k' = rc_fingerprint k" "calculation_command e r' = Inr (Some
          (if has_determination r' then re_state r' else CalculationReady, k'))"
        using r' by blast
      with m s r' hd show ?thesis by (auto simp: ensure_calculation_def)
    next
      case m: (Some y)
      show ?thesis
      proof (cases "\<not> has_determination r \<and> re_state r \<noteq> CalculationReady")
        case True
        with ens Some sc m i have st: "set_result_state i (re_version r) CalculationReady db = Inr db'"
          "r' = reload db' (load_result r)" by (auto simp: bnd_Inr_iff)
        note db' = set_result_state_row[OF assms(1,2) st(1)]
        let ?r1 = "r\<lparr>re_state := CalculationReady\<rparr>"
        have r': "r' = load_result ?r1" using st(2) reload[of ?r1] i db' by simp
        have si: "same_inputs (load_result r) (load_result ?r1)"
          by (rule same_inputs_load) (simp add: same_inputs_def)
        have mm: "match_fingerprint r' f = match_fingerprint (load_result r) f" for f
          by (simp add: r' match_fingerprint_def load_result_def)
        from calculation_command_cong(2)[OF si] c Some sc obtain k' where
          "rc_fingerprint k' = rc_fingerprint k" "calculation_command e r' = Inr (Some
            (if has_determination r' then re_state r' else CalculationReady, k'))"
          using r' by blast
        with m mm r' show ?thesis by (auto simp: ensure_calculation_def)
      next
        case False
        with ens Some sc m have "db' = db" "r' = load_result r" by (auto split: if_split_asm)
        with c Some sc m False show ?thesis by (auto simp: ensure_calculation_def)
      qed
    qed
  qed
qed

text \<open>A recalculation changes nothing that the calculation reads.\<close>

lemma ensure_calculation_same_inputs:
  assumes "db_inv db" "row_by_id db i = Some r" "ensure_calculation e db (load_result r) = Inr (db', r')"
    and "row_by_id db' i = Some r1"
  shows "same_inputs r r1"
proof -
  have i: "re_id r = i" using row_by_id_SomeD[OF assms(2)] by simp
  from assms(3) obtain c where c: "calculation_command e (load_result r) = Inr c"
    by (auto simp: ensure_calculation_def bnd_Inr_iff)
  note ens = assms(3)[unfolded ensure_calculation_def c bnd_simps]
  have "db' = db \<or> (\<exists>s. set_result_state i (re_version r) s db = Inr db')
      \<or> (\<exists>s k. save_calculation i (re_version r) s k db = Inr db')"
  proof (cases c)
    case None
    with ens i show ?thesis by (auto simp: bnd_Inr_iff split: if_split_asm)
  next
    case (Some sc)
    obtain s k where "sc = (s, k)" by fastforce
    with Some ens i show ?thesis by (auto simp: bnd_Inr_iff split: if_split_asm option.split_asm)
  qed
  then consider "db' = db" | s where "set_result_state i (re_version r) s db = Inr db'"
    | s k where "save_calculation i (re_version r) s k db = Inr db'" by blast
  then show ?thesis
  proof cases
    case 1
    with assms(2,4) show ?thesis by (simp add: same_inputs_def)
  next
    case (2 s)
    from set_result_state_row[OF assms(1,2) 2] have "row_by_id db' i = Some (r\<lparr>re_state := s\<rparr>)" using assms(2) i by simp
    with assms(4) show ?thesis by (auto simp: same_inputs_def)
  next
    case (3 s k)
    then obtain new where "db' = upd_row re_id i (\<lambda>_. put_calculation new k (claimed (Some s) r)) db"
      using save_calculation_row[OF assms(1,2) 3] by metis
    then have "row_by_id db' i = Some (put_calculation new k (claimed (Some s) r))" using assms(2) i by simp
    with assms(4) show ?thesis by (auto simp: same_inputs_def put_calculation_def)
  qed
qed

text \<open>The calculation that a determination takes: the one of the inputs on record.\<close>

lemma matching_calculation_inputs:
  assumes "matching_calculation e r = Inr (Some c)"
  obtains s where "calc_inputs r = Inr (Some s)" "c \<in> set (re_calculations r)"
    "rc_fingerprint c = en_digest e \<lparr>pl_model = mo_id (re_model r), pl_inputs = cs_inputs s, pl_total = cs_total s\<rparr>"
proof -
  from assms obtain st k where k: "calculation_command e r = Inr (Some (st, k))" "match_fingerprint r (rc_fingerprint k) = Some c"
    by (auto simp: matching_calculation_def bnd_Inr_iff split: option.split_asm prod.split_asm)
  have "rc_fingerprint c = rc_fingerprint k" "c \<in> set (re_calculations r)"
    using find_Some_P[OF k(2)[unfolded match_fingerprint_def]] find_Some_mem[OF k(2)[unfolded match_fingerprint_def]] by simp_all
  with k(1) that show thesis
    by (auto simp: calculation_command_def bnd_Inr_iff split: option.split_asm)
qed

subsection \<open>Complete day assessments\<close>

text \<open>The criteria of a component for which a member has a submitted assessment, in the table itself.\<close>

definition submitted_criteria :: "result \<Rightarrow> string \<Rightarrow> int \<Rightarrow> string set" where
  "submitted_criteria r ck m = ia_criterion_key ` {x \<in> set (re_individuals r).
     ia_component_key x = ck \<and> ia_assessor x = m \<and> ia_status x = Submitted}"

lemma update_fresh: "k \<notin> fst ` set m \<Longrightarrow> AList.update k v m = m @ [(k, v)]"
  by (induction m) auto

lemma fold_update_fresh:
  "distinct (map f xs) \<Longrightarrow> f ` set xs \<inter> fst ` set m = {} \<Longrightarrow>
     fold (\<lambda>x m. AList.update (f x) x m) xs m = m @ map (\<lambda>x. (f x, x)) xs"
proof (induction xs arbitrary: m)
  case (Cons x xs)
  then have "AList.update (f x) x m = m @ [(f x, x)]" by (intro update_fresh) simp
  then show ?case using Cons by (auto simp: image_iff)
qed simp

lemma current_individuals_set:
  assumes "result_inv r"
  shows "set (current_individuals (load_result r)) = {x \<in> set (re_individuals r). ia_status x \<noteq> IndSuperseded}"
proof -
  let ?k = "\<lambda>x. (ia_component_key x, ia_criterion_key x, ia_assessor x)"
  let ?xs = "filter (\<lambda>x. ia_status x \<noteq> IndSuperseded) (re_individuals (load_result r))"
  have inv: "inv_individuals (re_individuals r)" using assms by (simp add: result_inv_def)
  have one: "x = y" if "x \<in> set (re_individuals r)" "y \<in> set (re_individuals r)" "?k x = ?k y"
      "ia_status x \<noteq> IndSuperseded" "ia_status y \<noteq> IndSuperseded" for x y
  proof -
    have l: "live_individual (ia_component_key x) (ia_criterion_key x) (ia_assessor x) z"
      if "?k z = ?k x" "ia_status z \<noteq> IndSuperseded" for z
      using that by (cases "ia_status z") (auto simp: live_individual_def)
    show ?thesis
      by (rule at_most_one_unique[of "live_individual (ia_component_key x) (ia_criterion_key x) (ia_assessor x)"])
        (use inv that l in \<open>auto simp: inv_individuals_def\<close>)
  qed
  have "distinct (re_individuals r)" using inv by (auto simp: inv_individuals_def distinct_map)
  then have "distinct ?xs" by (simp add: load_result_def)
  moreover have "inj_on ?k (set ?xs)" using one by (auto simp: inj_on_def load_result_def)
  ultimately have "distinct (map ?k ?xs)" by (simp add: distinct_map)
  from fold_update_fresh[OF this, of "[]"] show ?thesis
    by (auto simp: current_individuals_def comp_def load_result_def)
qed

lemma individual_complete_iff:
  assumes "result_inv r0" "r = load_result r0"
  shows "individual_component_complete r c (re_participants r) \<longleftrightarrow> co_required_assessors c \<le> int (card {m \<in> set (re_participants r).
     submitted_criteria r (co_key c) m \<noteq> {} \<and> submitted_criteria r (co_key c) m = cr_key ` set (co_criteria c)})"
proof -
  let ?items = "submitted_for r c" and ?crit = "cr_key ` set (co_criteria c)"
  have "set (re_individuals r) = set (re_individuals r0)" by (simp add: assms(2) load_result_def)
  with current_individuals_set[OF assms(1), folded assms(2)]
  have items: "set ?items = {x \<in> set (re_individuals r). ia_component_key x = co_key c \<and> ia_status x = Submitted}"
    by (auto simp: submitted_for_def)
  have keys: "set (map ia_criterion_key (filter (\<lambda>x. ia_assessor x = m) ?items)) = submitted_criteria r (co_key c) m" for m
    by (auto simp: submitted_criteria_def items)
  have mem: "m \<in> ia_assessor ` set ?items \<longleftrightarrow> submitted_criteria r (co_key c) m \<noteq> {}" for m
    by (auto simp: submitted_criteria_def items)
  let ?complete = "filter (\<lambda>m. m \<in> set (re_participants r) \<and>
      set (map ia_criterion_key (filter (\<lambda>x. ia_assessor x = m) ?items)) = ?crit) (remdups (map ia_assessor ?items))"
  have "set ?complete = {m \<in> set (re_participants r). submitted_criteria r (co_key c) m \<noteq> {} \<and> submitted_criteria r (co_key c) m = ?crit}"
    unfolding keys using mem by auto
  moreover have "length ?complete = card (set ?complete)" by (rule distinct_card[symmetric]) simp
  ultimately show ?thesis by (simp add: individual_component_complete_def Let_def)
qed

lemma record_confirmed_iff:
  assumes "result_inv r0" "r = load_result r0"
  shows "record_confirmed r \<longleftrightarrow> (\<forall>d \<in> set (re_determinations r). rd_status d = Current \<longrightarrow>
     (\<forall>m. m \<in> set (rd_participants d) \<longleftrightarrow> (\<exists>f \<in> set (re_confirmations r). rf_determination_id f = rd_id d \<and> rf_member f = m)))"
proof -
  have one: "at_most_one (\<lambda>d. rd_status d = Current) (re_determinations r0)"
    by (rule history_at_most_one[OF result_inv_history[OF assms(1)]])
  have ds: "set (re_determinations r) = set (re_determinations r0)" by (simp add: assms(2) load_result_def)
  have conf: "set (confirmed_by r k) = signed_by (re_confirmations r) k" for k by (rule set_confirmed_by)
  show ?thesis
  proof (cases "current_determination r")
    case None
    then have "\<forall>d \<in> set (re_determinations r). rd_status d \<noteq> Current"
      by (auto simp: current_determination_def find_None_iff)
    with None show ?thesis by (auto simp: record_confirmed_def)
  next
    case (Some d)
    have d: "d \<in> set (re_determinations r0)" "rd_status d = Current"
      using Some find_Some_mem find_Some_P ds by (fastforce simp: current_determination_def)+
    have "x = d" if "x \<in> set (re_determinations r)" "rd_status x = Current" for x
      by (rule at_most_one_unique[OF one]) (use that d ds in simp_all)
    with d have only: "(\<forall>x \<in> set (re_determinations r). rd_status x = Current \<longrightarrow> P x) \<longleftrightarrow> P d" for P
      unfolding ds by metis
    have "record_confirmed r \<longleftrightarrow> signed_by (re_confirmations r) (rd_id d) = set (rd_participants d)"
      by (simp add: record_confirmed_def Some conf)
    moreover have "signed_by (re_confirmations r) (rd_id d) =
        {m. \<exists>f \<in> set (re_confirmations r). rf_determination_id f = rd_id d \<and> rf_member f = m}"
      by (auto simp: signed_by_def)
    ultimately show ?thesis unfolding only by (simp add: set_eq_iff) metis
  qed
qed

end
