(* ===== verification/Assess_Scenario.thy ===== *)
theory Assess_Scenario
  imports Assess_Sample
begin

text \<open>
  A whole exam on the sample instance: the two examiners assess, disclose, decide, confirm, sign and
  announce. The run is evaluated in the kernel and shows that the guards of the service methods can
  be met one after the other.
\<close>

fun run_script :: "env \<Rightarrow> int \<Rightarrow> (actor \<times> command) list \<Rightarrow> db \<Rightarrow> assess_error + db" where
  "run_script e i [] db = Inr db"
| "run_script e i ((a, c) # cs) db = bnd (run_command e a i c db) (run_script e i cs)"

definition deputy :: actor where
  "deputy = \<lparr>ac_committees = [7], ac_members = [2], ac_management = [7],
     ac_member_by_committee = [(7, 2)]\<rparr>"

definition points_payload :: "int \<Rightarrow> int \<Rightarrow> payload" where
  "points_payload n points = [(''version'', JInt n), (''component_key'', JStr ''talk''),
     (''criterion_key'', JStr ''content''), (''raw_points'', JInt points), (''submitted'', JBool True)]"

definition version_payload :: "int \<Rightarrow> payload" where
  "version_payload n = [(''version'', JInt n)]"

definition committee_payload :: "int \<Rightarrow> payload" where
  "committee_payload n = (''component_key'', JStr ''talk'') # (''points'', JInt 80) #
     (''version'', JInt n) # tl vote_payload"

definition external_payload :: "int \<Rightarrow> payload" where
  "external_payload n = [(''version'', JInt n), (''area_key'', JStr ''written''), (''points'', JInt 70),
     (''professional_status'', JStr ''s''), (''determining_authority'', JStr ''a''),
     (''source_reference'', JStr ''q'')]"

definition announce_payload :: "int \<Rightarrow> payload" where
  "announce_payload n = [(''version'', JInt n), (''method'', JStr ''oral''),
     (''communicated_at'', JStr ''2026-06-01T10:00:00Z'')]"

definition exam_script :: "(actor \<times> command) list" where
  "exam_script = [(chair, SaveIndividual (points_payload 1 40)),
     (deputy, SaveIndividual (points_payload 2 45)),
     (chair, Disclose [(''version'', JInt 3), (''component_key'', JStr ''talk'')]),
     (chair, DetermineComponent (committee_payload 4)),
     (chair, RecordExternal (external_payload 5)),
     (deputy, ConfirmExternal 1 (version_payload 6)),
     (chair, DetermineResult ((''version'', JInt 8) # tl vote_payload)),
     (chair, ConfirmRecord (version_payload 9)),
     (deputy, ConfirmRecord (version_payload 10)),
     (chair, Communicate (announce_payload 11))]"

definition world_ready :: world where
  "world_ready = world_bound\<lparr>w_results :=
     [(new_result sample_planning sample_model 1 11)\<lparr>re_participants := [1, 2]\<rparr>]\<rparr>"

lemma exam_runs: "case run_script sample_env 1 exam_script (w_results world_ready) of
    Inr db \<Rightarrow> map re_state db = [Communicated] \<and> map re_version db = [12]
      \<and> map (\<lambda>r. map rm_status (re_communications r)) db = [[CommCurrent]]
      \<and> map (\<lambda>r. map rc_total (re_calculations r)) db = [[76]]
  | Inl _ \<Rightarrow> False"
  by code_simp

definition world_announced :: world where
  "world_announced = world_bound\<lparr>w_results :=
     (case run_script sample_env 1 exam_script (w_results world_ready) of Inr db \<Rightarrow> db | Inl _ \<Rightarrow> [])\<rparr>"

lemma run_script_reach:
  "run_script e i cs (w_results w) = Inr db \<Longrightarrow> assess_step\<^sup>*\<^sup>* w (w\<lparr>w_results := db\<rparr>)"
proof (induction cs arbitrary: w)
  case (Cons x cs)
  obtain a c where x: "x = (a, c)" by fastforce
  with Cons.prems obtain db1 where db1: "run_command e a i c (w_results w) = Inr db1"
    "run_script e i cs db1 = Inr db" by auto
  from Cons.IH[of "w\<lparr>w_results := db1\<rparr>"] db1(2)
  have "assess_step\<^sup>*\<^sup>* (w\<lparr>w_results := db1\<rparr>) (w\<lparr>w_results := db\<rparr>)" by simp
  with assess_step.command[OF db1(1)] show ?case by (rule converse_rtranclp_into_rtranclp)
qed auto

lemma ready_reachable: "assess_step\<^sup>*\<^sup>* empty_world world_ready"
proof -
  have "row_by_id (w_results world_bound) 1 = Some (new_result sample_planning sample_model 1 11)"
    by (simp add: row_by_id_def world_bound_def new_result_def)
  from assess_step.protocol[OF this, of "[1, 2]"] have "assess_step world_bound world_ready"
    by (simp add: world_ready_def world_bound_def upd_row_def new_result_def)
  with sample_reachable show ?thesis by (rule rtranclp.rtrancl_into_rtrancl)
qed

lemma announced_reachable: "assess_step\<^sup>*\<^sup>* empty_world world_announced"
proof -
  obtain db where db: "run_script sample_env 1 exam_script (w_results world_ready) = Inr db"
    using exam_runs by (cases "run_script sample_env 1 exam_script (w_results world_ready)") auto
  have "world_ready\<lparr>w_results := db\<rparr> = world_announced"
    unfolding world_announced_def db sum.case by (simp add: world_ready_def)
  with rtranclp_trans[OF ready_reachable run_script_reach[OF db]] show ?thesis by simp
qed

lemma announced_rows:
  "map re_state (w_results world_announced) = [Communicated]"
  "map (\<lambda>r. map rm_status (re_communications r)) (w_results world_announced) = [[CommCurrent]]"
  using exam_runs by (auto simp: world_announced_def split: sum.splits)

end
