(* ===== verification/Assess_Claims.thy ===== *)
theory Assess_Claims
  imports Assess_Props Assess_Scenario
begin

text \<open>
  What the Assessment component guarantees, each statement with a concrete instance.
\<close>

subsection \<open>Reachable states\<close>

text \<open>C1: In every state reachable from the empty database by any sequence of service calls, every exam
  result is well formed: one live assessment per examiner and criterion, one current committee
  assessment per component, external results confirmed by somebody other than the recorder, a
  numbered determination history with exactly its last entry current, every vote a partition of the
  participants with a strict majority, state column, correction flag and communications in
  agreement, no signature by an outsider, no communication of an unsigned record.\<close>

theorem assess_reachable_inv:
  assumes "assess_step\<^sup>*\<^sup>* empty_world w" "r \<in> set (w_results w)"
  shows "result_inv r"
  using assessment.steps_invar[OF assms(1) empty_world_inv] assms(2)
  by (simp add: world_inv_def db_inv_def)

theorem assess_reachable_inv_witness:
  "result_inv (new_result sample_planning sample_model 1 11)"
  using assess_reachable_inv[OF sample_reachable] by (simp add: world_bound_def)

text \<open>C5: A command on one exam result leaves every other result untouched, never lowers a version,
  never rebinds the model or moves the result to another committee or candidate, and never rewrites
  what is on record. Assessments, committee assessments, external results, disclosures,
  calculations, determinations, signatures, corrections, communications and exports are only
  appended; a row on record keeps its content, and at most its status moves forward: an assessment,
  committee assessment or determination is superseded, an external result is confirmed once or
  replaced, a correction is completed, a communication becomes obsolete, an export superseded. The
  retention row, the one record that a command replaces, is the subject of C31.\<close>

theorem run_command_frame:
  assumes "db_inv db" "run_command e a i c db = Inr db'"
  shows "(\<forall>j. j \<noteq> i \<longrightarrow> row_by_id db' j = row_by_id db j) \<and> (\<exists>r r'. row_by_id db i = Some r \<and>
    row_by_id db' i = Some r' \<and> re_version r \<le> re_version r' \<and> re_model r' = re_model r
    \<and> re_committee_id r' = re_committee_id r \<and> re_round_candidate_id r' = re_round_candidate_id r \<and> extends r r')"
proof -
  from run_command_moves[OF assms] obtain r r' where r: "row_by_id db i = Some r" "rstep\<^sup>*\<^sup>* r r'"
    "db' = upd_row re_id i (\<lambda>_. r') db" by (auto simp: moves_def)
  have "re_id r' = i" using rsteps_frame[OF r(2)] row_by_id_SomeD[OF r(1)] by simp
  moreover have "re_version r \<le> re_version r'"
    by (rule result_version.steps_mono[OF r(2) db_inv_row[OF assms(1) r(1)]])
  moreover have "extends r r'" by (rule rsteps_extends[OF r(2) db_inv_row[OF assms(1) r(1)]])
  ultimately show ?thesis using r rsteps_frame[OF r(2)] by simp
qed

theorem run_command_frame_witness:
  "extends sample_result sample_determined \<and> re_version sample_result \<le> re_version sample_determined"
  using run_command_frame[OF sample_db_inv(1) sample_determine]
  by (auto simp: row_by_id_def sample_result_def sample_determined_def new_result_def)

text \<open>C7: No update is lost: a command that changes anything was sent with the stored version of the
  result, and that version is spent, so the same request sent again, or another one prepared from
  the same snapshot, changes nothing.\<close>

theorem stale_request_rejected:
  assumes "db_inv db" "run_command e a i c db = Inr db'" "db' \<noteq> db" "command_payload c = Some p"
    and "run_command e' a' i c' db' = Inr db''" "command_payload c' = Some p'"
    and "required_result_version p' = required_result_version p"
  shows "required_result_version p = Inr (version_of db i) \<and> db'' = db'"
proof
  have c: "changes i p db db'" by (rule run_command_changes[OF assms(1,2,4)])
  with assms(3) obtain n where n: "required_result_version p = Inr n" "version_of db i = n"
    "n < version_of db' i" by (auto simp: changes_def)
  then show "required_result_version p = Inr (version_of db i)" by simp
  have "db_inv db'" using moves_inv assms(1) c by (auto simp: changes_def)
  from run_command_changes[OF this assms(5,6)] n assms(7) show "db'' = db'"
    by (auto simp: changes_def)
qed

lemma sample_resend:
  "run_command sample_env chair 1 (DetermineResult vote_payload) [sample_determined] = Inr [sample_determined]"
  by code_simp

lemma sample_changed: "[sample_determined] \<noteq> [sample_result]"
  by (simp add: sample_determined_def sample_result_def new_result_def)

theorem stale_request_rejected_witness:
  "required_result_version vote_payload = Inr (version_of [sample_result] 1)"
  using stale_request_rejected[OF sample_db_inv(1) sample_determine sample_changed _ sample_resend]
  by simp

text \<open>C11: Once a result is determined and no correction is open, its inputs are frozen: no command
  that writes assessments, disclosures, committee decisions or external results changes anything.\<close>

theorem inputs_frozen:
  assumes "db_inv db" "row_by_id db i = Some r" "re_determinations r \<noteq> []" "\<not> re_correction_open r"
    and "input_command c" "run_command e a i c db = Inr db'"
  shows "db' = db"
  using input_command_frozen[OF assms(2) _ assms(5,6)] assms(3,4)
    inputs_mutable_inv[OF db_inv_row[OF assms(1,2)]] by blast

definition disclose_payload :: payload where
  "disclose_payload = [(''version'', JInt 3), (''component_key'', JStr ''talk'')]"

lemma sample_disclose:
  "run_command sample_env chair 1 (Disclose disclose_payload) [sample_determined] = Inr [sample_determined]"
  by code_simp

theorem inputs_frozen_witness:
  "row_by_id [sample_determined] 1 = Some sample_determined \<and> re_determinations sample_determined \<noteq> []
   \<and> (\<exists>db'. run_command sample_env chair 1 (Disclose disclose_payload) [sample_determined] = Inr db'
        \<and> db' = [sample_determined])"
proof -
  have r: "row_by_id [sample_determined] 1 = Some sample_determined" "re_determinations sample_determined \<noteq> []"
    "\<not> re_correction_open sample_determined"
    by (simp_all add: row_by_id_def sample_determined_def sample_result_def new_result_def)
  from inputs_frozen[OF sample_db_inv(2) r _ sample_disclose] r sample_disclose show ?thesis by simp
qed

subsection \<open>Versions, reads, calculations\<close>

interpretation result_lock: optimistic_lock
  "\<lambda>db. map_option re_version (row_by_id db i)" "\<lambda>v. claim i v s" "\<lambda>e. e = Conflict VersionConflict"
  for i s
proof
  fix v db db'
  assume c: "claim i v s db = Inr db'"
  then obtain r where r: "row_by_id db i = Some r" "re_version r = v" "db' = upd_row re_id i (claimed s) db"
    by (auto simp: claim_Inr)
  have "row_by_id db' i = Some (claimed s r)"
    using find_upd_row[of re_id "claimed s" i i db] r(1,3) by (simp add: row_by_id_def)
  then show "map_option re_version (row_by_id db i) = Some v
      \<and> map_option re_version (row_by_id db' i) = Some (v + 1)" using r by simp
next
  fix v and db :: db
  assume "map_option re_version (row_by_id db i) \<noteq> Some v"
  then show "\<exists>e. claim i v s db = Inl e \<and> e = Conflict VersionConflict"
    by (auto simp: claim_def split: option.splits)
qed

text \<open>C28: Of two writers that claim the same version of a result the second one gets the conflict
  error, whatever state either wants to set.\<close>

theorem claim_exclusive:
  assumes "claim i v s db = Inr db'"
  shows "claim i v s' db' = Inl (Conflict VersionConflict)"
proof -
  have "map_option re_version (row_by_id db' i) \<noteq> Some v"
    using result_lock.write_version[OF assms] by auto
  from result_lock.write_stale[OF this] show ?thesis by auto
qed

theorem claim_exclusive_witness:
  "claim 1 1 None (case claim 1 1 (Some Determined) [sample_result] of Inr db \<Rightarrow> db | Inl _ \<Rightarrow> [])
     = Inl (Conflict VersionConflict)"
proof -
  have "claim 1 1 (Some Determined) [sample_result] = Inr [claimed (Some Determined) sample_result]"
    by (simp add: claim_def row_by_id_def upd_row_def sample_result_def new_result_def claimed_def)
  from claim_exclusive[OF this] this show ?thesis by simp
qed

text \<open>C29: Confidentiality of a read: it only goes to a participant or the committee's management, it
  shows another examiner's assessment only to participants and only after the component was
  disclosed, and no calculation before every component is disclosed.\<close>

theorem project_confidential:
  assumes "project e r a = Inr v"
  shows "(participates a r \<or> can_manage a (re_committee_id r))
    \<and> (\<forall>x \<in> set (vw_individuals v). Some (ia_assessor x) = member_id_for a r \<or>
       (participates a r \<and> ia_component_key x \<in> disclosed_keys r))
    \<and> (vw_calculations v \<noteq> [] \<or> vw_current_calculation v \<noteq> None \<longrightarrow>
       (\<forall>c \<in> set (ru_components (mo_rules (re_model r))). co_key c \<in> disclosed_keys r))"
  using assms by (auto simp: project_def assert_projection_access_def visible_individuals_def bnd_Inr_iff
      Let_def list_all_iff split: if_split_asm)

lemma sample_view: "case project sample_env sample_determined chair of
    Inr v \<Rightarrow> vw_calculations v = [sample_calculation] | Inl _ \<Rightarrow> False"
  by code_simp

theorem project_confidential_witness:
  "participates chair sample_determined \<or> can_manage chair (re_committee_id sample_determined)"
proof -
  obtain v where "project sample_env sample_determined chair = Inr v"
    using sample_view by (cases "project sample_env sample_determined chair") auto
  from project_confidential[OF this] show ?thesis by (rule conjunct1)
qed

text \<open>C26: The calculation of a reachable result never runs out of grades: for every state of the inputs
  it returns, or it fails in a rounding stage; the search for the grade always finds one.\<close>

theorem calculation_total_grades:
  assumes "assess_step\<^sup>*\<^sup>* empty_world w" "r \<in> set (w_results w)"
  shows "calculation_command e (load_result r) \<in> range Inr \<union> {Inl TypeErr, Inl InvalidOperation}"
proof -
  have inv: "result_inv r" using assessment.steps_invar[OF assms(1) empty_world_inv] assms(2)
    by (simp add: world_inv_def db_inv_def)
  show ?thesis using calculation_error[OF inv]
    by (cases "calculation_command e (load_result r)") auto
qed

theorem calculation_total_grades_witness:
  "calculation_command sample_env (load_result (new_result sample_planning sample_model 1 11))
     \<in> range Inr \<union> {Inl TypeErr, Inl InvalidOperation}"
  using calculation_total_grades[OF sample_reachable] by (simp add: world_bound_def)

text \<open>C33: Rounding half up without a digit count passes the validation of the rules, but then every
  calculation with complete inputs raises a type error.\<close>

theorem rounding_without_digits:
  assumes "ru_overall (mo_rules (re_model r)) = \<lparr>rs_mode = HalfUp, rs_digits = None\<rparr>"
    and "calc_inputs r = Inr (Some s)"
  shows "validate_rounding (ru_overall (mo_rules (re_model r))) = Inr (ru_overall (mo_rules (re_model r)))
    \<and> calculation_command e r = Inl TypeErr"
  using assms by (simp add: validate_rounding_def calculation_command_def outcome_of_def round_dec_def)

definition undigited_result :: result where
  "undigited_result = sample_result\<lparr>re_model := sample_model\<lparr>mo_rules := sample_rules\<lparr>ru_overall :=
     \<lparr>rs_mode = HalfUp, rs_digits = None\<rparr>\<rparr>\<rparr>\<rparr>"

lemma undigited_inputs: "case calc_inputs undigited_result of Inr (Some s) \<Rightarrow> True | _ \<Rightarrow> False"
  by code_simp

theorem rounding_without_digits_witness:
  "calculation_command sample_env undigited_result = Inl TypeErr"
proof -
  obtain s where "calc_inputs undigited_result = Inr (Some s)"
    using undigited_inputs by (auto split: sum.splits option.splits)
  from rounding_without_digits[OF _ this] show ?thesis by (simp add: undigited_result_def)
qed

text \<open>C22: Recalculating is idempotent: after a successful recalculation the same inputs are found on
  record, and running it again returns the same snapshot and writes nothing.\<close>

theorem ensure_calculation_idem:
  assumes "db_inv db" "row_by_id db i = Some r" "ensure_calculation e db (load_result r) = Inr (db', r')"
  shows "ensure_calculation e db' r' = Inr (db', r')"
  by (rule ensure_calculation_once[OF assms])

lemma sample_ensure: "case ensure_calculation sample_env [sample_result] (load_result sample_result) of
    Inr (db, r) \<Rightarrow> re_calculations r = [sample_calculation] | Inl _ \<Rightarrow> False"
  by code_simp

theorem ensure_calculation_idem_witness:
  "\<exists>db r. re_calculations r = [sample_calculation] \<and> ensure_calculation sample_env db r = Inr (db, r)"
proof -
  obtain db r where e: "ensure_calculation sample_env [sample_result] (load_result sample_result) = Inr (db, r)"
    "re_calculations r = [sample_calculation]" using sample_ensure by (auto split: sum.splits)
  have "row_by_id [sample_result] 1 = Some sample_result"
    by (simp add: row_by_id_def sample_result_def new_result_def)
  from ensure_calculation_idem[OF sample_db_inv(1) this e(1)] e(2) show ?thesis by blast
qed

text \<open>C23: The four-eyes rule reaches the grade: every external contribution to the calculation of a
  well-formed result is an external result that somebody other than its recorder has confirmed,
  with the points recorded there.\<close>

theorem external_inputs_confirmed:
  assumes "result_inv r"
    and "external_inputs (load_result r) as s = Some t" "ci \<in> set (cs_inputs t)" "ci \<notin> set (cs_inputs s)"
  shows "\<exists>x \<in> set (re_externals r). ci_key ci = ex_area_key x \<and> ci_points ci = ex_points x
    \<and> (\<exists>m. ex_confirmed_by x = Some m \<and> m \<noteq> ex_recorded_by x)"
proof -
  have inv: "inv_externals (re_externals r)" using assms(1) by (simp add: result_inv_def)
  from confirmed_inputs[OF assms(2-4)] obtain x where x: "x \<in> set (re_externals r)"
    "ex_status x = Confirmed" "ci_key ci = ex_area_key x" "ci_points ci = ex_points x" by auto
  with inv_externalsD(5)[OF inv x(1,2)] show ?thesis by blast
qed

definition written_input :: calc_input where
  "written_input = \<lparr>ci_kind = ExternalInput, ci_key = ''written'', ci_points = 70, ci_weight = 40,
     ci_revision_id = Some 1\<rparr>"

lemma sample_external_input: "case external_inputs (load_result sample_result)
    (ru_external_areas sample_rules) \<lparr>cs_total = 0, cs_scores = [], cs_inputs = []\<rparr> of
    Some t \<Rightarrow> cs_inputs t = [written_input] | None \<Rightarrow> False"
  by code_simp

theorem external_inputs_confirmed_witness:
  "\<exists>x \<in> set (re_externals sample_result). ex_area_key x = ''written''
     \<and> (\<exists>m. ex_confirmed_by x = Some m \<and> m \<noteq> ex_recorded_by x)"
proof -
  obtain t where t: "external_inputs (load_result sample_result) (ru_external_areas sample_rules)
      \<lparr>cs_total = 0, cs_scores = [], cs_inputs = []\<rparr> = Some t" "cs_inputs t = [written_input]"
    using sample_external_input by (auto split: option.splits)
  have "\<exists>x \<in> set (re_externals sample_result). ci_key written_input = ex_area_key x
      \<and> ci_points written_input = ex_points x \<and> (\<exists>m. ex_confirmed_by x = Some m \<and> m \<noteq> ex_recorded_by x)"
    by (rule external_inputs_confirmed[OF sample_inv(1) t(1)]) (simp_all add: t(2))
  then show ?thesis by (auto simp: written_input_def)
qed

subsection \<open>Decisions\<close>

lemma finish_plain:
  assumes "row_by_id db i = Some r" "finish e a i kind p m reason False db = Inr (db', v)"
  obtains ds where "row_by_id db' i = Some (r\<lparr>re_days := ds\<rparr>)"
proof -
  from assms(2) obtain db1 where db1: "complete_result_day_mutation e i kind p m reason db = Inr db1"
    and db': "db' = db1"
    by (auto simp: finish_def bnd_Inr_iff with_view_Inr split: option.split_asm)
  from db1 assms(1) obtain ds where ds: "db1 = upd_row re_id i (\<lambda>r. r\<lparr>re_days := ds\<rparr>) db"
    by (auto simp: complete_result_day_mutation_def bnd_Inr_iff result_by_id_def split: option.splits)
  have "row_by_id db1 i = Some (r\<lparr>re_days := ds\<rparr>)"
    unfolding ds row_by_id_def
    using find_upd_row[of re_id "\<lambda>r. r\<lparr>re_days := ds\<rparr>" i i db] assms(1) by (simp add: row_by_id_def)
  with that db' show thesis by blast
qed

text \<open>C14: A determination is a committee decision: when determining changes anything, the caller
  takes part in the exam and manages its committee, the new current determination names participants
  of the exam in at least the required number, its vote splits them completely with more yes than
  no, and no correction stays open. It points at the calculation of the current inputs: the inputs on
  record before the call are complete, and the calculation it names is the one on record whose
  fingerprint is the digest of the model, of exactly these inputs and of their total; no other
  calculation on record has its key or this fingerprint.\<close>

theorem determine_result_effect:
  assumes "db_inv db" "determine_result e a i p db = Inr (db', v)" "db' \<noteq> db"
  shows "\<exists>r r' d m. row_by_id db i = Some r \<and> row_by_id db' i = Some r' \<and>
    member_id_for a (load_result r) = Some m \<and> m \<in> set (re_participants r) \<and>
    can_manage a (re_committee_id r) \<and> re_state r' = Determined \<and> \<not> re_correction_open r' \<and>
    re_determinations r' \<noteq> [] \<and> d = last (re_determinations r') \<and> rd_status d = Current \<and> rd_by d = m \<and>
    set (rd_participants d) \<subseteq> set (re_participants r) \<and>
    ru_minimum_members (mo_rules (re_model r)) \<le> int (length (rd_participants d)) \<and>
    vote_ok (rd_participants d) (rd_vote d) \<and>
    (\<exists>s c. calc_inputs (load_result r) = Inr (Some s) \<and> c \<in> set (re_calculations r') \<and> rc_id c = rd_calculation_id d
      \<and> rc_fingerprint c = en_digest e \<lparr>pl_model = mo_id (re_model r), pl_inputs = cs_inputs s, pl_total = cs_total s\<rparr>
      \<and> (\<forall>c' \<in> set (re_calculations r'). rc_id c' = rd_calculation_id d \<or> rc_fingerprint c' = rc_fingerprint c \<longrightarrow> c' = c))"
  using assms(2)
proof (cases rule: determine_result_Inr)
  case (1 r)
  with assms(3) show ?thesis by simp
next
  case (2 r n m chosen vote dissent db0 r1' c db1)
  obtain r1 where r1: "rstep\<^sup>*\<^sup>* r r1" "db0 = upd_row re_id i (\<lambda>_. r1) db" "r1' = load_result r1"
    "same_decision r r1" using ensure_calculation_row[OF assms(1) 2(1,10)] .
  have m0: "moves i db db0" using r1 2(1) by (auto simp: moves_def)
  have inv0: "db_inv db0" by (rule moves_inv[OF m0 assms(1)])
  have i1: "re_id r1 = i" using rsteps_frame[OF r1(1)] row_by_id_SomeD[OF 2(1)] by simp
  have row1: "row_by_id db0 i = Some r1" using r1(2) i1 2(1) by simp
  have d0: "distinct (map re_id db0)" using inv0 by (simp add: db_inv_def)
  define t where "t = \<lparr>rd_id = 0, rd_revision = (case current_determination r1' of None \<Rightarrow> 1
        | Some d \<Rightarrow> rd_revision d + 1), rd_calculation_id = rc_id c, rd_participants = sort chosen,
      rd_vote = vote, rd_dissent = dissent, rd_status = Current,
      rd_previous = map_option rd_id (current_determination r1'),
      rd_correction_id = map_option rx_id (open_correction_of r1'), rd_by = m, rd_at = en_now e\<rparr>"
  obtain new where db1: "db1 = upd_row re_id i (\<lambda>_. put_determination new t (claimed (Some Determined) r1)) db0"
    using command_row(2)[OF d0 row1 2(12)[folded t_def, unfolded determine_result_row_def]] by blast
  let ?r2 = "put_determination new t (claimed (Some Determined) r1)"
  have id2: "re_id ?r2 = i" using i1 by (simp add: put_determination_simps)
  have row2: "row_by_id db1 i = Some ?r2" using db1 row1 id2 by simp
  obtain ds where r': "row_by_id db' i = Some (?r2\<lparr>re_days := ds\<rparr>)" using finish_plain[OF row2 2(13)] .
  have q: "set chosen \<subseteq> set (re_participants r)"
    "ru_minimum_members (mo_rules (re_model r)) \<le> int (length chosen)"
    using 2(8) by (auto simp: assert_quorum_def split: if_split_asm)
  obtain s where s: "calc_inputs r1' = Inr (Some s)" "c \<in> set (re_calculations r1')"
    "rc_fingerprint c = en_digest e \<lparr>pl_model = mo_id (re_model r1'), pl_inputs = cs_inputs s, pl_total = cs_total s\<rparr>"
    using matching_calculation_inputs[OF 2(11)] .
  have si: "same_inputs r r1" by (rule ensure_calculation_same_inputs[OF assms(1) 2(1,10) row1])
  have mo: "re_model r1' = re_model r" using si r1(3) by (simp add: same_inputs_def)
  have ci: "calc_inputs (load_result r) = Inr (Some s)"
    using s(1) calc_inputs_cong[OF same_inputs_load[OF si]] r1(3) by simp
  have c: "c \<in> set (re_calculations r1)" using s(2) r1(3) by simp
  have k: "distinct (map rc_id (re_calculations r1))" "distinct (map rc_fingerprint (re_calculations r1))"
    using db_inv_row[OF inv0 row1] by (simp_all add: result_inv_def inv_calculations_def)
  have one: "\<forall>c' \<in> set (re_calculations r1). rc_id c' = rc_id c \<or> rc_fingerprint c' = rc_fingerprint c \<longrightarrow> c' = c"
    using k c by (metis distinct_map inj_onD)
  have calc: "\<exists>s c'. calc_inputs (load_result r) = Inr (Some s) \<and> c' \<in> set (re_calculations r1) \<and> rc_id c' = rc_id c
      \<and> rc_fingerprint c' = en_digest e \<lparr>pl_model = mo_id (re_model r), pl_inputs = cs_inputs s, pl_total = cs_total s\<rparr>
      \<and> (\<forall>x \<in> set (re_calculations r1). rc_id x = rc_id c \<or> rc_fingerprint x = rc_fingerprint c' \<longrightarrow> x = c')"
    using ci c one s(3) mo by metis
  let ?r' = "?r2\<lparr>re_days := ds\<rparr>" and ?d = "last (re_determinations ?r2)"
  have "vote_ok chosen vote" by (rule validate_vote_ok[OF 2(7,9)])
  with 2(3,4) q have base: "re_state ?r' = Determined \<and> \<not> re_correction_open ?r' \<and> re_determinations ?r' \<noteq> []
      \<and> ?d = last (re_determinations ?r') \<and> rd_status ?d = Current \<and> rd_by ?d = m
      \<and> set (rd_participants ?d) \<subseteq> set (re_participants r)
      \<and> ru_minimum_members (mo_rules (re_model r)) \<le> int (length (rd_participants ?d))
      \<and> vote_ok (rd_participants ?d) (rd_vote ?d)"
    by (simp add: put_determination_simps t_def)
  have "re_calculations ?r' = re_calculations r1" "rd_calculation_id ?d = rc_id c"
    by (simp_all add: put_determination_simps t_def)
  then show ?thesis using 2(1-4) r' base calc by metis
qed

theorem determine_result_effect_witness:
  "\<exists>d. re_determinations sample_determined = [d] \<and> vote_ok (rd_participants d) (rd_vote d)"
proof -
  obtain v where v: "determine_result sample_env chair 1 vote_payload [sample_result] = Inr ([sample_determined], v)"
    using sample_determine by (auto simp: stored_Inr)
  show ?thesis using determine_result_effect[OF sample_db_inv(1) v sample_changed]
    by (auto simp: row_by_id_def sample_determined_def sample_result_def new_result_def)
qed

text \<open>C19: Nothing is announced before it is signed: in every reachable state each communication
  belongs to a determination that all of its participants have confirmed.\<close>

theorem communicated_signed:
  assumes "assess_step\<^sup>*\<^sup>* empty_world w" "r \<in> set (w_results w)" "x \<in> set (re_communications r)"
  shows "\<exists>d \<in> set (re_determinations r). rd_id d = rm_determination_id x \<and>
    set (rd_participants d) \<subseteq> set (confirmed_by r (rd_id d))"
proof -
  have "result_inv r" using assessment.steps_invar[OF assms(1) empty_world_inv] assms(2)
    by (simp add: world_inv_def db_inv_def)
  with assms(3) show ?thesis unfolding result_inv_def inv_record_def set_confirmed_by by blast
qed

lemma announced_communication:
  "\<exists>r x. r \<in> set (w_results world_announced) \<and> x \<in> set (re_communications r)"
  using announced_rows(2) by (cases "w_results world_announced") (fastforce simp: map_eq_Cons_conv)+

theorem communicated_signed_witness:
  "\<exists>r x. r \<in> set (w_results world_announced) \<and> x \<in> set (re_communications r) \<and>
    (\<exists>d \<in> set (re_determinations r). rd_id d = rm_determination_id x \<and>
      set (rd_participants d) \<subseteq> set (confirmed_by r (rd_id d)))"
  using announced_communication communicated_signed[OF announced_reachable] by blast

text \<open>The steps are not vacuous: a run reaches a result that was communicated to the candidate.\<close>

lemma exam_completable:
  "\<exists>w. assess_step\<^sup>*\<^sup>* empty_world w \<and> map re_state (w_results w) = [Communicated]"
  by (rule exI[of _ world_announced], rule conjI[OF announced_reachable announced_rows(1)])

subsection \<open>Retention, binding, day completion\<close>

text \<open>C30: A retention period on record is never shortened or dropped, whatever command runs.\<close>

theorem retention_never_shortened:
  assumes "db_inv db" "run_command e a i c db = Inr db'" "row_by_id db i = Some r"
    and "re_retention r = Some o'" "rr_retain_until o' = Some t"
  shows "\<exists>r' n u. row_by_id db' i = Some r' \<and> re_retention r' = Some n \<and> rr_retain_until n = Some u \<and> t \<le> u"
proof -
  from run_command_moves[OF assms(1,2)] assms(3) obtain r' where r': "rstep\<^sup>*\<^sup>* r r'"
    "db' = upd_row re_id i (\<lambda>_. r') db" by (auto simp: moves_def)
  have "re_id r' = i" using rsteps_frame[OF r'(1)] row_by_id_SomeD[OF assms(3)] by simp
  then have "row_by_id db' i = Some r'" using r'(2) assms(3) by simp
  with retention_kept_steps[OF r'(1) assms(4,5)] show ?thesis by blast
qed

definition retained_result :: result where
  "retained_result = sample_result\<lparr>re_retention := Some \<lparr>rr_rule_reference = ''r'',
     rr_period_start = Some (2026, 1, 1), rr_retain_until = Some (2041, 1, 1), rr_legal_hold = False,
     rr_hold_reason = None, rr_by = 1, rr_at = ''t''\<rparr>\<rparr>"

definition retention_payload_sample :: payload where
  "retention_payload_sample = [(''version'', JInt 1), (''period_start'', JStr ''2026-01-01''),
     (''retain_until'', JStr ''2042-01-01'')]"

lemma sample_retention: "case run_command sample_env chair 1 (SetRetention retention_payload_sample)
    [retained_result] of Inr db \<Rightarrow> True | Inl _ \<Rightarrow> False"
  by code_simp

theorem retention_never_shortened_witness:
  "\<exists>db r' n u. run_command sample_env chair 1 (SetRetention retention_payload_sample) [retained_result]
       = Inr db \<and> row_by_id db 1 = Some r' \<and> re_retention r' = Some n \<and> rr_retain_until n = Some u
     \<and> (2041, 1, 1) \<le> u"
proof -
  have inv: "db_inv [retained_result]"
    using sample_inv(1) by (simp add: db_inv_def retained_result_def result_inv_def)
  have row: "row_by_id [retained_result] 1 = Some retained_result"
    by (simp add: row_by_id_def retained_result_def sample_result_def new_result_def)
  obtain db where db: "run_command sample_env chair 1 (SetRetention retention_payload_sample)
      [retained_result] = Inr db" using sample_retention by (auto split: sum.splits)
  obtain o' where o': "re_retention retained_result = Some o'" "rr_retain_until o' = Some (2041, 1, 1)"
    by (simp add: retained_result_def)
  from retention_never_shortened[OF inv db row o'] db show ?thesis by blast
qed

text \<open>C31: A bound model is immutable once anything was assessed: with an assessment input on record
  in the round, a request to bind a model returns the existing binding or fails; nothing changes.\<close>

theorem binding_immutable:
  assumes "bind_round e a (Some pn) ident i p w = Inr (w', b)" "binding_for_round w i = Some b0"
    and "r \<in> set (w_results w)" "in_round pn r" "has_inputs r"
  shows "w' = w \<and> b = b0"
  using assms(1)
proof (cases rule: bind_round_Inr)
  case 1
  with assms(2) show ?thesis by simp
next
  case (2 pn' mo w1 m reason)
  have "round_has_assessment_inputs w pn" using assms(3-5)
    by (auto simp: round_has_assessment_inputs_def list_ex_iff)
  with 2(1,5) assms(2) show ?thesis by simp
qed

definition world_assessed :: world where
  "world_assessed = \<lparr>w_models = [sample_model], w_bindings = [sample_binding], w_results = [sample_result]\<rparr>"

lemma sample_rebind: "bind_round sample_env chair (Some sample_planning) (Some sample_identity) 3
    bind_payload world_assessed = Inr (world_assessed, sample_binding)"
  by code_simp

theorem binding_immutable_witness:
  "has_inputs sample_result \<and> (\<exists>w' b. bind_round sample_env chair (Some sample_planning)
     (Some sample_identity) 3 bind_payload world_assessed = Inr (w', b) \<and> w' = world_assessed \<and> b = sample_binding)"
proof -
  have b: "binding_for_round world_assessed 3 = Some sample_binding"
    by (simp add: binding_for_round_def world_assessed_def sample_binding_def)
  have r: "sample_result \<in> set (w_results world_assessed)" "in_round sample_planning sample_result"
    "has_inputs sample_result"
    by (simp_all add: world_assessed_def in_round_def sample_planning_def sample_result_def new_result_def
        has_inputs_def)
  from binding_immutable[OF sample_rebind b r] r(3) sample_rebind show ?thesis by blast
qed

text \<open>C32: When the completion report of an exam day is ready, in terms of the tables: exactly when every
  slot is cancelled, carries a migrated result without data, or a bound result for which each
  day-scoped component is assessed - a committee component has a current committee assessment, an
  individual one has the required number of participants whose submitted assessments cover exactly
  its criteria -, which does not wait for its determination, whose current determination, if it has
  one, is signed by exactly its participants, and none of whose corrections is open. The bound
  results are snapshots of well-formed stored results, which all reachable ones are (C1).\<close>

theorem completion_ready_iff:
  assumes "\<forall>s \<in> set slots. \<forall>r. sl_result s = BoundRow r \<longrightarrow> (\<exists>r0. result_inv r0 \<and> r = load_result r0)"
  shows "snd (completion_from_snapshot slots) \<longleftrightarrow> (\<forall>s \<in> set slots. sl_execution s = SxCancelled
     \<or> (\<exists>i. sl_result s = LegacyRow i)
     \<or> (\<exists>r. sl_result s = BoundRow r
        \<and> (\<forall>c \<in> set (ru_components (mo_rules (re_model r))). co_day_scoped c \<longrightarrow>
             (if co_mode c = Committee
              then \<exists>x \<in> set (re_components r). ca_component_key x = co_key c \<and> ca_status x = Current
              else co_required_assessors c \<le> int (card {m \<in> set (re_participants r).
                     submitted_criteria r (co_key c) m \<noteq> {}
                     \<and> submitted_criteria r (co_key c) m = cr_key ` set (co_criteria c)})))
        \<and> re_state r \<noteq> CalculationReady
        \<and> (\<forall>d \<in> set (re_determinations r). rd_status d = Current \<longrightarrow>
             (\<forall>m. m \<in> set (rd_participants d) \<longleftrightarrow>
                (\<exists>f \<in> set (re_confirmations r). rf_determination_id f = rd_id d \<and> rf_member f = m)))
        \<and> (\<forall>x \<in> set (re_corrections r). rx_status x \<noteq> CorrOpen)))"
    (is "_ \<longleftrightarrow> (\<forall>s \<in> set slots. ?ready s)")
proof -
  have "cr_close_ready (completion_row_of s) \<longleftrightarrow> ?ready s" if s: "s \<in> set slots" for s
  proof (cases "sl_execution s = SxCancelled \<or> (\<forall>r. sl_result s \<noteq> BoundRow r)")
    case True
    then show ?thesis by (auto simp: completion_row_of_def plain_row_def split: slot_result.split)
  next
    case False
    then obtain r where r: "sl_result s = BoundRow r" "sl_execution s \<noteq> SxCancelled" by blast
    with assms s obtain r0 where r0: "result_inv r0" "r = load_result r0" by blast
    have day: "day_component_complete r c \<longleftrightarrow> (if co_mode c = Committee
        then \<exists>x \<in> set (re_components r). ca_component_key x = co_key c \<and> ca_status x = Current
        else co_required_assessors c \<le> int (card {m \<in> set (re_participants r).
               submitted_criteria r (co_key c) m \<noteq> {} \<and> submitted_criteria r (co_key c) m = cr_key ` set (co_criteria c)}))" for c
      using individual_complete_iff[OF r0] by (simp add: day_component_complete_def list_ex_iff)
    have "re_correction_open r \<longleftrightarrow> \<not> (\<forall>x \<in> set (re_corrections r). rx_status x \<noteq> CorrOpen)"
      using r0 by (auto simp: result_inv_def inv_corrections_def)
    moreover have "cr_close_ready (completion_row_of s) \<longleftrightarrow>
        (\<forall>c \<in> set (ru_components (mo_rules (re_model r))). co_day_scoped c \<longrightarrow> day_component_complete r c)
        \<and> re_state r \<noteq> CalculationReady \<and> record_confirmed r \<and> \<not> re_correction_open r"
      using r by (auto simp: completion_row_of_def Let_def list_all_iff)
    ultimately show ?thesis unfolding day record_confirmed_iff[OF r0] using r by simp
  qed
  then show ?thesis by (simp add: completion_from_snapshot_def Let_def list_all_iff)
qed

theorem completion_ready_iff_witness:
  "\<not> snd (completion_from_snapshot [\<lparr>sl_id = 1, sl_execution = SxCompleted, sl_result = LegacyRow 4\<rparr>,
     \<lparr>sl_id = 2, sl_execution = SxCompleted, sl_result = BoundRow (load_result sample_determined)\<rparr>])"
proof -
  have "\<exists>d \<in> set (re_determinations (load_result sample_determined)). rd_status d = Current \<and> 1 \<in> set (rd_participants d)"
    "re_confirmations (load_result sample_determined) = []"
    by (simp_all add: sample_determined_def sample_result_def new_result_def load_result_def)
  moreover have "\<exists>r0. result_inv r0 \<and> load_result sample_determined = load_result r0" using sample_inv(2) by blast
  ultimately show ?thesis by (subst completion_ready_iff) auto
qed

end
