(* ===== verification/Round_Status.thy ===== *)
theory Round_Status
  imports Prelude
begin

text \<open>The status columns that planning and execution share (\<open>exam_round.status\<close> and others).\<close>

datatype planning_status = PlDraft | PlAvailabilityRequested | PlAvailabilityClosed | PlProposed
  | PlConfirmed | PlInProgress | PlCompleted | PlCancelled

datatype lifecycle_status = LOpen | LReopening | LClosed | LCancelled | LHistorical

datatype absence_status = AbReported | AbFallbackRequested | AbFallbackConfirmed | AbFallbackExpired
  | AbReplacementRequested | AbReplacementSelected | AbNoReplacement | AbResolved | AbWithdrawn
  | AbDayCancelled

end
