(* ===== verification/Round_Policy.thy ===== *)
theory Round_Policy
  imports Assess_Decide Round_Status
begin

text \<open>
  The policies of the exam round lifecycle on detached facts: terminal statuses of candidates
  (\<open>execution/round_candidate_policy.py\<close>) and the read projection with its closing checklist
  (\<open>execution/round_lifecycle_view.py\<close>), over the facts of
  \<open>application/exam_lifecycle_contracts.py\<close>.
\<close>

datatype terminal_status = TOpen | TResultCommunicated | TTransferred | TPostponed | TIhkTerminated

record round_candidate =
  rk_id :: int
  rk_candidate :: int
  rk_round :: int
  rk_terminal :: terminal_status
  rk_reason :: "string option"
  rk_new_round :: "int option"
  rk_postponed_until :: "string option"
  rk_ihk_reference :: "string option"
  rk_active :: bool

record assignment_history =
  ah_round_candidate :: int
  ah_candidate :: int
  ah_round :: int
  ah_ended_at :: "string option"

record round_facts =
  fx_round :: int
  fx_committee :: int
  fx_half_year :: int
  fx_revision :: int
  fx_status :: planning_status
  fx_lifecycle :: lifecycle_status
  fx_candidates :: "round_candidate list"
  fx_results :: "result list"
  fx_history :: "assignment_history list"
  fx_slots :: "(int \<times> slot_execution) list"

datatype policy_error =
    PForbidden | PRevisionRequired | PUnknownStatus | PTypeError | PConflict | PNotInRound
  | PTextExpected | PTextTooLong | PTransferDetails | PPostponeDetails | PIhkDetails
  | PTransferTarget | PTransferNotEffective | PNotDetermined | PNotCommunicated | PExternalOpen

subsection \<open>Facts\<close>

definition result_for_round_candidate :: "round_facts \<Rightarrow> int \<Rightarrow> result option" where
  "result_for_round_candidate f i = List.find (\<lambda>r. re_round_candidate_id r = i) (fx_results f)"

definition original_assignment_ended :: "round_facts \<Rightarrow> int \<Rightarrow> int \<Rightarrow> bool" where
  "original_assignment_ended f rc rid = list_ex (\<lambda>h. ah_round_candidate h = rc \<and> ah_round h = rid
     \<and> ah_ended_at h \<noteq> None) (fx_history f)"

definition effective_transfer_exists :: "round_facts \<Rightarrow> int \<Rightarrow> int \<Rightarrow> bool" where
  "effective_transfer_exists f target c = list_ex (\<lambda>h. ah_candidate h = c \<and> ah_round h = target
     \<and> ah_ended_at h = None) (fx_history f)"

subsection \<open>Terminal statuses of candidates\<close>

definition policy_text :: "json \<Rightarrow> nat \<Rightarrow> policy_error + string option" where
  "policy_text v maximum = (case v of JNull \<Rightarrow> Inr None
   | JStr s \<Rightarrow> let n = strip s in if n = [] then Inr None
       else if maximum < length n then Inl PTextTooLong else Inr (Some n)
   | _ \<Rightarrow> Inl PTextExpected)"

definition status_of :: "json \<Rightarrow> policy_error + terminal_status" where
  "status_of v = (case v of
     JStr s \<Rightarrow> if s = ''open'' then Inr TOpen
       else if s = ''result_communicated'' then Inr TResultCommunicated
       else if s = ''transferred'' then Inr TTransferred
       else if s = ''postponed'' then Inr TPostponed
       else if s = ''ihk_terminated'' then Inr TIhkTerminated else Inl PUnknownStatus
   | JList _ \<Rightarrow> Inl PTypeError | JObj _ \<Rightarrow> Inl PTypeError | _ \<Rightarrow> Inl PUnknownStatus)"

definition py_int :: "json \<Rightarrow> bool" where
  "py_int v = (case v of JInt _ \<Rightarrow> True | JBool _ \<Rightarrow> True | _ \<Rightarrow> False)"

definition require_terminal_details ::
  "terminal_status \<Rightarrow> string option \<Rightarrow> json \<Rightarrow> string option \<Rightarrow> string option \<Rightarrow> policy_error + unit" where
  "require_terminal_details st reason target postponed ihk = (case st of
     TTransferred \<Rightarrow> require (\<not> (reason = None \<or> \<not> py_int target)) PTransferDetails (Inr ())
   | TPostponed \<Rightarrow> require (\<not> (reason = None \<or> postponed = None)) PPostponeDetails (Inr ())
   | TIhkTerminated \<Rightarrow> require (\<not> (reason = None \<or> ihk = None)) PIhkDetails (Inr ())
   | _ \<Rightarrow> Inr ())"

definition require_result_communicated :: "round_facts \<Rightarrow> int \<Rightarrow> policy_error + unit" where
  "require_result_communicated f i = (case result_for_round_candidate f i of
     None \<Rightarrow> Inl PNotDetermined
   | Some r \<Rightarrow>
     require (\<not> (re_state r \<noteq> Determined \<or> re_correction_open r)) PNotDetermined (
     require (\<not> (List.find (\<lambda>x. rd_status x = Current) (re_determinations r) = None \<or>
         List.find (\<lambda>x. rm_status x = CommCurrent) (re_communications r) = None)) PNotCommunicated (
     require (\<not> list_ex (\<lambda>x. ex_status x \<noteq> Confirmed) (re_externals r)) PExternalOpen (Inr ()))))"

definition validate_terminal_evidence :: "round_facts \<Rightarrow> round_candidate \<Rightarrow> terminal_status \<Rightarrow>
    string option \<Rightarrow> json \<Rightarrow> string option \<Rightarrow> string option \<Rightarrow> policy_error + unit" where
  "validate_terminal_evidence f c st reason target postponed ihk =
     bnd (require_terminal_details st reason target postponed ihk) (\<lambda>_. case st of
       TResultCommunicated \<Rightarrow> require_result_communicated f (rk_id c)
     | TTransferred \<Rightarrow> (case target of
         JInt t \<Rightarrow> require (\<not> (t = fx_round f \<or> \<not> effective_transfer_exists f t (rk_candidate c)))
           PTransferNotEffective (Inr ())
       | _ \<Rightarrow> Inl PTransferTarget)
     | _ \<Rightarrow> Inr ())"

record terminal_values =
  tv_status :: terminal_status
  tv_reason :: "string option"
  tv_new_round :: "int option"
  tv_postponed_until :: "string option"
  tv_ihk_reference :: "string option"
  tv_terminal_at :: "string option"
  tv_deactivate :: bool
  tv_ended_at :: "string option"

definition candidate_terminal_values ::
  "actor \<Rightarrow> string \<Rightarrow> round_facts \<Rightarrow> int \<Rightarrow> payload \<Rightarrow> policy_error + (int \<times> terminal_values)" where
  "candidate_terminal_values a now f i p =
     require (\<not> (\<not> can_manage a (fx_committee f) \<or>
        map_of (ac_member_by_committee a) (fx_committee f) = None)) PForbidden (
     bnd (case jget p ''revision'' of JInt n \<Rightarrow> if n < 1 then Inl PRevisionRequired else Inr n
          | _ \<Rightarrow> Inl PRevisionRequired) (\<lambda>expected.
     bnd (status_of (jget p ''terminal_status'')) (\<lambda>st.
     require (expected = fx_revision f) PConflict (
     case List.find (\<lambda>c. rk_id c = i) (fx_candidates f) of None \<Rightarrow> Inl PNotInRound | Some c \<Rightarrow>
     bnd (policy_text (jget p ''reason'') 3000) (\<lambda>reason.
     let target = jget p ''effective_new_round_id'' in
     bnd (policy_text (jget p ''postponed_until'') 100) (\<lambda>postponed.
     bnd (policy_text (jget p ''ihk_decision_reference'') 1000) (\<lambda>ihk.
     bnd (validate_terminal_evidence f c st reason target postponed ihk) (\<lambda>_.
     let ends = st \<in> {TTransferred, TPostponed, TIhkTerminated} in
     Inr (expected, \<lparr>tv_status = st, tv_reason = reason,
       tv_new_round = (if st = TTransferred then case target of JInt t \<Rightarrow> Some t | _ \<Rightarrow> None else None),
       tv_postponed_until = (if st = TPostponed then postponed else None),
       tv_ihk_reference = (if st = TIhkTerminated then ihk else None),
       tv_terminal_at = (if st = TOpen then None else Some now),
       tv_deactivate = ends, tv_ended_at = (if ends then Some now else None)\<rparr>)))))))))"

subsection \<open>The closing checklist\<close>

definition truthy :: "string option \<Rightarrow> bool" where
  "truthy s \<longleftrightarrow> s \<noteq> None \<and> s \<noteq> Some []"

definition candidate_terminal_valid :: "round_facts \<Rightarrow> round_candidate \<Rightarrow> bool" where
  "candidate_terminal_valid f c = (case rk_terminal c of
     TResultCommunicated \<Rightarrow> (case result_for_round_candidate f (rk_id c) of
       None \<Rightarrow> False
     | Some r \<Rightarrow> if re_state r \<noteq> Determined \<or> re_correction_open r then False else
         List.find (\<lambda>x. rd_status x = Current) (re_determinations r) \<noteq> None \<and>
         List.find (\<lambda>x. rm_status x = CommCurrent) (re_communications r) \<noteq> None \<and>
         list_all (\<lambda>x. ex_status x = Confirmed) (re_externals r))
   | TTransferred \<Rightarrow> (case rk_new_round c of None \<Rightarrow> False | Some t \<Rightarrow>
       truthy (rk_reason c) \<and> \<not> rk_active c \<and> original_assignment_ended f (rk_id c) (rk_round c)
       \<and> effective_transfer_exists f t (rk_candidate c))
   | TPostponed \<Rightarrow> truthy (rk_reason c) \<and> truthy (rk_postponed_until c) \<and> \<not> rk_active c
       \<and> original_assignment_ended f (rk_id c) (rk_round c)
   | TIhkTerminated \<Rightarrow> truthy (rk_reason c) \<and> truthy (rk_ihk_reference c) \<and> \<not> rk_active c
       \<and> original_assignment_ended f (rk_id c) (rk_round c)
   | TOpen \<Rightarrow> False)"

definition terminal_absence :: "absence_status set" where
  "terminal_absence = {AbReplacementSelected, AbResolved, AbWithdrawn, AbDayCancelled}"

record retention_source =
  rs_kind :: string
  rs_id :: int
  rs_retain_until :: "date option"
  rs_legal_hold :: bool

record round_records =
  rr_days :: "(int \<times> closure_status) list"
  rr_closure_days :: "int list"
  rr_follow_ups :: "int list"
  rr_protocol_corrections :: "int list"
  rr_absences :: "(int \<times> absence_status) list"
  rr_protocol_retention :: "retention_source list"
  rr_has_decisions :: bool

definition incomplete_days :: "round_records \<Rightarrow> int list" where
  "incomplete_days rs = map fst (filter (\<lambda>(i, st). st \<notin> {ClClosed, ClClosedException, ClHistorical}
     \<or> (st \<noteq> ClHistorical \<and> i \<notin> set (rr_closure_days rs))) (rr_days rs))"

definition open_corrections :: "round_facts \<Rightarrow> int list" where
  "open_corrections f = concat (map (\<lambda>r. map rx_id (filter (\<lambda>x. rx_status x = CorrOpen)
     (re_corrections r))) (fx_results f))"

definition evaluation_items :: "round_facts \<Rightarrow> round_records \<Rightarrow> int list \<Rightarrow> (string \<times> bool) list" where
  "evaluation_items f rs pending = (let days = rr_days rs;
       non_terminal = filter (\<lambda>c. rk_terminal c = TOpen) (fx_candidates f);
       invalid_terminal = filter (\<lambda>c. \<not> candidate_terminal_valid f c) (fx_candidates f)
     in [(''round_has_confirmed_plan'',
            fx_status f \<in> {PlConfirmed, PlInProgress, PlCompleted} \<and> days \<noteq> []),
         (''days_closed'', incomplete_days rs = []),
         (''no_day_reopening'', list_all (\<lambda>d. snd d \<noteq> ClReopening) days),
         (''no_protocol_follow_up'', rr_follow_ups rs = []),
         (''candidates_terminal'', non_terminal = [] \<and> invalid_terminal = []),
         (''no_corrections'', open_corrections f = [] \<and> rr_protocol_corrections rs = []),
         (''absence_processes_complete'', filter (\<lambda>x. snd x \<notin> terminal_absence) (rr_absences rs) = []),
         (''slots_terminal'', filter (\<lambda>s. snd s \<notin> {SxCompleted, SxCancelled}) (fx_slots f) = []),
         (''plan_consequences_complete'', pending = [])])"

record round_view =
  rv_round :: int
  rv_revision :: int
  rv_status :: lifecycle_status
  rv_historical_without_evidence :: bool
  rv_ready :: bool
  rv_items :: "(string \<times> bool) list"
  rv_retain_until :: "date option"
  rv_legal_hold :: bool
  rv_may_close :: bool
  rv_may_reopen :: bool
  rv_may_delete :: bool
  rv_may_export :: bool

definition retention_sources :: "round_records \<Rightarrow> result list \<Rightarrow> retention_source list" where
  "retention_sources rs results = rr_protocol_retention rs @
     concat (map (\<lambda>r. case re_retention r of None \<Rightarrow> []
       | Some t \<Rightarrow> [\<lparr>rs_kind = ''result'', rs_id = re_id r, rs_retain_until = rr_retain_until t,
           rs_legal_hold = rr_legal_hold t\<rparr>]) results)"

definition max_date :: "date list \<Rightarrow> date option" where
  "max_date ds = (case ds of [] \<Rightarrow> None | d # ds \<Rightarrow> Some (foldl max d ds))"

definition round_lifecycle_view :: "actor \<Rightarrow> round_facts \<Rightarrow> int list \<Rightarrow> round_records option \<Rightarrow>
    policy_error + round_view option" where
  "round_lifecycle_view a f pending snapshot = (case snapshot of None \<Rightarrow> Inr None | Some rs \<Rightarrow>
     require (can_read a (fx_committee f)) PForbidden (let
       items = evaluation_items f rs pending; manage = can_manage a (fx_committee f);
       sources = retention_sources rs (fx_results f) in
     Inr (Some \<lparr>rv_round = fx_round f, rv_revision = fx_revision f, rv_status = fx_lifecycle f,
       rv_historical_without_evidence = (fx_lifecycle f = LHistorical \<and> \<not> rr_has_decisions rs),
       rv_ready = list_all snd items, rv_items = items,
       rv_retain_until = max_date (List.map_filter rs_retain_until sources),
       rv_legal_hold = list_ex rs_legal_hold sources,
       rv_may_close = (manage \<and> fx_lifecycle f \<in> {LOpen, LReopening}),
       rv_may_reopen = (manage \<and> fx_lifecycle f \<in> {LClosed, LCancelled, LHistorical}),
       rv_may_delete = (manage \<and> fx_status f = PlDraft \<and> fx_lifecycle f = LOpen),
       rv_may_export = (map_of (ac_member_by_committee a) (fx_committee f) \<noteq> None)\<rparr>)))"

end
