(* ===== verification/Round_Claims.thy ===== *)
theory Round_Claims
  imports Round_Policy Assess_Sample
begin

text \<open>Properties of the round lifecycle policies and of their composition with Assessment.\<close>

text \<open>The results that the lifecycle facts carry are snapshots of stored results.\<close>

definition facts_of_world :: "world \<Rightarrow> round_facts \<Rightarrow> bool" where
  "facts_of_world w f \<longleftrightarrow> set (fx_results f) \<subseteq> load_result ` set (w_results w)"

text \<open>A current communication excludes the state the policy asks for.\<close>

lemma communicated_state:
  assumes "result_inv r" "x \<in> set (re_communications r)" "rm_status x = CommCurrent"
  shows "re_state r = Communicated"
  using assms by (auto simp: result_inv_def inv_communications_def)

lemma require_result_communicated_fails:
  assumes "\<forall>r \<in> set (fx_results f). \<exists>r0. result_inv r0 \<and> r = load_result r0"
  shows "require_result_communicated f i \<noteq> Inr ()"
proof
  assume ok: "require_result_communicated f i = Inr ()"
  then obtain r x where r: "result_for_round_candidate f i = Some r" "re_state r = Determined"
    "List.find (\<lambda>x. rm_status x = CommCurrent) (re_communications r) = Some x"
    by (auto simp: require_result_communicated_def ok_iff split: option.split_asm)
  have "r \<in> set (fx_results f)" using r(1) by (auto simp: result_for_round_candidate_def dest: find_Some_mem)
  with assms obtain r0 where r0: "result_inv r0" "r = load_result r0" by blast
  have "x \<in> set (re_communications r0)" "rm_status x = CommCurrent"
    using find_Some_mem[OF r(3)] find_Some_P[OF r(3)] r0(2) by auto
  from communicated_state[OF r0(1) this] r(2) r0(2) show False by simp
qed

lemma reachable_facts:
  assumes "assess_step\<^sup>*\<^sup>* empty_world w" "facts_of_world w f"
  shows "\<forall>r \<in> set (fx_results f). \<exists>r0. result_inv r0 \<and> r = load_result r0"
  using assessment.steps_invar[OF assms(1) empty_world_inv] assms(2)
  by (auto simp: facts_of_world_def world_inv_def db_inv_def)

text \<open>C17: The terminal status for a communicated result cannot be reached: over the results of any
  reachable Assessment state the policy rejects it for every candidate, because it asks for the
  state \<open>determined\<close> together with a current communication, and communicating sets the state
  \<open>communicated\<close>. The closing checklist rejects it for the same reason.\<close>

theorem result_communicated_unattainable:
  assumes "assess_step\<^sup>*\<^sup>* empty_world w" "facts_of_world w f"
    and "candidate_terminal_values a now f i p = Inr (n, tv)"
  shows "tv_status tv \<noteq> TResultCommunicated"
proof
  assume "tv_status tv = TResultCommunicated"
  with assms(3) obtain c where "List.find (\<lambda>c. rk_id c = i) (fx_candidates f) = Some c"
    "require_result_communicated f (rk_id c) = Inr ()"
    by (auto simp: candidate_terminal_values_def validate_terminal_evidence_def
        require_terminal_details_def ok_iff case_Some_Inr_iff Let_def)
  with require_result_communicated_fails[OF reachable_facts[OF assms(1,2)]] show False by blast
qed

definition sample_facts :: round_facts where
  "sample_facts = \<lparr>fx_round = 3, fx_committee = 7, fx_half_year = 1, fx_revision = 5,
     fx_status = PlConfirmed, fx_lifecycle = LOpen,
     fx_candidates = [\<lparr>rk_id = 11, rk_candidate = 21, rk_round = 3, rk_terminal = TPostponed,
       rk_reason = Some ''ill'', rk_new_round = None, rk_postponed_until = Some ''2027'',
       rk_ihk_reference = None, rk_active = False\<rparr>],
     fx_results = [load_result (new_result sample_planning sample_model 1 11)],
     fx_history = [\<lparr>ah_round_candidate = 11, ah_candidate = 21, ah_round = 3, ah_ended_at = Some ''t''\<rparr>],
     fx_slots = [(1, SxCompleted)]\<rparr>"

definition postpone_payload :: payload where
  "postpone_payload = [(''revision'', JInt 5), (''terminal_status'', JStr ''postponed''),
     (''reason'', JStr ''ill''), (''postponed_until'', JStr ''2027'')]"

definition postponed_values :: terminal_values where
  "postponed_values = \<lparr>tv_status = TPostponed, tv_reason = Some ''ill'', tv_new_round = None,
     tv_postponed_until = Some ''2027'', tv_ihk_reference = None, tv_terminal_at = Some ''t'',
     tv_deactivate = True, tv_ended_at = Some ''t''\<rparr>"

lemma sample_postpone:
  "candidate_terminal_values chair ''t'' sample_facts 11 postpone_payload = Inr (5, postponed_values)"
  by code_simp

theorem result_communicated_unattainable_witness: "tv_status postponed_values \<noteq> TResultCommunicated"
proof (rule result_communicated_unattainable[OF sample_reachable _ sample_postpone])
  show "facts_of_world world_bound sample_facts"
    by (simp add: facts_of_world_def world_bound_def sample_facts_def)
qed

lemma terminal_values_Inr:
  assumes "candidate_terminal_values a now f i p = Inr (n, tv)"
  shows "\<exists>c st reason target postponed ihk. can_manage a (fx_committee f) \<and> n = fx_revision f
    \<and> c \<in> set (fx_candidates f) \<and> rk_id c = i
    \<and> validate_terminal_evidence f c st reason target postponed ihk = Inr ()
    \<and> tv_status tv = st \<and> tv_reason tv = reason
    \<and> tv_new_round tv = (if st = TTransferred then case target of JInt t \<Rightarrow> Some t | _ \<Rightarrow> None else None)
    \<and> tv_postponed_until tv = (if st = TPostponed then postponed else None)
    \<and> tv_ihk_reference tv = (if st = TIhkTerminated then ihk else None)
    \<and> tv_deactivate tv = (st \<in> {TTransferred, TPostponed, TIhkTerminated})
    \<and> tv_ended_at tv = (if st \<in> {TTransferred, TPostponed, TIhkTerminated} then Some now else None)
    \<and> tv_terminal_at tv = (if st = TOpen then None else Some now)"
proof -
  from assms[unfolded candidate_terminal_values_def ok_iff case_Some_Inr_iff Let_def]
  obtain c st reason postponed ihk where
    "can_manage a (fx_committee f)" "n = fx_revision f"
    and c: "List.find (\<lambda>c. rk_id c = i) (fx_candidates f) = Some c"
    and "validate_terminal_evidence f c st reason (jget p ''effective_new_round_id'') postponed ihk = Inr ()"
    and tv: "tv = \<lparr>tv_status = st, tv_reason = reason,
       tv_new_round = (if st = TTransferred then case jget p ''effective_new_round_id'' of
         JInt t \<Rightarrow> Some t | _ \<Rightarrow> None else None),
       tv_postponed_until = (if st = TPostponed then postponed else None),
       tv_ihk_reference = (if st = TIhkTerminated then ihk else None),
       tv_terminal_at = (if st = TOpen then None else Some now),
       tv_deactivate = (st \<in> {TTransferred, TPostponed, TIhkTerminated}),
       tv_ended_at = (if st \<in> {TTransferred, TPostponed, TIhkTerminated} then Some now else None)\<rparr>"
    by auto
  then show ?thesis using find_Some_mem[OF c] find_Some_P[OF c]
    by (intro exI[of _ c] exI[of _ st] exI[of _ reason] exI[of _ "jget p ''effective_new_round_id''"]
        exI[of _ postponed] exI[of _ ihk]) simp
qed

lemma require_result_communicated_Inr:
  assumes "require_result_communicated f i = Inr ()"
  shows "\<exists>r \<in> set (fx_results f). re_round_candidate_id r = i \<and> re_state r = Determined \<and> \<not> re_correction_open r
    \<and> (\<exists>d \<in> set (re_determinations r). rd_status d = Current) \<and> (\<exists>x \<in> set (re_communications r). rm_status x = CommCurrent)
    \<and> (\<forall>x \<in> set (re_externals r). ex_status x = Confirmed)"
proof -
  from assms obtain r where r: "result_for_round_candidate f i = Some r" "re_state r = Determined" "\<not> re_correction_open r"
    "List.find (\<lambda>x. rd_status x = Current) (re_determinations r) \<noteq> None"
    "List.find (\<lambda>x. rm_status x = CommCurrent) (re_communications r) \<noteq> None"
    "\<not> list_ex (\<lambda>x. ex_status x \<noteq> Confirmed) (re_externals r)"
    by (auto simp: require_result_communicated_def ok_iff split: option.split_asm)
  have "r \<in> set (fx_results f)" "re_round_candidate_id r = i"
    using r(1) by (auto simp: result_for_round_candidate_def dest: find_Some_mem find_Some_P)
  moreover have "\<exists>d \<in> set (re_determinations r). rd_status d = Current" "\<exists>x \<in> set (re_communications r). rm_status x = CommCurrent"
    using r(4,5) unfolding find_None_iff by blast+
  ultimately show ?thesis using r(2,3,6) by (auto simp: list_ex_iff)
qed

text \<open>C34: The terminal transition keeps its evidence, by status. That the result was communicated needs a
  determined result of the candidate without an open correction, with a current determination, a
  current communication and only confirmed external results; leaving for another round needs a
  reason and an open assignment of the candidate there, and that round is not the same; a
  postponement needs a reason and a date, an IHK termination a reason and a reference. Exactly the
  last three deactivate the candidate and end the assignment, at the time of the call; every status
  but open records that time.\<close>

theorem terminal_values_evidence:
  assumes "candidate_terminal_values a now f i p = Inr (n, tv)"
  shows "can_manage a (fx_committee f) \<and> n = fx_revision f
    \<and> (tv_status tv = TResultCommunicated \<longrightarrow> (\<exists>r \<in> set (fx_results f). re_round_candidate_id r = i
       \<and> re_state r = Determined \<and> \<not> re_correction_open r
       \<and> (\<exists>d \<in> set (re_determinations r). rd_status d = Current)
       \<and> (\<exists>x \<in> set (re_communications r). rm_status x = CommCurrent)
       \<and> (\<forall>x \<in> set (re_externals r). ex_status x = Confirmed)))
    \<and> (tv_status tv = TTransferred \<longrightarrow> (\<exists>t c. tv_new_round tv = Some t \<and> t \<noteq> fx_round f \<and> tv_reason tv \<noteq> None
       \<and> c \<in> set (fx_candidates f) \<and> rk_id c = i \<and> (\<exists>h \<in> set (fx_history f). ah_candidate h = rk_candidate c
          \<and> ah_round h = t \<and> ah_ended_at h = None)))
    \<and> (tv_status tv = TPostponed \<longrightarrow> tv_reason tv \<noteq> None \<and> tv_postponed_until tv \<noteq> None)
    \<and> (tv_status tv = TIhkTerminated \<longrightarrow> tv_reason tv \<noteq> None \<and> tv_ihk_reference tv \<noteq> None)
    \<and> (tv_deactivate tv \<longleftrightarrow> tv_status tv \<in> {TTransferred, TPostponed, TIhkTerminated})
    \<and> tv_ended_at tv = (if tv_status tv \<in> {TTransferred, TPostponed, TIhkTerminated} then Some now else None)
    \<and> tv_terminal_at tv = (if tv_status tv = TOpen then None else Some now)"
proof -
  from terminal_values_Inr[OF assms] obtain c st reason target postponed ihk where
    m: "can_manage a (fx_committee f)" "n = fx_revision f"
    and c: "c \<in> set (fx_candidates f)" "rk_id c = i"
    and ev: "validate_terminal_evidence f c st reason target postponed ihk = Inr ()"
    and tv: "tv_status tv = st" "tv_reason tv = reason"
      "tv_new_round tv = (if st = TTransferred then case target of JInt t \<Rightarrow> Some t | _ \<Rightarrow> None else None)"
      "tv_postponed_until tv = (if st = TPostponed then postponed else None)"
      "tv_ihk_reference tv = (if st = TIhkTerminated then ihk else None)"
      "tv_deactivate tv = (st \<in> {TTransferred, TPostponed, TIhkTerminated})"
      "tv_ended_at tv = (if st \<in> {TTransferred, TPostponed, TIhkTerminated} then Some now else None)"
      "tv_terminal_at tv = (if st = TOpen then None else Some now)" by blast
  have "tv_status tv = TPostponed \<longrightarrow> tv_reason tv \<noteq> None \<and> tv_postponed_until tv \<noteq> None"
    "tv_status tv = TIhkTerminated \<longrightarrow> tv_reason tv \<noteq> None \<and> tv_ihk_reference tv \<noteq> None"
    using tv ev
    by (auto simp: validate_terminal_evidence_def require_terminal_details_def ok_iff)
  moreover have "\<exists>t c. tv_new_round tv = Some t \<and> t \<noteq> fx_round f \<and> tv_reason tv \<noteq> None
       \<and> c \<in> set (fx_candidates f) \<and> rk_id c = i \<and> (\<exists>h \<in> set (fx_history f). ah_candidate h = rk_candidate c
          \<and> ah_round h = t \<and> ah_ended_at h = None)"
    if "tv_status tv = TTransferred"
    using that tv ev c by (cases target)
      (auto simp: validate_terminal_evidence_def require_terminal_details_def effective_transfer_exists_def list_ex_iff ok_iff)
  moreover have "require_result_communicated f i = Inr ()" if "tv_status tv = TResultCommunicated"
    using that tv(1) ev c by (simp add: validate_terminal_evidence_def require_terminal_details_def)
  note require_result_communicated_Inr[OF this]
  ultimately show ?thesis using m tv by simp
qed

theorem terminal_values_evidence_witness:
  "tv_reason postponed_values \<noteq> None \<and> tv_postponed_until postponed_values \<noteq> None"
  using terminal_values_evidence[OF sample_postpone] by (simp add: postponed_values_def)

lemma candidate_valid_iff:
  assumes "distinct (map re_round_candidate_id (fx_results f))"
  shows "candidate_terminal_valid f c \<longleftrightarrow>
    rk_terminal c = TResultCommunicated \<and> (\<exists>r \<in> set (fx_results f). re_round_candidate_id r = rk_id c
        \<and> re_state r = Determined \<and> \<not> re_correction_open r
        \<and> (\<exists>d \<in> set (re_determinations r). rd_status d = Current)
        \<and> (\<exists>x \<in> set (re_communications r). rm_status x = CommCurrent)
        \<and> (\<forall>x \<in> set (re_externals r). ex_status x = Confirmed))
    \<or> rk_terminal c \<in> {TTransferred, TPostponed, TIhkTerminated} \<and> \<not> rk_active c \<and> rk_reason c \<notin> {None, Some []}
        \<and> (\<exists>h \<in> set (fx_history f). ah_round_candidate h = rk_id c \<and> ah_round h = rk_round c \<and> ah_ended_at h \<noteq> None)
        \<and> (rk_terminal c = TTransferred \<longrightarrow> (\<exists>h \<in> set (fx_history f). ah_candidate h = rk_candidate c
              \<and> rk_new_round c = Some (ah_round h) \<and> ah_ended_at h = None))
        \<and> (rk_terminal c = TPostponed \<longrightarrow> rk_postponed_until c \<notin> {None, Some []})
        \<and> (rk_terminal c = TIhkTerminated \<longrightarrow> rk_ihk_reference c \<notin> {None, Some []})"
proof -
  let ?ok = "\<lambda>r. re_state r = Determined \<and> \<not> re_correction_open r
        \<and> (\<exists>d \<in> set (re_determinations r). rd_status d = Current)
        \<and> (\<exists>x \<in> set (re_communications r). rm_status x = CommCurrent)
        \<and> (\<forall>x \<in> set (re_externals r). ex_status x = Confirmed)"
  have look: "(case result_for_round_candidate f k of None \<Rightarrow> False | Some r \<Rightarrow> P r)
      \<longleftrightarrow> (\<exists>r \<in> set (fx_results f). re_round_candidate_id r = k \<and> P r)" for k P
  proof (cases "result_for_round_candidate f k")
    case None
    then have "\<forall>r \<in> set (fx_results f). re_round_candidate_id r \<noteq> k"
      by (auto simp: result_for_round_candidate_def find_None_iff)
    with None show ?thesis by auto
  next
    case (Some r)
    have r: "r \<in> set (fx_results f)" "re_round_candidate_id r = k"
      using Some by (auto simp: result_for_round_candidate_def dest: find_Some_mem find_Some_P)
    have "x = r" if "x \<in> set (fx_results f)" "re_round_candidate_id x = k" for x
      using assms that r by (metis distinct_map inj_onD)
    then have "(\<exists>x \<in> set (fx_results f). re_round_candidate_id x = k \<and> P x) \<longleftrightarrow> P r" using r by blast
    with Some show ?thesis by simp
  qed
  have one: "(if re_state r \<noteq> Determined \<or> re_correction_open r then False else
         List.find (\<lambda>x. rd_status x = Current) (re_determinations r) \<noteq> None \<and>
         List.find (\<lambda>x. rm_status x = CommCurrent) (re_communications r) \<noteq> None \<and>
         list_all (\<lambda>x. ex_status x = Confirmed) (re_externals r)) \<longleftrightarrow> ?ok r" for r
    unfolding find_None_iff list_all_iff by auto
  show ?thesis unfolding candidate_terminal_valid_def one look
    by (cases "rk_terminal c"; cases "rk_new_round c")
      (auto simp: truthy_def original_assignment_ended_def effective_transfer_exists_def list_ex_iff)
qed

text \<open>C35: When a round is ready to close, in terms of its facts: exactly when its plan was confirmed and
  has days, every day is closed with a current record or historical, no follow-up, correction or
  plan consequence is open, every absence report ended in a selected replacement, was resolved,
  withdrawn or ended with its day, every slot is completed or cancelled, and every candidate
  ended: by a determined and communicated result whose external results are confirmed, or inactive
  with a reason and an ended assignment in the round - transferred with an open assignment in the
  new round, postponed with a date, terminated by the IHK with a reference. (A candidate has one
  result: the column is unique.)\<close>

theorem round_ready_iff:
  assumes "round_lifecycle_view a f pending (Some rs) = Inr (Some v)"
    and "distinct (map re_round_candidate_id (fx_results f))"
  shows "rv_ready v \<longleftrightarrow> fx_status f \<in> {PlConfirmed, PlInProgress, PlCompleted} \<and> rr_days rs \<noteq> []
    \<and> (\<forall>(d, st) \<in> set (rr_days rs). st = ClHistorical \<or>
         (st \<in> {ClClosed, ClClosedException} \<and> d \<in> set (rr_closure_days rs)))
    \<and> rr_follow_ups rs = [] \<and> rr_protocol_corrections rs = [] \<and> pending = []
    \<and> (\<forall>c \<in> set (fx_candidates f).
         rk_terminal c = TResultCommunicated \<and> (\<exists>r \<in> set (fx_results f). re_round_candidate_id r = rk_id c
            \<and> re_state r = Determined \<and> \<not> re_correction_open r
            \<and> (\<exists>d \<in> set (re_determinations r). rd_status d = Current)
            \<and> (\<exists>x \<in> set (re_communications r). rm_status x = CommCurrent)
            \<and> (\<forall>x \<in> set (re_externals r). ex_status x = Confirmed))
         \<or> rk_terminal c \<in> {TTransferred, TPostponed, TIhkTerminated} \<and> \<not> rk_active c \<and> rk_reason c \<notin> {None, Some []}
            \<and> (\<exists>h \<in> set (fx_history f). ah_round_candidate h = rk_id c \<and> ah_round h = rk_round c \<and> ah_ended_at h \<noteq> None)
            \<and> (rk_terminal c = TTransferred \<longrightarrow> (\<exists>h \<in> set (fx_history f). ah_candidate h = rk_candidate c
                  \<and> rk_new_round c = Some (ah_round h) \<and> ah_ended_at h = None))
            \<and> (rk_terminal c = TPostponed \<longrightarrow> rk_postponed_until c \<notin> {None, Some []})
            \<and> (rk_terminal c = TIhkTerminated \<longrightarrow> rk_ihk_reference c \<notin> {None, Some []}))
    \<and> (\<forall>r \<in> set (fx_results f). \<forall>x \<in> set (re_corrections r). rx_status x \<noteq> CorrOpen)
    \<and> (\<forall>x \<in> set (rr_absences rs). snd x \<in> {AbReplacementSelected, AbResolved, AbWithdrawn, AbDayCancelled})
    \<and> (\<forall>s \<in> set (fx_slots f). snd s \<in> {SxCompleted, SxCancelled})"
proof -
  have v: "rv_ready v = list_all snd (evaluation_items f rs pending)"
    using assms(1) by (auto simp: round_lifecycle_view_def ok_iff Let_def)
  have days: "incomplete_days rs = [] \<and> list_all (\<lambda>d. snd d \<noteq> ClReopening) (rr_days rs) \<longleftrightarrow>
      (\<forall>(d, st) \<in> set (rr_days rs). st = ClHistorical \<or>
         (st \<in> {ClClosed, ClClosedException} \<and> d \<in> set (rr_closure_days rs)))"
    by (fastforce simp: incomplete_days_def filter_empty_conv list_all_iff)
  have corr: "open_corrections f = [] \<longleftrightarrow>
      (\<forall>r \<in> set (fx_results f). \<forall>x \<in> set (re_corrections r). rx_status x \<noteq> CorrOpen)"
    by (auto simp: open_corrections_def filter_empty_conv)
  have cand: "filter (\<lambda>c. rk_terminal c = TOpen) (fx_candidates f) = []
      \<and> filter (\<lambda>c. \<not> candidate_terminal_valid f c) (fx_candidates f) = [] \<longleftrightarrow>
      (\<forall>c \<in> set (fx_candidates f). candidate_terminal_valid f c)"
    by (auto simp: filter_empty_conv candidate_terminal_valid_def)
  have ab: "filter (\<lambda>x. snd x \<notin> terminal_absence) (rr_absences rs) = [] \<longleftrightarrow>
      (\<forall>x \<in> set (rr_absences rs). snd x \<in> {AbReplacementSelected, AbResolved, AbWithdrawn, AbDayCancelled})"
    by (auto simp: filter_empty_conv terminal_absence_def)
  have sl: "filter (\<lambda>s. snd s \<notin> {SxCompleted, SxCancelled}) (fx_slots f) = [] \<longleftrightarrow>
      (\<forall>s \<in> set (fx_slots f). snd s \<in> {SxCompleted, SxCancelled})"
    by (auto simp: filter_empty_conv)
  show ?thesis unfolding v evaluation_items_def Let_def candidate_valid_iff[OF assms(2), symmetric]
    by (simp only: list.pred_inject snd_conv ab sl) (use days corr cand in blast)
qed

definition sample_records :: round_records where
  "sample_records = \<lparr>rr_days = [(1, ClClosed)], rr_closure_days = [1], rr_follow_ups = [],
     rr_protocol_corrections = [], rr_absences = [(1, AbResolved)], rr_protocol_retention = [],
     rr_has_decisions = False\<rparr>"

theorem round_ready_iff_witness:
  "\<exists>v. round_lifecycle_view chair sample_facts [] (Some sample_records) = Inr (Some v) \<and> rv_ready v"
proof -
  obtain v where v: "round_lifecycle_view chair sample_facts [] (Some sample_records) = Inr (Some v)"
    by (simp add: round_lifecycle_view_def can_read_def chair_def sample_facts_def Let_def)
  have u: "distinct (map re_round_candidate_id (fx_results sample_facts))" by (simp add: sample_facts_def)
  have "rv_ready v" unfolding round_ready_iff[OF v u]
    by (simp add: sample_facts_def sample_records_def load_result_def new_result_def)
  with v show ?thesis by blast
qed

end
