(* ===== verification/Plan_Model.thy ===== *)
theory Plan_Model
  imports Round_Status PyDate PyNum
begin

text \<open>
  The data of the Planning component (\<open>planning/proposals.py\<close>, \<open>planning/proposal_ports.py\<close>): the
  proposal aggregate with its days, slots and assignments, the snapshot a use case reads, the
  findings of the validation and the exceptions of the service. The text columns that a caller
  sends with a plan (slot type, role, day part, status) stay strings, because the validation itself
  decides which values are known; a column that only the database writes is a datatype with the
  values of its \<open>CHECK\<close> constraint. A dictionary keyed by a primary key is the list of its rows.
\<close>

subsection \<open>The aggregate\<close>

record plan_slot =
  ps_id :: "int option"
  ps_candidate :: int
  ps_type :: string
  ps_sequence :: int
  ps_starts :: string
  ps_ends :: string
  ps_status :: string

record plan_assignment =
  pa_id :: "int option"
  pa_member :: int
  pa_role :: string
  pa_part :: string
  pa_fallback :: "string option"

record plan_day =
  pd_id :: "int option"
  pd_candidate_day :: int
  pd_room :: int
  pd_slots :: "plan_slot list"
  pd_assignments :: "plan_assignment list"
  pd_date :: string
  pd_status :: string

record proposal =
  pp_round :: int
  pp_revision :: int
  pp_days :: "plan_day list"

subsection \<open>The snapshot of one round\<close>

record exam_round =
  er_id :: int
  er_committee :: int
  er_half_year :: int
  er_status :: planning_status
  er_revision :: int
  er_deadline :: "string option"

record plan_settings =
  st_room :: "int option"
  st_lunch :: bool
  st_exams_per_day :: int
  st_max_days :: int

record plan_candidate =
  cn_id :: int
  cn_mep :: bool

datatype side = Employer | Employee | School

definition sides :: "side list" where
  "sides = [Employer, Employee, School]"

datatype committee_role = ChairRole | DeputyChairRole | MemberRole

record member =
  mb_id :: int
  mb_person :: int
  mb_committee :: int
  mb_side :: side
  mb_role :: committee_role
  mb_active :: bool

record candidate_day =
  cd_id :: int
  cd_date :: string
  cd_active :: bool

record availability =
  av_member :: int
  av_day :: int
  av_value :: string

datatype reservation = ReservedConfirmed | ReservedProposal

type_synonym blocked = "((string \<times> string) \<times> (int \<times> reservation) list) list"

record plan_context =
  cx_round :: "exam_round option"
  cx_settings :: "plan_settings option"
  cx_candidates :: "plan_candidate list"
  cx_members :: "member list"
  cx_days :: "candidate_day list"
  cx_availability :: "availability list"
  cx_blocked :: blocked
  cx_active :: "(int \<times> int) list"
  cx_rooms :: "int list"
  cx_protected :: "int list"

definition active_days :: "plan_context \<Rightarrow> candidate_day list" where
  "active_days cx = filter cd_active (cx_days cx)"

definition member_by_id :: "plan_context \<Rightarrow> int \<Rightarrow> member option" where
  "member_by_id cx i = List.find (\<lambda>m. mb_id m = i) (cx_members cx)"

definition day_by_id :: "plan_context \<Rightarrow> int \<Rightarrow> candidate_day option" where
  "day_by_id cx i = List.find (\<lambda>d. cd_id d = i) (cx_days cx)"

definition blocked_at :: "plan_context \<Rightarrow> string \<Rightarrow> string \<Rightarrow> (int \<times> reservation) list" where
  "blocked_at cx date part = (case map_of (cx_blocked cx) (date, part) of None \<Rightarrow> [] | Some m \<Rightarrow> m)"

text \<open>A dictionary comprehension over rows keeps the last row of a key.\<close>

definition availability_of :: "plan_context \<Rightarrow> int \<Rightarrow> int \<Rightarrow> string" where
  "availability_of cx m d =
     (case map_of (rev (map (\<lambda>a. ((av_member a, av_day a), av_value a)) (cx_availability cx))) (m, d) of
        None \<Rightarrow> ''pending'' | Some v \<Rightarrow> v)"

definition available_for :: "string \<Rightarrow> string \<Rightarrow> bool" where
  "available_for v part \<longleftrightarrow> (if v = ''full_day'' then True else v = part)"

subsection \<open>Findings and exceptions\<close>

datatype issue_code = RoundNotFoundIssue | SettingsMissingIssue | PlanEmpty | CandidateDayDuplicate
  | CandidateDayInactive | ExamDayStateInvalid | RoomInvalid | ExamDayEmpty | DailyCapacityExceeded
  | MepOnlyDay | RoundCandidateInvalid | SlotTypeInvalid | MepNotLast | SlotScheduleInvalid
  | AssignmentRoleInvalid | AssignmentDayPartInvalid | AssignmentDayPartUnused
  | ExaminerCrewIncomplete | FallbackMissing | AssignmentMemberDuplicate | MemberInvalid
  | MemberUnavailable | MemberReserved reservation | WeeklyDayLimitExceeded string
  | CandidateAssignmentInactive | RegularSlotCountInvalid | MepSlotCountInvalid
  | ConfirmedPlanShapeInvalid string | ChangeReasonRequired

record issue =
  is_code :: issue_code
  is_day :: "int option"
  is_slot :: "int option"
  is_member :: "int option"

datatype plan_error = RoundNotFound | NotDraft | NoCoordination | SettingsNotFound | NoActiveDays
  | DeadlineRequired | DefaultRoomRequired | BadDate | InvalidPlan "issue list"
  | PlanConflict | StaleRevision | NoProposal | ConfirmedConflict | StaleConfirmed | ProtectedDay
  | ActorForbidden | ConfirmedReplaced | IdentityMissing | SlotGone | Integrity | MutationLocked
  | PlanTypeError

subsection \<open>Calendar weeks\<close>

text \<open>
  \<open>datetime.strptime(s, "%Y-%m-%d")\<close>: four digits, a month of one or two digits, a day of one or
  two digits (or a blank and a digit), nothing before, between or after.
\<close>

definition strp_month :: "string \<Rightarrow> int option" where
  "strp_month s = (if length s \<in> {1, 2} \<and> list_all is_digit s \<and> 1 \<le> digits_val s \<and> digits_val s \<le> 12
     then Some (digits_val s) else None)"

definition strp_day :: "string \<Rightarrow> int option" where
  "strp_day s = (let t = (if length s = 2 \<and> hd s = CHR '' '' then tl s else s) in
     if length t \<in> {1, 2} \<and> list_all is_digit t \<and> 1 \<le> digits_val t \<and> digits_val t \<le> 31
     then Some (digits_val t) else None)"

definition strptime_date :: "string \<Rightarrow> date option" where
  "strptime_date s = (let y = take 4 s; r = drop 5 s; m = takeWhile (\<lambda>c. c \<noteq> CHR ''-'') r;
      d = drop (length m + 1) r in
    if length y = 4 \<and> list_all is_digit y \<and> take 1 (drop 4 s) = ''-'' \<and> take 1 (drop (length m) r) = ''-''
    then (case (strp_month m, strp_day d) of
        (Some m, Some d) \<Rightarrow> check_date (digits_val y) m d
      | _ \<Rightarrow> None)
    else None)"

text \<open>\<open>str\<close> of a year, which has no leading zeros.\<close>

definition year_text :: "int \<Rightarrow> string" where
  "year_text y = pad_digits (if y < 10 then 1 else if y < 100 then 2 else if y < 1000 then 3
     else if y < 10000 then 4 else 5) y"

definition week_key :: "string \<Rightarrow> plan_error + string" where
  "week_key s = (case strptime_date s of
     None \<Rightarrow> Inl BadDate
   | Some t \<Rightarrow> (case isocalendar t of (y, w, d) \<Rightarrow> Inr (year_text y @ ''-W'' @ pad_digits 2 w)))"

subsection \<open>Slot times\<close>

text \<open>
  The 60-minute schedule from 08:30, in minutes since midnight of the first day; with a lunch break
  the slot that would start at 12:30 starts at 13:30. \<open>clock\<close> is \<open>strftime("%H:%M")\<close>, which shows
  only the time of day, and \<open>stamp\<close> the text of a slot boundary.
\<close>

fun slot_minutes :: "bool \<Rightarrow> int \<Rightarrow> nat \<Rightarrow> (int \<times> int) list" where
  "slot_minutes lunch current 0 = []"
| "slot_minutes lunch current (Suc n) = (let start = (if lunch \<and> current = 750 then 810 else current)
     in (start, start + 60) # slot_minutes lunch (start + 60) n)"

definition clock :: "int \<Rightarrow> string" where
  "clock m = pad_digits 2 (m mod 1440 div 60) @ '':'' @ pad_digits 2 (m mod 60)"

definition slot_times :: "nat \<Rightarrow> bool \<Rightarrow> (string \<times> string) list" where
  "slot_times n lunch = map (\<lambda>(s, e). (clock s, clock e)) (slot_minutes lunch 510 n)"

definition stamp :: "string \<Rightarrow> string \<Rightarrow> string" where
  "stamp date t = date @ '' '' @ t @ '':00''"

subsection \<open>Facts\<close>

lemma length_slot_minutes [simp]: "length (slot_minutes lunch c n) = n"
  by (induction n arbitrary: c) (auto simp: Let_def)

lemma length_slot_times [simp]: "length (slot_times n lunch) = n"
  by (simp add: slot_times_def)

text \<open>The closed form of the schedule.\<close>

lemma slot_minutes_late: "750 < c \<Longrightarrow> i < n \<Longrightarrow>
    slot_minutes lunch c n ! i = (c + 60 * int i, c + 60 * int i + 60)"
proof (induction n arbitrary: c i)
  case (Suc n)
  then show ?case by (cases i) (simp_all add: Let_def)
qed simp

lemma slot_minutes_nth:
  assumes "i < n"
  shows "slot_minutes lunch (750 - 60 * int k) n ! i =
    (let s = 750 - 60 * int k + 60 * int i + (if lunch \<and> k \<le> i then 60 else 0) in (s, s + 60))"
  using assms
proof (induction n arbitrary: k i)
  case (Suc n)
  show ?case
  proof (cases k)
    case 0
    then show ?thesis using Suc.prems by (cases i) (simp_all add: Let_def slot_minutes_late)
  next
    case k: (Suc k')
    have e: "750 - 60 * int (Suc k') + 60 = 750 - 60 * int k'" by simp
    have t: "slot_minutes lunch (750 - 60 * int (Suc k')) (Suc n) =
        (750 - 60 * int (Suc k'), 750 - 60 * int k') # slot_minutes lunch (750 - 60 * int k') n"
      by (simp add: Let_def)
    show ?thesis
    proof (cases i)
      case (Suc i')
      then show ?thesis unfolding k t using Suc.prems Suc.IH[of i' k'] by (simp add: Let_def)
    qed (use t k in \<open>simp add: Let_def\<close>)
  qed
qed simp

lemma slot_minutes_closed: "i < n \<Longrightarrow> slot_minutes lunch 510 n ! i =
    (let s = 510 + 60 * int i + (if lunch \<and> 4 \<le> i then 60 else 0) in (s, s + 60))"
  using slot_minutes_nth[of i n lunch 4] by simp

lemma available_for_full [simp]: "available_for ''full_day'' part"
  by (simp add: available_for_def)

end
