(* ===== verification/Plan_Generate.thy ===== *)
theory Plan_Generate
  imports Plan_Model
begin

text \<open>
  The proposal generator of \<open>PlanningService\<close> (\<open>_build_proposal\<close> and its helpers): week by week
  it offers the active candidate days with a complete crew, takes the largest days first until every
  exam has a slot, and distributes the candidates, MEP slots from the last day backwards and regular
  slots from the first day on. The examiner load is a dictionary of doubles that starts at zero.
  The diagnostic messages are kept as values instead of German sentences.
\<close>

record shift_crew =
  sc_crew :: "int list"
  sc_fallback :: int

type_synonym load = "int \<Rightarrow> rat"

datatype plan_message = NoMorningCrew string | ReservedNote string string bool | CapacityMissing int
  | RegularUnplaced nat | MepUnplaced nat | NoDayPlanned

record planned_day =
  pl_date :: string
  pl_day :: int
  pl_exams :: int
  pl_morning :: shift_crew
  pl_afternoon :: "shift_crew option"
  pl_regular :: "int list"
  pl_mep :: "int list"

record day_option =
  op_day :: candidate_day
  op_capacity :: int

subsection \<open>Choosing a crew\<close>

definition by_load :: "load \<Rightarrow> member list \<Rightarrow> member list" where
  "by_load load ms = sort_key (\<lambda>m. (load (mb_id m), mb_id m)) ms"

definition available_members :: "plan_context \<Rightarrow> int \<Rightarrow> string \<Rightarrow> member list" where
  "available_members cx d part = (let day = List.find (\<lambda>x. cd_id x = d) (active_days cx);
      blocked = blocked_at cx (case day of None \<Rightarrow> '''' | Some x \<Rightarrow> cd_date x) part
    in filter (\<lambda>m. mb_person m \<notin> set (map fst blocked)
         \<and> available_for (availability_of cx (mb_id m) d) part) (cx_members cx))"

fun pick_sides :: "load \<Rightarrow> member list \<Rightarrow> side list \<Rightarrow> int list \<Rightarrow> int list option" where
  "pick_sides load ms [] crew = Some crew"
| "pick_sides load ms (s # ss) crew =
     (case by_load load (filter (\<lambda>m. mb_side m = s \<and> mb_id m \<notin> set crew) ms) of
        [] \<Rightarrow> None
      | m # _ \<Rightarrow> pick_sides load ms ss (crew @ [mb_id m]))"

definition choose_shift_crew :: "plan_context \<Rightarrow> int \<Rightarrow> string \<Rightarrow> load \<Rightarrow> shift_crew option" where
  "choose_shift_crew cx d part load = (let ms = available_members cx d part in
     case pick_sides load ms sides [] of
       None \<Rightarrow> None
     | Some crew \<Rightarrow> (case by_load load (filter (\<lambda>m. mb_id m \<notin> set crew) ms) of
         [] \<Rightarrow> None
       | m # _ \<Rightarrow> Some \<lparr>sc_crew = crew, sc_fallback = mb_id m\<rparr>))"

definition add_load :: "int \<Rightarrow> rat \<Rightarrow> load \<Rightarrow> load" where
  "add_load i x load = load(i := fadd (load i) x)"

definition apply_load :: "shift_crew \<Rightarrow> load \<Rightarrow> load" where
  "apply_load c load = add_load (sc_fallback c) f035 (fold (\<lambda>i. add_load i 1) (sc_crew c) load)"

definition reservation_message :: "plan_context \<Rightarrow> string \<Rightarrow> string \<Rightarrow> plan_message list" where
  "reservation_message cx date part = (let rs = blocked_at cx date part in
     if rs = [] then []
     else [ReservedNote date part (list_ex (\<lambda>r. snd r = ReservedConfirmed) rs)])"

subsection \<open>Days of a week\<close>

definition group_days :: "candidate_day list \<Rightarrow> plan_error + (string \<times> candidate_day list) list" where
  "group_days ds = fold_res (\<lambda>d g. bnd (week_key (cd_date d)) (\<lambda>k.
     Inr (AList.update k ((case map_of g k of None \<Rightarrow> [] | Some xs \<Rightarrow> xs) @ [d]) g))) ds []"

definition week_option :: "plan_context \<Rightarrow> plan_settings \<Rightarrow> load \<Rightarrow> candidate_day \<Rightarrow>
    day_option list \<times> plan_message list \<Rightarrow> day_option list \<times> plan_message list" where
  "week_option cx st load d sm = (case sm of (os, ms) \<Rightarrow>
     (case choose_shift_crew cx (cd_id d) ''morning'' load of
        None \<Rightarrow> (os, ms @ [NoMorningCrew (cd_date d)] @ reservation_message cx (cd_date d) ''morning'')
      | Some _ \<Rightarrow> (os @ [\<lparr>op_day = d, op_capacity =
          (if 4 < st_exams_per_day st \<and> choose_shift_crew cx (cd_id d) ''afternoon'' load = None
           then 4 else st_exams_per_day st)\<rparr>], ms)))"

definition planning_options_for_week :: "plan_context \<Rightarrow> plan_settings \<Rightarrow> candidate_day list \<Rightarrow>
    load \<Rightarrow> day_option list \<times> plan_message list" where
  "planning_options_for_week cx st ds load =
     (let (os, ms) = fold (week_option cx st load) (sort_key cd_date ds) ([], [])
      in (sort_key (\<lambda>x. (- op_capacity x, cd_date (op_day x))) os, ms))"

definition plan_day_option :: "plan_context \<Rightarrow> day_option \<Rightarrow> load \<Rightarrow> int \<Rightarrow>
    planned_day option \<times> plan_message list" where
  "plan_day_option cx x load remaining = (let exams = min (op_capacity x) remaining;
      needs = 4 < exams; d = cd_id (op_day x); date = cd_date (op_day x);
      morning = choose_shift_crew cx d ''morning'' load;
      afternoon = (if needs then choose_shift_crew cx d ''afternoon'' load else None)
    in case morning of
         None \<Rightarrow> (None, reservation_message cx date ''morning'')
       | Some m \<Rightarrow> if needs \<and> afternoon = None
           then (None, reservation_message cx date ''afternoon'')
           else (Some \<lparr>pl_date = date, pl_day = d, pl_exams = exams, pl_morning = m,
              pl_afternoon = afternoon, pl_regular = [], pl_mep = []\<rparr>, []))"

record build_state =
  bs_load :: load
  bs_messages :: "plan_message list"
  bs_days :: "planned_day list"
  bs_remaining :: int

fun plan_week :: "plan_context \<Rightarrow> plan_settings \<Rightarrow> day_option list \<Rightarrow> int \<Rightarrow> build_state \<Rightarrow> build_state" where
  "plan_week cx st [] used s = s"
| "plan_week cx st (x # xs) used s =
     (if bs_remaining s \<le> 0 \<or> st_max_days st \<le> used then s
      else (case plan_day_option cx x (bs_load s) (bs_remaining s) of
          (None, ms) \<Rightarrow> plan_week cx st xs used (s\<lparr>bs_messages := bs_messages s @ ms\<rparr>)
        | (Some d, ms) \<Rightarrow>
            let l = apply_load (pl_morning d) (bs_load s);
                l = (case pl_afternoon d of None \<Rightarrow> l | Some c \<Rightarrow> apply_load c l)
            in plan_week cx st xs (used + 1) (s\<lparr>bs_load := l, bs_messages := bs_messages s @ ms,
                 bs_days := bs_days s @ [d], bs_remaining := bs_remaining s - pl_exams d\<rparr>)))"

definition plan_weeks :: "plan_context \<Rightarrow> plan_settings \<Rightarrow> candidate_day list list \<Rightarrow> build_state \<Rightarrow> build_state" where
  "plan_weeks cx st wks s = fold (\<lambda>ds s.
     let (os, ms) = planning_options_for_week cx st ds (bs_load s)
     in plan_week cx st os 0 (s\<lparr>bs_messages := bs_messages s @ ms\<rparr>)) wks s"

subsection \<open>Distributing the candidates\<close>

text \<open>The days arrive last first; every day keeps room for one regular slot.\<close>

fun assign_mep :: "planned_day list \<Rightarrow> int list \<Rightarrow> (planned_day \<times> nat) list \<times> int list" where
  "assign_mep [] q = ([], q)"
| "assign_mep (d # ds) q = (let n = min (nat (max 0 (pl_exams d - 1))) (length q);
      (r, q') = assign_mep ds (drop n q)
    in ((d\<lparr>pl_mep := pl_mep d @ take n q\<rparr>, n) # r, q'))"

fun assign_regular :: "(planned_day \<times> nat) list \<Rightarrow> int list \<Rightarrow> planned_day list \<times> int list" where
  "assign_regular [] q = ([], q)"
| "assign_regular ((d, c) # ds) q = (let n = nat (min (pl_exams d - int c) (int (length q)));
      (r, q') = assign_regular ds (drop n q)
    in (d\<lparr>pl_regular := take n q\<rparr> # r, q'))"

definition assign_candidates :: "planned_day list \<Rightarrow> int list \<Rightarrow> int list \<Rightarrow>
    planned_day list \<times> int list \<times> int list" where
  "assign_candidates ds regular mep = (let (r, mep') = assign_mep (rev ds) mep;
      (ds', regular') = assign_regular (rev r) regular
    in (ds', regular', mep'))"

record generated =
  ge_days :: "planned_day list"
  ge_passed :: bool
  ge_messages :: "plan_message list"
  ge_required :: int
  ge_planned :: int
  ge_regular :: nat
  ge_mep :: nat

definition proposal_build_result :: "build_state \<Rightarrow> int list \<Rightarrow> int list \<Rightarrow> int \<Rightarrow> generated" where
  "proposal_build_result s regular mep required =
     (let (ds, regular', mep') = assign_candidates (bs_days s) regular mep; remaining = bs_remaining s
      in \<lparr>ge_days = ds, ge_passed = (remaining = 0 \<and> regular' = [] \<and> mep' = []),
          ge_messages = bs_messages s
            @ (if remaining \<noteq> 0 then [CapacityMissing remaining] else [])
            @ (if regular' \<noteq> [] then [RegularUnplaced (length regular')] else [])
            @ (if mep' \<noteq> [] then [MepUnplaced (length mep')] else [])
            @ (if ds = [] then [NoDayPlanned] else []),
          ge_required = required, ge_planned = sum_list (map pl_exams ds),
          ge_regular = sum_list (map (length \<circ> pl_regular) ds),
          ge_mep = sum_list (map (length \<circ> pl_mep) ds)\<rparr>)"

definition empty_build :: "int \<Rightarrow> build_state" where
  "empty_build n = \<lparr>bs_load = (\<lambda>_. 0), bs_messages = [], bs_days = [], bs_remaining = n\<rparr>"

definition build_proposal :: "plan_context \<Rightarrow> plan_settings \<Rightarrow> plan_error + generated" where
  "build_proposal cx st =
     require (st_room st \<noteq> None) DefaultRoomRequired (
     let cs = sort_key cn_id (cx_candidates cx);
         regular = map cn_id cs; mep = map cn_id (filter cn_mep cs);
         required = int (length regular + length mep)
     in bnd (group_days (active_days cx)) (\<lambda>g.
        Inr (proposal_build_result
          (plan_weeks cx st (map snd (sort_key fst g)) (empty_build required)) regular mep required)))"

definition generated_day :: "int \<Rightarrow> planned_day \<Rightarrow> plan_day" where
  "generated_day room d = (let crew = (\<lambda>part c. map (\<lambda>m. \<lparr>pa_id = None, pa_member = m,
        pa_role = ''examiner'', pa_part = part, pa_fallback = None\<rparr>) (sc_crew c)
      @ [\<lparr>pa_id = None, pa_member = sc_fallback c, pa_role = ''fallback'', pa_part = part,
          pa_fallback = None\<rparr>]);
      slot = (\<lambda>t i. \<lparr>ps_id = None, ps_candidate = i, ps_type = t, ps_sequence = 0, ps_starts = [],
          ps_ends = [], ps_status = ''proposed''\<rparr>)
    in \<lparr>pd_id = None, pd_candidate_day = pl_day d, pd_room = room,
        pd_slots = map (slot ''regular'') (pl_regular d) @ map (slot ''mep'') (pl_mep d),
        pd_assignments = crew ''morning'' (pl_morning d)
          @ (case pl_afternoon d of None \<Rightarrow> [] | Some c \<Rightarrow> crew ''afternoon'' c),
        pd_date = [], pd_status = ''proposed''\<rparr>)"

text \<open>The room is set whenever \<^const>\<open>build_proposal\<close> returned.\<close>

definition generated_aggregate :: "exam_round \<Rightarrow> plan_settings \<Rightarrow> generated \<Rightarrow> proposal" where
  "generated_aggregate r st g = \<lparr>pp_round = er_id r, pp_revision = er_revision r,
     pp_days = map (generated_day (case st_room st of None \<Rightarrow> 0 | Some x \<Rightarrow> x)) (ge_days g)\<rparr>"

end
