(* ===== verification/Plan_Validate.thy ===== *)
theory Plan_Validate
  imports Plan_Model
begin

text \<open>
  Normalisation and validation of a complete proposal (\<open>_normalize_proposal\<close>, \<open>_validate_proposal\<close>
  and the checks below it). The validation context of the source, with its counters and the list
  of findings it appends to, is the record \<open>check\<close> that every step takes and returns.
\<close>

subsection \<open>Normalisation\<close>

definition normalize_slots :: "string \<Rightarrow> string \<Rightarrow> bool \<Rightarrow> plan_slot list \<Rightarrow> plan_slot list" where
  "normalize_slots status date lunch xs =
     map (\<lambda>(i, x, s, e). x\<lparr>ps_sequence := int i, ps_starts := stamp date s, ps_ends := stamp date e,
          ps_status := status\<rparr>)
       (enumerate 1 (zip xs (slot_times (length xs) lunch)))"

definition normalize_assignment :: "string \<Rightarrow> plan_assignment \<Rightarrow> plan_assignment" where
  "normalize_assignment status a = a\<lparr>pa_fallback :=
     (if pa_role a = ''fallback''
      then Some (if status = ''proposed'' then ''requested'' else ''confirmed'') else None)\<rparr>"

definition normalize_day :: "plan_context \<Rightarrow> string \<Rightarrow> plan_day \<Rightarrow> plan_day" where
  "normalize_day cx status d =
     (let date = (case day_by_id cx (pd_candidate_day d) of None \<Rightarrow> '''' | Some c \<Rightarrow> cd_date c);
          lunch = (case cx_settings cx of None \<Rightarrow> False | Some st \<Rightarrow> st_lunch st)
      in d\<lparr>pd_date := date, pd_slots := normalize_slots status date lunch (pd_slots d),
           pd_assignments := map (normalize_assignment status) (pd_assignments d),
           pd_status := status\<rparr>)"

definition normalize_proposal :: "plan_context \<Rightarrow> string \<Rightarrow> proposal \<Rightarrow> proposal" where
  "normalize_proposal cx status p = p\<lparr>pp_days := map (normalize_day cx status) (pp_days p)\<rparr>"

subsection \<open>The validation context\<close>

record check =
  vs_issues :: "issue list"
  vs_counts :: "int \<times> string \<Rightarrow> int"
  vs_used :: "int list"
  vs_weeks :: "(string \<times> int) list"

definition empty_check :: "issue list \<Rightarrow> check" where
  "empty_check xs = \<lparr>vs_issues = xs, vs_counts = (\<lambda>_. 0), vs_used = [], vs_weeks = []\<rparr>"

definition report_if :: "bool \<Rightarrow> issue \<Rightarrow> check \<Rightarrow> check" where
  "report_if c x s = (if c then s\<lparr>vs_issues := vs_issues s @ [x]\<rparr> else s)"

definition day_issue :: "issue_code \<Rightarrow> plan_day \<Rightarrow> issue" where
  "day_issue c d = \<lparr>is_code = c, is_day = pd_id d, is_slot = None, is_member = None\<rparr>"

definition slot_issue :: "issue_code \<Rightarrow> plan_day \<Rightarrow> plan_slot \<Rightarrow> issue" where
  "slot_issue c d x = \<lparr>is_code = c, is_day = pd_id d, is_slot = ps_id x, is_member = None\<rparr>"

definition member_issue :: "issue_code \<Rightarrow> plan_day \<Rightarrow> plan_assignment \<Rightarrow> issue" where
  "member_issue c d a = \<lparr>is_code = c, is_day = pd_id d, is_slot = None, is_member = Some (pa_member a)\<rparr>"

definition plan_issue :: "issue_code \<Rightarrow> issue" where
  "plan_issue c = \<lparr>is_code = c, is_day = None, is_slot = None, is_member = None\<rparr>"

subsection \<open>Days and slots\<close>

definition validated_candidate_day :: "plan_context \<Rightarrow> plan_day \<Rightarrow> check \<Rightarrow> candidate_day option \<times> check" where
  "validated_candidate_day cx d s =
     (let s = report_if (pd_candidate_day d \<in> set (vs_used s)) (day_issue CandidateDayDuplicate d) s;
          s = s\<lparr>vs_used := List.insert (pd_candidate_day d) (vs_used s)\<rparr>
      in case day_by_id cx (pd_candidate_day d) of
           None \<Rightarrow> (None, report_if True (day_issue CandidateDayInactive d) s)
         | Some c \<Rightarrow> if cd_active c then (Some c, s)
             else (None, report_if True (day_issue CandidateDayInactive d) s))"

definition validate_exam_day_state :: "plan_context \<Rightarrow> plan_settings \<Rightarrow> string \<Rightarrow> plan_day \<Rightarrow>
    candidate_day \<Rightarrow> check \<Rightarrow> plan_error + check" where
  "validate_exam_day_state cx st status d c s =
     (let s = report_if (pd_date d \<noteq> cd_date c \<or> pd_status d \<noteq> status) (day_issue ExamDayStateInvalid d) s;
          s = report_if (pd_room d \<notin> set (cx_rooms cx)) (day_issue RoomInvalid d) s;
          s = report_if (pd_slots d = []) (day_issue ExamDayEmpty d) s;
          s = report_if (st_exams_per_day st < int (length (pd_slots d)))
                (day_issue DailyCapacityExceeded d) s
      in bnd (week_key (cd_date c)) (\<lambda>k. Inr (s\<lparr>vs_weeks := AList.update k
           ((case map_of (vs_weeks s) k of None \<Rightarrow> 0 | Some n \<Rightarrow> n) + 1) (vs_weeks s)\<rparr>)))"

definition validate_slot :: "plan_context \<Rightarrow> string \<Rightarrow> plan_day \<Rightarrow> string \<Rightarrow>
    nat \<times> plan_slot \<times> string \<times> string \<Rightarrow> check \<times> bool \<Rightarrow> check \<times> bool" where
  "validate_slot cx status d date q sm = (case q of (i, x, start, stop) \<Rightarrow> case sm of (s, seen) \<Rightarrow>
     (let s = report_if (ps_candidate x \<notin> set (map cn_id (cx_candidates cx)))
                (slot_issue RoundCandidateInvalid d x) s;
          s = (if ps_type x \<notin> {''regular'', ''mep''}
               then report_if True (slot_issue SlotTypeInvalid d x) s
               else s\<lparr>vs_counts := (vs_counts s)((ps_candidate x, ps_type x) :=
                      vs_counts s (ps_candidate x, ps_type x) + 1)\<rparr>);
          s = report_if (ps_type x \<noteq> ''mep'' \<and> seen) (slot_issue MepNotLast d x) s;
          s = report_if (ps_sequence x \<noteq> int i \<or> ps_starts x \<noteq> stamp date start
                \<or> ps_ends x \<noteq> stamp date stop \<or> ps_status x \<noteq> status)
                (slot_issue SlotScheduleInvalid d x) s
      in (s, seen \<or> ps_type x = ''mep'')))"

definition validate_day_slots :: "plan_context \<Rightarrow> plan_settings \<Rightarrow> string \<Rightarrow> plan_day \<Rightarrow>
    candidate_day \<Rightarrow> check \<Rightarrow> check" where
  "validate_day_slots cx st status d c s =
     (let times = slot_times (length (pd_slots d)) (st_lunch st);
          s = fst (fold (validate_slot cx status d (cd_date c)) (enumerate 1 (zip (pd_slots d) times))
                (s, False))
      in report_if (pd_slots d \<noteq> [] \<and> \<not> list_ex (\<lambda>x. ps_type x = ''regular'') (pd_slots d))
           (day_issue MepOnlyDay d) s)"

subsection \<open>Assignments and crews\<close>

definition used_parts :: "plan_day \<Rightarrow> string list" where
  "used_parts d = (if 4 < length (pd_slots d) then [''morning'', ''afternoon''] else [''morning''])"

definition validate_assignment_shape :: "plan_day \<Rightarrow> plan_assignment \<Rightarrow> check \<Rightarrow> check" where
  "validate_assignment_shape d a s =
     (let s = report_if (pa_role a \<notin> {''examiner'', ''fallback''}) (member_issue AssignmentRoleInvalid d a) s;
          s = report_if (pa_part a \<notin> {''morning'', ''afternoon'', ''full_day''})
                (member_issue AssignmentDayPartInvalid d a) s
      in report_if (pa_part a \<notin> insert ''full_day'' (set (used_parts d)))
           (member_issue AssignmentDayPartUnused d a) s)"

definition valid_member :: "plan_context \<Rightarrow> int \<Rightarrow> plan_assignment \<Rightarrow> member option" where
  "valid_member cx committee a = (case member_by_id cx (pa_member a) of
     None \<Rightarrow> None
   | Some m \<Rightarrow> if mb_active m \<and> mb_committee m = committee then Some m else None)"

definition validate_assigned_member :: "plan_context \<Rightarrow> int \<Rightarrow> plan_day \<Rightarrow> candidate_day \<Rightarrow> string \<Rightarrow>
    plan_assignment \<Rightarrow> check \<times> side list \<Rightarrow> check \<times> side list" where
  "validate_assigned_member cx committee d c part a st = (case st of (s, acc) \<Rightarrow>
     (case valid_member cx committee a of
        None \<Rightarrow> (report_if True (member_issue MemberInvalid d a) s, acc)
      | Some m \<Rightarrow>
        let s = report_if (\<not> available_for (availability_of cx (pa_member a) (pd_candidate_day d)) part)
              (member_issue MemberUnavailable d a) s;
            s = (case map_of (blocked_at cx (cd_date c) part) (mb_person m) of
                None \<Rightarrow> s
              | Some r \<Rightarrow> report_if True (member_issue (MemberReserved r) d a) s)
        in (s, acc @ (if pa_role a = ''examiner'' then [mb_side m] else []))))"

definition applicable :: "string \<Rightarrow> plan_day \<Rightarrow> plan_assignment list" where
  "applicable part d = filter (\<lambda>a. pa_part a \<in> {part, ''full_day''}) (pd_assignments d)"

definition with_role :: "string \<Rightarrow> plan_assignment list \<Rightarrow> plan_assignment list" where
  "with_role r xs = filter (\<lambda>a. pa_role a = r) xs"

definition validate_crew :: "plan_context \<Rightarrow> int \<Rightarrow> plan_day \<Rightarrow> candidate_day \<Rightarrow> string \<Rightarrow> check \<Rightarrow> check" where
  "validate_crew cx committee d c part s =
     (let app = applicable part d;
          (s, found) = fold (validate_assigned_member cx committee d c part) app (s, []);
          s = report_if (length (with_role ''examiner'' app) \<noteq> 3 \<or> set found \<noteq> set sides)
                (day_issue ExaminerCrewIncomplete d) s;
          s = report_if (length (with_role ''fallback'' app) \<noteq> 1) (day_issue FallbackMissing d) s
      in report_if (card (set (map pa_member app)) \<noteq> length app) (day_issue AssignmentMemberDuplicate d) s)"

definition validate_day_assignments :: "plan_context \<Rightarrow> int \<Rightarrow> plan_day \<Rightarrow> candidate_day \<Rightarrow> check \<Rightarrow> check" where
  "validate_day_assignments cx committee d c s =
     fold (validate_crew cx committee d c) (used_parts d)
       (fold (validate_assignment_shape d) (pd_assignments d) s)"

definition validate_proposal_day :: "plan_context \<Rightarrow> plan_settings \<Rightarrow> int \<Rightarrow> string \<Rightarrow> plan_day \<Rightarrow>
    check \<Rightarrow> plan_error + check" where
  "validate_proposal_day cx st committee status d s =
     (case validated_candidate_day cx d s of
        (None, s) \<Rightarrow> Inr s
      | (Some c, s) \<Rightarrow> bnd (validate_exam_day_state cx st status d c s) (\<lambda>s.
          Inr (validate_day_assignments cx committee d c (validate_day_slots cx st status d c s))))"

subsection \<open>The whole proposal\<close>

definition validate_weekly_day_limits :: "plan_settings \<Rightarrow> check \<Rightarrow> check" where
  "validate_weekly_day_limits st s = fold (\<lambda>(k, n). report_if (st_max_days st < n)
     (plan_issue (WeeklyDayLimitExceeded k))) (vs_weeks s) s"

definition validate_candidate_requirements :: "plan_context \<Rightarrow> proposal \<Rightarrow> plan_candidate \<Rightarrow> check \<Rightarrow> check" where
  "validate_candidate_requirements cx p x s =
     (let s = report_if (vs_counts s (cn_id x, ''regular'') \<noteq> 1) (plan_issue RegularSlotCountInvalid) s;
          s = report_if (vs_counts s (cn_id x, ''mep'') \<noteq> (if cn_mep x then 1 else 0))
                (plan_issue MepSlotCountInvalid) s
      in report_if (map_of (rev (cx_active cx)) (cn_id x) \<noteq> Some (pp_round p))
           (plan_issue CandidateAssignmentInactive) s)"

definition validate_proposal :: "plan_context \<Rightarrow> string \<Rightarrow> proposal \<Rightarrow> plan_error + issue list" where
  "validate_proposal cx status p = (case cx_round cx of
     None \<Rightarrow> Inr [plan_issue RoundNotFoundIssue]
   | Some r \<Rightarrow> (case cx_settings cx of
       None \<Rightarrow> Inr [plan_issue SettingsMissingIssue]
     | Some st \<Rightarrow>
       bnd (fold_res (validate_proposal_day cx st (er_committee r) status) (pp_days p)
             (empty_check (if pp_days p = [] then [plan_issue PlanEmpty] else []))) (\<lambda>s.
       Inr (vs_issues (fold (validate_candidate_requirements cx p) (cx_candidates cx)
             (validate_weekly_day_limits st s))))))"

definition raise_for_invalid :: "plan_context \<Rightarrow> string \<Rightarrow> proposal \<Rightarrow> plan_error + unit" where
  "raise_for_invalid cx status p = bnd (validate_proposal cx status p) (\<lambda>xs.
     require (xs = []) (InvalidPlan xs) (Inr ()))"

end
