(* ===== verification/Plan_Store.thy ===== *)
theory Plan_Store
  imports Plan_Generate Plan_Validate
begin

text \<open>
  The planning tables and the unit of work on them (\<open>persistence/planning.py\<close>). A table is the list
  of its rows in key order; \<open>Store.where\<close> sorts by the order columns of the resource, and the rows
  of equal order columns come in key order. The unique and check constraints of
  \<open>backend/db/schema.sql\<close> are part of the row operations: a violation is \<^const>\<open>Integrity\<close> and rolls
  the transaction back. Foreign keys are not modelled, nor are time stamps; the columns of
  execution that planning only reads (\<open>closure_status\<close>, \<open>execution_status\<close>, the actual times) are.
  The audit columns hold the JSON text of a complete plan with every field; decoding that text
  gives the plan back, so the rows carry the plan itself.
\<close>

subsection \<open>Tables\<close>

record exam_day_row =
  xd_id :: int
  xd_round :: int
  xd_room :: int
  xd_date :: string
  xd_status :: string
  xd_lunch :: bool
  xd_closure :: string

record exam_slot_row =
  xs_id :: int
  xs_day :: int
  xs_candidate :: int
  xs_type :: string
  xs_starts :: string
  xs_ends :: string
  xs_sequence :: int
  xs_status :: string
  xs_execution :: string
  xs_started :: "string option"
  xs_completed :: "string option"

record assignment_row =
  xa_id :: int
  xa_day :: int
  xa_member :: int
  xa_role :: string
  xa_part :: string
  xa_fallback :: "string option"

record round_candidate_row =
  xc_round :: int
  xc_active :: bool
  xc_candidate :: plan_candidate

record room_row =
  xm_id :: int
  xm_active :: bool
  xm_venue_active :: bool
  xm_global :: bool
  xm_owner :: "int option"
  xm_confirmed :: bool

record plan_revision =
  xr_id :: int
  xr_round :: int
  xr_previous :: int
  xr_resulting :: int
  xr_reason :: string
  xr_actor :: int
  xr_before :: proposal
  xr_after :: proposal

record plan_db =
  tb_rounds :: "exam_round list"
  tb_settings :: "(int \<times> plan_settings) list"
  tb_candidates :: "round_candidate_row list"
  tb_members :: "member list"
  tb_candidate_days :: "(int \<times> candidate_day) list"
  tb_availability :: "(int \<times> availability) list"
  tb_active :: "(int \<times> int) list"
  tb_rooms :: "room_row list"
  tb_days :: "exam_day_row list"
  tb_slots :: "exam_slot_row list"
  tb_assignments :: "assignment_row list"
  tb_revisions :: "plan_revision list"

definition round_by_id :: "plan_db \<Rightarrow> int \<Rightarrow> exam_round option" where
  "round_by_id db i = List.find (\<lambda>r. er_id r = i) (tb_rounds db)"

definition days_of :: "plan_db \<Rightarrow> int \<Rightarrow> exam_day_row list" where
  "days_of db i = sort_key xd_date (filter (\<lambda>d. xd_round d = i) (tb_days db))"

definition slots_of :: "plan_db \<Rightarrow> int \<Rightarrow> exam_slot_row list" where
  "slots_of db d = sort_key xs_sequence (filter (\<lambda>s. xs_day s = d) (tb_slots db))"

definition assignments_of :: "plan_db \<Rightarrow> int \<Rightarrow> assignment_row list" where
  "assignments_of db d = sort_key (\<lambda>a. (xa_part a, xa_role a)) (filter (\<lambda>a. xa_day a = d) (tb_assignments db))"

definition candidate_days_of :: "plan_db \<Rightarrow> int \<Rightarrow> candidate_day list" where
  "candidate_days_of db i = sort_key cd_date (map snd (filter (\<lambda>p. fst p = i) (tb_candidate_days db)))"

subsection \<open>Reading\<close>

definition read_slot :: "exam_slot_row \<Rightarrow> plan_slot" where
  "read_slot s = \<lparr>ps_id = Some (xs_id s), ps_candidate = xs_candidate s, ps_type = xs_type s,
     ps_sequence = xs_sequence s, ps_starts = xs_starts s, ps_ends = xs_ends s, ps_status = xs_status s\<rparr>"

definition read_assignment :: "assignment_row \<Rightarrow> plan_assignment" where
  "read_assignment a = \<lparr>pa_id = Some (xa_id a), pa_member = xa_member a, pa_role = xa_role a,
     pa_part = xa_part a, pa_fallback = xa_fallback a\<rparr>"

definition read_day :: "plan_db \<Rightarrow> exam_day_row \<Rightarrow> plan_day" where
  "read_day db d = \<lparr>pd_id = Some (xd_id d),
     pd_candidate_day = (case map_of (rev (map (\<lambda>c. (cd_date c, cd_id c)) (candidate_days_of db (xd_round d))))
        (xd_date d) of None \<Rightarrow> -1 | Some i \<Rightarrow> i),
     pd_room = xd_room d, pd_slots = map read_slot (slots_of db (xd_id d)),
     pd_assignments = map read_assignment (assignments_of db (xd_id d)),
     pd_date = xd_date d, pd_status = xd_status d\<rparr>"

definition read_proposal :: "plan_db \<Rightarrow> int \<Rightarrow> proposal option" where
  "read_proposal db i = (case round_by_id db i of None \<Rightarrow> None
     | Some r \<Rightarrow> Some \<lparr>pp_round = i, pp_revision = er_revision r, pp_days = map (read_day db) (days_of db i)\<rparr>)"

definition reserve :: "string \<Rightarrow> int \<Rightarrow> reservation \<Rightarrow> string \<Rightarrow> blocked \<Rightarrow> blocked" where
  "reserve date person r part b = (let m = (case map_of b (date, part) of None \<Rightarrow> [] | Some m \<Rightarrow> m) in
     AList.update (date, part) (if map_of m person \<noteq> Some ReservedConfirmed then AList.update person r m else m) b)"

definition block_assignment :: "plan_db \<Rightarrow> exam_round \<Rightarrow> assignment_row \<Rightarrow> blocked \<Rightarrow> blocked" where
  "block_assignment db r a b =
     (case (List.find (\<lambda>d. xd_id d = xa_day a) (tb_days db), List.find (\<lambda>m. mb_id m = xa_member a) (tb_members db)) of
        (Some d, Some m) \<Rightarrow> (case round_by_id db (xd_round d) of
          None \<Rightarrow> b
        | Some q \<Rightarrow>
          if xd_round d = er_id r \<or> er_half_year q \<noteq> er_half_year r \<or> xd_status d \<in> {''cancelled'', ''completed''}
          then b
          else fold (reserve (xd_date d) (mb_person m)
                 (if xd_status d = ''confirmed'' then ReservedConfirmed else ReservedProposal))
               (if xa_part a = ''full_day'' then [''morning'', ''afternoon''] else [xa_part a]) b)
      | _ \<Rightarrow> b)"

definition blocked_person_ids :: "plan_db \<Rightarrow> exam_round option \<Rightarrow> blocked" where
  "blocked_person_ids db r = (case r of None \<Rightarrow> []
     | Some r \<Rightarrow> fold (block_assignment db r)
         (sort_key (\<lambda>a. (xa_day a, xa_part a, xa_role a)) (tb_assignments db)) [])"

definition usable_room_ids :: "bool \<Rightarrow> plan_db \<Rightarrow> int \<Rightarrow> int list" where
  "usable_room_ids coords db committee = map xm_id (filter (\<lambda>m. xm_active m \<and> xm_venue_active m
     \<and> (xm_global m \<or> xm_owner m = Some committee) \<and> (coords \<longrightarrow> xm_confirmed m)) (tb_rooms db))"

definition protected_slot :: "exam_slot_row \<Rightarrow> bool" where
  "protected_slot s \<longleftrightarrow> xs_status s \<noteq> ''confirmed'' \<or> xs_execution s \<noteq> ''open''
     \<or> xs_started s \<noteq> None \<or> xs_completed s \<noteq> None"

definition protected_day :: "plan_db \<Rightarrow> exam_day_row \<Rightarrow> bool" where
  "protected_day db d \<longleftrightarrow> xd_status d \<noteq> ''confirmed'' \<or> xd_closure d \<noteq> ''open''
     \<or> list_ex (\<lambda>s. xs_day s = xd_id d \<and> protected_slot s) (tb_slots db)"

record snapshot =
  sn_context :: plan_context
  sn_records :: "exam_day_row list"
  sn_proposal :: "proposal option"

definition planning_context :: "bool \<Rightarrow> plan_db \<Rightarrow> int \<Rightarrow> snapshot" where
  "planning_context coords db i = (let r = round_by_id db i;
      committee = (case r of None \<Rightarrow> -1 | Some r \<Rightarrow> er_committee r) in
    \<lparr>sn_context = \<lparr>cx_round = r, cx_settings = map_of (tb_settings db) i,
        cx_candidates = sort_key cn_id (map xc_candidate (filter (\<lambda>c. xc_round c = i \<and> xc_active c) (tb_candidates db))),
        cx_members = filter (\<lambda>m. mb_committee m = committee \<and> mb_active m) (tb_members db),
        cx_days = candidate_days_of db i,
        cx_availability = map snd (filter (\<lambda>p. fst p = i) (tb_availability db)),
        cx_blocked = blocked_person_ids db r,
        cx_active = filter (\<lambda>p. snd p = i) (tb_active db),
        cx_rooms = usable_room_ids coords db committee,
        cx_protected = (if r = None then [] else map xd_id (filter (protected_day db) (days_of db i)))\<rparr>,
     sn_records = days_of db i, sn_proposal = read_proposal db i\<rparr>)"

subsection \<open>Row operations with their constraints\<close>

definition day_unique :: "exam_day_row \<Rightarrow> exam_day_row list \<Rightarrow> bool" where
  "day_unique d ds \<longleftrightarrow> \<not> list_ex (\<lambda>x. xd_id x \<noteq> xd_id d \<and> xd_round x = xd_round d \<and> xd_date x = xd_date d) ds"

definition slot_unique :: "exam_slot_row \<Rightarrow> exam_slot_row list \<Rightarrow> bool" where
  "slot_unique s ss \<longleftrightarrow> \<not> list_ex (\<lambda>x. xs_id x \<noteq> xs_id s \<and>
     (xs_day x = xs_day s \<and> xs_sequence x = xs_sequence s \<or> xs_candidate x = xs_candidate s \<and> xs_type x = xs_type s)) ss"

definition slot_check :: "exam_slot_row \<Rightarrow> bool" where
  "slot_check s \<longleftrightarrow> xs_type s \<in> {''regular'', ''mep''} \<and> 1 \<le> xs_sequence s \<and> xs_starts s < xs_ends s"

definition assignment_unique :: "assignment_row \<Rightarrow> assignment_row list \<Rightarrow> bool" where
  "assignment_unique a xs \<longleftrightarrow> \<not> list_ex (\<lambda>x. xa_id x \<noteq> xa_id a \<and> xa_day x = xa_day a
     \<and> xa_member x = xa_member a \<and> xa_role x = xa_role a \<and> xa_part x = xa_part a) xs"

definition assignment_check :: "assignment_row \<Rightarrow> bool" where
  "assignment_check a \<longleftrightarrow> xa_part a \<in> {''morning'', ''afternoon'', ''full_day''}
     \<and> (xa_role a = ''fallback'' \<and> xa_fallback a \<in> Some ` {''not_required'', ''requested'', ''confirmed'', ''declined'', ''expired''}
        \<or> xa_role a = ''examiner'' \<and> xa_fallback a \<in> {None, Some ''not_required''})"

definition put_day :: "exam_day_row \<Rightarrow> plan_db \<Rightarrow> plan_error + plan_db" where
  "put_day d db = require (day_unique d (tb_days db)) Integrity
     (Inr (db\<lparr>tb_days := upd_row xd_id (xd_id d) (\<lambda>_. d) (tb_days db)\<rparr>))"

definition put_slot :: "exam_slot_row \<Rightarrow> plan_db \<Rightarrow> plan_error + plan_db" where
  "put_slot s db = require (slot_unique s (tb_slots db) \<and> slot_check s) Integrity
     (Inr (db\<lparr>tb_slots := upd_row xs_id (xs_id s) (\<lambda>_. s) (tb_slots db)\<rparr>))"

definition put_assignment :: "assignment_row \<Rightarrow> plan_db \<Rightarrow> plan_error + plan_db" where
  "put_assignment a db = require (assignment_unique a (tb_assignments db) \<and> assignment_check a) Integrity
     (Inr (db\<lparr>tb_assignments := upd_row xa_id (xa_id a) (\<lambda>_. a) (tb_assignments db)\<rparr>))"

definition add_day :: "exam_day_row \<Rightarrow> plan_db \<Rightarrow> plan_error + plan_db" where
  "add_day d db = require (day_unique d (tb_days db)) Integrity (Inr (db\<lparr>tb_days := tb_days db @ [d]\<rparr>))"

definition add_slot :: "exam_slot_row \<Rightarrow> plan_db \<Rightarrow> plan_error + plan_db" where
  "add_slot s db = require (slot_unique s (tb_slots db) \<and> slot_check s) Integrity
     (Inr (db\<lparr>tb_slots := tb_slots db @ [s]\<rparr>))"

definition add_assignment :: "assignment_row \<Rightarrow> plan_db \<Rightarrow> plan_error + plan_db" where
  "add_assignment a db = require (assignment_unique a (tb_assignments db) \<and> assignment_check a) Integrity
     (Inr (db\<lparr>tb_assignments := tb_assignments db @ [a]\<rparr>))"

subsection \<open>Writing\<close>

definition claim_revision :: "int \<Rightarrow> int \<Rightarrow> planning_status set \<Rightarrow> planning_status \<Rightarrow> plan_db \<Rightarrow> plan_db option" where
  "claim_revision i expected allowed target db = (case round_by_id db i of
     None \<Rightarrow> None
   | Some r \<Rightarrow> if er_revision r = expected \<and> er_status r \<in> allowed
       then Some (db\<lparr>tb_rounds := upd_row er_id i
              (\<lambda>r. r\<lparr>er_revision := expected + 1, er_status := target\<rparr>) (tb_rounds db)\<rparr>)
       else None)"

definition mark_availabilities_requested :: "int \<Rightarrow> plan_db \<Rightarrow> plan_db" where
  "mark_availabilities_requested i db =
     db\<lparr>tb_rounds := upd_row er_id i (\<lambda>r. r\<lparr>er_status := PlAvailabilityRequested\<rparr>) (tb_rounds db)\<rparr>"

text \<open>Deleting an exam day cascades to its slots and assignments.\<close>

definition delete_day :: "exam_day_row \<Rightarrow> plan_db \<Rightarrow> plan_db" where
  "delete_day d db = db\<lparr>tb_days := filter (\<lambda>x. xd_id x \<noteq> xd_id d) (tb_days db),
     tb_slots := filter (\<lambda>s. xs_day s \<noteq> xd_id d) (tb_slots db),
     tb_assignments := filter (\<lambda>a. xa_day a \<noteq> xd_id d) (tb_assignments db)\<rparr>"

definition clear_existing_proposal :: "int \<Rightarrow> plan_db \<Rightarrow> plan_error + plan_db" where
  "clear_existing_proposal i db = fold_res (\<lambda>d db. require (xd_status d \<noteq> ''confirmed'') ConfirmedReplaced
     (Inr (delete_day d db))) (days_of db i) db"

definition new_assignment :: "int \<Rightarrow> plan_assignment \<Rightarrow> plan_db \<Rightarrow> plan_error + plan_db" where
  "new_assignment d a db = add_assignment \<lparr>xa_id = next_id (map xa_id (tb_assignments db)), xa_day = d,
     xa_member = pa_member a, xa_role = pa_role a, xa_part = pa_part a, xa_fallback = pa_fallback a\<rparr> db"

definition new_slot_row :: "int \<Rightarrow> plan_slot \<Rightarrow> plan_db \<Rightarrow> plan_error + plan_db" where
  "new_slot_row d s db = add_slot \<lparr>xs_id = next_id (map xs_id (tb_slots db)), xs_day = d,
     xs_candidate = ps_candidate s, xs_type = ps_type s, xs_starts = ps_starts s, xs_ends = ps_ends s,
     xs_sequence = ps_sequence s, xs_status = ''proposed'', xs_execution = ''open'', xs_started = None,
     xs_completed = None\<rparr> db"

definition persist_day :: "int \<Rightarrow> bool \<Rightarrow> plan_day \<Rightarrow> plan_db \<Rightarrow> plan_error + plan_db" where
  "persist_day i lunch d db = (let k = next_id (map xd_id (tb_days db)) in
     bnd (add_day \<lparr>xd_id = k, xd_round = i, xd_room = pd_room d, xd_date = pd_date d, xd_status = ''proposed'',
        xd_lunch = lunch, xd_closure = ''open''\<rparr> db) (\<lambda>db.
     bnd (fold_res (new_assignment k) (pd_assignments d) db)
       (fold_res (new_slot_row k) (pd_slots d))))"

definition persist_proposal :: "proposal \<Rightarrow> plan_db \<Rightarrow> plan_error + plan_db" where
  "persist_proposal p db = (case map_of (tb_settings db) (pp_round p) of
     None \<Rightarrow> Inl SettingsNotFound
   | Some st \<Rightarrow> fold_res (persist_day (pp_round p) (st_lunch st)) (pp_days p) db)"

definition replace_proposal :: "proposal \<Rightarrow> int \<Rightarrow> planning_status set \<Rightarrow> planning_status \<Rightarrow> plan_db \<Rightarrow>
    plan_error + (plan_db option)" where
  "replace_proposal p expected allowed target db =
     (case claim_revision (pp_round p) expected allowed target db of
        None \<Rightarrow> Inr None
      | Some db \<Rightarrow> bnd (clear_existing_proposal (pp_round p) db) (\<lambda>db.
          bnd (persist_proposal p db) (\<lambda>db. Inr (Some db))))"

definition confirm_rows :: "int \<Rightarrow> plan_db \<Rightarrow> plan_db" where
  "confirm_rows i db = (let ids = map xd_id (days_of db i) in
     db\<lparr>tb_days := map (\<lambda>d. if xd_id d \<in> set ids then d\<lparr>xd_status := ''confirmed''\<rparr> else d) (tb_days db),
        tb_slots := map (\<lambda>s. if xs_day s \<in> set ids then s\<lparr>xs_status := ''confirmed''\<rparr> else s) (tb_slots db),
        tb_assignments := map (\<lambda>a. if xa_day a \<in> set ids \<and> xa_role a = ''fallback''
          then a\<lparr>xa_fallback := Some ''confirmed''\<rparr> else a) (tb_assignments db)\<rparr>)"

definition confirm_proposal :: "int \<Rightarrow> int \<Rightarrow> plan_db \<Rightarrow> plan_db option" where
  "confirm_proposal i expected db =
     map_option (confirm_rows i) (claim_revision i expected {PlProposed} PlConfirmed db)"

subsection \<open>Revising a confirmed plan\<close>

definition park_slot :: "plan_slot \<Rightarrow> plan_db \<Rightarrow> plan_error + plan_db" where
  "park_slot s db = (case ps_id s of
     None \<Rightarrow> Inl IdentityMissing
   | Some k \<Rightarrow> require (k \<in> set (map xs_id (tb_slots db))) SlotGone
       (Inr (db\<lparr>tb_slots := upd_row xs_id k (\<lambda>r. r\<lparr>xs_sequence := 1000000 + k\<rparr>) (tb_slots db)\<rparr>)))"

definition revise_assignment :: "int \<Rightarrow> plan_assignment \<Rightarrow> plan_db \<Rightarrow> plan_error + plan_db" where
  "revise_assignment d a db = (case pa_id a of
     None \<Rightarrow> Inl IdentityMissing
   | Some k \<Rightarrow> if k \<in> set (map xa_id (tb_assignments db))
       then put_assignment \<lparr>xa_id = k, xa_day = d, xa_member = pa_member a, xa_role = pa_role a,
              xa_part = pa_part a, xa_fallback = pa_fallback a\<rparr> db
       else Inr db)"

definition revise_slot :: "int \<Rightarrow> plan_slot \<Rightarrow> plan_db \<Rightarrow> plan_error + plan_db" where
  "revise_slot d s db = (case ps_id s of
     None \<Rightarrow> Inl IdentityMissing
   | Some k \<Rightarrow> (case List.find (\<lambda>r. xs_id r = k) (tb_slots db) of
       None \<Rightarrow> Inr db
     | Some r \<Rightarrow> put_slot (r\<lparr>xs_day := d, xs_candidate := ps_candidate s, xs_type := ps_type s,
         xs_starts := ps_starts s, xs_ends := ps_ends s, xs_sequence := ps_sequence s,
         xs_status := ''confirmed''\<rparr>) db))"

definition revise_day :: "plan_day \<Rightarrow> plan_db \<Rightarrow> plan_error + plan_db" where
  "revise_day d db = (case pd_id d of
     None \<Rightarrow> Inl IdentityMissing
   | Some k \<Rightarrow>
     bnd (case List.find (\<lambda>r. xd_id r = k) (tb_days db) of
         None \<Rightarrow> Inr db
       | Some r \<Rightarrow> put_day (r\<lparr>xd_room := pd_room d, xd_date := pd_date d, xd_status := ''confirmed''\<rparr>) db) (\<lambda>db.
     bnd (fold_res (revise_assignment k) (pd_assignments d) db)
       (fold_res (revise_slot k) (pd_slots d))))"

definition persist_confirmed_plan :: "proposal \<Rightarrow> int list \<Rightarrow> plan_db \<Rightarrow> plan_error + plan_db" where
  "persist_confirmed_plan p protected db =
     (let editable = filter (\<lambda>d. pd_id d \<notin> Some ` set protected) (pp_days p)
      in bnd (fold_res park_slot (concat (map pd_slots editable)) db) (fold_res revise_day editable))"

definition revise_confirmed_plan :: "proposal \<Rightarrow> int \<Rightarrow> int list \<Rightarrow> int \<Rightarrow> string \<Rightarrow> proposal \<Rightarrow> proposal \<Rightarrow> plan_db \<Rightarrow>
    plan_error + ((plan_db \<times> plan_revision) option)" where
  "revise_confirmed_plan p expected protected actor reason prior after db =
     (case (round_by_id db (pp_round p), List.find (\<lambda>m. mb_id m = actor) (tb_members db)) of
        (Some r, Some m) \<Rightarrow> require (mb_active m \<and> mb_committee m = er_committee r) ActorForbidden (
          case claim_revision (pp_round p) expected {PlConfirmed} PlConfirmed db of
            None \<Rightarrow> Inr None
          | Some db \<Rightarrow> bnd (persist_confirmed_plan p protected db) (\<lambda>db.
              let v = \<lparr>xr_id = next_id (map xr_id (tb_revisions db)), xr_round = pp_round p,
                   xr_previous = expected, xr_resulting = expected + 1, xr_reason = reason, xr_actor = actor,
                   xr_before = prior, xr_after = after\<rparr>
              in require (\<not> list_ex (\<lambda>x. xr_round x = pp_round p \<and> xr_resulting x = expected + 1) (tb_revisions db))
                   Integrity (Inr (Some (db\<lparr>tb_revisions := tb_revisions db @ [v]\<rparr>, v)))))
      | _ \<Rightarrow> Inl ActorForbidden)"

end
