(* ===== verification/Plan_Service.thy ===== *)
theory Plan_Service
  imports Plan_Store
begin

text \<open>
  The use cases of \<open>PlanningService\<close>: each definition is one public method, from the snapshot it
  reads through its guards, the generator or the validation, to the write and the value it returns.
  \<open>pe_lock\<close> is the mutation lock of the round (execution installs it), \<open>pe_coordinates\<close> the switch
  that restricts rooms to venues with confirmed coordinates. A write runs in one transaction, so an
  exception leaves the database as it was.
\<close>

record plan_env =
  pe_lock :: "int \<Rightarrow> plan_error option"
  pe_coordinates :: bool

definition check_lock :: "plan_env \<Rightarrow> int \<Rightarrow> plan_error + unit" where
  "check_lock e i = (case pe_lock e i of None \<Rightarrow> Inr () | Some x \<Rightarrow> Inl x)"

definition plan_snapshot :: "plan_env \<Rightarrow> plan_db \<Rightarrow> int \<Rightarrow> snapshot" where
  "plan_snapshot e db i = planning_context (pe_coordinates e) db i"

definition request_availabilities :: "plan_env \<Rightarrow> int \<Rightarrow> plan_db \<Rightarrow> plan_error + (plan_db \<times> exam_round)" where
  "request_availabilities e i db = (let cx = sn_context (plan_snapshot e db i) in
     case cx_round cx of None \<Rightarrow> Inl RoundNotFound | Some r \<Rightarrow>
     bnd (check_lock e i) (\<lambda>_.
     if er_status r = PlAvailabilityRequested then Inr (db, r)
     else require (er_status r = PlDraft) NotDraft (
       require (cx_settings cx \<noteq> None) SettingsNotFound (
       require (active_days cx \<noteq> []) NoActiveDays (
       require (er_deadline r \<noteq> None \<and> er_deadline r \<noteq> Some []) DeadlineRequired (
       let db' = mark_availabilities_requested i db in
       Inr (db', case round_by_id db' i of None \<Rightarrow> r | Some q \<Rightarrow> q)))))))"

definition coordination :: "planning_status set" where
  "coordination = {PlAvailabilityRequested, PlAvailabilityClosed, PlProposed}"

definition generate_proposal :: "plan_env \<Rightarrow> int \<Rightarrow> plan_db \<Rightarrow>
    plan_error + (plan_db \<times> proposal \<times> generated)" where
  "generate_proposal e i db = (let cx = sn_context (plan_snapshot e db i) in
     case cx_round cx of None \<Rightarrow> Inl RoundNotFound | Some r \<Rightarrow>
     bnd (check_lock e i) (\<lambda>_.
     require (er_status r \<in> coordination) NoCoordination (
     case cx_settings cx of None \<Rightarrow> Inl SettingsNotFound | Some st \<Rightarrow>
     require (active_days cx \<noteq> []) NoActiveDays (
     bnd (build_proposal cx st) (\<lambda>g.
     let p = normalize_proposal cx ''proposed'' (generated_aggregate r st g) in
     bnd (raise_for_invalid cx ''proposed'' p) (\<lambda>_.
     bnd (replace_proposal p (pp_revision p) coordination PlProposed db) (\<lambda>o'.
     case o' of None \<Rightarrow> Inl PlanConflict | Some db' \<Rightarrow>
       (case sn_proposal (plan_snapshot e db' i) of None \<Rightarrow> Inl NoProposal
        | Some q \<Rightarrow> Inr (db', q, g)))))))))"

definition get_proposal :: "plan_env \<Rightarrow> int \<Rightarrow> plan_db \<Rightarrow> plan_error + proposal" where
  "get_proposal e i db = (let sn = plan_snapshot e db i in
     case cx_round (sn_context sn) of None \<Rightarrow> Inl RoundNotFound | Some r \<Rightarrow>
     require (er_status r = PlProposed) PlanConflict (
     case sn_proposal sn of None \<Rightarrow> Inl NoProposal | Some p \<Rightarrow> Inr p))"

definition save_proposal :: "plan_env \<Rightarrow> proposal \<Rightarrow> plan_db \<Rightarrow> plan_error + (plan_db \<times> proposal)" where
  "save_proposal e p db = (let i = pp_round p; cx = sn_context (plan_snapshot e db i) in
     case cx_round cx of None \<Rightarrow> Inl RoundNotFound | Some r \<Rightarrow>
     bnd (check_lock e i) (\<lambda>_.
     require (er_status r = PlProposed) PlanConflict (
     require (er_revision r = pp_revision p) StaleRevision (
     let n = normalize_proposal cx ''proposed'' p in
     bnd (raise_for_invalid cx ''proposed'' n) (\<lambda>_.
     bnd (replace_proposal n (pp_revision p) {PlProposed} PlProposed db) (\<lambda>o'.
     case o' of None \<Rightarrow> Inl PlanConflict | Some db' \<Rightarrow>
       (case sn_proposal (plan_snapshot e db' i) of None \<Rightarrow> Inl NoProposal
        | Some q \<Rightarrow> Inr (db', q))))))))"

definition confirm_plan :: "plan_env \<Rightarrow> int \<Rightarrow> plan_db \<Rightarrow> plan_error + (plan_db \<times> proposal \<times> nat \<times> nat)" where
  "confirm_plan e i db = (let sn = plan_snapshot e db i in
     case cx_round (sn_context sn) of None \<Rightarrow> Inl RoundNotFound | Some r \<Rightarrow>
     bnd (check_lock e i) (\<lambda>_.
     case sn_proposal sn of None \<Rightarrow> Inl NoProposal | Some p \<Rightarrow>
     require (pp_days p \<noteq> []) NoProposal (
     require (er_status r = PlProposed) PlanConflict (
     bnd (raise_for_invalid (sn_context sn) ''proposed'' p) (\<lambda>_.
     case confirm_proposal i (pp_revision p) db of None \<Rightarrow> Inl PlanConflict | Some db' \<Rightarrow>
       (let sn' = plan_snapshot e db' i in case sn_proposal sn' of None \<Rightarrow> Inl NoProposal
        | Some q \<Rightarrow> Inr (db', q, length (sn_records sn'), sum_list (map (length \<circ> pd_slots) (pp_days q)))))))))"

subsection \<open>Confirmed plans\<close>

definition get_confirmed_plan :: "plan_env \<Rightarrow> int \<Rightarrow> plan_db \<Rightarrow> plan_error + proposal" where
  "get_confirmed_plan e i db = (let sn = plan_snapshot e db i in
     case cx_round (sn_context sn) of None \<Rightarrow> Inl RoundNotFound | Some r \<Rightarrow>
     require (er_status r = PlConfirmed) ConfirmedConflict (
     case sn_proposal sn of None \<Rightarrow> Inl ConfirmedConflict | Some p \<Rightarrow> Inr p))"

definition require_same :: "string \<Rightarrow> int option list \<Rightarrow> int option list \<Rightarrow> issue list" where
  "require_same label prior proposed = (let expected = List.map_filter id prior; actual = List.map_filter id proposed in
     if card (set actual) \<noteq> length proposed \<or> card (set expected) \<noteq> length prior \<or> set actual \<noteq> set expected
     then [plan_issue (ConfirmedPlanShapeInvalid label)] else [])"

definition confirmed_plan_shape :: "proposal \<Rightarrow> proposal \<Rightarrow> plan_error + unit" where
  "confirmed_plan_shape prior p = (let xs = require_same ''days'' (map pd_id (pp_days prior)) (map pd_id (pp_days p))
        @ require_same ''slots'' (concat (map (map ps_id \<circ> pd_slots) (pp_days prior)))
            (concat (map (map ps_id \<circ> pd_slots) (pp_days p)))
        @ require_same ''assignments'' (concat (map (map pa_id \<circ> pd_assignments) (pp_days prior)))
            (concat (map (map pa_id \<circ> pd_assignments) (pp_days p)))
     in require (xs = []) (InvalidPlan xs) (Inr ()))"

text \<open>A dictionary comprehension keyed by identities keeps the last item of a key.\<close>

definition by_key :: "('a \<Rightarrow> int option) \<Rightarrow> 'a list \<Rightarrow> int option \<Rightarrow> 'a option" where
  "by_key f xs k = List.find (\<lambda>x. f x = k) (rev xs)"

definition restore_server_state :: "plan_day \<Rightarrow> plan_day \<Rightarrow> plan_day" where
  "restore_server_state prior d = d\<lparr>pd_status := pd_status prior,
     pd_slots := map (\<lambda>s. case by_key ps_id (pd_slots prior) (ps_id s) of None \<Rightarrow> s
       | Some o' \<Rightarrow> s\<lparr>ps_status := ps_status o'\<rparr>) (pd_slots d),
     pd_assignments := map (\<lambda>a. case by_key pa_id (pd_assignments prior) (pa_id a) of None \<Rightarrow> a
       | Some o' \<Rightarrow> a\<lparr>pa_fallback := pa_fallback o'\<rparr>) (pd_assignments d)\<rparr>"

definition protected_days_unchanged :: "proposal \<Rightarrow> proposal \<Rightarrow> int list \<Rightarrow> plan_error + unit" where
  "protected_days_unchanged prior p protected = (if list_all (\<lambda>b. pd_id b \<notin> Some ` set protected \<or>
       (case by_key pd_id (pp_days p) (pd_id b) of None \<Rightarrow> False
        | Some d \<Rightarrow> restore_server_state b d = b)) (pp_days prior)
     then Inr () else Inl ProtectedDay)"

definition manager_member_ids :: "plan_context \<Rightarrow> int list" where
  "manager_member_ids cx = sort (map mb_id (filter (\<lambda>m. mb_role m \<in> {ChairRole, DeputyChairRole}) (cx_members cx)))"

definition save_confirmed_plan :: "plan_env \<Rightarrow> proposal \<Rightarrow> string \<Rightarrow> int \<Rightarrow> plan_db \<Rightarrow>
    plan_error + (plan_db \<times> proposal \<times> plan_revision \<times> int list)" where
  "save_confirmed_plan e p reason actor db = (let i = pp_round p; sn = plan_snapshot e db i; cx = sn_context sn in
     case cx_round cx of None \<Rightarrow> Inl RoundNotFound | Some r \<Rightarrow>
     bnd (check_lock e i) (\<lambda>_.
     require (er_status r = PlConfirmed) ConfirmedConflict (
     require (er_revision r = pp_revision p) StaleConfirmed (
     case sn_proposal sn of None \<Rightarrow> Inl ConfirmedConflict | Some prior \<Rightarrow>
     bnd (confirmed_plan_shape prior p) (\<lambda>_.
     let n = normalize_proposal cx ''confirmed'' p in
     bnd (raise_for_invalid cx ''confirmed'' n) (\<lambda>_.
     bnd (protected_days_unchanged prior n (cx_protected cx)) (\<lambda>_.
     require (strip reason \<noteq> []) (InvalidPlan [plan_issue ChangeReasonRequired]) (
     case member_by_id cx actor of None \<Rightarrow> Inl ActorForbidden | Some m \<Rightarrow>
     require (mb_active m \<and> mb_committee m = er_committee r) ActorForbidden (
     bnd (revise_confirmed_plan n (pp_revision p) (cx_protected cx) actor (strip reason) prior
          (n\<lparr>pp_revision := pp_revision p + 1\<rparr>) db) (\<lambda>o'.
     case o' of None \<Rightarrow> Inl StaleConfirmed | Some (db', v) \<Rightarrow>
       (case sn_proposal (plan_snapshot e db' i) of None \<Rightarrow> Inl ConfirmedConflict
        | Some q \<Rightarrow> Inr (db', q, v, manager_member_ids cx))))))))))))"

definition confirmed_plan_revisions :: "plan_env \<Rightarrow> int \<Rightarrow> plan_db \<Rightarrow> plan_error + (plan_revision list \<times> int list)" where
  "confirmed_plan_revisions e i db = (let cx = sn_context (plan_snapshot e db i) in
     case cx_round cx of None \<Rightarrow> Inl RoundNotFound | Some r \<Rightarrow>
     Inr (sort_key xr_resulting (filter (\<lambda>v. xr_round v = i) (tb_revisions db)), manager_member_ids cx))"

end
