(* ===== verification/Plan_Spec.thy ===== *)
theory Plan_Spec
  imports Plan_Validate
begin

text \<open>
  What a valid plan is, stated on the plan alone, and the proof that the validation accepts exactly
  these plans: \<open>plan_ok\<close> has no counters and no order of checks. The lemmas follow the validation
  context through one slot, one crew, one day and the loop over the days.
\<close>

subsection \<open>The contract\<close>

definition slot_count :: "int \<Rightarrow> string \<Rightarrow> plan_slot list \<Rightarrow> nat" where
  "slot_count i t xs = length (filter (\<lambda>x. ps_candidate x = i \<and> ps_type x = t) xs)"

definition member_side :: "plan_context \<Rightarrow> plan_assignment \<Rightarrow> side" where
  "member_side cx a = (case member_by_id cx (pa_member a) of None \<Rightarrow> Employer | Some m \<Rightarrow> mb_side m)"

definition member_ok :: "plan_context \<Rightarrow> int \<Rightarrow> plan_day \<Rightarrow> candidate_day \<Rightarrow> string \<Rightarrow> plan_assignment \<Rightarrow> bool" where
  "member_ok cx committee d c part a \<longleftrightarrow> (\<exists>m. member_by_id cx (pa_member a) = Some m \<and> mb_active m
     \<and> mb_committee m = committee
     \<and> available_for (availability_of cx (pa_member a) (pd_candidate_day d)) part
     \<and> mb_person m \<notin> set (map fst (blocked_at cx (cd_date c) part)))"

definition crew_ok :: "plan_context \<Rightarrow> int \<Rightarrow> plan_day \<Rightarrow> candidate_day \<Rightarrow> string \<Rightarrow> bool" where
  "crew_ok cx committee d c part \<longleftrightarrow> (let app = applicable part d in
     (\<forall>a \<in> set app. member_ok cx committee d c part a)
     \<and> mset (map (member_side cx) (with_role ''examiner'' app)) = mset sides
     \<and> length (with_role ''fallback'' app) = 1 \<and> distinct (map pa_member app))"

definition slots_ok :: "plan_context \<Rightarrow> plan_settings \<Rightarrow> string \<Rightarrow> candidate_day \<Rightarrow> plan_slot list \<Rightarrow> bool" where
  "slots_ok cx st status c xs \<longleftrightarrow>
     (\<forall>x \<in> set xs. ps_candidate x \<in> cn_id ` set (cx_candidates cx) \<and> ps_type x \<in> {''regular'', ''mep''})
     \<and> sorted (map (\<lambda>x. ps_type x = ''mep'') xs) \<and> (\<exists>x \<in> set xs. ps_type x = ''regular'')
     \<and> normalize_slots status (cd_date c) (st_lunch st) xs = xs
     \<and> int (length xs) \<le> st_exams_per_day st"

definition day_ok :: "plan_context \<Rightarrow> plan_settings \<Rightarrow> int \<Rightarrow> string \<Rightarrow> plan_day \<Rightarrow> bool" where
  "day_ok cx st committee status d \<longleftrightarrow> (\<exists>c k. day_by_id cx (pd_candidate_day d) = Some c \<and> cd_active c
     \<and> week_key (cd_date c) = Inr k \<and> pd_date d = cd_date c \<and> pd_status d = status
     \<and> pd_room d \<in> set (cx_rooms cx) \<and> slots_ok cx st status c (pd_slots d)
     \<and> (\<forall>a \<in> set (pd_assignments d). pa_role a \<in> {''examiner'', ''fallback''}
          \<and> pa_part a \<in> insert ''full_day'' (set (used_parts d)))
     \<and> (\<forall>part \<in> set (used_parts d). crew_ok cx committee d c part))"

definition day_week :: "plan_context \<Rightarrow> plan_day \<Rightarrow> string option" where
  "day_week cx d = (case day_by_id cx (pd_candidate_day d) of None \<Rightarrow> None
     | Some c \<Rightarrow> (case week_key (cd_date c) of Inl _ \<Rightarrow> None | Inr k \<Rightarrow> Some k))"

definition week_days :: "plan_context \<Rightarrow> string \<Rightarrow> plan_day list \<Rightarrow> nat" where
  "week_days cx k ds = length (filter (\<lambda>d. day_week cx d = Some k) ds)"

definition plan_slots :: "proposal \<Rightarrow> plan_slot list" where
  "plan_slots p = concat (map pd_slots (pp_days p))"

definition plan_ok :: "plan_context \<Rightarrow> string \<Rightarrow> proposal \<Rightarrow> bool" where
  "plan_ok cx status p \<longleftrightarrow> (\<exists>r st. cx_round cx = Some r \<and> cx_settings cx = Some st
     \<and> pp_days p \<noteq> [] \<and> distinct (map pd_candidate_day (pp_days p))
     \<and> (\<forall>d \<in> set (pp_days p). day_ok cx st (er_committee r) status d)
     \<and> (\<forall>d \<in> set (pp_days p). \<forall>k. day_week cx d = Some k \<longrightarrow>
          int (week_days cx k (pp_days p)) \<le> st_max_days st)
     \<and> (\<forall>x \<in> set (cx_candidates cx). slot_count (cn_id x) ''regular'' (plan_slots p) = 1
          \<and> slot_count (cn_id x) ''mep'' (plan_slots p) = (if cn_mep x then 1 else 0)
          \<and> map_of (rev (cx_active cx)) (cn_id x) = Some (pp_round p)))"

subsection \<open>Reports\<close>

lemma report_if_simps [simp]:
  "vs_issues (report_if c x s) = [] \<longleftrightarrow> \<not> c \<and> vs_issues s = []"
  "vs_counts (report_if c x s) = vs_counts s"
  "vs_used (report_if c x s) = vs_used s"
  "vs_weeks (report_if c x s) = vs_weeks s"
  by (simp_all add: report_if_def)

text \<open>A loop whose steps report independently of the state, and leave the counters alone.\<close>

lemma fold_report:
  assumes "\<And>x s. vs_issues (f x s) = [] \<longleftrightarrow> P x \<and> vs_issues s = []"
  shows "vs_issues (fold f xs s) = [] \<longleftrightarrow> (\<forall>x \<in> set xs. P x) \<and> vs_issues s = []"
  using assms by (induction xs arbitrary: s) auto

lemma fold_frame: "(\<And>x s. g (f x s) = g s) \<Longrightarrow> g (fold f xs s) = g s"
  by (induction xs arbitrary: s) auto

subsection \<open>Slots\<close>

definition known_type :: "string \<Rightarrow> bool" where
  "known_type t \<longleftrightarrow> t = ''regular'' \<or> t = ''mep''"

lemma known_type_iff [simp]: "t \<in> {''regular'', ''mep''} \<longleftrightarrow> known_type t"
  by (simp add: known_type_def)

definition slot_ok :: "plan_context \<Rightarrow> string \<Rightarrow> string \<Rightarrow> nat \<times> plan_slot \<times> string \<times> string \<Rightarrow> bool" where
  "slot_ok cx status date q \<longleftrightarrow> (case q of (i, x, start, stop) \<Rightarrow>
     ps_candidate x \<in> cn_id ` set (cx_candidates cx) \<and> known_type (ps_type x)
     \<and> ps_sequence x = int i \<and> ps_starts x = stamp date start \<and> ps_ends x = stamp date stop
     \<and> ps_status x = status)"

definition is_mep :: "nat \<times> plan_slot \<times> string \<times> string \<Rightarrow> bool" where
  "is_mep q \<longleftrightarrow> ps_type (fst (snd q)) = ''mep''"

lemma validate_slot_ok:
  "vs_issues (fst (validate_slot cx status d date q (s, seen))) = [] \<longleftrightarrow>
     slot_ok cx status date q \<and> (seen \<longrightarrow> is_mep q) \<and> vs_issues s = []"
  "snd (validate_slot cx status d date q (s, seen)) \<longleftrightarrow> seen \<or> is_mep q"
  by (auto simp: validate_slot_def slot_ok_def is_mep_def Let_def known_type_def split: prod.splits)

lemma validate_slot_frame:
  "vs_used (fst (validate_slot cx status d date q sm)) = vs_used (fst sm)"
  "vs_weeks (fst (validate_slot cx status d date q sm)) = vs_weeks (fst sm)"
  by (cases q; cases sm; simp add: validate_slot_def Let_def)+

lemma validate_slot_counts:
  "vs_counts (fst (validate_slot cx status d date q sm)) k = vs_counts (fst sm) k
     + (if k = (ps_candidate (fst (snd q)), ps_type (fst (snd q))) \<and> known_type (snd k) then 1 else 0)"
  by (cases q; cases sm) (auto simp: validate_slot_def Let_def known_type_def)

lemma fold_slots_ok:
  "vs_issues (fst (fold (validate_slot cx status d date) qs (s, seen))) = [] \<longleftrightarrow>
     (\<forall>q \<in> set qs. slot_ok cx status date q) \<and> sorted (seen # map is_mep qs) \<and> vs_issues s = []"
proof (induction qs arbitrary: s seen)
  case (Cons q qs)
  obtain s' seen' where v: "validate_slot cx status d date q (s, seen) = (s', seen')" by fastforce
  have "seen' \<longleftrightarrow> seen \<or> is_mep q" "vs_issues s' = [] \<longleftrightarrow>
      slot_ok cx status date q \<and> (seen \<longrightarrow> is_mep q) \<and> vs_issues s = []"
    using validate_slot_ok[of cx status d date q s seen] v by simp_all
  then show ?case using v Cons.IH[of s' seen'] by auto
qed simp

lemma fold_slots_counts:
  "vs_counts (fst (fold (validate_slot cx status d date) qs sm)) (i, t) = vs_counts (fst sm) (i, t)
     + (if known_type t then int (slot_count i t (map (fst \<circ> snd) qs)) else 0)"
  by (induction qs arbitrary: sm) (auto simp: validate_slot_counts slot_count_def)

lemma fold_slots_frame:
  "vs_used (fst (fold (validate_slot cx status d date) qs sm)) = vs_used (fst sm)"
  "vs_weeks (fst (fold (validate_slot cx status d date) qs sm)) = vs_weeks (fst sm)"
  by (induction qs arbitrary: sm) (auto simp: validate_slot_frame)

lemma zip_times_slots:
  assumes "qs = enumerate 1 (zip xs (slot_times (length xs) lunch))"
  shows "map (fst \<circ> snd) qs = xs" "map is_mep qs = map (\<lambda>x. ps_type x = ''mep'') xs"
proof -
  have "map snd qs = zip xs (slot_times (length xs) lunch)" by (simp add: assms)
  then have "map fst (map snd qs) = xs" by simp
  then show *: "map (fst \<circ> snd) qs = xs" by (simp add: comp_def)
  have "map is_mep qs = map ((\<lambda>x. ps_type x = ''mep'') \<circ> (fst \<circ> snd)) qs" by (simp add: is_mep_def)
  also have "\<dots> = map (\<lambda>x. ps_type x = ''mep'') (map (fst \<circ> snd) qs)" by (simp only: map_map)
  finally show "map is_mep qs = map (\<lambda>x. ps_type x = ''mep'') xs" by (simp only: *)
qed

lemma normalize_slots_fixed:
  assumes "qs = enumerate 1 (zip xs (slot_times (length xs) lunch))"
  shows "normalize_slots status date lunch xs = xs \<longleftrightarrow> (\<forall>(i, x, s, e) \<in> set qs.
     ps_sequence x = int i \<and> ps_starts x = stamp date s \<and> ps_ends x = stamp date e \<and> ps_status x = status)"
proof -
  let ?f = "\<lambda>(i, x, s, e). x\<lparr>ps_sequence := int i, ps_starts := stamp date s, ps_ends := stamp date e,
      ps_status := status\<rparr>"
  have a: "normalize_slots status date lunch xs = map ?f qs" by (simp add: normalize_slots_def assms)
  have b: "map (fst \<circ> snd) qs = xs" by (rule zip_times_slots(1)[OF assms])
  have "normalize_slots status date lunch xs = xs \<longleftrightarrow> map ?f qs = map (fst \<circ> snd) qs"
    by (simp only: a b)
  also have "\<dots> \<longleftrightarrow> (\<forall>q \<in> set qs. ?f q = (fst \<circ> snd) q)" by (rule map_eq_conv)
  also have "\<dots> \<longleftrightarrow> (\<forall>(i, x, s, e) \<in> set qs. ps_sequence x = int i \<and> ps_starts x = stamp date s
      \<and> ps_ends x = stamp date e \<and> ps_status x = status)"
    by (rule ball_cong) (auto intro!: plan_slot.equality dest: arg_cong[of _ _ ps_sequence]
        arg_cong[of _ _ ps_starts] arg_cong[of _ _ ps_ends] arg_cong[of _ _ ps_status] split: prod.splits)
  finally show ?thesis .
qed

subsection \<open>Crews\<close>

lemma valid_member_iff: "valid_member cx committee a = Some m \<longleftrightarrow>
    member_by_id cx (pa_member a) = Some m \<and> mb_active m \<and> mb_committee m = committee"
  by (auto simp: valid_member_def split: option.splits if_splits)

lemma map_of_Some_key: "map_of xs k = Some v \<Longrightarrow> k \<in> fst ` set xs"
  by (metis domI dom_map_of_conv_image_fst)

lemma validate_assigned_member_ok:
  "vs_issues (fst (validate_assigned_member cx committee d c part a (s, acc))) = [] \<longleftrightarrow>
     member_ok cx committee d c part a \<and> vs_issues s = []"
  by (cases "valid_member cx committee a")
    (auto simp: validate_assigned_member_def member_ok_def Let_def valid_member_iff map_of_eq_None_iff
      valid_member_def dest: map_of_Some_key split: option.splits if_splits)

lemma validate_assigned_member_frame:
  "vs_counts (fst (validate_assigned_member cx committee d c part a sm)) = vs_counts (fst sm)"
  "vs_used (fst (validate_assigned_member cx committee d c part a sm)) = vs_used (fst sm)"
  "vs_weeks (fst (validate_assigned_member cx committee d c part a sm)) = vs_weeks (fst sm)"
  by (cases sm; simp add: validate_assigned_member_def Let_def split: option.splits)+

lemma validate_assigned_member_sides:
  assumes "member_ok cx committee d c part a"
  shows "snd (validate_assigned_member cx committee d c part a (s, acc)) =
    acc @ (if pa_role a = ''examiner'' then [member_side cx a] else [])"
proof -
  from assms obtain m where m: "member_by_id cx (pa_member a) = Some m" "mb_active m"
    "mb_committee m = committee" by (auto simp: member_ok_def)
  then have "valid_member cx committee a = Some m" by (simp add: valid_member_iff)
  with m show ?thesis by (simp add: validate_assigned_member_def Let_def member_side_def split: option.splits)
qed

lemma fold_members_ok:
  "vs_issues (fst (fold (validate_assigned_member cx committee d c part) as sm)) = [] \<longleftrightarrow>
     (\<forall>a \<in> set as. member_ok cx committee d c part a) \<and> vs_issues (fst sm) = []"
proof (induction as arbitrary: sm)
  case (Cons a as)
  show ?case using Cons validate_assigned_member_ok[of cx committee d c part a "fst sm" "snd sm"] by auto
qed simp

lemma fold_members_sides:
  "(\<forall>a \<in> set as. member_ok cx committee d c part a) \<Longrightarrow>
   snd (fold (validate_assigned_member cx committee d c part) as sm) =
     snd sm @ map (member_side cx) (with_role ''examiner'' as)"
proof (induction as arbitrary: sm)
  case (Cons a as)
  show ?case using Cons validate_assigned_member_sides[of cx committee d c part a "fst sm" "snd sm"]
    by (auto simp: with_role_def)
qed (simp add: with_role_def)

lemma fold_members_frame:
  "vs_counts (fst (fold (validate_assigned_member cx committee d c part) as sm)) = vs_counts (fst sm)"
  "vs_used (fst (fold (validate_assigned_member cx committee d c part) as sm)) = vs_used (fst sm)"
  "vs_weeks (fst (fold (validate_assigned_member cx committee d c part) as sm)) = vs_weeks (fst sm)"
  by (induction as arbitrary: sm) (auto simp: validate_assigned_member_frame)

text \<open>Three examiners that cover the three sides are one of each side.\<close>

lemma three_sides: "length xs = 3 \<and> set xs = set sides \<longleftrightarrow> mset xs = mset sides"
proof
  assume "mset xs = mset sides"
  then show "length xs = 3 \<and> set xs = set sides"
    using mset_eq_length[of xs sides] mset_eq_setD[of xs sides] by (simp add: sides_def)
next
  assume a: "length xs = 3 \<and> set xs = set sides"
  then have "card (set xs) = length xs" by (simp add: sides_def)
  then have "distinct xs" by (rule card_distinct)
  moreover have "distinct sides" by (simp add: sides_def)
  ultimately show "mset xs = mset sides" using a by (simp add: set_eq_iff_mset_eq_distinct)
qed

lemma validate_crew_ok:
  "vs_issues (validate_crew cx committee d c part s) = [] \<longleftrightarrow> crew_ok cx committee d c part \<and> vs_issues s = []"
proof (cases "\<forall>a \<in> set (applicable part d). member_ok cx committee d c part a")
  case False
  then show ?thesis
    using fold_members_ok[of cx committee d c part "applicable part d" "(s, [])"]
    by (auto simp: validate_crew_def crew_ok_def Let_def case_prod_beta)
next
  case True
  let ?app = "applicable part d"
  have m: "snd (fold (validate_assigned_member cx committee d c part) ?app (s, [])) =
      map (member_side cx) (with_role ''examiner'' ?app)"
    using fold_members_sides[OF True, of "(s, [])"] by simp
  have l: "length (with_role ''examiner'' ?app) = 3 \<and>
      set (map (member_side cx) (with_role ''examiner'' ?app)) = set sides \<longleftrightarrow>
      mset (map (member_side cx) (with_role ''examiner'' ?app)) = mset sides"
    using three_sides[of "map (member_side cx) (with_role ''examiner'' ?app)"] by simp
  have d: "card (set (map pa_member ?app)) = length ?app \<longleftrightarrow> distinct (map pa_member ?app)"
    using card_distinct[of "map pa_member ?app"] distinct_card[of "map pa_member ?app"] by auto
  show ?thesis
    using fold_members_ok[of cx committee d c part "?app" "(s, [])"] True
    unfolding validate_crew_def crew_ok_def Let_def case_prod_beta m
    by (simp only: report_if_simps fst_conv l[symmetric] d) auto
qed

lemma validate_crew_frame:
  "vs_counts (validate_crew cx committee d c part s) = vs_counts s"
  "vs_used (validate_crew cx committee d c part s) = vs_used s"
  "vs_weeks (validate_crew cx committee d c part s) = vs_weeks s"
  by (simp_all add: validate_crew_def Let_def case_prod_beta fold_members_frame)

lemma validate_shape_ok:
  "vs_issues (validate_assignment_shape d a s) = [] \<longleftrightarrow> (pa_role a \<in> {''examiner'', ''fallback''}
     \<and> pa_part a \<in> insert ''full_day'' (set (used_parts d))) \<and> vs_issues s = []"
proof -
  have "pa_part a \<in> insert ''full_day'' (set (used_parts d)) \<Longrightarrow>
      pa_part a \<in> {''morning'', ''afternoon'', ''full_day''}"
    by (auto simp: used_parts_def split: if_splits)
  then show ?thesis unfolding validate_assignment_shape_def Let_def report_if_simps by blast
qed

lemma validate_shape_frame:
  "vs_counts (validate_assignment_shape d a s) = vs_counts s"
  "vs_used (validate_assignment_shape d a s) = vs_used s"
  "vs_weeks (validate_assignment_shape d a s) = vs_weeks s"
  by (simp_all add: validate_assignment_shape_def Let_def)

lemma validate_day_assignments_ok:
  "vs_issues (validate_day_assignments cx committee d c s) = [] \<longleftrightarrow>
     (\<forall>a \<in> set (pd_assignments d). pa_role a \<in> {''examiner'', ''fallback''}
          \<and> pa_part a \<in> insert ''full_day'' (set (used_parts d)))
     \<and> (\<forall>part \<in> set (used_parts d). crew_ok cx committee d c part) \<and> vs_issues s = []"
  unfolding validate_day_assignments_def fold_report[where f = "validate_crew cx committee d c", OF validate_crew_ok]
    fold_report[where f = "validate_assignment_shape d", OF validate_shape_ok] by blast

lemma validate_day_assignments_frame:
  "vs_counts (validate_day_assignments cx committee d c s) = vs_counts s"
  "vs_used (validate_day_assignments cx committee d c s) = vs_used s"
  "vs_weeks (validate_day_assignments cx committee d c s) = vs_weeks s"
  by (simp_all add: validate_day_assignments_def validate_crew_frame validate_shape_frame
      fold_frame[where g = vs_counts] fold_frame[where g = vs_used] fold_frame[where g = vs_weeks])

subsection \<open>Days\<close>

lemma validate_day_slots_frame:
  "vs_used (validate_day_slots cx st status d c s) = vs_used s"
  "vs_weeks (validate_day_slots cx st status d c s) = vs_weeks s"
  by (simp_all add: validate_day_slots_def Let_def fold_slots_frame)

lemma validate_day_slots_counts:
  "vs_counts (validate_day_slots cx st status d c s) (i, t) = vs_counts s (i, t)
     + (if known_type t then int (slot_count i t (pd_slots d)) else 0)"
  using zip_times_slots(1)[OF refl, of "pd_slots d" "st_lunch st"]
  by (simp add: validate_day_slots_def Let_def fold_slots_counts)

lemma slots_ok_iff:
  "vs_issues (validate_day_slots cx st status d c s) = [] \<and> pd_slots d \<noteq> []
     \<and> int (length (pd_slots d)) \<le> st_exams_per_day st \<longleftrightarrow>
   slots_ok cx st status c (pd_slots d) \<and> vs_issues s = []"
proof -
  let ?qs = "enumerate 1 (zip (pd_slots d) (slot_times (length (pd_slots d)) (st_lunch st)))"
  note z = zip_times_slots[OF refl, of "pd_slots d" "st_lunch st"]
  have "(\<forall>q \<in> set ?qs. slot_ok cx status (cd_date c) q) \<longleftrightarrow>
      (\<forall>q \<in> set ?qs. ps_candidate (fst (snd q)) \<in> cn_id ` set (cx_candidates cx) \<and> known_type (ps_type (fst (snd q))))
      \<and> normalize_slots status (cd_date c) (st_lunch st) (pd_slots d) = pd_slots d"
    unfolding normalize_slots_fixed[OF refl] by (fastforce simp: slot_ok_def)
  also have "(\<forall>q \<in> set ?qs. ps_candidate (fst (snd q)) \<in> cn_id ` set (cx_candidates cx) \<and> known_type (ps_type (fst (snd q))))
      \<longleftrightarrow> (\<forall>x \<in> set (map (fst \<circ> snd) ?qs). ps_candidate x \<in> cn_id ` set (cx_candidates cx) \<and> known_type (ps_type x))"
    by simp
  finally have q: "(\<forall>q \<in> set ?qs. slot_ok cx status (cd_date c) q) \<longleftrightarrow>
      (\<forall>x \<in> set (pd_slots d). ps_candidate x \<in> cn_id ` set (cx_candidates cx) \<and> known_type (ps_type x))
      \<and> normalize_slots status (cd_date c) (st_lunch st) (pd_slots d) = pd_slots d" by (simp only: z)
  have s: "sorted (False # map is_mep ?qs) \<longleftrightarrow> sorted (map (\<lambda>x. ps_type x = ''mep'') (pd_slots d))"
    unfolding z(2) by simp
  show ?thesis unfolding validate_day_slots_def slots_ok_def Let_def report_if_simps fold_slots_ok q s
      known_type_iff by (cases "pd_slots d") (auto simp: list_ex_iff)
qed

definition week_total :: "check \<Rightarrow> string \<Rightarrow> int" where
  "week_total s k = (case map_of (vs_weeks s) k of None \<Rightarrow> 0 | Some n \<Rightarrow> n)"

text \<open>The validation context after the days \<open>ds\<close>.\<close>

definition seen_days :: "plan_context \<Rightarrow> plan_day list \<Rightarrow> check \<Rightarrow> bool" where
  "seen_days cx ds s \<longleftrightarrow> set (vs_used s) = pd_candidate_day ` set ds
     \<and> (\<forall>i t. known_type t \<longrightarrow> vs_counts s (i, t) = int (slot_count i t (concat (map pd_slots ds))))
     \<and> distinct (map fst (vs_weeks s))
     \<and> (\<forall>k. map_of (vs_weeks s) k = (if week_days cx k ds = 0 then None else Some (int (week_days cx k ds))))"

lemma seen_days_Nil: "seen_days cx [] (empty_check xs)"
  by (simp add: seen_days_def empty_check_def slot_count_def week_days_def)

lemma slot_count_append [simp]: "slot_count i t (xs @ ys) = slot_count i t xs + slot_count i t ys"
  by (simp add: slot_count_def)

lemma slot_count_Nil [simp]: "slot_count i t [] = 0"
  by (simp add: slot_count_def)

lemma week_days_snoc [simp]: "week_days cx k (ds @ [d]) = week_days cx k ds + (if day_week cx d = Some k then 1 else 0)"
  by (simp add: week_days_def)

lemma validate_day_mono:
  assumes "validate_proposal_day cx st committee status d s = Inr t" "vs_issues t = []"
  shows "vs_issues s = []"
  using assms by (auto simp: validate_proposal_day_def validated_candidate_day_def Let_def bnd_Inr_iff
      validate_exam_day_state_def validate_day_assignments_ok validate_day_slots_def fold_slots_ok
      split: option.splits if_splits)

lemma validate_day_iff:
  assumes "seen_days cx ds s" "vs_issues s = []"
  shows "(\<exists>t. validate_proposal_day cx st committee status d s = Inr t \<and> vs_issues t = []) \<longleftrightarrow>
     pd_candidate_day d \<notin> pd_candidate_day ` set ds \<and> day_ok cx st committee status d" (is "?l \<longleftrightarrow> ?r")
proof (cases "\<exists>c. day_by_id cx (pd_candidate_day d) = Some c \<and> cd_active c")
  case False
  then show ?thesis by (auto simp: validate_proposal_day_def validated_candidate_day_def Let_def day_ok_def
      split: option.splits)
next
  case True
  then obtain c where c: "day_by_id cx (pd_candidate_day d) = Some c" "cd_active c" by blast
  have u: "set (vs_used s) = pd_candidate_day ` set ds" using assms(1) by (simp add: seen_days_def)
  define s1 where "s1 = (let s = report_if (pd_candidate_day d \<in> set (vs_used s)) (day_issue CandidateDayDuplicate d) s
      in s\<lparr>vs_used := List.insert (pd_candidate_day d) (vs_used s)\<rparr>)"
  have s1: "vs_issues s1 = [] \<longleftrightarrow> pd_candidate_day d \<notin> pd_candidate_day ` set ds"
    by (simp add: s1_def Let_def u assms(2))
  have v: "validated_candidate_day cx d s = (Some c, s1)"
    using c by (simp add: validated_candidate_day_def s1_def Let_def)
  show ?thesis
  proof (cases "week_key (cd_date c)")
    case (Inl e)
    then show ?thesis using c v
      by (auto simp: validate_proposal_day_def validate_exam_day_state_def Let_def day_ok_def)
  next
    case (Inr k)
    obtain s2 where s2: "validate_exam_day_state cx st status d c s1 = Inr s2"
      "vs_issues s2 = [] \<longleftrightarrow> pd_date d = cd_date c \<and> pd_status d = status \<and> pd_room d \<in> set (cx_rooms cx)
        \<and> pd_slots d \<noteq> [] \<and> int (length (pd_slots d)) \<le> st_exams_per_day st \<and> vs_issues s1 = []"
      using Inr by (simp add: validate_exam_day_state_def Let_def not_less) blast
    let ?s3 = "validate_day_slots cx st status d c s2"
    have "?l \<longleftrightarrow> vs_issues (validate_day_assignments cx committee d c ?s3) = []"
      by (simp add: validate_proposal_day_def v s2(1))
    note l = this[unfolded validate_day_assignments_ok]
    have "vs_issues ?s3 = [] \<Longrightarrow> vs_issues s2 = []" by (simp add: validate_day_slots_def fold_slots_ok Let_def)
    moreover have "slots_ok cx st status c (pd_slots d) \<Longrightarrow>
        pd_slots d \<noteq> [] \<and> int (length (pd_slots d)) \<le> st_exams_per_day st" by (auto simp: slots_ok_def)
    moreover have "day_ok cx st committee status d \<longleftrightarrow> pd_date d = cd_date c \<and> pd_status d = status
       \<and> pd_room d \<in> set (cx_rooms cx) \<and> slots_ok cx st status c (pd_slots d)
       \<and> (\<forall>a \<in> set (pd_assignments d). pa_role a \<in> {''examiner'', ''fallback''}
            \<and> pa_part a \<in> insert ''full_day'' (set (used_parts d)))
       \<and> (\<forall>part \<in> set (used_parts d). crew_ok cx committee d c part)"
      unfolding day_ok_def c(1) option.inject using c(2) Inr by blast
    ultimately show ?thesis unfolding l using slots_ok_iff[of cx st status d c s2] s1 s2(2) by argo
  qed
qed

lemma validate_day_seen:
  assumes "seen_days cx ds s" "vs_issues s = []"
    and "validate_proposal_day cx st committee status d s = Inr t" "vs_issues t = []"
  shows "seen_days cx (ds @ [d]) t"
proof -
  have ok: "day_ok cx st committee status d" "pd_candidate_day d \<notin> pd_candidate_day ` set ds"
    using validate_day_iff[OF assms(1,2)] assms(3,4) by blast+
  then obtain c k where c: "day_by_id cx (pd_candidate_day d) = Some c" "cd_active c"
    "week_key (cd_date c) = Inr k" by (auto simp: day_ok_def)
  then have w: "day_week cx d = Some k" by (simp add: day_week_def)
  note s = assms(1)[unfolded seen_days_def]
  from assms(3) c have t:
    "vs_used t = List.insert (pd_candidate_day d) (vs_used s)"
    "\<And>i u. vs_counts t (i, u) = vs_counts s (i, u) + (if known_type u then int (slot_count i u (pd_slots d)) else 0)"
    "vs_weeks t = AList.update k ((case map_of (vs_weeks s) k of None \<Rightarrow> 0 | Some n \<Rightarrow> n) + 1) (vs_weeks s)"
    by (auto simp: validate_proposal_day_def validated_candidate_day_def Let_def validate_exam_day_state_def
        validate_day_assignments_frame validate_day_slots_frame validate_day_slots_counts split: if_splits)
  show ?thesis unfolding seen_days_def t(1,3)
    using s by (auto simp: t(2) w update_conv' distinct_update)
qed

lemma validate_days_iff:
  assumes "seen_days cx pre s" "vs_issues s = []"
  shows "(\<exists>t. fold_res (validate_proposal_day cx st committee status) ds s = Inr t \<and> vs_issues t = []) \<longleftrightarrow>
     distinct (map pd_candidate_day ds) \<and> pd_candidate_day ` set ds \<inter> pd_candidate_day ` set pre = {}
     \<and> (\<forall>d \<in> set ds. day_ok cx st committee status d)"
    (is "?L ds s \<longleftrightarrow> ?R ds pre")
  using assms
proof (induction ds arbitrary: pre s)
  case (Cons d ds)
  let ?v = "validate_proposal_day cx st committee status d s"
  have later: "vs_issues u = []" if "fold_res (validate_proposal_day cx st committee status) xs u = Inr t"
    "vs_issues t = []" for xs u t
    using that
  proof (induction xs arbitrary: u)
    case (Cons x xs)
    then show ?case using validate_day_mono by (auto simp: bnd_Inr_iff)
  qed simp
  show ?case
  proof (cases "\<exists>u. ?v = Inr u \<and> vs_issues u = []")
    case True
    then obtain u where u: "?v = Inr u" "vs_issues u = []" by blast
    from Cons.IH[OF validate_day_seen[OF Cons.prems u] u(2)] validate_day_iff[OF Cons.prems, of st committee status d] u
    show ?thesis by auto
  next
    case False
    then have n: "\<not> (pd_candidate_day d \<notin> pd_candidate_day ` set pre \<and> day_ok cx st committee status d)"
      using validate_day_iff[OF Cons.prems] by blast
    have "\<not> ?L (d # ds) s" using False later by (auto simp: bnd_Inr_iff)
    with n show ?thesis by auto
  qed
qed simp

lemma validate_days_seen:
  assumes "fold_res (validate_proposal_day cx st committee status) ds s = Inr t" "vs_issues t = []"
    and "seen_days cx pre s"
  shows "seen_days cx (pre @ ds) t"
  using assms
proof (induction ds arbitrary: pre s)
  case (Cons d ds)
  from Cons.prems(1) obtain u where u: "validate_proposal_day cx st committee status d s = Inr u"
    "fold_res (validate_proposal_day cx st committee status) ds u = Inr t" by (auto simp: bnd_Inr_iff)
  have i: "vs_issues u = []" using u(2) Cons.prems(2)
  proof (induction ds arbitrary: u)
    case (Cons x xs)
    then show ?case using validate_day_mono by (auto simp: bnd_Inr_iff)
  qed simp
  from Cons.IH[OF u(2) Cons.prems(2) validate_day_seen[OF Cons.prems(3) validate_day_mono[OF u(1) i] u(1) i]]
  show ?case by simp
qed simp

subsection \<open>The whole proposal\<close>

lemma weekly_limits_ok:
  "vs_issues (validate_weekly_day_limits st s) = [] \<longleftrightarrow>
     (\<forall>(k, n) \<in> set (vs_weeks s). n \<le> st_max_days st) \<and> vs_issues s = []"
proof -
  let ?f = "\<lambda>(k, n). report_if (st_max_days st < n) (plan_issue (WeeklyDayLimitExceeded k))"
  have "vs_issues (fold ?f xs s) = [] \<longleftrightarrow> (\<forall>x \<in> set xs. snd x \<le> st_max_days st) \<and> vs_issues s = []" for xs
    by (rule fold_report) (auto split: prod.splits)
  then show ?thesis by (auto simp: validate_weekly_day_limits_def split: prod.splits)
qed

lemma weekly_limits_counts [simp]:
  "vs_counts (validate_weekly_day_limits st s) = vs_counts s"
proof -
  have "vs_counts (fold (\<lambda>(k, n). report_if (st_max_days st < n) (plan_issue (WeeklyDayLimitExceeded k))) xs s)
      = vs_counts s" for xs by (rule fold_frame) (auto split: prod.splits)
  then show ?thesis by (simp add: validate_weekly_day_limits_def)
qed

definition candidate_ok :: "plan_context \<Rightarrow> proposal \<Rightarrow> check \<Rightarrow> plan_candidate \<Rightarrow> bool" where
  "candidate_ok cx p s x \<longleftrightarrow> vs_counts s (cn_id x, ''regular'') = 1
     \<and> vs_counts s (cn_id x, ''mep'') = (if cn_mep x then 1 else 0)
     \<and> map_of (rev (cx_active cx)) (cn_id x) = Some (pp_round p)"

lemma validate_requirements_ok:
  "vs_issues (fold (validate_candidate_requirements cx p) xs s) = [] \<longleftrightarrow>
     (\<forall>x \<in> set xs. candidate_ok cx p s x) \<and> vs_issues s = []"
proof (induction xs arbitrary: s)
  case (Cons x xs)
  have "vs_counts (validate_candidate_requirements cx p x s) = vs_counts s"
    by (simp add: validate_candidate_requirements_def Let_def)
  then have "candidate_ok cx p (validate_candidate_requirements cx p x s) = candidate_ok cx p s"
    by (simp add: candidate_ok_def fun_eq_iff)
  then show ?case using Cons.IH[of "validate_candidate_requirements cx p x s"]
    by (auto simp: validate_candidate_requirements_def Let_def candidate_ok_def)
qed simp

lemma seen_weeks:
  assumes "seen_days cx ds t" "\<forall>d \<in> set ds. \<exists>k. day_week cx d = Some k"
  shows "(\<forall>(k, n) \<in> set (vs_weeks t). n \<le> m) \<longleftrightarrow>
    (\<forall>d \<in> set ds. \<forall>k. day_week cx d = Some k \<longrightarrow> int (week_days cx k ds) \<le> m)"
proof -
  have k: "(k, n) \<in> set (vs_weeks t) \<longleftrightarrow> week_days cx k ds \<noteq> 0 \<and> n = int (week_days cx k ds)" for k n
    using assms(1) by (auto simp: seen_days_def map_of_eq_Some_iff[symmetric] simp del: map_of_eq_Some_iff)
  have "week_days cx k ds \<noteq> 0 \<longleftrightarrow> (\<exists>d \<in> set ds. day_week cx d = Some k)" for k
    by (auto simp: week_days_def filter_empty_conv)
  moreover have "(\<forall>(k, n) \<in> set (vs_weeks t). n \<le> m) \<longleftrightarrow>
      (\<forall>k n. (k, n) \<in> set (vs_weeks t) \<longrightarrow> n \<le> m)" by auto
  ultimately show ?thesis by (auto simp del: not_gr_zero simp: k)
qed

lemma validate_iff: "validate_proposal cx status p = Inr [] \<longleftrightarrow> plan_ok cx status p"
proof (cases "cx_round cx = None \<or> cx_settings cx = None")
  case True
  then show ?thesis by (auto simp: validate_proposal_def plan_ok_def split: option.splits)
next
  case False
  then obtain r st where cx: "cx_round cx = Some r" "cx_settings cx = Some st" by auto
  let ?V = "validate_proposal_day cx st (er_committee r) status"
  define s0 where "s0 = empty_check (if pp_days p = [] then [plan_issue PlanEmpty] else [])"
  have s0: "vs_issues s0 = [] \<longleftrightarrow> pp_days p \<noteq> []" "seen_days cx [] s0"
    by (simp_all add: s0_def seen_days_Nil) (simp add: empty_check_def)
  have v: "validate_proposal cx status p = Inr [] \<longleftrightarrow> (\<exists>t. fold_res ?V (pp_days p) s0 = Inr t
      \<and> vs_issues t = [] \<and> (\<forall>(k, n) \<in> set (vs_weeks t). n \<le> st_max_days st)
      \<and> (\<forall>x \<in> set (cx_candidates cx). candidate_ok cx p t x))"
    by (auto simp: validate_proposal_def cx bnd_Inr_iff s0_def validate_requirements_ok weekly_limits_ok
        candidate_ok_def)
  show ?thesis
  proof (cases "\<exists>t. fold_res ?V (pp_days p) s0 = Inr t \<and> vs_issues t = []")
    case True
    then obtain t where t: "fold_res ?V (pp_days p) s0 = Inr t" "vs_issues t = []" by blast
    have i: "vs_issues s0 = []"
    proof (cases "pp_days p")
      case Nil
      then show ?thesis using t by simp
    qed (simp add: s0)
    have seen: "seen_days cx (pp_days p) t" using validate_days_seen[OF t s0(2)] by simp
    have days: "distinct (map pd_candidate_day (pp_days p))"
      "\<forall>d \<in> set (pp_days p). day_ok cx st (er_committee r) status d"
      using True validate_days_iff[OF s0(2) i, of st "er_committee r" status "pp_days p"] by auto
    then have wk: "\<forall>d \<in> set (pp_days p). \<exists>k. day_week cx d = Some k"
      by (force simp: day_ok_def day_week_def)
    have c: "candidate_ok cx p t x \<longleftrightarrow> slot_count (cn_id x) ''regular'' (plan_slots p) = 1
          \<and> slot_count (cn_id x) ''mep'' (plan_slots p) = (if cn_mep x then 1 else 0)
          \<and> map_of (rev (cx_active cx)) (cn_id x) = Some (pp_round p)" for x
      using seen by (auto simp: candidate_ok_def seen_days_def known_type_def plan_slots_def)
    have "plan_ok cx status p \<longleftrightarrow> (\<forall>(k, n) \<in> set (vs_weeks t). n \<le> st_max_days st)
      \<and> (\<forall>x \<in> set (cx_candidates cx). candidate_ok cx p t x)"
      unfolding plan_ok_def seen_weeks[OF seen wk] c using cx days i s0(1) by simp
    then show ?thesis unfolding v using t by auto
  next
    case False
    then have "\<not> plan_ok cx status p"
      using validate_days_iff[OF s0(2), of st "er_committee r" status "pp_days p"] s0(1) cx
      by (auto simp: plan_ok_def)
    with False show ?thesis unfolding v by blast
  qed
qed

lemma raise_for_invalid_iff: "raise_for_invalid cx status p = Inr () \<longleftrightarrow> plan_ok cx status p"
  unfolding validate_iff[symmetric] by (auto simp: raise_for_invalid_def bnd_Inr_iff require_Inr_iff)

end
