(* ===== verification/Plan_Crew.thy ===== *)
theory Plan_Crew
  imports Plan_Generate Plan_Spec
begin

text \<open>
  What the crew selection of the generator promises: a crew exists exactly when every side is
  represented and a fourth person is free, the chosen examiners are the least loaded of their side,
  and the assignments made of a crew satisfy the crew contract of the validation.
\<close>

subsection \<open>Selection\<close>

lemma by_load_set [simp]: "set (by_load load ms) = set ms"
  by (simp add: by_load_def)

lemma by_load_Nil_iff [simp]: "by_load load ms = [] \<longleftrightarrow> ms = []"
  by (metis by_load_set set_empty)

lemma by_load_Nil [simp]: "by_load load [] = []"
  by (simp add: by_load_def)

lemma by_load_hd:
  assumes "by_load load ms = m # r" "x \<in> set ms"
  shows "(load (mb_id m), mb_id m) \<le> (load (mb_id x), mb_id x)"
proof -
  have "sorted (map (\<lambda>m. (load (mb_id m), mb_id m)) (m # r))"
    using assms(1) by (metis by_load_def sorted_sort_key)
  moreover have "x \<in> set (m # r)" using assms by (metis by_load_set)
  ultimately show ?thesis by auto
qed

text \<open>The examiners a selection picked, in the order of the sides.\<close>

lemma pick_sides_Some:
  assumes "pick_sides load ms ss crew = Some res"
  shows "\<exists>xs. res = crew @ map mb_id xs \<and> map mb_side xs = ss \<and> set xs \<subseteq> set ms
    \<and> distinct (map mb_id xs) \<and> mb_id ` set xs \<inter> set crew = {}
    \<and> (\<forall>x \<in> set xs. \<forall>y \<in> set ms. mb_side y = mb_side x \<longrightarrow> mb_id y \<notin> set res \<longrightarrow>
         (load (mb_id x), mb_id x) \<le> (load (mb_id y), mb_id y))"
  using assms
proof (induction ss arbitrary: crew)
  case (Cons s ss)
  let ?o = "filter (\<lambda>m. mb_side m = s \<and> mb_id m \<notin> set crew) ms"
  from Cons.prems obtain m r where m: "by_load load ?o = m # r"
    and rest: "pick_sides load ms ss (crew @ [mb_id m]) = Some res" by (auto split: list.splits)
  have "m \<in> set ?o" using m by (metis by_load_set list.set_intros(1))
  then have s: "mb_side m = s" "mb_id m \<notin> set crew" "m \<in> set ms" by auto
  from Cons.IH[OF rest] obtain xs where xs: "res = (crew @ [mb_id m]) @ map mb_id xs" "map mb_side xs = ss"
    "set xs \<subseteq> set ms" "distinct (map mb_id xs)" "mb_id ` set xs \<inter> set (crew @ [mb_id m]) = {}"
    "\<forall>x \<in> set xs. \<forall>y \<in> set ms. mb_side y = mb_side x \<longrightarrow> mb_id y \<notin> set res \<longrightarrow>
         (load (mb_id x), mb_id x) \<le> (load (mb_id y), mb_id y)" by blast
  have "(load (mb_id m), mb_id m) \<le> (load (mb_id y), mb_id y)"
    if "y \<in> set ms" "mb_side y = mb_side m" "mb_id y \<notin> set res" for y
    by (rule by_load_hd[OF m]) (use that s xs(1) in auto)
  with xs s show ?case by (intro exI[of _ "m # xs"]) (auto simp del: less_eq_prod_simp)
qed auto

lemma pick_sides_None:
  assumes "pick_sides load ms ss crew = None" "distinct ss"
  shows "\<exists>s \<in> set ss. \<forall>m \<in> set ms. mb_side m = s \<longrightarrow> mb_id m \<in> set crew \<or>
    (\<exists>x \<in> set ms. mb_side x \<noteq> s \<and> mb_id x = mb_id m)"
  using assms
proof (induction ss arbitrary: crew)
  case (Cons s ss)
  let ?o = "filter (\<lambda>m. mb_side m = s \<and> mb_id m \<notin> set crew) ms"
  show ?case
  proof (cases "?o = []")
    case True
    then show ?thesis by (intro bexI[of _ s]) (auto simp: filter_empty_conv)
  next
    case False
    then obtain m r where m: "by_load load ?o = m # r" by (cases "by_load load ?o") (simp_all add: by_load_Nil_iff)
    have "m \<in> set ?o" using m by (metis by_load_set list.set_intros(1))
    then have s: "mb_side m = s" "m \<in> set ms" by auto
    have "pick_sides load ms ss (crew @ [mb_id m]) = None" using Cons.prems m by simp
    from Cons.IH[OF this] Cons.prems(2) obtain t where t: "t \<in> set ss" "\<forall>x \<in> set ms. mb_side x = t \<longrightarrow>
      mb_id x \<in> set (crew @ [mb_id m]) \<or> (\<exists>y \<in> set ms. mb_side y \<noteq> t \<and> mb_id y = mb_id x)" by auto
    have "mb_side m \<noteq> t" using s t(1) Cons.prems(2) by auto
    then show ?thesis using t s(2) by (intro bexI[of _ t] ballI impI) fastforce+
  qed
qed simp

definition crew_possible :: "member list \<Rightarrow> bool" where
  "crew_possible ms \<longleftrightarrow> (\<forall>s. \<exists>m \<in> set ms. mb_side m = s) \<and> 4 \<le> length ms"

lemma set_sides [simp]: "set sides = UNIV" "distinct sides" "length sides = 3"
proof -
  have "x \<in> set sides" for x by (cases x) (simp_all add: sides_def)
  then show "set sides = UNIV" by blast
qed (simp_all add: sides_def)

text \<open>The members a crew consists of.\<close>

definition crew_of :: "member list \<Rightarrow> load \<Rightarrow> shift_crew \<Rightarrow> member list \<Rightarrow> member \<Rightarrow> bool" where
  "crew_of ms load c xs f \<longleftrightarrow> sc_crew c = map mb_id xs \<and> sc_fallback c = mb_id f
     \<and> map mb_side xs = sides \<and> set xs \<subseteq> set ms \<and> f \<in> set ms
     \<and> distinct (map mb_id (xs @ [f]))
     \<and> (\<forall>x \<in> set xs. \<forall>y \<in> set ms. mb_side y = mb_side x \<longrightarrow> mb_id y \<notin> set (sc_crew c) \<longrightarrow>
          (load (mb_id x), mb_id x) \<le> (load (mb_id y), mb_id y))
     \<and> (\<forall>y \<in> set ms. mb_id y \<notin> set (sc_crew c) \<longrightarrow> (load (mb_id f), mb_id f) \<le> (load (mb_id y), mb_id y))"

lemma choose_shift_crew_Some:
  assumes "choose_shift_crew cx d part load = Some c"
  shows "\<exists>xs f. crew_of (available_members cx d part) load c xs f"
proof -
  let ?ms = "available_members cx d part"
  from assms obtain crew m r where p: "pick_sides load ?ms sides [] = Some crew"
    and f: "by_load load (filter (\<lambda>m. mb_id m \<notin> set crew) ?ms) = m # r"
    and c: "c = \<lparr>sc_crew = crew, sc_fallback = mb_id m\<rparr>"
    by (auto simp: choose_shift_crew_def Let_def split: option.splits list.splits)
  have m: "m \<in> set (filter (\<lambda>m. mb_id m \<notin> set crew) ?ms)"
    using f by (metis by_load_set list.set_intros(1))
  have l: "(load (mb_id m), mb_id m) \<le> (load (mb_id y), mb_id y)"
    if "y \<in> set ?ms" "mb_id y \<notin> set crew" for y by (rule by_load_hd[OF f]) (use that in auto)
  from pick_sides_Some[OF p] obtain xs where xs: "crew = map mb_id xs" "map mb_side xs = sides"
    "set xs \<subseteq> set ?ms" "distinct (map mb_id xs)"
    "\<forall>x \<in> set xs. \<forall>y \<in> set ?ms. mb_side y = mb_side x \<longrightarrow> mb_id y \<notin> set crew \<longrightarrow>
         (load (mb_id x), mb_id x) \<le> (load (mb_id y), mb_id y)" by auto
  have "crew_of ?ms load c xs m" unfolding crew_of_def c shift_crew.simps
    using xs m l by (simp del: less_eq_prod_simp)
  then show ?thesis by blast
qed

lemma choose_shift_crew_None_iff:
  assumes "distinct (map mb_id (cx_members cx))"
  shows "choose_shift_crew cx d part load = None \<longleftrightarrow> \<not> crew_possible (available_members cx d part)"
proof -
  let ?ms = "available_members cx d part"
  have dm: "distinct (map mb_id ?ms)" using assms by (simp add: available_members_def Let_def distinct_map_filter)
  then have inj: "inj_on mb_id (set ?ms)" by (simp add: distinct_map)
  show ?thesis
  proof (cases "pick_sides load ?ms sides []")
    case None
    from pick_sides_None[OF None] obtain s where s: "\<forall>m \<in> set ?ms. mb_side m = s \<longrightarrow>
        (\<exists>x \<in> set ?ms. mb_side x \<noteq> s \<and> mb_id x = mb_id m)" by (auto simp: sides_def)
    have "\<forall>m \<in> set ?ms. mb_side m \<noteq> s" using s inj by (metis inj_onD)
    then have "\<not> crew_possible ?ms" by (auto simp: crew_possible_def)
    then show ?thesis by (simp add: choose_shift_crew_def None)
  next
    case (Some crew)
    from pick_sides_Some[OF Some] obtain xs where xs: "crew = map mb_id xs" "map mb_side xs = sides"
      "set xs \<subseteq> set ?ms" "distinct (map mb_id xs)" by auto
    have l: "length xs = 3" using arg_cong[OF xs(2), of length] by simp
    have sd0: "s \<in> mb_side ` set xs" for s using arg_cong[OF xs(2), of set] by simp
    have sd: "\<exists>m \<in> set ?ms. mb_side m = s" for s using sd0[of s] xs(3) by blast
    have "m \<in> set xs" if "m \<in> set ?ms" "mb_id m \<in> mb_id ` set xs" for m
    proof -
      from that(2) obtain x where "x \<in> set xs" "mb_id m = mb_id x" by auto
      with that(1) xs(3) inj show ?thesis by (auto dest: inj_onD)
    qed
    then have "filter (\<lambda>m. mb_id m \<notin> set crew) ?ms = [] \<longleftrightarrow> set ?ms = set xs"
      using xs(1,3) by (auto simp: filter_empty_conv)
    also have "\<dots> \<longleftrightarrow> length ?ms = 3"
    proof
      assume "set ?ms = set xs"
      moreover have "distinct ?ms" "distinct xs" using dm xs(4) by (simp_all add: distinct_map)
      ultimately show "length ?ms = 3" using l by (metis distinct_card)
    next
      assume "length ?ms = 3"
      moreover have "distinct ?ms" "distinct xs" using dm xs(4) by (simp_all add: distinct_map)
      ultimately have "card (set xs) = card (set ?ms)" using l by (simp add: distinct_card)
      then show "set ?ms = set xs" using xs(3) by (metis List.finite_set card_subset_eq)
    qed
    finally have e: "filter (\<lambda>m. mb_id m \<notin> set crew) ?ms = [] \<longleftrightarrow> length ?ms = 3" .
    have "3 \<le> length ?ms" using l xs(3,4) dm
      by (metis List.finite_set card_mono distinct_card distinct_map)
    then have "crew_possible ?ms \<longleftrightarrow> length ?ms \<noteq> 3" using sd by (auto simp: crew_possible_def)
    moreover have n: "filter (\<lambda>m. mb_id m \<notin> set crew) ?ms = [] \<longleftrightarrow>
        by_load load (filter (\<lambda>m. mb_id m \<notin> set crew) ?ms) = []" by simp
    moreover have "choose_shift_crew cx d part load = None \<longleftrightarrow> filter (\<lambda>m. mb_id m \<notin> set crew) ?ms = []"
      unfolding n choose_shift_crew_def Some Let_def option.case
      by (cases "by_load load (filter (\<lambda>m. mb_id m \<notin> set crew) ?ms)") simp_all
    ultimately show ?thesis using e by blast
  qed
qed

end
