(* ===== verification/Plan_Complete.thy ===== *)
theory Plan_Complete
  imports Plan_Crew "HOL-Library.Sublist"
begin

text \<open>
  The generator against the validation: when the generator places every exam, the normalised
  proposal is a valid plan, and when it does not, the validation rejects it. The lemmas follow the
  planned days through the weeks and the candidates through the two queues.
\<close>

subsection \<open>Well-formed contexts\<close>

definition cx_wf :: "plan_context \<Rightarrow> exam_round \<Rightarrow> plan_settings \<Rightarrow> bool" where
  "cx_wf cx r st \<longleftrightarrow> cx_round cx = Some r \<and> cx_settings cx = Some st \<and> 1 \<le> st_exams_per_day st
     \<and> distinct (map cn_id (cx_candidates cx)) \<and> distinct (map cd_id (cx_days cx))
     \<and> distinct (map mb_id (cx_members cx))
     \<and> (\<forall>m \<in> set (cx_members cx). mb_active m \<and> mb_committee m = er_committee r)
     \<and> (\<exists>room. st_room st = Some room \<and> room \<in> set (cx_rooms cx))
     \<and> (\<forall>x \<in> set (cx_candidates cx). map_of (rev (cx_active cx)) (cn_id x) = Some (er_id r))"

subsection \<open>Planned days\<close>

definition planned_ok :: "plan_context \<Rightarrow> plan_settings \<Rightarrow> planned_day \<Rightarrow> bool" where
  "planned_ok cx st d \<longleftrightarrow> (\<exists>c load. c \<in> set (active_days cx) \<and> cd_id c = pl_day d \<and> cd_date c = pl_date d
     \<and> 1 \<le> pl_exams d \<and> pl_exams d \<le> st_exams_per_day st
     \<and> choose_shift_crew cx (pl_day d) ''morning'' load = Some (pl_morning d)
     \<and> pl_afternoon d = (if 4 < pl_exams d then choose_shift_crew cx (pl_day d) ''afternoon'' load else None)
     \<and> (4 < pl_exams d \<longrightarrow> pl_afternoon d \<noteq> None) \<and> pl_regular d = [] \<and> pl_mep d = [])"

definition option_ok :: "plan_context \<Rightarrow> plan_settings \<Rightarrow> day_option \<Rightarrow> bool" where
  "option_ok cx st x \<longleftrightarrow> op_day x \<in> set (active_days cx) \<and> 1 \<le> op_capacity x
     \<and> op_capacity x \<le> st_exams_per_day st"

definition total_exams :: "planned_day list \<Rightarrow> int" where
  "total_exams ds = sum_list (map pl_exams ds)"

lemma total_exams_simps [simp]: "total_exams [] = 0" "total_exams (d # ds) = pl_exams d + total_exams ds"
  "total_exams (ds @ es) = total_exams ds + total_exams es"
  by (simp_all add: total_exams_def)

lemma plan_day_option_ok:
  assumes "plan_day_option cx x load remaining = (Some d, ms)" "option_ok cx st x" "0 < remaining"
  shows "planned_ok cx st d" "pl_exams d \<le> remaining" "pl_day d = cd_id (op_day x)"
proof -
  let ?d = "cd_id (op_day x)" and ?exams = "min (op_capacity x) remaining"
  let ?a = "if 4 < ?exams then choose_shift_crew cx ?d ''afternoon'' load else None"
  from assms(1) obtain m where m: "choose_shift_crew cx ?d ''morning'' load = Some m"
    by (auto simp: plan_day_option_def Let_def split: option.splits)
  then have d: "d = \<lparr>pl_date = cd_date (op_day x), pl_day = ?d, pl_exams = ?exams, pl_morning = m,
      pl_afternoon = ?a, pl_regular = [], pl_mep = []\<rparr>" and a: "\<not> (4 < ?exams \<and> ?a = None)"
    using assms(1) unfolding plan_day_option_def Let_def by (auto split: if_split_asm)
  show "pl_exams d \<le> remaining" "pl_day d = cd_id (op_day x)" by (simp_all add: d)
  show "planned_ok cx st d" unfolding planned_ok_def
    by (rule exI[of _ "op_day x"], rule exI[of _ load])
      (use assms(2,3) m a in \<open>auto simp: d option_ok_def min_le_iff_disj\<close>)
qed

lemma plan_week_new:
  assumes "\<forall>x \<in> set xs. option_ok cx st x" "0 \<le> bs_remaining s"
  shows "\<exists>new. bs_days (plan_week cx st xs used s) = bs_days s @ new
    \<and> bs_remaining (plan_week cx st xs used s) = bs_remaining s - total_exams new
    \<and> 0 \<le> bs_remaining (plan_week cx st xs used s)
    \<and> subseq (map pl_day new) (map (\<lambda>x. cd_id (op_day x)) xs)
    \<and> (\<forall>d \<in> set new. planned_ok cx st d) \<and> int (length new) \<le> max 0 (st_max_days st - used)"
  using assms
proof (induction xs arbitrary: used s)
  case Nil
  then show ?case by (intro exI[of _ "[]"]) simp
next
  case (Cons x xs)
  show ?case
  proof (cases "bs_remaining s \<le> 0 \<or> st_max_days st \<le> used")
    case True
    then show ?thesis using Cons.prems by (intro exI[of _ "[]"]) simp
  next
    case False
    obtain o' ms where p: "plan_day_option cx x (bs_load s) (bs_remaining s) = (o', ms)" by fastforce
    show ?thesis
    proof (cases o')
      case None
      let ?s = "s\<lparr>bs_messages := bs_messages s @ ms\<rparr>"
      have w: "plan_week cx st (x # xs) used s = plan_week cx st xs used ?s" using False p None by simp
      from Cons.IH[of ?s used] Cons.prems obtain new where
        "bs_days (plan_week cx st xs used ?s) = bs_days s @ new
          \<and> bs_remaining (plan_week cx st xs used ?s) = bs_remaining s - total_exams new
          \<and> 0 \<le> bs_remaining (plan_week cx st xs used ?s)
          \<and> subseq (map pl_day new) (map (\<lambda>x. cd_id (op_day x)) xs)
          \<and> (\<forall>d \<in> set new. planned_ok cx st d) \<and> int (length new) \<le> max 0 (st_max_days st - used)"
        by auto
      then show ?thesis unfolding w by (intro exI[of _ new]) (simp add: list_emb_Cons)
    next
      case (Some d)
      note d = plan_day_option_ok[OF p[unfolded Some], of st]
      define l where "l = (case pl_afternoon d of None \<Rightarrow> apply_load (pl_morning d) (bs_load s)
        | Some c \<Rightarrow> apply_load c (apply_load (pl_morning d) (bs_load s)))"
      let ?s = "s\<lparr>bs_load := l, bs_messages := bs_messages s @ ms, bs_days := bs_days s @ [d],
        bs_remaining := bs_remaining s - pl_exams d\<rparr>"
      have w: "plan_week cx st (x # xs) used s = plan_week cx st xs (used + 1) ?s"
        using False p Some by (simp add: l_def Let_def)
      have ok: "planned_ok cx st d" "pl_exams d \<le> bs_remaining s" "pl_day d = cd_id (op_day x)"
        using d Cons.prems False by auto
      from Cons.IH[of ?s "used + 1"] Cons.prems ok(2) obtain new where n:
        "bs_days (plan_week cx st xs (used + 1) ?s) = (bs_days s @ [d]) @ new"
        "bs_remaining (plan_week cx st xs (used + 1) ?s) = bs_remaining s - pl_exams d - total_exams new"
        "0 \<le> bs_remaining (plan_week cx st xs (used + 1) ?s)"
        "subseq (map pl_day new) (map (\<lambda>x. cd_id (op_day x)) xs)"
        "\<forall>d \<in> set new. planned_ok cx st d" "int (length new) \<le> max 0 (st_max_days st - (used + 1))"
        by auto
      show ?thesis unfolding w
        by (rule exI[of _ "d # new"]) (use n ok(1,3) False in auto)
    qed
  qed
qed

lemma subseq_set: "subseq xs ys \<Longrightarrow> set xs \<subseteq> set ys"
  by (induction rule: list_emb.induct) auto

lemma subseq_distinct: "subseq xs ys \<Longrightarrow> distinct ys \<Longrightarrow> distinct xs"
proof (induction rule: list_emb.induct)
  case (list_emb_Cons2 x y xs ys)
  then show ?case using subseq_set[OF list_emb_Cons2(2)] by auto
qed auto

lemma planning_options_ok:
  assumes "planning_options_for_week cx st ds load = (os, ms)" "set ds \<subseteq> set (active_days cx)"
    and "1 \<le> st_exams_per_day st" "distinct (map cd_id ds)"
  shows "\<forall>x \<in> set os. option_ok cx st x" "distinct (map (\<lambda>x. cd_id (op_day x)) os)"
    "(\<lambda>x. cd_id (op_day x)) ` set os \<subseteq> cd_id ` set ds"
proof -
  have step: "\<exists>new. fst (fold (week_option cx st load) xs om) = fst om @ new
      \<and> (\<forall>x \<in> set new. op_day x \<in> set xs \<and> (op_capacity x = st_exams_per_day st \<or> op_capacity x = 4 \<and> 4 < st_exams_per_day st))
      \<and> subseq (map op_day new) xs" for xs om
  proof (induction xs arbitrary: om)
    case (Cons d xs)
    show ?case
    proof (cases "choose_shift_crew cx (cd_id d) ''morning'' load")
      case None
      then have "fst (week_option cx st load d om) = fst om" by (cases om) (simp add: week_option_def)
      with Cons[of "week_option cx st load d om"] show ?thesis by (fastforce intro: list_emb_Cons)
    next
      case (Some c)
      define x where "x = \<lparr>op_day = d, op_capacity =
              (if 4 < st_exams_per_day st \<and> choose_shift_crew cx (cd_id d) ''afternoon'' load = None
               then 4 else st_exams_per_day st)\<rparr>"
      have "fst (week_option cx st load d om) = fst om @ [x]"
        by (cases om) (simp add: week_option_def Some x_def)
      with Cons[of "week_option cx st load d om"] obtain new where
        "fst (fold (week_option cx st load) (d # xs) om) = fst om @ x # new"
        "\<forall>x \<in> set new. op_day x \<in> set xs \<and> (op_capacity x = st_exams_per_day st \<or> op_capacity x = 4 \<and> 4 < st_exams_per_day st)"
        "subseq (map op_day new) xs" by auto
      then show ?thesis by (intro exI[of _ "x # new"]) (auto simp: x_def)
    qed
  qed simp
  from step[of "sort_key cd_date ds" "([], [])"] obtain new where new:
    "fst (fold (week_option cx st load) (sort_key cd_date ds) ([], [])) = new"
    "\<forall>x \<in> set new. op_day x \<in> set ds \<and> (op_capacity x = st_exams_per_day st \<or> op_capacity x = 4 \<and> 4 < st_exams_per_day st)"
    "subseq (map op_day new) (sort_key cd_date ds)" by auto
  have os: "os = sort_key (\<lambda>x. (- op_capacity x, cd_date (op_day x))) new"
    using assms(1) new(1) by (simp add: planning_options_for_week_def Let_def case_prod_beta)
  have "distinct (map cd_id (sort_key cd_date ds))"
    using assms(4) by (metis distinct_map distinct_sort set_sort)
  then have "distinct (map cd_id (map op_day new))"
    using subseq_map[OF new(3), of cd_id] by (metis subseq_distinct)
  then have "distinct (map (\<lambda>x. cd_id (op_day x)) new)" by (simp add: comp_def)
  then show "distinct (map (\<lambda>x. cd_id (op_day x)) os)" unfolding os
    by (metis distinct_map distinct_sort set_sort)
  show "(\<lambda>x. cd_id (op_day x)) ` set os \<subseteq> cd_id ` set ds" using new(2) by (auto simp: os)
  show "\<forall>x \<in> set os. option_ok cx st x" using new(2) assms(2,3) by (fastforce simp: os option_ok_def)
qed

subsection \<open>Weeks\<close>

text \<open>Grouping keeps every day once, under the key of its week.\<close>

definition day_key :: "candidate_day \<Rightarrow> string option" where
  "day_key c = (case week_key (cd_date c) of Inl _ \<Rightarrow> None | Inr k \<Rightarrow> Some k)"

definition grouped :: "candidate_day list \<Rightarrow> (string \<times> candidate_day list) list \<Rightarrow> bool" where
  "grouped ds g \<longleftrightarrow> distinct (map fst g)
     \<and> (\<forall>(k, xs) \<in> set g. (\<forall>d \<in> set xs. d \<in> set ds \<and> day_key d = Some k) \<and> distinct (map cd_id xs))"

lemma group_days_step:
  assumes "grouped ds g" "week_key (cd_date d) = Inr k" "distinct (map cd_id (ds @ [d]))"
  shows "grouped (ds @ [d]) (AList.update k ((case map_of g k of None \<Rightarrow> [] | Some xs \<Rightarrow> xs) @ [d]) g)"
proof -
  let ?o = "case map_of g k of None \<Rightarrow> [] | Some xs \<Rightarrow> xs"
  have old: "\<forall>x \<in> set ?o. x \<in> set ds \<and> day_key x = Some k" "distinct (map cd_id ?o)"
    using assms(1) by (auto simp: grouped_def dest!: map_of_SomeD split: option.splits)
  have d: "day_key d = Some k" using assms(2) by (simp add: day_key_def)
  have dis: "cd_id d \<notin> cd_id ` set ?o" using old(1) assms(3) by auto
  have m: "(j, xs) = (k, ?o @ [d]) \<or> (j, xs) \<in> set g"
    if "(j, xs) \<in> set (AList.update k (?o @ [d]) g)" for j xs
  proof -
    have "distinct (map fst (AList.update k (?o @ [d]) g))"
      using assms(1) by (simp add: grouped_def distinct_update)
    from map_of_is_SomeI[OF this that] have "((map_of g)(k \<mapsto> ?o @ [d])) j = Some xs"
      by (simp only: update_conv')
    then show ?thesis by (cases "j = k") (auto dest: map_of_SomeD)
  qed
  show ?thesis unfolding grouped_def
  proof (intro conjI ballI)
    show "distinct (map fst (AList.update k (?o @ [d]) g))"
      using assms(1) by (simp add: grouped_def distinct_update)
  next
    fix p assume "p \<in> set (AList.update k (?o @ [d]) g)"
    with m[of "fst p" "snd p"] have "p = (k, ?o @ [d]) \<or> p \<in> set g" by simp
    then show "case p of (k, xs) \<Rightarrow> (\<forall>x \<in> set xs. x \<in> set (ds @ [d]) \<and> day_key x = Some k) \<and> distinct (map cd_id xs)"
    proof
      assume "p = (k, ?o @ [d])"
      then show ?thesis using old d dis by simp
    next
      assume "p \<in> set g"
      then show ?thesis using assms(1) by (auto simp: grouped_def)
    qed
  qed
qed

lemma group_days_grouped:
  assumes "group_days ds = Inr g" "distinct (map cd_id ds)"
  shows "grouped ds g"
proof -
  let ?f = "\<lambda>d g. bnd (week_key (cd_date d)) (\<lambda>k.
     Inr (AList.update k ((case map_of g k of None \<Rightarrow> [] | Some xs \<Rightarrow> xs) @ [d]) g))"
  have "grouped (pre @ xs) h" if "fold_res ?f xs g0 = Inr h" "grouped pre g0" "distinct (map cd_id (pre @ xs))"
    for xs pre g0 h
    using that
  proof (induction xs arbitrary: pre g0)
    case (Cons x xs)
    from Cons.prems(1) obtain k where k: "week_key (cd_date x) = Inr k" "fold_res ?f xs (AList.update k
        ((case map_of g0 k of None \<Rightarrow> [] | Some xs \<Rightarrow> xs) @ [x]) g0) = Inr h" by (auto simp: bnd_Inr_iff)
    have "distinct (map cd_id (pre @ [x]))" using Cons.prems(3) by auto
    from Cons.IH[OF k(2) group_days_step[OF Cons.prems(2) k(1) this]] Cons.prems(3) show ?case by simp
  qed simp
  from this[of ds "[]" g "[]"] assms show ?thesis by (simp add: group_days_def grouped_def)
qed

text \<open>The planned days of all weeks.\<close>

definition week_of_planned :: "plan_context \<Rightarrow> planned_day \<Rightarrow> string option" where
  "week_of_planned cx d = (case week_key (pl_date d) of Inl _ \<Rightarrow> None | Inr k \<Rightarrow> Some k)"

definition weeks_ok :: "plan_context \<Rightarrow> plan_settings \<Rightarrow> string set \<Rightarrow> planned_day list \<Rightarrow> bool" where
  "weeks_ok cx st ks ds \<longleftrightarrow> (\<forall>d \<in> set ds. planned_ok cx st d \<and> (\<exists>k \<in> ks. week_of_planned cx d = Some k))
     \<and> distinct (map pl_day ds)
     \<and> (\<forall>d \<in> set ds. \<forall>k. week_of_planned cx d = Some k \<longrightarrow>
          int (length (filter (\<lambda>d. week_of_planned cx d = Some k) ds)) \<le> st_max_days st)"

lemma planned_day_eq:
  assumes "planned_ok cx st d" "distinct (map cd_id (cx_days cx))" "c \<in> set (active_days cx)" "cd_id c = pl_day d"
  shows "pl_date d = cd_date c"
proof -
  from assms(1) obtain c' where c': "c' \<in> set (active_days cx)" "cd_id c' = pl_day d" "cd_date c' = pl_date d"
    by (auto simp: planned_ok_def)
  have "c' = c" using assms(2-4) c'(1,2) by (auto simp: active_days_def distinct_map inj_on_def)
  with c' show ?thesis by simp
qed

lemma plan_weeks_ok:
  assumes "grouped (active_days cx) g" "distinct (map cd_id (cx_days cx))" "1 \<le> st_exams_per_day st"
    and "weeks_ok cx st ks (bs_days s)" "ks \<inter> fst ` set h = {}" "set h \<subseteq> set g" "distinct (map fst h)"
    and "0 \<le> bs_remaining s"
  shows "\<exists>new. bs_days (plan_weeks cx st (map snd h) s) = bs_days s @ new
    \<and> bs_remaining (plan_weeks cx st (map snd h) s) = bs_remaining s - total_exams new
    \<and> 0 \<le> bs_remaining (plan_weeks cx st (map snd h) s)
    \<and> weeks_ok cx st (ks \<union> fst ` set h) (bs_days s @ new)"
  using assms(4-8)
proof (induction h arbitrary: s ks)
  case Nil
  then show ?case by (simp add: plan_weeks_def)
next
  case (Cons p h)
  obtain k ds where p: "p = (k, ds)" by fastforce
  obtain os ms where o': "planning_options_for_week cx st ds (bs_load s) = (os, ms)" by fastforce
  let ?s = "s\<lparr>bs_messages := bs_messages s @ ms\<rparr>"
  let ?t = "plan_week cx st os 0 ?s"
  have w: "plan_weeks cx st (map snd (p # h)) s = plan_weeks cx st (map snd h) ?t"
    by (simp add: plan_weeks_def p o')
  have g: "\<forall>d \<in> set ds. d \<in> set (active_days cx) \<and> day_key d = Some k" "distinct (map cd_id ds)"
    using assms(1) Cons.prems(3) by (auto simp: grouped_def p)
  have sub: "set ds \<subseteq> set (active_days cx)" using g by blast
  note os = planning_options_ok[OF o' sub assms(3) g(2)]
  from plan_week_new[OF os(1), of ?s 0] Cons.prems(5) obtain new where new:
    "bs_days ?t = bs_days s @ new" "bs_remaining ?t = bs_remaining s - total_exams new" "0 \<le> bs_remaining ?t"
    "subseq (map pl_day new) (map (\<lambda>x. cd_id (op_day x)) os)" "\<forall>d \<in> set new. planned_ok cx st d"
    "int (length new) \<le> max 0 (st_max_days st)" by auto
  have dn: "distinct (map pl_day new)" using subseq_distinct[OF new(4) os(2)] .
  have "pl_day ` set new \<subseteq> cd_id ` set ds"
    using os(3) subseq_set[OF new(4)] by auto
  then have wk: "week_of_planned cx d = Some k" if d: "d \<in> set new" for d
  proof -
    from that \<open>pl_day ` set new \<subseteq> cd_id ` set ds\<close> obtain c where c: "c \<in> set ds" "cd_id c = pl_day d" by force
    have "pl_date d = cd_date c" using planned_day_eq[OF bspec[OF new(5) d] assms(2)] c g(1) by blast
    then show ?thesis using g(1) c by (auto simp: week_of_planned_def day_key_def split: sum.splits)
  qed
  have old: "week_of_planned cx d \<noteq> Some k" if "d \<in> set (bs_days s)" for d
    using that Cons.prems(1,2) by (auto simp: weeks_ok_def p)
  have cnt: "filter (\<lambda>d. week_of_planned cx d = Some k) (bs_days s @ new) = new"
    using old wk by (simp add: filter_empty_conv filter_id_conv)
  have cnt': "j \<noteq> k \<Longrightarrow> filter (\<lambda>d. week_of_planned cx d = Some j) (bs_days s @ new)
      = filter (\<lambda>d. week_of_planned cx d = Some j) (bs_days s)" for j
    using wk by (simp add: filter_empty_conv)
  have dd: "pl_day d \<noteq> pl_day e" if d: "d \<in> set (bs_days s)" and e: "e \<in> set new" for d e
  proof
    assume eq: "pl_day d = pl_day e"
    have p: "planned_ok cx st d" using d Cons.prems(1) by (simp add: weeks_ok_def)
    obtain c where c: "c \<in> set (active_days cx)" "cd_id c = pl_day e" "cd_date c = pl_date e"
      using new(5) e by (auto simp: planned_ok_def)
    have "pl_date d = cd_date c" by (rule planned_day_eq[OF p assms(2) c(1)]) (simp add: c eq)
    then have "pl_date d = pl_date e" by (simp add: c)
    then have "week_of_planned cx d = week_of_planned cx e" by (simp add: week_of_planned_def)
    with old[OF d] wk[OF e] show False by simp
  qed
  have t: "weeks_ok cx st (ks \<union> {k}) (bs_days ?t)" unfolding weeks_ok_def new(1)
  proof (intro conjI ballI allI impI)
    fix d assume "d \<in> set (bs_days s @ new)"
    then show "planned_ok cx st d" "\<exists>j \<in> ks \<union> {k}. week_of_planned cx d = Some j"
      using Cons.prems(1) new(5) wk by (auto simp: weeks_ok_def)
  next
    show "distinct (map pl_day (bs_days s @ new))" using Cons.prems(1) dn dd by (fastforce simp: weeks_ok_def)
  next
    fix d j assume d: "d \<in> set (bs_days s @ new)" and j: "week_of_planned cx d = Some j"
    show "int (length (filter (\<lambda>d. week_of_planned cx d = Some j) (bs_days s @ new))) \<le> st_max_days st"
    proof (cases "j = k")
      case True
      then have "d \<in> set new" using d j old by auto
      then have "new \<noteq> []" by auto
      then show ?thesis using True cnt new(6) by (cases new) auto
    next
      case False
      then have "d \<in> set (bs_days s)" using d j wk by auto
      then show ?thesis using Cons.prems(1) cnt'[OF False] j by (auto simp: weeks_ok_def)
    qed
  qed
  have "(ks \<union> {k}) \<inter> fst ` set h = {}" using Cons.prems(2,4) by (auto simp: p)
  from Cons.IH[OF t this _ _ new(3)] Cons.prems(3,4) obtain new' where
    "bs_days (plan_weeks cx st (map snd h) ?t) = bs_days ?t @ new'"
    "bs_remaining (plan_weeks cx st (map snd h) ?t) = bs_remaining ?t - total_exams new'"
    "0 \<le> bs_remaining (plan_weeks cx st (map snd h) ?t)"
    "weeks_ok cx st (ks \<union> {k} \<union> fst ` set h) (bs_days ?t @ new')" by auto
  then show ?case unfolding w by (intro exI[of _ "new @ new'"]) (simp add: new(1,2) p Un_assoc insert_absorb)
qed

end
