(* ===== verification/Plan_Generated.thy ===== *)
theory Plan_Generated
  imports Plan_Complete
begin

text \<open>
  The second half of the generator: the distribution of the candidates over the planned days, and
  the comparison of the finished proposal with the validation.
\<close>

subsection \<open>The queues\<close>

definition same_day :: "planned_day \<Rightarrow> planned_day \<Rightarrow> bool" where
  "same_day d e \<longleftrightarrow> pl_date e = pl_date d \<and> pl_day e = pl_day d \<and> pl_exams e = pl_exams d
     \<and> pl_morning e = pl_morning d \<and> pl_afternoon e = pl_afternoon d"

lemma assign_mep_days:
  assumes "assign_mep ds q = (r, q')" "\<forall>d \<in> set ds. pl_mep d = []"
  shows "list_all2 (\<lambda>d p. same_day d (fst p) \<and> snd p = length (pl_mep (fst p))
      \<and> int (length (pl_mep (fst p))) \<le> max 0 (pl_exams d - 1)) ds r"
    "q = concat (map (pl_mep \<circ> fst) r) @ q'"
proof -
  have "list_all2 (\<lambda>d p. same_day d (fst p) \<and> snd p = length (pl_mep (fst p))
      \<and> int (length (pl_mep (fst p))) \<le> max 0 (pl_exams d - 1)) ds r
      \<and> q = concat (map (pl_mep \<circ> fst) r) @ q'"
    using assms
  proof (induction ds arbitrary: q r)
    case (Cons d ds)
    define n where "n = min (nat (max 0 (pl_exams d - 1))) (length q)"
    obtain r1 where r1: "assign_mep ds (drop n q) = (r1, q')" "r = (d\<lparr>pl_mep := take n q\<rparr>, n) # r1"
      using Cons.prems by (auto simp: Let_def n_def split: prod.splits)
    have n: "n \<le> length q" "int n \<le> max 0 (pl_exams d - 1)" by (auto simp: n_def)
    from Cons.IH[OF r1(1)] Cons.prems(2) have
      "list_all2 (\<lambda>d p. same_day d (fst p) \<and> snd p = length (pl_mep (fst p))
        \<and> int (length (pl_mep (fst p))) \<le> max 0 (pl_exams d - 1)) ds r1"
      and q: "drop n q = concat (map (pl_mep \<circ> fst) r1) @ q'" by (auto simp: comp_def)
    moreover have "q = take n q @ concat (map (pl_mep \<circ> fst) r1) @ q'" using q by (metis append_take_drop_id)
    ultimately show ?case using n Cons.prems(2) by (simp add: r1(2) same_day_def comp_def)
  qed simp
  then show "list_all2 (\<lambda>d p. same_day d (fst p) \<and> snd p = length (pl_mep (fst p))
      \<and> int (length (pl_mep (fst p))) \<le> max 0 (pl_exams d - 1)) ds r"
    "q = concat (map (pl_mep \<circ> fst) r) @ q'" by blast+
qed

lemma assign_regular_days:
  assumes "assign_regular r q = (ds, q')"
  shows "list_all2 (\<lambda>p d. same_day (fst p) d \<and> pl_mep d = pl_mep (fst p)
      \<and> int (length (pl_regular d)) \<le> max 0 (pl_exams (fst p) - int (snd p))) r ds"
    "q = concat (map pl_regular ds) @ q'"
proof -
  have "list_all2 (\<lambda>p d. same_day (fst p) d \<and> pl_mep d = pl_mep (fst p)
      \<and> int (length (pl_regular d)) \<le> max 0 (pl_exams (fst p) - int (snd p))) r ds
      \<and> q = concat (map pl_regular ds) @ q'"
    using assms
  proof (induction r arbitrary: q ds)
    case (Cons p r)
    obtain d c where p: "p = (d, c)" by fastforce
    define n where "n = nat (min (pl_exams d - int c) (int (length q)))"
    obtain es where es: "assign_regular r (drop n q) = (es, q')" "ds = d\<lparr>pl_regular := take n q\<rparr> # es"
      using Cons.prems by (auto simp: Let_def n_def p split: prod.splits)
    have n: "n \<le> length q" "int n \<le> max 0 (pl_exams d - int c)" by (auto simp: n_def)
    from Cons.IH[OF es(1)] have
      "list_all2 (\<lambda>p d. same_day (fst p) d \<and> pl_mep d = pl_mep (fst p)
        \<and> int (length (pl_regular d)) \<le> max 0 (pl_exams (fst p) - int (snd p))) r es"
      and q: "drop n q = concat (map pl_regular es) @ q'" by auto
    moreover have "q = take n q @ concat (map pl_regular es) @ q'" using q by (metis append_take_drop_id)
    ultimately show ?case using n by (simp add: es(2) p same_day_def)
  qed simp
  then show "list_all2 (\<lambda>p d. same_day (fst p) d \<and> pl_mep d = pl_mep (fst p)
      \<and> int (length (pl_regular d)) \<le> max 0 (pl_exams (fst p) - int (snd p))) r ds"
    "q = concat (map pl_regular ds) @ q'" by blast+
qed

text \<open>One day after the distribution: the planned day with its two lists filled, MEP slots leaving
  room for a regular one and the regular slots filling the rest.\<close>

definition filled_day :: "planned_day \<Rightarrow> planned_day \<Rightarrow> bool" where
  "filled_day d e \<longleftrightarrow> same_day d e
     \<and> int (length (pl_mep e)) \<le> pl_exams d - 1
     \<and> int (length (pl_regular e)) + int (length (pl_mep e)) \<le> pl_exams d"

lemma assign_candidates_days:
  assumes "assign_candidates ds regular mep = (es, regular', mep')"
    and "\<forall>d \<in> set ds. pl_mep d = [] \<and> 1 \<le> pl_exams d"
  shows "list_all2 filled_day ds es" "regular = concat (map pl_regular es) @ regular'"
    "mep = concat (map pl_mep (rev es)) @ mep'"
proof -
  obtain r where r: "assign_mep (rev ds) mep = (r, mep')" "assign_regular (rev r) regular = (es, regular')"
    using assms(1) by (auto simp: assign_candidates_def Let_def split: prod.splits)
  note m = assign_mep_days[OF r(1)] and g = assign_regular_days[OF r(2)]
  have m1: "list_all2 (\<lambda>d p. same_day d (fst p) \<and> snd p = length (pl_mep (fst p))
      \<and> int (length (pl_mep (fst p))) \<le> max 0 (pl_exams d - 1)) ds (rev r)"
    using m(1) assms(2) list_all2_rev1 by (metis (no_types, lifting) set_rev)
  show "list_all2 filled_day ds es"
  proof (rule list_all2I)
    show "length ds = length es" using m1 g(1) by (auto dest!: list_all2_lengthD)
    show "\<forall>p \<in> set (zip ds es). case p of (d, e) \<Rightarrow> filled_day d e"
    proof clarify
      fix d e assume "(d, e) \<in> set (zip ds es)"
      then obtain i where i: "i < length ds" "i < length es" "d = ds ! i" "e = es ! i"
        by (auto simp: in_set_zip)
      have "same_day d (fst (rev r ! i)) \<and> snd (rev r ! i) = length (pl_mep (fst (rev r ! i)))
          \<and> int (length (pl_mep (fst (rev r ! i)))) \<le> max 0 (pl_exams d - 1)"
        using list_all2_nthD[OF m1 i(1)] i(3) by auto
      moreover have "same_day (fst (rev r ! i)) e \<and> pl_mep e = pl_mep (fst (rev r ! i))
          \<and> int (length (pl_regular e)) \<le> max 0 (pl_exams (fst (rev r ! i)) - int (snd (rev r ! i)))"
        using list_all2_nthD2[OF g(1) i(2)] i(4) by auto
      moreover have "1 \<le> pl_exams d" using assms(2) i by auto
      ultimately show "filled_day d e" by (auto simp: filled_day_def same_day_def)
    qed
  qed
  show "regular = concat (map pl_regular es) @ regular'" by (rule g(2))
  have "map pl_mep es = map (pl_mep \<circ> fst) (rev r)"
  proof (rule nth_equalityI)
    show "length (map pl_mep es) = length (map (pl_mep \<circ> fst) (rev r))"
      using g(1) by (auto dest!: list_all2_lengthD)
    fix i assume "i < length (map pl_mep es)"
    then have i: "i < length es" "i < length (rev r)" using g(1) by (auto dest!: list_all2_lengthD)
    have "pl_mep (es ! i) = pl_mep (fst (rev r ! i))" using list_all2_nthD2[OF g(1) i(1)] by simp
    with i show "map pl_mep es ! i = map (pl_mep \<circ> fst) (rev r) ! i" by simp
  qed
  then have "map pl_mep (rev es) = map (pl_mep \<circ> fst) r" by (simp flip: rev_map)
  then show "mep = concat (map pl_mep (rev es)) @ mep'" using m(2) assms(2) by simp
qed

lemma total_exams_filled: "list_all2 filled_day ds es \<Longrightarrow> total_exams es = total_exams ds"
proof (induction rule: list_all2_induct)
  case (Cons d ds e es)
  then have "pl_exams e = pl_exams d" by (simp add: filled_day_def same_day_def)
  with Cons show ?case by simp
qed simp

text \<open>When both queues are used up, every day is full.\<close>

lemma days_full:
  assumes "list_all2 filled_day ds es"
    and "total_exams ds = int (length (concat (map pl_regular es)) + length (concat (map pl_mep es)))"
  shows "\<forall>e \<in> set es. int (length (pl_regular e)) + int (length (pl_mep e)) = pl_exams e \<and> pl_regular e \<noteq> []"
proof -
  have "int (length (concat (map pl_regular es)) + length (concat (map pl_mep es))) \<le> total_exams ds \<and>
    (int (length (concat (map pl_regular es)) + length (concat (map pl_mep es))) = total_exams ds \<longrightarrow>
      (\<forall>e \<in> set es. int (length (pl_regular e)) + int (length (pl_mep e)) = pl_exams e \<and> pl_regular e \<noteq> []))"
    using assms(1)
  proof (induction rule: list_all2_induct)
    case (Cons d ds e es)
    have e: "pl_exams e = pl_exams d"
      using Cons(1) by (simp add: filled_day_def same_day_def)
    from Cons(1) have "int (length (pl_mep e)) \<le> pl_exams d - 1"
      "int (length (pl_regular e)) + int (length (pl_mep e)) \<le> pl_exams d" by (simp_all add: filled_day_def)
    with Cons(3) e show ?case by auto
  qed simp
  with assms(2) show ?thesis by simp
qed

subsection \<open>The finished proposal\<close>

lemma nth_normalize_slots: "i < length xs \<Longrightarrow> normalize_slots status date lunch xs ! i =
    (xs ! i)\<lparr>ps_sequence := int (Suc i), ps_starts := stamp date (fst (slot_times (length xs) lunch ! i)),
      ps_ends := stamp date (snd (slot_times (length xs) lunch ! i)), ps_status := status\<rparr>"
  by (simp add: normalize_slots_def nth_enumerate_eq split: prod.split)

lemma length_normalize_slots [simp]: "length (normalize_slots status date lunch xs) = length xs"
  by (simp add: normalize_slots_def)

lemma normalize_slots_idem [simp]:
  "normalize_slots status date lunch (normalize_slots status date lunch xs) = normalize_slots status date lunch xs"
  by (rule nth_equalityI) (simp_all add: nth_normalize_slots)

lemma map_normalize_slots [simp]:
  "map ps_candidate (normalize_slots status date lunch xs) = map ps_candidate xs"
  "map ps_type (normalize_slots status date lunch xs) = map ps_type xs"
  by (rule nth_equalityI; simp add: nth_normalize_slots)+

lemma slot_count_map: "slot_count i t xs = count_list (zip (map ps_candidate xs) (map ps_type xs)) (i, t)"
  by (induction xs) (auto simp: slot_count_def)

lemma slot_count_normalize [simp]: "slot_count i t (normalize_slots status date lunch xs) = slot_count i t xs"
  by (simp add: slot_count_map)

definition crew_rows :: "string \<Rightarrow> shift_crew \<Rightarrow> plan_assignment list" where
  "crew_rows part c = map (\<lambda>m. \<lparr>pa_id = None, pa_member = m, pa_role = ''examiner'', pa_part = part,
       pa_fallback = None\<rparr>) (sc_crew c)
     @ [\<lparr>pa_id = None, pa_member = sc_fallback c, pa_role = ''fallback'', pa_part = part, pa_fallback = None\<rparr>]"

definition new_slot :: "string \<Rightarrow> int \<Rightarrow> plan_slot" where
  "new_slot t i = \<lparr>ps_id = None, ps_candidate = i, ps_type = t, ps_sequence = 0, ps_starts = [],
     ps_ends = [], ps_status = ''proposed''\<rparr>"

lemma generated_day_simps [simp]:
  "pd_candidate_day (generated_day room d) = pl_day d" "pd_room (generated_day room d) = room"
  "pd_slots (generated_day room d) = map (new_slot ''regular'') (pl_regular d) @ map (new_slot ''mep'') (pl_mep d)"
  "pd_assignments (generated_day room d) = crew_rows ''morning'' (pl_morning d)
     @ (case pl_afternoon d of None \<Rightarrow> [] | Some c \<Rightarrow> crew_rows ''afternoon'' c)"
  by (simp_all add: generated_day_def Let_def crew_rows_def new_slot_def[abs_def] split: option.splits)

lemma normalize_day_simps [simp]:
  "pd_candidate_day (normalize_day cx status d) = pd_candidate_day d"
  "pd_room (normalize_day cx status d) = pd_room d" "pd_status (normalize_day cx status d) = status"
  "pd_assignments (normalize_day cx status d) = map (normalize_assignment status) (pd_assignments d)"
  by (simp_all add: normalize_day_def Let_def)

lemma normalize_assignment_simps [simp]:
  "pa_member (normalize_assignment status a) = pa_member a" "pa_role (normalize_assignment status a) = pa_role a"
  "pa_part (normalize_assignment status a) = pa_part a"
  by (simp_all add: normalize_assignment_def)

text \<open>The rows of one crew satisfy the crew contract.\<close>

lemma chosen_crew_ok:
  assumes wf: "cx_wf cx r st" and c: "day_by_id cx i = Some c" "cd_active c"
    and chosen: "choose_shift_crew cx i part load = Some w"
    and d: "pd_candidate_day d = i" "applicable part d = map (normalize_assignment status) (crew_rows part w)"
  shows "crew_ok cx (er_committee r) d c part"
proof -
  have dd: "distinct (map cd_id (cx_days cx))" and dm: "distinct (map mb_id (cx_members cx))"
    using wf by (simp_all add: cx_wf_def)
  have cm: "c \<in> set (cx_days cx)" "cd_id c = i" using c(1) by (auto simp: day_by_id_def find_key_iff[OF dd])
  have "distinct (map cd_id (active_days cx))" using dd by (simp add: active_days_def distinct_map_filter)
  then have act: "List.find (\<lambda>x. cd_id x = i) (active_days cx) = Some c"
    using cm c(2) by (simp add: find_key_iff active_days_def)
  obtain xs f where xs: "crew_of (available_members cx i part) load w xs f"
    using choose_shift_crew_Some[OF chosen] by blast
  then have x: "sc_crew w = map mb_id xs" "sc_fallback w = mb_id f" "map mb_side xs = sides"
    "set xs \<subseteq> set (available_members cx i part)" "f \<in> set (available_members cx i part)"
    "distinct (map mb_id (xs @ [f]))" by (simp_all add: crew_of_def)
  have m1: "member_by_id cx (mb_id m) = Some m" if "m \<in> set (available_members cx i part)" for m
    using that by (simp add: available_members_def Let_def member_by_id_def find_key_iff[OF dm])
  have m: "member_ok cx (er_committee r) d c part a"
    if "m \<in> set (available_members cx i part)" "pa_member a = mb_id m" for m a
  proof -
    have "m \<in> set (cx_members cx)" "mb_person m \<notin> set (map fst (blocked_at cx (cd_date c) part))"
      "available_for (availability_of cx (mb_id m) i) part"
      using that(1) by (auto simp: available_members_def Let_def act)
    moreover note m1[OF that(1)]
    ultimately show ?thesis using wf that(2) d(1) by (auto simp: member_ok_def cx_wf_def)
  qed
  have ex: "with_role ''examiner'' (applicable part d) = map (normalize_assignment status)
      (map (\<lambda>m. \<lparr>pa_id = None, pa_member = m, pa_role = ''examiner'', pa_part = part, pa_fallback = None\<rparr>) (sc_crew w))"
    unfolding d(2) crew_rows_def with_role_def by (simp add: filter_map comp_def)
  have fb: "length (with_role ''fallback'' (applicable part d)) = 1"
    unfolding d(2) crew_rows_def with_role_def by (simp add: filter_map comp_def)
  have mem: "map pa_member (applicable part d) = map mb_id (xs @ [f])"
    unfolding d(2) crew_rows_def by (simp add: x comp_def)
  have "map (member_side cx) (with_role ''examiner'' (applicable part d)) = map mb_side xs"
    unfolding ex x(1) using x(4) m1 by (auto simp: member_side_def)
  then have "mset (map (member_side cx) (with_role ''examiner'' (applicable part d))) = mset sides"
    by (simp only: x(3))
  moreover have "member_ok cx (er_committee r) d c part a" if a: "a \<in> set (applicable part d)" for a
  proof -
    have "pa_member a \<in> set (map pa_member (applicable part d))" using a by simp
    then obtain y where "y \<in> set (xs @ [f])" "pa_member a = mb_id y" unfolding mem by auto
    then show ?thesis using m x(4,5) by auto
  qed
  ultimately show ?thesis unfolding crew_ok_def Let_def using fb mem x(6) by auto
qed

text \<open>A full day of the generator is a valid day.\<close>

lemma applicable_generated:
  shows "applicable ''morning'' (normalize_day cx s (generated_day room e)) =
      map (normalize_assignment s) (crew_rows ''morning'' (pl_morning e))"
    "pl_afternoon e = Some w \<Longrightarrow> applicable ''afternoon'' (normalize_day cx s (generated_day room e)) =
      map (normalize_assignment s) (crew_rows ''afternoon'' w)"
  by (simp_all add: applicable_def crew_rows_def filter_map comp_def split: option.splits)

lemma filled_day_ok:
  assumes wf: "cx_wf cx r st" and d: "planned_ok cx st d" and e: "filled_day d e"
    and full: "int (length (pl_regular e)) + int (length (pl_mep e)) = pl_exams e" "pl_regular e \<noteq> []"
    and ids: "set (pl_regular e) \<union> set (pl_mep e) \<subseteq> cn_id ` set (cx_candidates cx)"
    and room: "room \<in> set (cx_rooms cx)" and wk: "week_of_planned cx d = Some k"
  shows "day_ok cx st (er_committee r) ''proposed'' (normalize_day cx ''proposed'' (generated_day room e))"
proof -
  let ?g = "generated_day room e" and ?n = "normalize_day cx ''proposed'' (generated_day room e)"
  have dd: "distinct (map cd_id (cx_days cx))" and st: "cx_settings cx = Some st"
    using wf by (simp_all add: cx_wf_def)
  obtain c load where c: "c \<in> set (active_days cx)" "cd_id c = pl_day d" "cd_date c = pl_date d"
    and ex: "pl_exams d \<le> st_exams_per_day st"
    and m: "choose_shift_crew cx (pl_day d) ''morning'' load = Some (pl_morning d)"
    and a: "pl_afternoon d = (if 4 < pl_exams d then choose_shift_crew cx (pl_day d) ''afternoon'' load else None)"
      "4 < pl_exams d \<longrightarrow> pl_afternoon d \<noteq> None"
    using d unfolding planned_ok_def by blast
  have same: "pl_day e = pl_day d" "pl_exams e = pl_exams d" "pl_morning e = pl_morning d"
    "pl_afternoon e = pl_afternoon d" using e by (simp_all add: filled_day_def same_day_def)
  have cday: "day_by_id cx (pl_day d) = Some c" "cd_active c"
    using c by (simp_all add: day_by_id_def find_key_iff[OF dd] active_days_def)
  have key: "week_key (cd_date c) = Inr k" using wk c(3) by (simp add: week_of_planned_def split: sum.splits)
  have slots: "pd_slots ?n = normalize_slots ''proposed'' (cd_date c) (st_lunch st) (pd_slots ?g)"
    "pd_date ?n = cd_date c" by (simp_all add: normalize_day_def Let_def same cday(1) st)
  have len: "int (length (pd_slots ?n)) = pl_exams d" using full(1) by (simp add: slots(1) same)
  have types: "map ps_type (pd_slots ?g) = replicate (length (pl_regular e)) ''regular'' @ replicate (length (pl_mep e)) ''mep''"
    by (simp add: new_slot_def comp_def map_replicate_const)
  have cands: "map ps_candidate (pd_slots ?g) = pl_regular e @ pl_mep e" by (simp add: new_slot_def comp_def)
  have "slots_ok cx st ''proposed'' c (pd_slots ?n)" unfolding slots_ok_def
  proof (intro conjI ballI)
    fix x assume x: "x \<in> set (pd_slots ?n)"
    have "ps_candidate x \<in> set (map ps_candidate (pd_slots ?n))" "ps_type x \<in> set (map ps_type (pd_slots ?n))"
      using x by simp_all
    then have "ps_candidate x \<in> set (pl_regular e @ pl_mep e)"
      "ps_type x \<in> set (replicate (length (pl_regular e)) ''regular'' @ replicate (length (pl_mep e)) ''mep'')"
      unfolding slots(1) map_normalize_slots cands types by blast+
    then show "ps_candidate x \<in> cn_id ` set (cx_candidates cx)" "ps_type x \<in> {''regular'', ''mep''}"
      using ids by (auto split: if_splits)
  next
    have "map (\<lambda>x. ps_type x = ''mep'') (pd_slots ?n) = map (\<lambda>t. t = ''mep'') (map ps_type (pd_slots ?n))" by simp
    also have "\<dots> = replicate (length (pl_regular e)) False @ replicate (length (pl_mep e)) True"
      unfolding slots(1) map_normalize_slots types by simp
    finally show "sorted (map (\<lambda>x. ps_type x = ''mep'') (pd_slots ?n))"
      by (simp add: sorted_append sorted_replicate)
  next
    have "''regular'' \<in> set (map ps_type (pd_slots ?n))"
      unfolding slots(1) map_normalize_slots types using full(2) by simp
    then show "\<exists>x \<in> set (pd_slots ?n). ps_type x = ''regular''" by auto
  next
    show "normalize_slots ''proposed'' (cd_date c) (st_lunch st) (pd_slots ?n) = pd_slots ?n" by (simp add: slots(1))
    show "int (length (pd_slots ?n)) \<le> st_exams_per_day st" using len ex by simp
  qed
  moreover have parts: "used_parts ?n = (if 4 < pl_exams d then [''morning'', ''afternoon''] else [''morning''])"
    using len by (auto simp: used_parts_def)
  moreover have "pa_role x \<in> {''examiner'', ''fallback''} \<and> pa_part x \<in> insert ''full_day'' (set (used_parts ?n))"
    if "x \<in> set (pd_assignments ?n)" for x
    using that a unfolding parts by (auto simp: same crew_rows_def split: option.splits if_splits)
  moreover have "crew_ok cx (er_committee r) ?n c part" if p: "part \<in> set (used_parts ?n)" for part
  proof (cases "part = ''morning''")
    case True
    show ?thesis unfolding True
      by (rule chosen_crew_ok[OF wf cday m, where status = "''proposed''"]) (simp_all add: same(1) applicable_generated(1) flip: same(3))
  next
    case False
    then have q: "part = ''afternoon''" "4 < pl_exams d" using p parts by (auto split: if_splits)
    then obtain w where w: "pl_afternoon d = Some w" "choose_shift_crew cx (pl_day d) ''afternoon'' load = Some w"
      using a by auto
    show ?thesis unfolding q(1)
      by (rule chosen_crew_ok[OF wf cday w(2), where status = "''proposed''"])
        (simp_all add: same(1) applicable_generated(2) same(4) w(1))
  qed
  ultimately show ?thesis unfolding day_ok_def using cday key room
    by (intro exI[of _ c] exI[of _ k]) (simp add: slots(2) same(1))
qed

text \<open>The whole generator: what it returns, and when that is a valid plan.\<close>

lemma build_proposal_Inr:
  assumes wf: "cx_wf cx r st" and b: "build_proposal cx st = Inr g"
  shows "\<exists>ds es regular' mep' remaining. weeks_ok cx st UNIV ds \<and> list_all2 filled_day ds es
    \<and> map cn_id (sort_key cn_id (cx_candidates cx)) = concat (map pl_regular es) @ regular'
    \<and> map cn_id (filter cn_mep (sort_key cn_id (cx_candidates cx))) = concat (map pl_mep (rev es)) @ mep'
    \<and> int (length (cx_candidates cx) + length (filter cn_mep (cx_candidates cx))) = total_exams ds + remaining
    \<and> 0 \<le> remaining \<and> ge_days g = es \<and> (ge_passed g \<longleftrightarrow> remaining = 0 \<and> regular' = [] \<and> mep' = [])"
proof -
  let ?cs = "sort_key cn_id (cx_candidates cx)"
  let ?reg = "map cn_id ?cs" and ?mep = "map cn_id (filter cn_mep ?cs)"
  have dd: "distinct (map cd_id (cx_days cx))" and e1: "1 \<le> st_exams_per_day st"
    using wf by (simp_all add: cx_wf_def)
  obtain gr where gr: "group_days (active_days cx) = Inr gr"
    and g: "g = proposal_build_result (plan_weeks cx st (map snd (sort_key fst gr))
      (empty_build (int (length ?reg + length ?mep)))) ?reg ?mep (int (length ?reg + length ?mep))"
    using b by (auto simp: build_proposal_def require_Inr_iff bnd_Inr_iff Let_def)
  have grouped: "grouped (active_days cx) gr"
    by (rule group_days_grouped[OF gr]) (use dd in \<open>simp add: active_days_def distinct_map_filter\<close>)
  define t where "t = plan_weeks cx st (map snd (sort_key fst gr)) (empty_build (int (length ?reg + length ?mep)))"
  have "distinct (map fst (sort_key fst gr))" using grouped by (simp add: grouped_def distinct_map)
  moreover have "weeks_ok cx st {} (bs_days (empty_build (int (length ?reg + length ?mep))))"
    "0 \<le> bs_remaining (empty_build (int (length ?reg + length ?mep)))"
    by (simp_all add: empty_build_def weeks_ok_def)
  ultimately have "\<exists>new. bs_days t = bs_days (empty_build (int (length ?reg + length ?mep))) @ new
    \<and> bs_remaining t = bs_remaining (empty_build (int (length ?reg + length ?mep))) - total_exams new
    \<and> 0 \<le> bs_remaining t \<and> weeks_ok cx st ({} \<union> fst ` set (sort_key fst gr))
        (bs_days (empty_build (int (length ?reg + length ?mep))) @ new)"
    unfolding t_def by (intro plan_weeks_ok[OF grouped dd e1]) simp_all
  then obtain ds where ds: "bs_days t = ds" "bs_remaining t = int (length ?reg + length ?mep) - total_exams ds"
    "0 \<le> bs_remaining t" "weeks_ok cx st (fst ` set gr) ds"
    by (auto simp: empty_build_def)
  have w: "weeks_ok cx st UNIV ds" using ds(4) by (auto simp: weeks_ok_def)
  obtain es reg' mep' where as: "assign_candidates ds ?reg ?mep = (es, reg', mep')"
    by (metis prod_cases3)
  have "\<forall>d \<in> set ds. pl_mep d = [] \<and> 1 \<le> pl_exams d" using w by (auto simp: weeks_ok_def planned_ok_def)
  note a = assign_candidates_days[OF as this]
  have l: "length (filter cn_mep ?cs) = length (filter cn_mep (cx_candidates cx))"
    by (metis mset_filter mset_sort size_mset)
  show ?thesis
  proof (intro exI conjI)
    show "weeks_ok cx st UNIV ds" "list_all2 filled_day ds es" by (fact w, fact a(1))
    show "?reg = concat (map pl_regular es) @ reg'" "?mep = concat (map pl_mep (rev es)) @ mep'" by (fact a)+
    show "int (length (cx_candidates cx) + length (filter cn_mep (cx_candidates cx))) = total_exams ds + bs_remaining t"
      using ds(2) l by simp
    show "0 \<le> bs_remaining t" by (fact ds)
    show "ge_days g = es" "ge_passed g \<longleftrightarrow> bs_remaining t = 0 \<and> reg' = [] \<and> mep' = []"
      unfolding g t_def[symmetric] proposal_build_result_def ds(1) as Let_def prod.case by simp_all
  qed
qed

lemma count_concat_rev: "count_list (concat (map f (rev xs))) i = count_list (concat (map f xs)) i"
  by (induction xs) (auto simp: count_list_append)

lemma generated_counts:
  "slot_count i ''regular'' (pd_slots (generated_day room e)) = count_list (pl_regular e) i"
  "slot_count i ''mep'' (pd_slots (generated_day room e)) = count_list (pl_mep e) i"
proof -
  have n: "slot_count i t (map (new_slot u) xs) = (if t = u then count_list xs i else 0)" for t u xs
    by (induction xs) (auto simp: slot_count_def new_slot_def)
  show "slot_count i ''regular'' (pd_slots (generated_day room e)) = count_list (pl_regular e) i"
    "slot_count i ''mep'' (pd_slots (generated_day room e)) = count_list (pl_mep e) i"
    by (simp_all add: n)
qed

lemma plan_counts:
  assumes "p = normalize_proposal cx s (generated_aggregate r st g)"
  shows "slot_count i ''regular'' (plan_slots p) = count_list (concat (map pl_regular (ge_days g))) i"
    "slot_count i ''mep'' (plan_slots p) = count_list (concat (map pl_mep (ge_days g))) i"
proof -
  have s: "slot_count i t (pd_slots (normalize_day cx s d)) = slot_count i t (pd_slots d)" for t d
    by (simp add: normalize_day_def Let_def)
  have "slot_count i ''regular'' (concat (map (pd_slots \<circ> (normalize_day cx s \<circ> generated_day room)) es))
      = count_list (concat (map pl_regular es)) i"
    "slot_count i ''mep'' (concat (map (pd_slots \<circ> (normalize_day cx s \<circ> generated_day room)) es))
      = count_list (concat (map pl_mep es)) i" for room es
    by (induction es) (auto simp: s generated_counts count_list_append simp del: generated_day_simps)
  then show "slot_count i ''regular'' (plan_slots p) = count_list (concat (map pl_regular (ge_days g))) i"
    "slot_count i ''mep'' (plan_slots p) = count_list (concat (map pl_mep (ge_days g))) i"
    by (simp_all add: assms plan_slots_def normalize_proposal_def generated_aggregate_def)
qed

lemma generated_plan_ok:
  assumes wf: "cx_wf cx r st" and ne: "cx_candidates cx \<noteq> []"
    and w: "weeks_ok cx st UNIV ds" and f: "list_all2 filled_day ds es"
    and full: "\<forall>e \<in> set es. int (length (pl_regular e)) + int (length (pl_mep e)) = pl_exams e \<and> pl_regular e \<noteq> []"
    and ids: "\<forall>e \<in> set es. set (pl_regular e) \<union> set (pl_mep e) \<subseteq> cn_id ` set (cx_candidates cx)"
    and es: "ge_days g = es" and all: "set (concat (map pl_regular es)) = cn_id ` set (cx_candidates cx)"
    and cnt: "\<forall>x \<in> set (cx_candidates cx).
      slot_count (cn_id x) ''regular'' (plan_slots (normalize_proposal cx ''proposed'' (generated_aggregate r st g))) = 1
      \<and> slot_count (cn_id x) ''mep'' (plan_slots (normalize_proposal cx ''proposed'' (generated_aggregate r st g)))
        = (if cn_mep x then 1 else 0)"
  shows "plan_ok cx ''proposed'' (normalize_proposal cx ''proposed'' (generated_aggregate r st g))"
proof -
  obtain room where room: "st_room st = Some room" "room \<in> set (cx_rooms cx)" using wf by (auto simp: cx_wf_def)
  let ?n = "\<lambda>e. normalize_day cx ''proposed'' (generated_day room e)"
  let ?p = "normalize_proposal cx ''proposed'' (generated_aggregate r st g)"
  have days: "pp_days ?p = map ?n es" by (simp add: normalize_proposal_def generated_aggregate_def es room)
  have dd: "distinct (map cd_id (cx_days cx))" using wf by (simp add: cx_wf_def)
  have pair: "\<exists>d \<in> set ds. filled_day d e" if "e \<in> set es" for e
    using that f by (metis in_set_conv_nth list_all2_conv_all_nth nth_mem)
  have day: "day_ok cx st (er_committee r) ''proposed'' (?n e)" if e: "e \<in> set es" for e
  proof -
    obtain d where d: "d \<in> set ds" "filled_day d e" using pair[OF e] by blast
    obtain k where "week_of_planned cx d = Some k" "planned_ok cx st d" using w d(1) by (auto simp: weeks_ok_def)
    then show ?thesis using filled_day_ok[OF wf _ d(2) _ _ _ room(2)] full ids e by blast
  qed
  have week: "day_week cx (?n e) = week_of_planned cx d" if "filled_day d e" "d \<in> set ds" for d e
  proof -
    have "planned_ok cx st d" using w that(2) by (simp add: weeks_ok_def)
    then obtain c where "c \<in> set (active_days cx)" "cd_id c = pl_day d" "cd_date c = pl_date d"
      by (auto simp: planned_ok_def)
    then have "day_by_id cx (pl_day e) = Some c \<and> cd_date c = pl_date d"
      using that(1) by (simp add: day_by_id_def find_key_iff[OF dd] active_days_def filled_day_def same_day_def)
    then show ?thesis by (simp add: day_week_def week_of_planned_def)
  qed
  have wd: "week_days cx k (map ?n es) = length (filter (\<lambda>d. week_of_planned cx d = Some k) ds)" for k
    using f week
  proof (induction rule: list_all2_induct)
    case (Cons d ds e es)
    then show ?case by (simp add: week_days_def)
  qed (simp add: week_days_def)
  have pd: "map pd_candidate_day (map ?n es) = map pl_day ds"
    using f by (induction rule: list_all2_induct) (auto simp: filled_day_def same_day_def)
  show ?thesis unfolding plan_ok_def days
  proof (intro exI[of _ r] exI[of _ st] conjI)
    show "cx_round cx = Some r" "cx_settings cx = Some st" using wf by (simp_all add: cx_wf_def)
    have "es \<noteq> []" using all ne by auto
    then show "map ?n es \<noteq> []" by simp
    show "distinct (map pd_candidate_day (map ?n es))" unfolding pd using w by (simp add: weeks_ok_def)
    show "\<forall>d \<in> set (map ?n es). day_ok cx st (er_committee r) ''proposed'' d" using day by simp
    show "\<forall>d \<in> set (map ?n es). \<forall>k. day_week cx d = Some k \<longrightarrow> int (week_days cx k (map ?n es)) \<le> st_max_days st"
    proof (intro ballI allI impI)
      fix n k assume "n \<in> set (map ?n es)" "day_week cx n = Some k"
      then obtain e where e: "e \<in> set es" "day_week cx (?n e) = Some k" by auto
      then obtain d where "d \<in> set ds" "week_of_planned cx d = Some k" using pair week by metis
      then show "int (week_days cx k (map ?n es)) \<le> st_max_days st" unfolding wd using w by (simp add: weeks_ok_def)
    qed
    show "\<forall>x \<in> set (cx_candidates cx). slot_count (cn_id x) ''regular'' (plan_slots ?p) = 1
       \<and> slot_count (cn_id x) ''mep'' (plan_slots ?p) = (if cn_mep x then 1 else 0)
       \<and> map_of (rev (cx_active cx)) (cn_id x) = Some (pp_round ?p)"
      using cnt wf by (simp add: cx_wf_def normalize_proposal_def generated_aggregate_def)
  qed
qed

lemma generated_valid_iff:
  assumes wf: "cx_wf cx r st" and b: "build_proposal cx st = Inr g" and ne: "cx_candidates cx \<noteq> []"
  shows "plan_ok cx ''proposed'' (normalize_proposal cx ''proposed'' (generated_aggregate r st g)) \<longleftrightarrow> ge_passed g"
proof -
  let ?cs = "sort_key cn_id (cx_candidates cx)"
  let ?p = "normalize_proposal cx ''proposed'' (generated_aggregate r st g)"
  obtain ds es reg' mep' rem where w: "weeks_ok cx st UNIV ds" and f: "list_all2 filled_day ds es"
    and reg: "map cn_id ?cs = concat (map pl_regular es) @ reg'"
    and mep: "map cn_id (filter cn_mep ?cs) = concat (map pl_mep (rev es)) @ mep'"
    and req: "int (length (cx_candidates cx) + length (filter cn_mep (cx_candidates cx))) = total_exams ds + rem"
    and rem: "0 \<le> rem" and es: "ge_days g = es" and ok: "ge_passed g \<longleftrightarrow> rem = 0 \<and> reg' = [] \<and> mep' = []"
    using build_proposal_Inr[OF wf b] by blast
  have l: "length (filter cn_mep ?cs) = length (filter cn_mep (cx_candidates cx))"
    by (metis mset_filter mset_sort size_mset)
  have cid: "distinct (map cn_id ?cs)" using wf by (simp add: cx_wf_def distinct_map)
  have dr: "distinct (concat (map pl_regular es) @ reg')" using cid reg by simp
  have dm: "distinct (concat (map pl_mep (rev es)) @ mep')"
    using cid mep by (metis distinct_map_filter)
  note cnt = plan_counts[OF refl, of _ cx "''proposed''" r st g, unfolded es]
  have c1: "count_list xs i = (if i \<in> set xs then 1 else 0)" if "distinct xs" for xs :: "int list" and i
    using that by (induction xs) auto
  have cr: "count_list (concat (map pl_regular es)) i = (if i \<in> set (concat (map pl_regular es)) then 1 else 0)" for i
    using dr by (intro c1) simp
  have cm: "count_list (concat (map pl_mep es)) i = (if i \<in> set (concat (map pl_mep (rev es))) then 1 else 0)" for i
    unfolding count_concat_rev[of pl_mep es, symmetric] using dm by (intro c1) simp
  show ?thesis
  proof
    assume "ge_passed g"
    then have e: "rem = 0" "reg' = []" "mep' = []" using ok by simp_all
    have lr: "length (concat (map pl_regular es)) = length (cx_candidates cx)"
      using arg_cong[OF reg, of length] e by simp
    have "length (concat (map pl_mep (rev es))) = length (concat (map pl_mep es))"
      by (induction es) auto
    then have lm: "length (concat (map pl_mep es)) = length (filter cn_mep (cx_candidates cx))"
      using arg_cong[OF mep, of length] e l by simp
    have full: "\<forall>x \<in> set es. int (length (pl_regular x)) + int (length (pl_mep x)) = pl_exams x \<and> pl_regular x \<noteq> []"
      by (rule days_full[OF f]) (use req e lr lm in simp)
    show "plan_ok cx ''proposed'' ?p"
    proof (rule generated_plan_ok[OF wf ne w f full _ es])
      have r: "set (concat (map pl_regular es)) = cn_id ` set (cx_candidates cx)"
        using arg_cong[OF reg, of set] e(2) by (simp only: append_Nil2) simp
      have m: "set (concat (map pl_mep (rev es))) = cn_id ` {x \<in> set (cx_candidates cx). cn_mep x}"
        using arg_cong[OF mep, of set] e(3) by (simp only: append_Nil2) simp
      show "set (concat (map pl_regular es)) = cn_id ` set (cx_candidates cx)" by (rule r)
      show "\<forall>x \<in> set es. set (pl_regular x) \<union> set (pl_mep x) \<subseteq> cn_id ` set (cx_candidates cx)"
        using r m by fastforce
      have inj: "inj_on cn_id (set (cx_candidates cx))" using wf by (simp add: cx_wf_def distinct_map)
      show "\<forall>x \<in> set (cx_candidates cx). slot_count (cn_id x) ''regular'' (plan_slots ?p) = 1
          \<and> slot_count (cn_id x) ''mep'' (plan_slots ?p) = (if cn_mep x then 1 else 0)"
      proof
        fix x assume x: "x \<in> set (cx_candidates cx)"
        have "cn_id x \<in> cn_id ` {x \<in> set (cx_candidates cx). cn_mep x} \<longleftrightarrow> cn_mep x"
          using x inj by (auto dest: inj_onD)
        then show "slot_count (cn_id x) ''regular'' (plan_slots ?p) = 1
            \<and> slot_count (cn_id x) ''mep'' (plan_slots ?p) = (if cn_mep x then 1 else 0)"
          unfolding cnt cr cm r m using x by simp
      qed
    qed
  next
    assume p: "plan_ok cx ''proposed'' ?p"
    then have cc: "\<forall>x \<in> set (cx_candidates cx). count_list (concat (map pl_regular es)) (cn_id x) = 1
        \<and> count_list (concat (map pl_mep es)) (cn_id x) = (if cn_mep x then 1 else 0)"
      unfolding plan_ok_def cnt by blast
    have "reg' = []"
    proof (rule ccontr)
      assume "reg' \<noteq> []"
      then obtain i where i: "i \<in> set reg'" by (cases reg') auto
      then have "i \<in> set (map cn_id ?cs)" unfolding reg by simp
      then obtain x where "x \<in> set (cx_candidates cx)" "cn_id x = i" by auto
      with cc cr[of i] have "i \<in> set (concat (map pl_regular es))" by (auto split: if_splits)
      with dr i show False by auto
    qed
    moreover have "mep' = []"
    proof (rule ccontr)
      assume "mep' \<noteq> []"
      then obtain i where i: "i \<in> set mep'" by (cases mep') auto
      then have "i \<in> set (map cn_id (filter cn_mep ?cs))" unfolding mep by simp
      then obtain x where "x \<in> set (cx_candidates cx)" "cn_mep x" "cn_id x = i" by auto
      with cc cm[of i] have "i \<in> set (concat (map pl_mep (rev es)))" by (auto split: if_splits)
      with dm i show False by auto
    qed
    moreover have "int (length (concat (map pl_regular es)) + length (concat (map pl_mep es))) \<le> total_exams ds"
      using f by (induction rule: list_all2_induct) (auto simp: filled_day_def)
    moreover have "length (concat (map pl_mep (rev es))) = length (concat (map pl_mep es))"
      by (induction es) auto
    ultimately have "rem = 0"
      using req rem arg_cong[OF reg, of length] arg_cong[OF mep, of length] l by simp
    with \<open>reg' = []\<close> \<open>mep' = []\<close> show "ge_passed g" using ok by simp
  qed
qed

end
