(* ===== verification/Plan_Roundtrip.thy ===== *)
theory Plan_Roundtrip
  imports Plan_Service Plan_Generated
begin

text \<open>
  What the unit of work stores is what it reads: a proposal written by \<open>replace_proposal\<close> comes back
  with new identities, its days in date order and its assignments in the order of their day parts,
  and nothing else changed. \<open>canon\<close> is the content of a day up to these differences; the validity of
  a plan depends on nothing more.
\<close>

subsection \<open>Content up to identity and order\<close>

definition strip_slot :: "plan_slot \<Rightarrow> plan_slot" where
  "strip_slot s = s\<lparr>ps_id := None\<rparr>"

definition strip_assignment :: "plan_assignment \<Rightarrow> plan_assignment" where
  "strip_assignment a = a\<lparr>pa_id := None\<rparr>"

type_synonym day_content = "int \<times> int \<times> string \<times> string \<times> plan_slot list \<times> plan_assignment multiset"

definition canon :: "plan_day \<Rightarrow> day_content" where
  "canon d = (pd_candidate_day d, pd_room d, pd_date d, pd_status d, map strip_slot (pd_slots d),
     image_mset strip_assignment (mset (pd_assignments d)))"

definition same_plan :: "proposal \<Rightarrow> proposal \<Rightarrow> bool" where
  "same_plan p q \<longleftrightarrow> pp_round q = pp_round p \<and> image_mset canon (mset (pp_days q)) = image_mset canon (mset (pp_days p))"

lemma strip_slot_simps [simp]:
  "ps_candidate (strip_slot s) = ps_candidate s" "ps_type (strip_slot s) = ps_type s"
  "ps_sequence (strip_slot s) = ps_sequence s" "ps_starts (strip_slot s) = ps_starts s"
  "ps_ends (strip_slot s) = ps_ends s" "ps_status (strip_slot s) = ps_status s"
  by (simp_all add: strip_slot_def)

lemma strip_assignment_simps [simp]:
  "pa_member (strip_assignment a) = pa_member a" "pa_role (strip_assignment a) = pa_role a"
  "pa_part (strip_assignment a) = pa_part a" "pa_fallback (strip_assignment a) = pa_fallback a"
  by (simp_all add: strip_assignment_def)

subsection \<open>Validity depends on the content only\<close>

lemma slot_update_fixed: "x\<lparr>ps_sequence := a, ps_starts := b, ps_ends := c, ps_status := d\<rparr> = x \<longleftrightarrow>
    ps_sequence x = a \<and> ps_starts x = b \<and> ps_ends x = c \<and> ps_status x = d" for x :: plan_slot
  by (cases x) auto

lemma normalize_slots_nth_fixed: "normalize_slots status date lunch xs = xs \<longleftrightarrow> (\<forall>i < length xs.
    ps_sequence (xs ! i) = int (Suc i) \<and> ps_starts (xs ! i) = stamp date (fst (slot_times (length xs) lunch ! i))
    \<and> ps_ends (xs ! i) = stamp date (snd (slot_times (length xs) lunch ! i)) \<and> ps_status (xs ! i) = status)"
  by (simp add: list_eq_iff_nth_eq[of "normalize_slots status date lunch xs" xs] nth_normalize_slots slot_update_fixed)

lemma slots_ok_strip: "slots_ok cx st status c (map strip_slot xs) \<longleftrightarrow> slots_ok cx st status c xs"
proof -
  have "normalize_slots status (cd_date c) (st_lunch st) (map strip_slot xs) = map strip_slot xs \<longleftrightarrow>
      normalize_slots status (cd_date c) (st_lunch st) xs = xs"
    unfolding normalize_slots_nth_fixed by simp
  then show ?thesis by (simp add: slots_ok_def comp_def)
qed

definition crew_mset :: "string \<Rightarrow> plan_assignment multiset \<Rightarrow> plan_assignment multiset" where
  "crew_mset part as = filter_mset (\<lambda>a. pa_part a \<in> {part, ''full_day''}) as"

lemma crew_ok_mset:
  "crew_ok cx committee d c part \<longleftrightarrow> (let app = crew_mset part (image_mset strip_assignment (mset (pd_assignments d))) in
     (\<forall>a \<in># app. member_ok cx committee d c part a)
     \<and> image_mset (member_side cx) (filter_mset (\<lambda>a. pa_role a = ''examiner'') app) = mset sides
     \<and> size (filter_mset (\<lambda>a. pa_role a = ''fallback'') app) = 1
     \<and> (\<forall>m. count (image_mset pa_member app) m \<le> 1))"
proof -
  let ?app = "applicable part d"
  have m: "crew_mset part (image_mset strip_assignment (mset (pd_assignments d))) = image_mset strip_assignment (mset ?app)"
    by (simp add: crew_mset_def applicable_def filter_mset_image_mset flip: mset_filter)
  have o: "member_ok cx committee d c part (strip_assignment a) = member_ok cx committee d c part a" for a
    by (simp add: member_ok_def)
  have s: "member_side cx (strip_assignment a) = member_side cx a" for a by (simp add: member_side_def)
  have r: "filter_mset (\<lambda>a. pa_role a = t) (image_mset strip_assignment (mset ?app))
      = image_mset strip_assignment (mset (with_role t ?app))" for t
    by (simp add: with_role_def filter_mset_image_mset flip: mset_filter)
  have "distinct (map pa_member ?app) \<longleftrightarrow> (\<forall>m. count (mset (map pa_member ?app)) m \<le> 1)"
    unfolding distinct_count_atmost_1 by (auto simp: count_mset le_Suc_eq count_eq_zero_iff)
  then show ?thesis unfolding crew_ok_def Let_def m r
    by (simp add: o s image_mset.compositionality comp_def)
qed

lemma crew_ok_canon: "canon d = canon d' \<Longrightarrow> crew_ok cx committee d c part = crew_ok cx committee d' c part"
proof -
  assume a: "canon d = canon d'"
  then have "image_mset strip_assignment (mset (pd_assignments d)) = image_mset strip_assignment (mset (pd_assignments d'))"
    "pd_candidate_day d = pd_candidate_day d'" by (simp_all add: canon_def)
  moreover from this have "member_ok cx committee d c part = member_ok cx committee d' c part"
    by (simp add: member_ok_def fun_eq_iff)
  ultimately show ?thesis unfolding crew_ok_mset by simp
qed

lemma day_ok_canon:
  assumes "canon d = canon d'"
  shows "day_ok cx st committee status d = day_ok cx st committee status d'"
proof -
  have c: "pd_candidate_day d = pd_candidate_day d'" "pd_room d = pd_room d'" "pd_date d = pd_date d'"
    "pd_status d = pd_status d'" "map strip_slot (pd_slots d) = map strip_slot (pd_slots d')"
    "image_mset strip_assignment (mset (pd_assignments d)) = image_mset strip_assignment (mset (pd_assignments d'))"
    using assms by (simp_all add: canon_def)
  have l: "length (pd_slots d) = length (pd_slots d')" using arg_cong[OF c(5), of length] by simp
  then have u: "used_parts d = used_parts d'" by (simp add: used_parts_def)
  have s: "slots_ok cx st status c (pd_slots d) = slots_ok cx st status c (pd_slots d')" for c
    using slots_ok_strip c(5) by metis
  have a: "(\<forall>a \<in> set (pd_assignments d). P (pa_role a) (pa_part a)) \<longleftrightarrow> (\<forall>a \<in> set (pd_assignments d'). P (pa_role a) (pa_part a))" for P
  proof -
    have "(\<forall>a \<in># image_mset strip_assignment (mset (pd_assignments d)). P (pa_role a) (pa_part a)) \<longleftrightarrow>
        (\<forall>a \<in># image_mset strip_assignment (mset (pd_assignments d')). P (pa_role a) (pa_part a))" by (simp only: c(6))
    then show ?thesis by simp
  qed
  show ?thesis unfolding day_ok_def c(1-4) s u crew_ok_canon[OF assms] a[of "\<lambda>r p. r \<in> _ \<and> p \<in> _"] by simp
qed

lemma plan_ok_same:
  assumes "same_plan p q"
  shows "plan_ok cx status q = plan_ok cx status p"
proof -
  have r: "pp_round q = pp_round p" and m: "mset (map canon (pp_days q)) = mset (map canon (pp_days p))"
    using assms by (simp_all add: same_plan_def)
  have lift: "mset (map (\<lambda>d. g (canon d)) (pp_days q)) = mset (map (\<lambda>d. g (canon d)) (pp_days p))" for g :: "day_content \<Rightarrow> 'x"
    using arg_cong[OF m, of "image_mset g"] by (simp add: image_mset.compositionality comp_def)
  have sets: "canon ` set (pp_days q) = canon ` set (pp_days p)"
    using mset_eq_setD[OF m] by simp
  have all: "(\<forall>d \<in> set (pp_days q). P d) \<longleftrightarrow> (\<forall>d \<in> set (pp_days p). P d)"
    if P: "\<And>d d'. canon d = canon d' \<Longrightarrow> P d = P d'" for P
  proof -
    have t: "P d" if "d \<in> A" "canon ` A \<subseteq> canon ` B" "\<forall>d \<in> B. P d" for A B d
    proof -
      from that(1,2) obtain d' where "d' \<in> B" "canon d = canon d'" by blast
      with P that(3) show ?thesis by blast
    qed
    show ?thesis
    proof (intro iffI ballI)
      show "P d" if "\<forall>d \<in> set (pp_days q). P d" "d \<in> set (pp_days p)" for d
        by (rule t[OF that(2) _ that(1)]) (simp add: sets)
      show "P d" if "\<forall>d \<in> set (pp_days p). P d" "d \<in> set (pp_days q)" for d
        by (rule t[OF that(2) _ that(1)]) (simp add: sets)
    qed
  qed
  have e: "pp_days q = [] \<longleftrightarrow> pp_days p = []" using arg_cong[OF m, of size] by auto
  have d: "distinct (map pd_candidate_day (pp_days q)) \<longleftrightarrow> distinct (map pd_candidate_day (pp_days p))"
    by (rule mset_eq_imp_distinct_iff) (use lift[of fst] in \<open>simp add: canon_def\<close>)
  have dw: "canon x = canon y \<Longrightarrow> day_week cx x = day_week cx y" for x y by (simp add: canon_def day_week_def)
  have w: "week_days cx k (pp_days q) = week_days cx k (pp_days p)" for k
  proof -
    define g :: "day_content \<Rightarrow> bool" where "g = (\<lambda>c. (case day_by_id cx (fst c) of None \<Rightarrow> None
      | Some c \<Rightarrow> (case week_key (cd_date c) of Inl _ \<Rightarrow> None | Inr k \<Rightarrow> Some k)) = Some k)"
    have g: "g (canon x) \<longleftrightarrow> day_week cx x = Some k" for x by (simp add: g_def canon_def day_week_def)
    have f: "week_days cx k ds = count_list (map (\<lambda>d. g (canon d)) ds) True" for ds
      unfolding g by (induction ds) (auto simp: week_days_def)
    show ?thesis unfolding f using arg_cong[OF lift[of g], of "\<lambda>M. count M True"] by (simp only: count_mset)
  qed
  have s: "slot_count i t (plan_slots q) = slot_count i t (plan_slots p)" for i t
  proof -
    define g :: "day_content \<Rightarrow> nat" where "g = (\<lambda>(_, _, _, _, xs, _). slot_count i t xs)"
    have "slot_count i t (map strip_slot xs) = slot_count i t xs" for xs by (simp add: slot_count_map comp_def)
    then have g: "g (canon d) = slot_count i t (pd_slots d)" for d by (simp add: g_def canon_def)
    have "slot_count i t (concat (map pd_slots ds)) = sum_list (map (\<lambda>d. g (canon d)) ds)" for ds
      unfolding g by (induction ds) auto
    then have c: "slot_count i t (plan_slots x) = sum_mset (mset (map (\<lambda>d. g (canon d)) (pp_days x)))" for x
      by (simp only: plan_slots_def sum_mset_sum_list)
    show ?thesis unfolding c lift[of g] by (rule refl)
  qed
  have days: "(\<forall>d \<in> set (pp_days q). day_ok cx st c status d) \<longleftrightarrow> (\<forall>d \<in> set (pp_days p). day_ok cx st c status d)" for st c
    by (rule all) (rule day_ok_canon)
  have weeks: "(\<forall>d \<in> set (pp_days q). \<forall>k. day_week cx d = Some k \<longrightarrow> P k) \<longleftrightarrow>
      (\<forall>d \<in> set (pp_days p). \<forall>k. day_week cx d = Some k \<longrightarrow> P k)" for P
    by (rule all) (drule dw, simp)
  show ?thesis unfolding plan_ok_def r e d w s days weeks by (rule refl)
qed

end
