(* ===== verification/Plan_Persist.thy ===== *)
theory Plan_Persist
  imports Plan_Roundtrip
begin

text \<open>
  The writes of the planning unit of work, described by what they leave in the tables, and the
  reads after them.
\<close>

subsection \<open>New rows\<close>

lemma new_assignments_rows:
  assumes "fold_res (new_assignment k) as db = Inr db'"
  shows "\<exists>rows. db' = db\<lparr>tb_assignments := tb_assignments db @ rows\<rparr> \<and> (\<forall>r \<in> set rows. xa_day r = k)
    \<and> map (strip_assignment \<circ> read_assignment) rows = map strip_assignment as"
  using assms
proof (induction as arbitrary: db)
  case (Cons a as)
  define r where "r = \<lparr>xa_id = next_id (map xa_id (tb_assignments db)), xa_day = k, xa_member = pa_member a,
     xa_role = pa_role a, xa_part = pa_part a, xa_fallback = pa_fallback a\<rparr>"
  have "new_assignment k a db = Inr u \<Longrightarrow> u = db\<lparr>tb_assignments := tb_assignments db @ [r]\<rparr>" for u
    by (simp add: new_assignment_def add_assignment_def r_def ok_iff)
  with Cons.prems have "fold_res (new_assignment k) as (db\<lparr>tb_assignments := tb_assignments db @ [r]\<rparr>) = Inr db'"
    by (auto simp: bnd_Inr_iff)
  from Cons.IH[OF this] obtain rows where "db' = db\<lparr>tb_assignments := tb_assignments db @ r # rows\<rparr>"
    "\<forall>r \<in> set rows. xa_day r = k" "map (strip_assignment \<circ> read_assignment) rows = map strip_assignment as" by (auto simp: comp_def)
  moreover have "strip_assignment (read_assignment r) = strip_assignment a" "xa_day r = k"
    by (simp_all add: r_def strip_assignment_def read_assignment_def)
  ultimately show ?case by (intro exI[of _ "r # rows"]) (simp add: comp_def)
qed auto

lemma new_slots_rows:
  assumes "fold_res (new_slot_row k) ss db = Inr db'" "\<forall>s \<in> set ss. ps_status s = ''proposed''"
  shows "\<exists>rows. db' = db\<lparr>tb_slots := tb_slots db @ rows\<rparr> \<and> (\<forall>r \<in> set rows. xs_day r = k)
    \<and> map (strip_slot \<circ> read_slot) rows = map strip_slot ss"
  using assms
proof (induction ss arbitrary: db)
  case (Cons s ss)
  define r where "r = \<lparr>xs_id = next_id (map xs_id (tb_slots db)), xs_day = k,
     xs_candidate = ps_candidate s, xs_type = ps_type s, xs_starts = ps_starts s, xs_ends = ps_ends s,
     xs_sequence = ps_sequence s, xs_status = ''proposed'', xs_execution = ''open'', xs_started = None,
     xs_completed = None\<rparr>"
  have "new_slot_row k s db = Inr u \<Longrightarrow> u = db\<lparr>tb_slots := tb_slots db @ [r]\<rparr>" for u
    by (simp add: new_slot_row_def add_slot_def r_def ok_iff)
  with Cons.prems have "fold_res (new_slot_row k) ss (db\<lparr>tb_slots := tb_slots db @ [r]\<rparr>) = Inr db'"
    by (auto simp: bnd_Inr_iff)
  from Cons.IH[OF this] Cons.prems(2) obtain rows where "db' = db\<lparr>tb_slots := tb_slots db @ r # rows\<rparr>"
    "\<forall>r \<in> set rows. xs_day r = k" "map (strip_slot \<circ> read_slot) rows = map strip_slot ss" by (auto simp: comp_def)
  moreover have "strip_slot (read_slot r) = strip_slot s" "xs_day r = k"
    using Cons.prems(2) by (simp_all add: r_def strip_slot_def read_slot_def)
  ultimately show ?case by (intro exI[of _ "r # rows"]) (simp add: comp_def)
qed auto

subsection \<open>One day\<close>

text \<open>Slots and assignments belong to existing days, days and rounds have their own keys.\<close>

definition plan_wf :: "plan_db \<Rightarrow> bool" where
  "plan_wf db \<longleftrightarrow> distinct (map xd_id (tb_days db)) \<and> distinct (map er_id (tb_rounds db))
     \<and> (\<forall>s \<in> set (tb_slots db). xs_day s \<in> xd_id ` set (tb_days db))
     \<and> (\<forall>a \<in> set (tb_assignments db). xa_day a \<in> xd_id ` set (tb_days db))
     \<and> (\<forall>i. distinct (map cd_date (candidate_days_of db i)) \<and> distinct (map cd_id (candidate_days_of db i)))"

text \<open>A normalised day of the round: what \<open>persist_day\<close> is given.\<close>

definition storable :: "plan_db \<Rightarrow> int \<Rightarrow> plan_day \<Rightarrow> bool" where
  "storable db i d \<longleftrightarrow> pd_status d = ''proposed'' \<and> (\<forall>s \<in> set (pd_slots d). ps_status s = ''proposed'')
     \<and> sorted (map ps_sequence (pd_slots d))
     \<and> (\<exists>c \<in> set (candidate_days_of db i). cd_id c = pd_candidate_day d \<and> cd_date c = pd_date d)"

definition plan_frame :: "plan_db \<Rightarrow> plan_db \<Rightarrow> bool" where
  "plan_frame db db' \<longleftrightarrow> tb_settings db' = tb_settings db \<and> tb_candidates db' = tb_candidates db
     \<and> tb_members db' = tb_members db \<and> tb_candidate_days db' = tb_candidate_days db
     \<and> tb_availability db' = tb_availability db \<and> tb_active db' = tb_active db \<and> tb_rooms db' = tb_rooms db
     \<and> tb_revisions db' = tb_revisions db"

lemma plan_frame_refl [simp]: "plan_frame db db"
  by (simp add: plan_frame_def)

lemma plan_frame_trans: "plan_frame a b \<Longrightarrow> plan_frame b c \<Longrightarrow> plan_frame a c"
  by (simp add: plan_frame_def)

lemma candidate_day_lookup:
  assumes "distinct (map cd_date cs)" "c \<in> set cs"
  shows "map_of (rev (map (\<lambda>c. (cd_date c, cd_id c)) cs)) (cd_date c) = Some (cd_id c)"
proof (rule map_of_is_SomeI)
  show "distinct (map fst (rev (map (\<lambda>c. (cd_date c, cd_id c)) cs)))"
    using assms(1) by (simp add: rev_map[symmetric] comp_def)
  show "(cd_date c, cd_id c) \<in> set (rev (map (\<lambda>c. (cd_date c, cd_id c)) cs))" using assms(2) by auto
qed

lemma persist_day_effect:
  assumes p: "persist_day i lunch d db = Inr db'" and wf: "plan_wf db" and d: "storable db i d"
  shows "\<exists>row ss as. db' = db\<lparr>tb_days := tb_days db @ [row], tb_slots := tb_slots db @ ss,
      tb_assignments := tb_assignments db @ as\<rparr> \<and> xd_round row = i \<and> xd_id row \<notin> xd_id ` set (tb_days db)
    \<and> (\<forall>s \<in> set ss. xs_day s = xd_id row) \<and> (\<forall>a \<in> set as. xa_day a = xd_id row)
    \<and> xd_date row = pd_date d \<and> canon (read_day db' row) = canon d \<and> plan_wf db'"
proof -
  define row where "row = \<lparr>xd_id = next_id (map xd_id (tb_days db)), xd_round = i, xd_room = pd_room d,
    xd_date = pd_date d, xd_status = ''proposed'', xd_lunch = lunch, xd_closure = ''open''\<rparr>"
  let ?k = "xd_id row"
  have k: "?k = next_id (map xd_id (tb_days db))" by (simp add: row_def)
  from p obtain db1 where a: "fold_res (new_assignment ?k) (pd_assignments d) (db\<lparr>tb_days := tb_days db @ [row]\<rparr>) = Inr db1"
    and s: "fold_res (new_slot_row ?k) (pd_slots d) db1 = Inr db'"
    by (auto simp: persist_day_def Let_def add_day_def ok_iff row_def)
  from new_assignments_rows[OF a] obtain as where as:
    "db1 = (db\<lparr>tb_days := tb_days db @ [row]\<rparr>)\<lparr>tb_assignments := tb_assignments db @ as\<rparr>"
    "\<forall>r \<in> set as. xa_day r = ?k" "map (strip_assignment \<circ> read_assignment) as = map strip_assignment (pd_assignments d)"
    by auto
  from new_slots_rows[OF s] d obtain ss where ss: "db' = db1\<lparr>tb_slots := tb_slots db1 @ ss\<rparr>"
    "\<forall>r \<in> set ss. xs_day r = ?k" "map (strip_slot \<circ> read_slot) ss = map strip_slot (pd_slots d)"
    by (auto simp: storable_def)
  have fresh: "?k \<notin> xd_id ` set (tb_days db)" using next_id_fresh[of "map xd_id (tb_days db)"] by (simp add: k)
  have db': "db' = db\<lparr>tb_days := tb_days db @ [row], tb_slots := tb_slots db @ ss, tb_assignments := tb_assignments db @ as\<rparr>"
    using ss(1) as(1) by simp
  have "xs_day s \<noteq> ?k" if "s \<in> set (tb_slots db)" for s using wf fresh that unfolding plan_wf_def by metis
  moreover have "xa_day a \<noteq> ?k" if "a \<in> set (tb_assignments db)" for a
    using wf fresh that unfolding plan_wf_def by metis
  ultimately have "filter (\<lambda>s. xs_day s = ?k) (tb_slots db) = []" "filter (\<lambda>a. xa_day a = ?k) (tb_assignments db) = []"
    by (simp_all add: filter_empty_conv)
  then have f: "filter (\<lambda>s. xs_day s = ?k) (tb_slots db') = ss" "filter (\<lambda>a. xa_day a = ?k) (tb_assignments db') = as"
    using ss(2) as(2) by (auto simp: db' filter_id_conv)
  have "map xs_sequence ss = map ps_sequence (pd_slots d)"
    using arg_cong[OF ss(3), of "map ps_sequence"] by (simp add: comp_def read_slot_def)
  then have "sort_key xs_sequence ss = ss" using d by (simp add: sort_key_id_if_sorted storable_def)
  then have sl: "slots_of db' ?k = ss" by (simp add: slots_of_def f)
  have al: "mset (assignments_of db' ?k) = mset as" by (simp add: assignments_of_def f)
  from d obtain c where c: "c \<in> set (candidate_days_of db i)" "cd_id c = pd_candidate_day d" "cd_date c = pd_date d"
    by (auto simp: storable_def)
  have cd: "candidate_days_of db' = candidate_days_of db" by (simp add: db' candidate_days_of_def fun_eq_iff)
  have "map_of (rev (map (\<lambda>c. (cd_date c, cd_id c)) (candidate_days_of db' i))) (pd_date d) = Some (pd_candidate_day d)"
    using candidate_day_lookup[of "candidate_days_of db i" c] wf c by (simp add: cd plan_wf_def)
  then have "pd_candidate_day (read_day db' row) = pd_candidate_day d"
    unfolding read_day_def by (simp add: row_def)
  moreover have "map strip_slot (pd_slots (read_day db' row)) = map strip_slot (pd_slots d)"
    using ss(3) by (simp add: read_day_def sl)
  moreover have "image_mset strip_assignment (mset (pd_assignments (read_day db' row))) =
      image_mset strip_assignment (mset (pd_assignments d))"
    using arg_cong[OF as(3), of mset] by (simp add: read_day_def al image_mset.compositionality)
  ultimately have cn: "canon (read_day db' row) = canon d"
    using d by (simp add: canon_def read_day_def row_def storable_def)
  have wf': "plan_wf db'"
    using wf fresh ss(2) as(2) cd by (auto simp: plan_wf_def db')
  show ?thesis using db' fresh ss(2) as(2) cn wf' by (intro exI[of _ row] exI[of _ ss] exI[of _ as]) (simp add: row_def)
qed

lemma read_day_frame:
  assumes "tb_slots db' = tb_slots db @ ss" "tb_assignments db' = tb_assignments db @ as"
    and "\<forall>s \<in> set ss. xs_day s \<noteq> xd_id r" "\<forall>a \<in> set as. xa_day a \<noteq> xd_id r"
    and "tb_candidate_days db' = tb_candidate_days db"
  shows "read_day db' r = read_day db r"
proof -
  have "filter (\<lambda>s. xs_day s = xd_id r) ss = []" "filter (\<lambda>a. xa_day a = xd_id r) as = []"
    using assms(3,4) by (auto simp: filter_empty_conv)
  then show ?thesis using assms(1,2,5) by (simp add: read_day_def slots_of_def assignments_of_def candidate_days_of_def)
qed

text \<open>All days of a proposal.\<close>

lemma persist_days_effect:
  assumes "fold_res (persist_day i lunch) ds db = Inr db'" "plan_wf db" "\<forall>d \<in> set ds. storable db i d"
  shows "\<exists>rows ss as. db' = db\<lparr>tb_days := tb_days db @ rows, tb_slots := tb_slots db @ ss,
      tb_assignments := tb_assignments db @ as\<rparr> \<and> (\<forall>r \<in> set rows. xd_round r = i \<and> xd_id r \<notin> xd_id ` set (tb_days db))
    \<and> xs_day ` set ss \<subseteq> xd_id ` set rows \<and> xa_day ` set as \<subseteq> xd_id ` set rows
    \<and> map (\<lambda>r. canon (read_day db' r)) rows = map canon ds \<and> plan_wf db'"
  using assms
proof (induction ds arbitrary: db)
  case Nil
  then show ?case by (intro exI[of _ "[]"]) auto
next
  case (Cons d ds)
  from Cons.prems(1) obtain db1 where p: "persist_day i lunch d db = Inr db1"
    and rest: "fold_res (persist_day i lunch) ds db1 = Inr db'" by (auto simp: ok_iff)
  have sd: "storable db i d" using Cons.prems(3) by simp
  from persist_day_effect[OF p Cons.prems(2) sd] obtain row s1 a1 where one:
    "db1 = db\<lparr>tb_days := tb_days db @ [row], tb_slots := tb_slots db @ s1, tb_assignments := tb_assignments db @ a1\<rparr>"
    "xd_round row = i" "xd_id row \<notin> xd_id ` set (tb_days db)" "\<forall>s \<in> set s1. xs_day s = xd_id row"
    "\<forall>a \<in> set a1. xa_day a = xd_id row" "canon (read_day db1 row) = canon d" "plan_wf db1"
    by (elim exE conjE) (rule that; assumption)
  have "\<forall>d \<in> set ds. storable db1 i d" using Cons.prems(3) by (simp add: storable_def candidate_days_of_def one(1))
  from Cons.IH[OF rest one(7) this] obtain rows ss as where two:
    "db' = db1\<lparr>tb_days := tb_days db1 @ rows, tb_slots := tb_slots db1 @ ss, tb_assignments := tb_assignments db1 @ as\<rparr>"
    "\<forall>r \<in> set rows. xd_round r = i \<and> xd_id r \<notin> xd_id ` set (tb_days db1)"
    "xs_day ` set ss \<subseteq> xd_id ` set rows" "xa_day ` set as \<subseteq> xd_id ` set rows"
    "map (\<lambda>r. canon (read_day db' r)) rows = map canon ds" "plan_wf db'"
    by (elim exE conjE) (rule that; assumption)
  have "xd_id row \<notin> xd_id ` set rows" using two(2) by (auto simp: one(1))
  then have "\<forall>s \<in> set ss. xs_day s \<noteq> xd_id row" "\<forall>a \<in> set as. xa_day a \<noteq> xd_id row"
    using two(3,4) by (metis image_eqI subsetD)+
  then have "read_day db' row = read_day db1 row"
    by (intro read_day_frame[where ss = ss and as = as]) (simp_all add: two(1))
  with one two show ?case
    by (intro exI[of _ "row # rows"] exI[of _ "s1 @ ss"] exI[of _ "a1 @ as"]) auto
qed

end
