(* ===== verification/Plan_Replace.thy ===== *)
theory Plan_Replace
  imports Plan_Persist
begin

text \<open>
  What replacing and confirming a proposal leave in the tables, and why a proposal that was stored
  can be confirmed: the stored plan has the content of the given one, and the context it is checked
  in differs only in the rows of the round itself.
\<close>

subsection \<open>Claiming a revision\<close>

lemma claim_revision_Some:
  "claim_revision i e A t db = Some db' \<longleftrightarrow> (\<exists>r. round_by_id db i = Some r \<and> er_revision r = e \<and> er_status r \<in> A
     \<and> db' = db\<lparr>tb_rounds := upd_row er_id i (\<lambda>r. r\<lparr>er_revision := e + 1, er_status := t\<rparr>) (tb_rounds db)\<rparr>)"
  by (auto simp: claim_revision_def split: option.splits)

lemma round_by_id_upd: "(\<And>r. er_id (f r) = er_id r) \<Longrightarrow>
    round_by_id (db\<lparr>tb_rounds := upd_row er_id i f (tb_rounds db)\<rparr>) j
      = map_option (\<lambda>r. if j = i then f r else r) (round_by_id db j)"
  by (auto simp: round_by_id_def find_upd_row option.map_ident)

lemma round_by_id_key: "round_by_id db i = Some r \<Longrightarrow> er_id r = i"
  by (auto simp: round_by_id_def dest: find_Some_P)

subsection \<open>Clearing the days of a round\<close>

definition cleared :: "int \<Rightarrow> plan_db \<Rightarrow> plan_db" where
  "cleared i db = (let gone = xd_id ` {d \<in> set (tb_days db). xd_round d = i} in
     db\<lparr>tb_days := filter (\<lambda>d. xd_round d \<noteq> i) (tb_days db), tb_slots := filter (\<lambda>s. xs_day s \<notin> gone) (tb_slots db),
        tb_assignments := filter (\<lambda>a. xa_day a \<notin> gone) (tb_assignments db)\<rparr>)"

lemma delete_days:
  assumes "fold_res (\<lambda>d db. require (xd_status d \<noteq> ''confirmed'') e (Inr (delete_day d db))) ds db = Inr db'"
  shows "db' = db\<lparr>tb_days := filter (\<lambda>x. xd_id x \<notin> xd_id ` set ds) (tb_days db),
      tb_slots := filter (\<lambda>s. xs_day s \<notin> xd_id ` set ds) (tb_slots db),
      tb_assignments := filter (\<lambda>a. xa_day a \<notin> xd_id ` set ds) (tb_assignments db)\<rparr>
    \<and> (\<forall>d \<in> set ds. xd_status d \<noteq> ''confirmed'')"
  using assms
proof (induction ds arbitrary: db)
  case (Cons d ds)
  from Cons.prems have n: "xd_status d \<noteq> ''confirmed''"
    and r: "fold_res (\<lambda>d db. require (xd_status d \<noteq> ''confirmed'') e (Inr (delete_day d db))) ds (delete_day d db) = Inr db'"
    by (auto simp: ok_iff)
  have c: "filter (\<lambda>x. f x \<notin> A \<and> f x \<noteq> k) xs = filter (\<lambda>x. f x \<notin> insert k A) xs" for f :: "'x \<Rightarrow> int" and A k xs
    by (rule filter_cong) auto
  from Cons.IH[OF r] n show ?case by (simp add: delete_day_def conj_commute c)
qed simp

lemma clear_effect:
  assumes "clear_existing_proposal i db = Inr db'" "distinct (map xd_id (tb_days db))"
  shows "db' = cleared i db"
proof -
  let ?own = "{d \<in> set (tb_days db). xd_round d = i}"
  have s: "set (days_of db i) = ?own" by (simp add: days_of_def)
  have "xd_id x \<notin> xd_id ` ?own \<longleftrightarrow> xd_round x \<noteq> i" if "x \<in> set (tb_days db)" for x
    using assms(2) that by (auto simp: distinct_map inj_on_def)
  then have "filter (\<lambda>x. xd_id x \<notin> xd_id ` ?own) (tb_days db) = filter (\<lambda>d. xd_round d \<noteq> i) (tb_days db)"
    by (intro filter_cong) auto
  with delete_days[OF assms(1)[unfolded clear_existing_proposal_def]] show ?thesis
    by (simp add: s cleared_def Let_def)
qed

lemma cleared_frame [simp]: "plan_frame db (cleared i db)" "tb_rounds (cleared i db) = tb_rounds db"
  by (simp_all add: cleared_def plan_frame_def Let_def)

lemma candidate_days_of_frame: "plan_frame db db' \<Longrightarrow> candidate_days_of db' = candidate_days_of db"
  by (simp add: plan_frame_def candidate_days_of_def fun_eq_iff)

lemma cleared_wf: "plan_wf db \<Longrightarrow> plan_wf (cleared i db)"
proof -
  assume wf: "plan_wf db"
  let ?gone = "xd_id ` {d \<in> set (tb_days db). xd_round d = i}"
  have k: "k \<in> xd_id ` {d \<in> set (tb_days db). xd_round d \<noteq> i}" if "k \<in> xd_id ` set (tb_days db)" "k \<notin> ?gone" for k
    using that by auto
  have d: "distinct (map xd_id (filter (\<lambda>d. xd_round d \<noteq> i) (tb_days db)))"
    using wf by (simp add: plan_wf_def distinct_map_filter)
  have s: "\<forall>s \<in> set (tb_slots (cleared i db)). xs_day s \<in> xd_id ` set (tb_days (cleared i db))"
    using wf k by (auto simp: plan_wf_def cleared_def Let_def)
  have a: "\<forall>a \<in> set (tb_assignments (cleared i db)). xa_day a \<in> xd_id ` set (tb_days (cleared i db))"
    using wf k by (auto simp: plan_wf_def cleared_def Let_def)
  have c: "candidate_days_of (cleared i db) = candidate_days_of db" by (rule candidate_days_of_frame) simp
  show ?thesis using wf d s a unfolding plan_wf_def c by (simp add: cleared_def Let_def)
qed

subsection \<open>Replacing a proposal\<close>

text \<open>The rows of other rounds: days, and the slots and assignments of these days.\<close>

definition foreign_days :: "int \<Rightarrow> plan_db \<Rightarrow> exam_day_row list" where
  "foreign_days i db = filter (\<lambda>d. xd_round d \<noteq> i) (tb_days db)"

definition foreign_day :: "int \<Rightarrow> plan_db \<Rightarrow> int \<Rightarrow> bool" where
  "foreign_day i db k \<longleftrightarrow> k \<in> xd_id ` set (foreign_days i db)"

definition foreign_assignments :: "int \<Rightarrow> plan_db \<Rightarrow> assignment_row list" where
  "foreign_assignments i db = filter (\<lambda>a. foreign_day i db (xa_day a)) (tb_assignments db)"

definition foreign_slots :: "int \<Rightarrow> plan_db \<Rightarrow> exam_slot_row list" where
  "foreign_slots i db = filter (\<lambda>s. foreign_day i db (xs_day s)) (tb_slots db)"

lemma foreign_day_iff:
  assumes "distinct (map xd_id (tb_days db))" "k \<in> xd_id ` set (tb_days db)"
  shows "foreign_day i db k \<longleftrightarrow> k \<notin> xd_id ` {d \<in> set (tb_days db). xd_round d = i}"
  using assms by (auto simp: foreign_day_def foreign_days_def distinct_map inj_on_def)

lemma replace_effect:
  assumes r: "replace_proposal p e A t db = Inr (Some db')" and wf: "plan_wf db"
    and st: "\<forall>d \<in> set (pp_days p). storable db (pp_round p) d"
  shows "\<exists>r q. round_by_id db (pp_round p) = Some r \<and> er_revision r = e
    \<and> round_by_id db' (pp_round p) = Some (r\<lparr>er_revision := e + 1, er_status := t\<rparr>)
    \<and> read_proposal db' (pp_round p) = Some q \<and> same_plan p q \<and> pp_revision q = e + 1
    \<and> plan_wf db' \<and> plan_frame db db' \<and> tb_rounds db' = upd_row er_id (pp_round p)
         (\<lambda>r. r\<lparr>er_revision := e + 1, er_status := t\<rparr>) (tb_rounds db)
    \<and> foreign_days (pp_round p) db' = foreign_days (pp_round p) db
    \<and> foreign_slots (pp_round p) db' = foreign_slots (pp_round p) db
    \<and> foreign_assignments (pp_round p) db' = foreign_assignments (pp_round p) db"
proof -
  let ?i = "pp_round p"
  let ?f = "\<lambda>r. r\<lparr>er_revision := e + 1, er_status := t\<rparr>"
  from r obtain db1 db2 where c: "claim_revision ?i e A t db = Some db1" and cl: "clear_existing_proposal ?i db1 = Inr db2"
    and pe: "persist_proposal p db2 = Inr db'"
    by (auto simp: replace_proposal_def ok_iff split: option.splits)
  from c obtain row where row: "round_by_id db ?i = Some row" "er_revision row = e"
    and db1: "db1 = db\<lparr>tb_rounds := upd_row er_id ?i ?f (tb_rounds db)\<rparr>" by (auto simp: claim_revision_Some)
  have cd1: "candidate_days_of db1 = candidate_days_of db" by (simp add: db1 candidate_days_of_def fun_eq_iff)
  have "distinct (map er_id (tb_rounds db1))" using wf by (simp add: db1 plan_wf_def map_key_upd_row)
  then have wf1: "plan_wf db1" using wf cd1 by (simp add: plan_wf_def db1)
  have db2: "db2 = cleared ?i db1" by (rule clear_effect[OF cl]) (use wf1 in \<open>simp add: plan_wf_def\<close>)
  have wf2: "plan_wf db2" unfolding db2 by (rule cleared_wf[OF wf1])
  have cd2: "candidate_days_of db2 = candidate_days_of db" unfolding db2 cd1[symmetric] by (rule candidate_days_of_frame) simp
  from pe obtain lunch where fr: "fold_res (persist_day ?i lunch) (pp_days p) db2 = Inr db'"
    by (auto simp: persist_proposal_def split: option.splits)
  have "\<forall>d \<in> set (pp_days p). storable db2 ?i d" using st by (simp add: storable_def cd2)
  from persist_days_effect[OF fr wf2 this] obtain rows ss as where eff:
    "db' = db2\<lparr>tb_days := tb_days db2 @ rows, tb_slots := tb_slots db2 @ ss, tb_assignments := tb_assignments db2 @ as\<rparr>"
    "\<forall>r \<in> set rows. xd_round r = ?i \<and> xd_id r \<notin> xd_id ` set (tb_days db2)"
    "xs_day ` set ss \<subseteq> xd_id ` set rows" "xa_day ` set as \<subseteq> xd_id ` set rows"
    "map (\<lambda>r. canon (read_day db' r)) rows = map canon (pp_days p)" "plan_wf db'"
    by (elim exE conjE) (rule that; assumption)
  have rounds: "tb_rounds db' = upd_row er_id ?i ?f (tb_rounds db)" by (simp add: eff(1) db2 db1)
  have rb: "round_by_id db' ?i = Some (?f row)"
    using round_by_id_upd[of ?f ?i db ?i] row(1) by (simp add: round_by_id_def rounds)
  have own: "filter (\<lambda>d. xd_round d = ?i) (tb_days db') = rows"
    using eff(2) by (auto simp: eff(1) db2 cleared_def Let_def filter_empty_conv filter_id_conv)
  have d2: "tb_days db2 = foreign_days ?i db" by (simp add: db2 db1 cleared_def Let_def foreign_days_def)
  have fd: "foreign_days ?i db' = foreign_days ?i db"
    using eff(2) by (auto simp: foreign_days_def eff(1) db2 db1 cleared_def Let_def filter_empty_conv filter_id_conv)
  have fk: "foreign_day ?i db' = foreign_day ?i db" by (simp add: foreign_day_def fd fun_eq_iff)
  have keep: "foreign_day ?i db k \<longleftrightarrow> k \<notin> xd_id ` {d \<in> set (tb_days db). xd_round d = ?i}"
    if "k \<in> xd_id ` set (tb_days db)" for k
    by (rule foreign_day_iff[OF _ that]) (use wf in \<open>simp add: plan_wf_def\<close>)
  have new: "\<not> foreign_day ?i db k" if "k \<in> xd_id ` set rows" for k
    using eff(2) that by (auto simp: foreign_day_def d2)
  have s2: "tb_slots db2 = foreign_slots ?i db" and a2: "tb_assignments db2 = foreign_assignments ?i db"
    using wf keep by (auto simp: db2 db1 cleared_def Let_def foreign_slots_def foreign_assignments_def plan_wf_def
        intro!: filter_cong)
  have s: "foreign_slots ?i db' = foreign_slots ?i db"
  proof -
    have "filter (\<lambda>s. foreign_day ?i db (xs_day s)) ss = []" using eff(3) new by (auto simp: filter_empty_conv)
    moreover have "tb_slots db' = foreign_slots ?i db @ ss" by (simp add: eff(1) s2)
    ultimately show ?thesis unfolding foreign_slots_def[of _ db'] fk by (simp add: foreign_slots_def)
  qed
  have a: "foreign_assignments ?i db' = foreign_assignments ?i db"
  proof -
    have "filter (\<lambda>a. foreign_day ?i db (xa_day a)) as = []" using eff(4) new by (auto simp: filter_empty_conv)
    moreover have "tb_assignments db' = foreign_assignments ?i db @ as" by (simp add: eff(1) a2)
    ultimately show ?thesis unfolding foreign_assignments_def[of _ db'] fk by (simp add: foreign_assignments_def)
  qed
  define q where "q = \<lparr>pp_round = ?i, pp_revision = e + 1, pp_days = map (read_day db') (days_of db' ?i)\<rparr>"
  have rq: "read_proposal db' ?i = Some q" by (simp add: read_proposal_def rb q_def)
  have "image_mset canon (mset (pp_days q)) = mset (map (\<lambda>r. canon (read_day db' r)) rows)"
    by (simp add: q_def days_of_def own image_mset.compositionality comp_def)
  then have sp: "same_plan p q" by (simp add: same_plan_def q_def eff(5))
  have fr': "plan_frame db db'" by (simp add: plan_frame_def eff(1) db2 db1 cleared_def Let_def)
  show ?thesis using row rb rq sp eff(6) fr' rounds fd s a by (simp add: q_def)
qed

subsection \<open>Reservations by other rounds\<close>

lemma blocked_foreign:
  assumes "distinct (map xd_id (tb_days db))" "er_id r = i"
  shows "blocked_person_ids db (Some r) =
    fold (block_assignment db r) (sort_key (\<lambda>a. (xa_day a, xa_part a, xa_role a)) (foreign_assignments i db)) []"
proof -
  have own: "block_assignment db r a b = b" if "\<not> foreign_day i db (xa_day a)" for a b
  proof (cases "List.find (\<lambda>d. xd_id d = xa_day a) (tb_days db)")
    case (Some d)
    then have "d \<in> set (tb_days db)" "xd_id d = xa_day a" by (auto dest: find_Some_mem find_Some_P)
    with that have "xd_round d = i" by (auto simp: foreign_day_def foreign_days_def image_iff)
    then show ?thesis using assms(2) Some by (simp add: block_assignment_def split: option.splits)
  qed (simp add: block_assignment_def)
  have f: "fold (block_assignment db r) xs b = fold (block_assignment db r) (filter (\<lambda>a. foreign_day i db (xa_day a)) xs) b" for xs b
    by (induction xs arbitrary: b) (auto simp: own)
  show ?thesis unfolding blocked_person_ids_def foreign_assignments_def option.case filter_sort[symmetric] by (rule f)
qed

lemma find_foreign:
  assumes "distinct (map xd_id (tb_days db))" "foreign_day i db k"
  shows "List.find (\<lambda>d. xd_id d = k) (tb_days db) = List.find (\<lambda>d. xd_id d = k) (foreign_days i db)"
proof -
  from assms(2) obtain d where d: "d \<in> set (tb_days db)" "xd_round d \<noteq> i" "xd_id d = k"
    by (auto simp: foreign_day_def foreign_days_def)
  have "distinct (map xd_id (foreign_days i db))" using assms(1) by (simp add: foreign_days_def distinct_map_filter)
  then have "List.find (\<lambda>d. xd_id d = k) (foreign_days i db) = Some d"
    using d by (simp add: find_key_iff foreign_days_def)
  with assms(1) d show ?thesis by (simp add: find_key_iff)
qed

lemma blocked_same:
  assumes d: "distinct (map xd_id (tb_days db))" "distinct (map xd_id (tb_days db'))"
    and r: "er_id r = i" "er_id r' = i" "er_half_year r' = er_half_year r"
    and f: "foreign_days i db' = foreign_days i db" "foreign_assignments i db' = foreign_assignments i db"
    and m: "tb_members db' = tb_members db" and q: "\<And>j. j \<noteq> i \<Longrightarrow> round_by_id db' j = round_by_id db j"
  shows "blocked_person_ids db' (Some r') = blocked_person_ids db (Some r)"
proof -
  have fk: "foreign_day i db' = foreign_day i db" by (simp add: foreign_day_def f fun_eq_iff)
  have "block_assignment db' r' a b = block_assignment db r a b" if a: "a \<in> set (foreign_assignments i db)" for a b
  proof -
    have k: "foreign_day i db (xa_day a)" using a by (simp add: foreign_assignments_def)
    then obtain d where fd: "List.find (\<lambda>d. xd_id d = xa_day a) (foreign_days i db) = Some d"
      by (cases "List.find (\<lambda>d. xd_id d = xa_day a) (foreign_days i db)") (auto simp: foreign_day_def find_None_iff)
    then have "d \<in> set (foreign_days i db)" by (rule find_Some_mem)
    then have n: "xd_round d \<noteq> i" by (simp add: foreign_days_def)
    have "List.find (\<lambda>d. xd_id d = xa_day a) (tb_days db) = Some d"
      "List.find (\<lambda>d. xd_id d = xa_day a) (tb_days db') = Some d"
      using find_foreign[OF d(1) k] find_foreign[of db' i, OF d(2)] k fd by (simp_all add: f fk)
    then show ?thesis using n q[OF n] r m by (simp add: block_assignment_def split: option.split)
  qed
  then show ?thesis unfolding blocked_foreign[OF d(1) r(1)] blocked_foreign[OF d(2) r(2)] f
    by (intro fold_cong refl ext) simp_all
qed

subsection \<open>The context after a write\<close>

definition same_facts :: "plan_context \<Rightarrow> plan_context \<Rightarrow> bool" where
  "same_facts cx cx' \<longleftrightarrow> map_option er_committee (cx_round cx') = map_option er_committee (cx_round cx)
     \<and> cx_settings cx' = cx_settings cx \<and> cx_candidates cx' = cx_candidates cx \<and> cx_members cx' = cx_members cx
     \<and> cx_days cx' = cx_days cx \<and> cx_availability cx' = cx_availability cx \<and> cx_blocked cx' = cx_blocked cx
     \<and> cx_active cx' = cx_active cx \<and> cx_rooms cx' = cx_rooms cx"

lemma plan_ok_facts:
  assumes "same_facts cx cx'"
  shows "plan_ok cx' status p = plan_ok cx status p"
proof -
  note f = assms[unfolded same_facts_def]
  have d: "day_by_id cx' = day_by_id cx" using f by (simp add: day_by_id_def fun_eq_iff)
  have m: "member_by_id cx' = member_by_id cx" using f by (simp add: member_by_id_def fun_eq_iff)
  have a: "availability_of cx' = availability_of cx" using f by (simp add: availability_of_def fun_eq_iff)
  have b: "blocked_at cx' = blocked_at cx" using f by (simp add: blocked_at_def fun_eq_iff)
  have mo: "member_ok cx' = member_ok cx" by (simp add: member_ok_def fun_eq_iff m a b)
  have ms: "member_side cx' = member_side cx" by (simp add: member_side_def fun_eq_iff m)
  have co: "crew_ok cx' = crew_ok cx" by (simp add: crew_ok_def fun_eq_iff mo ms)
  have so: "slots_ok cx' = slots_ok cx" using f by (simp add: slots_ok_def fun_eq_iff)
  have dok: "day_ok cx' = day_ok cx" using f by (simp add: day_ok_def fun_eq_iff d co so)
  have w: "day_week cx' = day_week cx" by (simp add: day_week_def fun_eq_iff d)
  have wd: "week_days cx' = week_days cx" by (simp add: week_days_def fun_eq_iff w)
  show ?thesis
  proof (cases "cx_round cx")
    case None
    with f show ?thesis by (simp add: plan_ok_def)
  next
    case (Some r)
    with f obtain r' where "cx_round cx' = Some r'" "er_committee r' = er_committee r" by auto
    with Some f show ?thesis by (simp add: plan_ok_def dok w wd)
  qed
qed

lemma context_facts:
  assumes fr: "plan_frame db db'" and wf: "plan_wf db" "plan_wf db'" and r: "round_by_id db i = Some r"
    and up: "tb_rounds db' = upd_row er_id i f (tb_rounds db)"
    and k: "\<And>r. er_id (f r) = er_id r" "\<And>r. er_committee (f r) = er_committee r" "\<And>r. er_half_year (f r) = er_half_year r"
    and fo: "foreign_days i db' = foreign_days i db" "foreign_assignments i db' = foreign_assignments i db"
  shows "same_facts (sn_context (planning_context coords db i)) (sn_context (planning_context coords db' i))"
proof -
  have q: "round_by_id db' j = map_option (\<lambda>r. if j = i then f r else r) (round_by_id db j)" for j
    using round_by_id_upd[of f i db j] k(1) by (simp add: round_by_id_def up)
  have r': "round_by_id db' i = Some (f r)" by (simp add: q r)
  have "blocked_person_ids db' (Some (f r)) = blocked_person_ids db (Some r)"
  proof (rule blocked_same[OF _ _ _ _ _ fo])
    show "er_id r = i" "er_id (f r) = i" using round_by_id_key[OF r] by (simp_all add: k)
    show "round_by_id db' j = round_by_id db j" if "j \<noteq> i" for j using that by (simp add: q option.map_ident)
  qed (use wf fr in \<open>simp_all add: plan_wf_def plan_frame_def k\<close>)
  with fr show ?thesis
    by (simp add: same_facts_def planning_context_def Let_def r r' k plan_frame_def usable_room_ids_def
        candidate_days_of_frame[OF fr])
qed

end
