(* ===== verification/Plan_Lifecycle.thy ===== *)
theory Plan_Lifecycle
  imports Plan_Replace
begin

text \<open>
  From a saved or generated proposal to a confirmed plan: each use case of the planning service
  described by the plan it leaves behind.
\<close>

subsection \<open>Valid plans can be stored\<close>

lemma sequence_sorted: "normalize_slots status date lunch xs = xs \<Longrightarrow> sorted (map ps_sequence xs)"
  by (auto simp: normalize_slots_nth_fixed sorted_iff_nth_mono)

lemma plan_ok_storable:
  assumes "plan_ok (sn_context (planning_context coords db i)) ''proposed'' p"
  shows "\<forall>d \<in> set (pp_days p). storable db i d"
proof
  fix d assume d: "d \<in> set (pp_days p)"
  let ?cx = "sn_context (planning_context coords db i)"
  from assms d obtain st k where "day_ok ?cx st k ''proposed'' d" by (auto simp: plan_ok_def)
  then obtain c where c: "day_by_id ?cx (pd_candidate_day d) = Some c" "pd_date d = cd_date c"
    "pd_status d = ''proposed''" "slots_ok ?cx st ''proposed'' c (pd_slots d)" by (auto simp: day_ok_def)
  from c(4) have fixed: "normalize_slots ''proposed'' (cd_date c) (st_lunch st) (pd_slots d) = pd_slots d"
    by (simp add: slots_ok_def)
  then have "\<forall>s \<in> set (pd_slots d). ps_status s = ''proposed''"
    by (auto simp: normalize_slots_nth_fixed in_set_conv_nth)
  moreover have "c \<in> set (candidate_days_of db i)" "cd_id c = pd_candidate_day d"
    using c(1) find_Some_mem find_Some_P by (fastforce simp: day_by_id_def planning_context_def Let_def)+
  ultimately show "storable db i d" using c sequence_sorted[OF fixed] by (auto simp: storable_def)
qed

subsection \<open>Saving\<close>

text \<open>Keys of the rows, and a write of round \<open>i\<close>: it moves the round to the next revision and to
  status \<open>t\<close>, and leaves the days of other rounds as they are.\<close>

definition slot_keys :: "plan_db \<Rightarrow> bool" where
  "slot_keys db \<longleftrightarrow> distinct (map xs_id (tb_slots db)) \<and> distinct (map xd_id (tb_days db))"

definition round_write :: "int \<Rightarrow> int \<Rightarrow> planning_status \<Rightarrow> plan_db \<Rightarrow> plan_db \<Rightarrow> bool" where
  "round_write i e t db db' \<longleftrightarrow>
     tb_rounds db' = upd_row er_id i (\<lambda>r. r\<lparr>er_revision := e + 1, er_status := t\<rparr>) (tb_rounds db)
     \<and> foreign_days i db' = foreign_days i db \<and> (slot_keys db \<longrightarrow> slot_keys db')"

lemma fold_slots_keys:
  assumes "fold_res (new_slot_row k) ss db = Inr db'" "distinct (map xs_id (tb_slots db))"
  shows "distinct (map xs_id (tb_slots db'))"
  by (rule fold_res_inv[OF assms(1), where I = "\<lambda>db. distinct (map xs_id (tb_slots db))"])
    (use assms(2) next_id_fresh in \<open>auto simp: new_slot_row_def add_slot_def ok_iff image_iff\<close>, metis image_eqI list.set_map next_id_fresh)

lemma fold_assignments_slots: "fold_res (new_assignment k) as db = Inr db' \<Longrightarrow> tb_slots db' = tb_slots db"
  by (erule fold_res_inv[where I = "\<lambda>x. tb_slots x = tb_slots db"])
    (auto simp: new_assignment_def add_assignment_def ok_iff)

lemma persist_day_slot_ids:
  assumes "persist_day i lunch d db = Inr db'" "distinct (map xs_id (tb_slots db))"
  shows "distinct (map xs_id (tb_slots db'))"
proof -
  have add: "tb_slots t = tb_slots s" if "add_day x s = Inr t" for x s t using that by (auto simp: add_day_def ok_iff)
  from assms(1) obtain k x db1 db2 where "add_day x db = Inr db1" "fold_res (new_assignment k) (pd_assignments d) db1 = Inr db2"
    "fold_res (new_slot_row k) (pd_slots d) db2 = Inr db'"
    unfolding persist_day_def Let_def bnd_Inr_iff by blast
  then show ?thesis using assms(2) add fold_assignments_slots fold_slots_keys by metis
qed

lemma replace_slot_ids:
  assumes r: "replace_proposal p e A t db = Inr (Some db')" and wf: "plan_wf db" and k: "distinct (map xs_id (tb_slots db))"
  shows "distinct (map xs_id (tb_slots db'))"
proof -
  from r obtain db1 db2 where c: "claim_revision (pp_round p) e A t db = Some db1" and cl: "clear_existing_proposal (pp_round p) db1 = Inr db2"
    and pe: "persist_proposal p db2 = Inr db'"
    by (auto simp: replace_proposal_def ok_iff split: option.splits)
  have s1: "tb_slots db1 = tb_slots db" "tb_days db1 = tb_days db" using c by (auto simp: claim_revision_Some)
  have "db2 = cleared (pp_round p) db1" by (rule clear_effect[OF cl]) (use wf s1 in \<open>simp add: plan_wf_def\<close>)
  then have k2: "distinct (map xs_id (tb_slots db2))" using k s1 by (simp add: cleared_def Let_def distinct_map_filter)
  from pe obtain lunch where "fold_res (persist_day (pp_round p) lunch) (pp_days p) db2 = Inr db'"
    by (auto simp: persist_proposal_def split: option.splits)
  then show ?thesis
    by (rule fold_res_inv[where I = "\<lambda>db. distinct (map xs_id (tb_slots db))"]) (use k2 persist_day_slot_ids in blast)+
qed

text \<open>What the tables and the context of the round are after a proposal has been stored.\<close>

definition stored :: "bool \<Rightarrow> plan_db \<Rightarrow> proposal \<Rightarrow> int \<Rightarrow> plan_db \<Rightarrow> proposal \<Rightarrow> bool" where
  "stored coords db n e db' q \<longleftrightarrow> (let i = pp_round n in
     plan_wf db' \<and> read_proposal db' i = Some q \<and> same_plan n q \<and> pp_revision q = e + 1
     \<and> (\<exists>r. round_by_id db' i = Some r \<and> er_revision r = e + 1 \<and> er_status r = PlProposed)
     \<and> round_write i e PlProposed db db'
     \<and> same_facts (sn_context (planning_context coords db i)) (sn_context (planning_context coords db' i)))"

lemma replace_stored:
  assumes "replace_proposal n e A PlProposed db = Inr (Some db')" "plan_wf db"
    and "plan_ok (sn_context (planning_context coords db (pp_round n))) ''proposed'' n"
  shows "\<exists>q. stored coords db n e db' q"
proof -
  let ?i = "pp_round n"
  let ?f = "\<lambda>r. r\<lparr>er_revision := e + 1, er_status := PlProposed\<rparr>"
  from replace_effect[OF assms(1,2) plan_ok_storable[OF assms(3)]] obtain r q where
    r: "round_by_id db ?i = Some r" and r': "round_by_id db' ?i = Some (?f r)"
    and q: "read_proposal db' ?i = Some q" "same_plan n q" "pp_revision q = e + 1"
    and wf': "plan_wf db'" and fr: "plan_frame db db'" and up: "tb_rounds db' = upd_row er_id ?i ?f (tb_rounds db)"
    and fo: "foreign_days ?i db' = foreign_days ?i db" "foreign_assignments ?i db' = foreign_assignments ?i db"
    by (elim exE conjE) (rule that; assumption)
  have "same_facts (sn_context (planning_context coords db ?i)) (sn_context (planning_context coords db' ?i))"
    by (rule context_facts[OF fr assms(2) wf' r up _ _ _ fo]) simp_all
  moreover have "round_write ?i e PlProposed db db'"
    using up fo(1) replace_slot_ids[OF assms(1,2)] wf' by (simp add: round_write_def slot_keys_def plan_wf_def)
  ultimately show ?thesis using q r' wf' by (auto simp: stored_def Let_def)
qed

lemma snapshot_read: "sn_proposal (plan_snapshot e db i) = read_proposal db i"
  "sn_context (plan_snapshot e db i) = sn_context (planning_context (pe_coordinates e) db i)"
  by (simp_all add: plan_snapshot_def planning_context_def Let_def)

lemma context_round: "cx_round (sn_context (planning_context coords db i)) = round_by_id db i"
  by (simp add: planning_context_def Let_def)

lemma case_Inl_option: "(case x of None \<Rightarrow> Inl err | Some y \<Rightarrow> f y) = Inr z \<longleftrightarrow> (\<exists>y. x = Some y \<and> f y = Inr z)"
  by (cases x) auto

lemma save_proposal_stored:
  assumes s: "save_proposal e p db = Inr (db', q)" and wf: "plan_wf db"
  defines "n \<equiv> normalize_proposal (sn_context (plan_snapshot e db (pp_round p))) ''proposed'' p"
  shows "pe_lock e (pp_round p) = None \<and> plan_ok (sn_context (plan_snapshot e db (pp_round p))) ''proposed'' n
    \<and> stored (pe_coordinates e) db n (pp_revision p) db' q"
proof -
  have i: "pp_round n = pp_round p" by (simp add: n_def normalize_proposal_def)
  from s have lock: "pe_lock e (pp_round p) = None"
    by (auto simp: save_proposal_def Let_def case_Inl_option ok_iff check_lock_def split: option.splits)
  from s have ok: "plan_ok (sn_context (plan_snapshot e db (pp_round p))) ''proposed'' n"
    and re: "replace_proposal n (pp_revision p) {PlProposed} PlProposed db = Inr (Some db')"
    and q: "read_proposal db' (pp_round p) = Some q"
    by (auto simp: save_proposal_def Let_def case_Inl_option ok_iff raise_for_invalid_iff n_def snapshot_read)
  have "\<exists>q. stored (pe_coordinates e) db n (pp_revision p) db' q"
    by (rule replace_stored[OF re wf]) (use ok in \<open>simp add: snapshot_read i\<close>)
  then have "stored (pe_coordinates e) db n (pp_revision p) db' q" using q by (auto simp: stored_def Let_def i)
  with lock ok show ?thesis by simp
qed

lemma generate_proposal_stored:
  assumes s: "generate_proposal e i db = Inr (db', q, g)" and wf: "plan_wf db"
  shows "\<exists>n k. pe_lock e i = None \<and> pp_round n = i \<and> plan_ok (sn_context (plan_snapshot e db i)) ''proposed'' n
    \<and> stored (pe_coordinates e) db n k db' q"
proof -
  from s obtain r st where lock: "pe_lock e i = None" and r: "round_by_id db i = Some r"
    and "\<exists>n. n = normalize_proposal (sn_context (plan_snapshot e db i)) ''proposed'' (generated_aggregate r st g)
      \<and> plan_ok (sn_context (plan_snapshot e db i)) ''proposed'' n
      \<and> replace_proposal n (pp_revision n) coordination PlProposed db = Inr (Some db')"
    and q: "read_proposal db' i = Some q"
    by (auto simp: generate_proposal_def Let_def case_Inl_option ok_iff raise_for_invalid_iff check_lock_def
        snapshot_read context_round split: option.splits)
  then obtain n where n: "n = normalize_proposal (sn_context (plan_snapshot e db i)) ''proposed'' (generated_aggregate r st g)"
    and ok: "plan_ok (sn_context (plan_snapshot e db i)) ''proposed'' n"
    and re: "replace_proposal n (pp_revision n) coordination PlProposed db = Inr (Some db')" by blast
  have i: "pp_round n = i"
    using round_by_id_key[OF r] by (simp add: n normalize_proposal_def generated_aggregate_def)
  have "\<exists>q. stored (pe_coordinates e) db n (pp_revision n) db' q"
    by (rule replace_stored[OF re wf]) (use ok in \<open>simp add: snapshot_read i\<close>)
  then have "stored (pe_coordinates e) db n (pp_revision n) db' q" using q by (auto simp: stored_def Let_def i)
  with lock ok i show ?thesis by blast
qed

subsection \<open>Confirming\<close>

definition confirm_day :: "plan_day \<Rightarrow> plan_day" where
  "confirm_day d = d\<lparr>pd_status := ''confirmed'', pd_slots := map (\<lambda>s. s\<lparr>ps_status := ''confirmed''\<rparr>) (pd_slots d),
     pd_assignments := map (\<lambda>a. if pa_role a = ''fallback'' then a\<lparr>pa_fallback := Some ''confirmed''\<rparr> else a)
       (pd_assignments d)\<rparr>"

definition confirmed :: "proposal \<Rightarrow> proposal" where
  "confirmed p = p\<lparr>pp_revision := pp_revision p + 1, pp_days := map confirm_day (pp_days p)\<rparr>"

lemma sort_filter_map:
  assumes "\<And>x. x \<in> set xs \<Longrightarrow> P (g x) = P x" "\<And>x. x \<in> set xs \<Longrightarrow> P x \<Longrightarrow> g x = h x" "\<And>x. f (h x) = f x"
  shows "sort_key f (filter P (map g xs)) = map h (sort_key f (filter P xs))"
proof -
  have "insort_key f (h x) (map h ys) = map h (insort_key f x ys)" for x ys
    by (induction ys) (simp_all add: assms(3))
  then have "sort_key f (map h ys) = map h (sort_key f ys)" for ys by (induction ys) simp_all
  moreover have "filter P (map g xs) = map h (filter P xs)"
    using assms(1,2) by (induction xs) auto
  ultimately show ?thesis by simp
qed

lemma confirm_rows_days: "days_of (confirm_rows i db) i = map (\<lambda>d. d\<lparr>xd_status := ''confirmed''\<rparr>) (days_of db i)"
proof -
  have t: "tb_days (confirm_rows i db) = map (\<lambda>d. if xd_id d \<in> xd_id ` set (days_of db i)
      then d\<lparr>xd_status := ''confirmed''\<rparr> else d) (tb_days db)" by (simp add: confirm_rows_def Let_def)
  have m: "xd_id x \<in> xd_id ` set (days_of db i)" if "x \<in> set (tb_days db)" "xd_round x = i" for x
    using that by (simp add: days_of_def)
  show ?thesis unfolding days_of_def[of "confirm_rows i db"] t unfolding days_of_def[of db]
    by (rule sort_filter_map) (auto simp: m[unfolded days_of_def])
qed

lemma confirm_rows_slots:
  assumes "k \<in> xd_id ` set (days_of db i)"
  shows "slots_of (confirm_rows i db) k = map (\<lambda>s. s\<lparr>xs_status := ''confirmed''\<rparr>) (slots_of db k)"
  unfolding slots_of_def confirm_rows_def Let_def using assms by (simp, intro sort_filter_map) auto

lemma confirm_rows_assignments:
  assumes "k \<in> xd_id ` set (days_of db i)"
  shows "assignments_of (confirm_rows i db) k =
    map (\<lambda>a. if xa_role a = ''fallback'' then a\<lparr>xa_fallback := Some ''confirmed''\<rparr> else a) (assignments_of db k)"
  unfolding assignments_of_def confirm_rows_def Let_def using assms by (simp, intro sort_filter_map) auto

lemma confirm_rows_read:
  assumes "d \<in> set (days_of db i)"
  shows "read_day (confirm_rows i db) (d\<lparr>xd_status := ''confirmed''\<rparr>) = confirm_day (read_day db d)"
proof -
  have k: "xd_id d \<in> xd_id ` set (days_of db i)" using assms by simp
  have c: "candidate_days_of (confirm_rows i db) = candidate_days_of db"
    by (simp add: confirm_rows_def Let_def candidate_days_of_def fun_eq_iff)
  show ?thesis
    by (simp add: read_day_def confirm_day_def confirm_rows_slots[OF k] confirm_rows_assignments[OF k] c
        read_slot_def read_assignment_def)
qed

lemma confirm_proposal_effect:
  assumes "confirm_proposal i e db = Some db'" "read_proposal db i = Some p"
  shows "read_proposal db' i = Some (confirmed p) \<and> (\<exists>r. round_by_id db i = Some r \<and> er_revision r = e \<and>
    er_status r = PlProposed \<and> round_by_id db' i = Some (r\<lparr>er_revision := e + 1, er_status := PlConfirmed\<rparr>))"
proof -
  let ?f = "\<lambda>r. r\<lparr>er_revision := e + 1, er_status := PlConfirmed\<rparr>"
  from assms(1) obtain r where r: "round_by_id db i = Some r" "er_revision r = e" "er_status r = PlProposed"
    and d: "db' = confirm_rows i (db\<lparr>tb_rounds := upd_row er_id i ?f (tb_rounds db)\<rparr>)"
    by (auto simp: confirm_proposal_def claim_revision_Some)
  let ?db1 = "db\<lparr>tb_rounds := upd_row er_id i ?f (tb_rounds db)\<rparr>"
  have rd: "read_day ?db1 = read_day db"
    by (simp add: fun_eq_iff read_day_def slots_of_def assignments_of_def candidate_days_of_def)
  have dd: "days_of ?db1 = days_of db" by (simp add: days_of_def fun_eq_iff)
  have r': "round_by_id db' i = Some (?f r)"
    using round_by_id_upd[of ?f i db i] r(1) by (simp add: d confirm_rows_def Let_def round_by_id_def)
  have "map (read_day db') (days_of db' i) = map (\<lambda>x. confirm_day (read_day db x)) (days_of db i)"
    unfolding d confirm_rows_days using confirm_rows_read[of _ ?db1 i] by (simp add: rd dd)
  moreover have "p = \<lparr>pp_round = i, pp_revision = e, pp_days = map (read_day db) (days_of db i)\<rparr>"
    using assms(2) r by (simp add: read_proposal_def)
  ultimately have "read_proposal db' i = Some (confirmed p)"
    by (simp add: read_proposal_def r' confirmed_def comp_def)
  with r r' show ?thesis by blast
qed

text \<open>A proposal that was just stored can be confirmed.\<close>

lemma stored_confirmable:
  assumes st: "stored (pe_coordinates e) db n k db' q" and ok: "plan_ok (sn_context (plan_snapshot e db (pp_round n))) ''proposed'' n"
    and lock: "pe_lock e (pp_round n) = None"
  shows "\<exists>db2 days slots. confirm_plan e (pp_round n) db' = Inr (db2, confirmed q, days, slots)"
proof -
  let ?i = "pp_round n"
  from st obtain r where r: "round_by_id db' ?i = Some r" "er_revision r = k + 1" "er_status r = PlProposed"
    and q: "read_proposal db' ?i = Some q" "same_plan n q" "pp_revision q = k + 1"
    and f: "same_facts (sn_context (plan_snapshot e db ?i)) (sn_context (plan_snapshot e db' ?i))"
    by (auto simp: stored_def Let_def snapshot_read)
  have okq: "plan_ok (sn_context (plan_snapshot e db' ?i)) ''proposed'' q"
    using ok by (simp add: plan_ok_facts[OF f] plan_ok_same[OF q(2)])
  then have ne: "pp_days q \<noteq> []" by (auto simp: plan_ok_def)
  obtain db2 where c: "confirm_proposal ?i (k + 1) db' = Some db2"
    using r by (auto simp: confirm_proposal_def claim_revision_def)
  from confirm_proposal_effect[OF c q(1)] have rq: "read_proposal db2 ?i = Some (confirmed q)" by blast
  have v: "raise_for_invalid (sn_context (planning_context (pe_coordinates e) db' ?i)) ''proposed'' q = Inr ()"
    using okq by (simp add: raise_for_invalid_iff snapshot_read)
  show ?thesis using r q ne c rq v lock
    by (simp add: confirm_plan_def Let_def snapshot_read context_round check_lock_def)
qed

subsection \<open>A confirmed plan is a valid confirmed plan\<close>

definition confirm_assignment :: "plan_assignment \<Rightarrow> plan_assignment" where
  "confirm_assignment a = (if pa_role a = ''fallback'' then a\<lparr>pa_fallback := Some ''confirmed''\<rparr> else a)"

lemma confirm_assignment_simps [simp]:
  "pa_member (confirm_assignment a) = pa_member a" "pa_role (confirm_assignment a) = pa_role a"
  "pa_part (confirm_assignment a) = pa_part a"
  by (simp_all add: confirm_assignment_def)

lemma confirm_day_simps [simp]:
  "pd_candidate_day (confirm_day d) = pd_candidate_day d" "pd_room (confirm_day d) = pd_room d"
  "pd_date (confirm_day d) = pd_date d" "pd_status (confirm_day d) = ''confirmed''"
  "pd_slots (confirm_day d) = map (\<lambda>s. s\<lparr>ps_status := ''confirmed''\<rparr>) (pd_slots d)"
  "pd_assignments (confirm_day d) = map confirm_assignment (pd_assignments d)"
  by (simp_all add: confirm_day_def confirm_assignment_def[abs_def])

lemma confirm_day_ok:
  assumes "day_ok cx st committee ''proposed'' d"
  shows "day_ok cx st committee ''confirmed'' (confirm_day d)"
proof -
  have u: "used_parts (confirm_day d) = used_parts d" by (simp add: used_parts_def)
  have s: "slots_ok cx st ''confirmed'' c (map (\<lambda>s. s\<lparr>ps_status := ''confirmed''\<rparr>) xs)"
    if "slots_ok cx st ''proposed'' c xs" for c xs
    using that by (auto simp: slots_ok_def normalize_slots_nth_fixed comp_def)
  have ap: "applicable part (confirm_day d) = map confirm_assignment (applicable part d)" for part
    by (simp add: applicable_def filter_map comp_def)
  have wr: "with_role t (map confirm_assignment xs) = map confirm_assignment (with_role t xs)" for t xs
    by (simp add: with_role_def filter_map comp_def)
  have mo: "member_ok cx committee (confirm_day d) c part (confirm_assignment a) = member_ok cx committee d c part a" for c part a
    by (simp add: member_ok_def)
  have ms: "member_side cx (confirm_assignment a) = member_side cx a" for a by (simp add: member_side_def)
  have cr: "crew_ok cx committee (confirm_day d) c part = crew_ok cx committee d c part" for c part
    by (simp add: crew_ok_def ap Let_def wr comp_def mo ms image_mset.compositionality)
  from assms s show ?thesis by (auto simp: day_ok_def u cr)
qed

lemma plan_ok_confirmed:
  assumes "plan_ok cx ''proposed'' p"
  shows "plan_ok cx ''confirmed'' (confirmed p)"
proof -
  have w: "day_week cx (confirm_day d) = day_week cx d" for d by (simp add: day_week_def)
  have wd: "week_days cx k (map confirm_day ds) = week_days cx k ds" for k ds
    by (simp add: week_days_def filter_map comp_def w)
  have "slot_count i t (concat (map pd_slots (map confirm_day ds))) = slot_count i t (concat (map pd_slots ds))" for i t ds
    by (induction ds) (simp_all add: slot_count_def filter_map comp_def)
  then have s: "slot_count i t (plan_slots (confirmed p)) = slot_count i t (plan_slots p)" for i t
    by (simp add: plan_slots_def confirmed_def)
  have c: "map pd_candidate_day (pp_days (confirmed p)) = map pd_candidate_day (pp_days p)"
    "pp_round (confirmed p) = pp_round p" "pp_days (confirmed p) = map confirm_day (pp_days p)"
    by (simp_all add: confirmed_def comp_def)
  show ?thesis using assms unfolding plan_ok_def s c
    by (auto simp: w wd confirm_day_ok comp_def)
qed

lemma ball_map_same: "(\<And>x. f (g x) = f x) \<Longrightarrow> (\<forall>y \<in> set (map g xs). f y \<in> K) = (\<forall>x \<in> set xs. f x \<in> K)"
  by simp

lemma confirm_facts:
  assumes wf: "plan_wf db" and c: "confirm_proposal i e db = Some db'"
  shows "plan_wf db' \<and> same_facts (sn_context (planning_context coords db i)) (sn_context (planning_context coords db' i))
    \<and> round_write i e PlConfirmed db db'"
proof -
  let ?f = "\<lambda>r. r\<lparr>er_revision := e + 1, er_status := PlConfirmed\<rparr>"
  from c obtain r where r: "round_by_id db i = Some r"
    and d: "db' = confirm_rows i (db\<lparr>tb_rounds := upd_row er_id i ?f (tb_rounds db)\<rparr>)"
    by (auto simp: confirm_proposal_def claim_revision_Some)
  have up: "tb_rounds db' = upd_row er_id i ?f (tb_rounds db)" by (simp add: d confirm_rows_def Let_def)
  have fr: "plan_frame db db'" by (simp add: d confirm_rows_def Let_def plan_frame_def)
  let ?ids = "xd_id ` set (days_of db i)"
  have dd: "days_of (db\<lparr>tb_rounds := upd_row er_id i ?f (tb_rounds db)\<rparr>) i = days_of db i" by (simp add: days_of_def)
  have t: "tb_days db' = map (\<lambda>d. if xd_id d \<in> ?ids then d\<lparr>xd_status := ''confirmed''\<rparr> else d) (tb_days db)"
    "tb_slots db' = map (\<lambda>s. if xs_day s \<in> ?ids then s\<lparr>xs_status := ''confirmed''\<rparr> else s) (tb_slots db)"
    "tb_assignments db' = map (\<lambda>a. if xa_day a \<in> ?ids \<and> xa_role a = ''fallback''
       then a\<lparr>xa_fallback := Some ''confirmed''\<rparr> else a) (tb_assignments db)"
    by (simp_all add: d confirm_rows_def Let_def dd)
  have own: "xd_id d \<notin> ?ids" if "d \<in> set (tb_days db)" "xd_round d \<noteq> i" for d
    using wf that by (auto simp: plan_wf_def days_of_def distinct_map inj_on_def)
  have fd: "foreign_days i db' = foreign_days i db"
  proof -
    have "filter (\<lambda>d. xd_round d \<noteq> i) (map (\<lambda>d. if xd_id d \<in> ?ids then d\<lparr>xd_status := ''confirmed''\<rparr> else d) xs)
        = filter (\<lambda>d. xd_round d \<noteq> i) xs" if "set xs \<subseteq> set (tb_days db)" for xs
      using that own by (induction xs) auto
    then show ?thesis by (simp add: foreign_days_def t)
  qed
  have fk: "foreign_day i db' = foreign_day i db" by (simp add: foreign_day_def fd fun_eq_iff)
  have nf: "k \<notin> ?ids" if "foreign_day i db k" for k
    using own that by (auto simp: foreign_day_def foreign_days_def)
  have fa: "foreign_assignments i db' = foreign_assignments i db"
  proof -
    have "filter (\<lambda>a. foreign_day i db (xa_day a)) (map (\<lambda>a. if xa_day a \<in> ?ids \<and> xa_role a = ''fallback''
         then a\<lparr>xa_fallback := Some ''confirmed''\<rparr> else a) xs) = filter (\<lambda>a. foreign_day i db (xa_day a)) xs" for xs
      using nf by (induction xs) auto
    then show ?thesis unfolding foreign_assignments_def fk t .
  qed
  have wf': "plan_wf db'"
  proof -
    have i: "map xd_id (tb_days db') = map xd_id (tb_days db)" by (simp add: t)
    then have s: "xd_id ` set (tb_days db') = xd_id ` set (tb_days db)" by (metis set_map)
    have k: "map er_id (tb_rounds db') = map er_id (tb_rounds db)" by (simp add: up map_key_upd_row)
    have b: "(\<forall>s \<in> set (tb_slots db'). xs_day s \<in> K) = (\<forall>s \<in> set (tb_slots db). xs_day s \<in> K)"
      "(\<forall>a \<in> set (tb_assignments db'). xa_day a \<in> K) = (\<forall>a \<in> set (tb_assignments db). xa_day a \<in> K)" for K
      unfolding t by (rule ball_map_same, simp)+
    show ?thesis using wf unfolding plan_wf_def i s k candidate_days_of_frame[OF fr] b by simp
  qed
  have ix: "map xs_id (tb_slots db') = map xs_id (tb_slots db)" by (simp add: t)
  have "round_write i e PlConfirmed db db'" using up fd wf' by (simp add: round_write_def slot_keys_def plan_wf_def ix)
  then show ?thesis using wf' context_facts[OF fr wf wf' r up _ _ _ fd fa] by simp
qed

lemma confirm_plan_effect:
  assumes c: "confirm_plan e i db = Inr (db', q, days, slots)" and wf: "plan_wf db"
  shows "\<exists>p. read_proposal db i = Some p \<and> q = confirmed p \<and> read_proposal db' i = Some q \<and> plan_wf db'
    \<and> (\<exists>r. round_by_id db i = Some r \<and> er_status r = PlProposed
        \<and> round_by_id db' i = Some (r\<lparr>er_revision := er_revision r + 1, er_status := PlConfirmed\<rparr>))
    \<and> plan_ok (sn_context (plan_snapshot e db' i)) ''confirmed'' q \<and> round_write i (pp_revision p) PlConfirmed db db'"
proof -
  from c obtain p where p: "read_proposal db i = Some p" and
    ok: "plan_ok (sn_context (plan_snapshot e db i)) ''proposed'' p"
    and cp: "confirm_proposal i (pp_revision p) db = Some db'" and q: "read_proposal db' i = Some q"
    by (auto simp: confirm_plan_def Let_def case_Inl_option ok_iff raise_for_invalid_iff snapshot_read)
  from confirm_proposal_effect[OF cp p] q have eq: "q = confirmed p" by simp
  have f: "plan_wf db' \<and> same_facts (sn_context (plan_snapshot e db i)) (sn_context (plan_snapshot e db' i))
      \<and> round_write i (pp_revision p) PlConfirmed db db'"
    unfolding snapshot_read by (rule confirm_facts[OF wf cp])
  then have v: "plan_ok (sn_context (plan_snapshot e db' i)) ''confirmed'' q"
    unfolding eq using plan_ok_facts plan_ok_confirmed[OF ok] by blast
  from confirm_proposal_effect[OF cp p] obtain r where r: "round_by_id db i = Some r" "er_revision r = pp_revision p"
    "er_status r = PlProposed" "round_by_id db' i = Some (r\<lparr>er_revision := pp_revision p + 1, er_status := PlConfirmed\<rparr>)"
    by blast
  from r have r': "round_by_id db i = Some r \<and> er_status r = PlProposed
        \<and> round_by_id db' i = Some (r\<lparr>er_revision := er_revision r + 1, er_status := PlConfirmed\<rparr>)" by simp
  show ?thesis using p eq q f v r' by blast
qed

end
