(* ===== verification/Plan_Revise.thy ===== *)
theory Plan_Revise
  imports Plan_Lifecycle
begin

text \<open>
  Revising a confirmed plan: which rows a revision can touch. Days keep their identity and round,
  slots and assignments keep theirs, and rows of days outside the editable part stay as they are.
\<close>

subsection \<open>The frame of a revision\<close>

definition day_revised :: "int set \<Rightarrow> exam_day_row \<Rightarrow> exam_day_row \<Rightarrow> bool" where
  "day_revised D d d' \<longleftrightarrow> d' = d \<or> xd_id d \<in> D \<and> xd_id d' = xd_id d \<and> xd_round d' = xd_round d
     \<and> xd_closure d' = xd_closure d \<and> xd_lunch d' = xd_lunch d \<and> xd_status d' = ''confirmed''"

definition slot_revised :: "int set \<Rightarrow> int set \<Rightarrow> exam_slot_row \<Rightarrow> exam_slot_row \<Rightarrow> bool" where
  "slot_revised D S s s' \<longleftrightarrow> s' = s \<or> xs_id s \<in> S \<and> xs_id s' = xs_id s \<and> xs_day s' \<in> insert (xs_day s) D
     \<and> xs_execution s' = xs_execution s \<and> xs_started s' = xs_started s \<and> xs_completed s' = xs_completed s"

definition assignment_revised :: "int set \<Rightarrow> int set \<Rightarrow> assignment_row \<Rightarrow> assignment_row \<Rightarrow> bool" where
  "assignment_revised D A a a' \<longleftrightarrow> a' = a \<or> xa_id a \<in> A \<and> xa_id a' = xa_id a \<and> xa_day a' \<in> insert (xa_day a) D"

definition revised :: "int set \<Rightarrow> int set \<Rightarrow> int set \<Rightarrow> plan_db \<Rightarrow> plan_db \<Rightarrow> bool" where
  "revised D S A db db' \<longleftrightarrow> tb_rounds db' = tb_rounds db \<and> plan_frame db db'
     \<and> list_all2 (day_revised D) (tb_days db) (tb_days db')
     \<and> list_all2 (slot_revised D S) (tb_slots db) (tb_slots db')
     \<and> list_all2 (assignment_revised D A) (tb_assignments db) (tb_assignments db')"

lemma revised_parts_refl [simp]: "day_revised D d d" "slot_revised D S s s" "assignment_revised D A a a"
  by (simp_all add: day_revised_def slot_revised_def assignment_revised_def)

lemma revised_refl [simp]: "revised D S A db db"
  by (simp add: revised_def list.rel_refl)

lemma revised_trans:
  assumes "revised D S A a b" "revised D S A b c"
  shows "revised D S A a c"
proof -
  have d: "day_revised D x z" if "day_revised D x y" "day_revised D y z" for x y z
    using that by (auto simp: day_revised_def)
  have s: "slot_revised D S x z" if "slot_revised D S x y" "slot_revised D S y z" for x y z
    using that by (auto simp: slot_revised_def)
  have g: "assignment_revised D A x z" if "assignment_revised D A x y" "assignment_revised D A y z" for x y z
    using that by (auto simp: assignment_revised_def)
  note u = assms(1)[unfolded revised_def] and v = assms(2)[unfolded revised_def]
  have "list_all2 (day_revised D) (tb_days a) (tb_days c)"
    by (rule list_all2_trans[of "day_revised D" "day_revised D" "day_revised D" "tb_days a" "tb_days b"], erule (1) d) (use u v in simp_all)
  moreover have "list_all2 (slot_revised D S) (tb_slots a) (tb_slots c)"
    by (rule list_all2_trans[of "slot_revised D S" "slot_revised D S" "slot_revised D S" "tb_slots a" "tb_slots b"], erule (1) s) (use u v in simp_all)
  moreover have "list_all2 (assignment_revised D A) (tb_assignments a) (tb_assignments c)"
    by (rule list_all2_trans[of "assignment_revised D A" "assignment_revised D A" "assignment_revised D A" "tb_assignments a" "tb_assignments b"], erule (1) g) (use u v in simp_all)
  moreover have "plan_frame a c" by (rule plan_frame_trans[of a b]) (use u v in simp_all)
  ultimately show ?thesis using u v by (simp add: revised_def)
qed

lemma rel_upd_row: "(\<And>x. x \<in> set xs \<Longrightarrow> key x = k \<Longrightarrow> R x (f x)) \<Longrightarrow> (\<And>x. R x x) \<Longrightarrow> list_all2 R xs (upd_row key k f xs)"
  by (auto simp: upd_row_def list_all2_conv_all_nth)

lemma fold_res_rel:
  assumes "fold_res f xs s = Inr t" "\<And>x s t. x \<in> set xs \<Longrightarrow> f x s = Inr t \<Longrightarrow> R s t"
    and "\<And>s. R s s" "\<And>a b c. R a b \<Longrightarrow> R b c \<Longrightarrow> R a c"
  shows "R s t"
  using assms(1,2)
proof (induction xs arbitrary: s)
  case (Cons x xs)
  from Cons.prems(1) obtain u where u: "f x s = Inr u" "fold_res f xs u = Inr t" by (auto simp: ok_iff)
  have "R s u" by (rule Cons.prems(2)[OF _ u(1)]) simp
  moreover have "R u t" by (rule Cons.IH[OF u(2)]) (rule Cons.prems(2), simp_all)
  ultimately show ?case using assms(4) by blast
qed (use assms(3) in simp)

lemma park_slot_revised:
  assumes "park_slot s db = Inr db'" "ps_id s \<in> Some ` S"
  shows "revised D S A db db'"
proof -
  from assms obtain k where k: "k \<in> S" and "db' = db\<lparr>tb_slots := upd_row xs_id k (\<lambda>r. r\<lparr>xs_sequence := 1000000 + k\<rparr>) (tb_slots db)\<rparr>"
    by (auto simp: park_slot_def ok_iff)
  then show ?thesis
    by (simp add: revised_def plan_frame_def list.rel_refl rel_upd_row slot_revised_def)
qed

lemma revise_assignment_revised:
  assumes "revise_assignment d a db = Inr db'" "pa_id a \<in> Some ` A" "d \<in> D"
  shows "revised D S A db db'"
  using assms by (auto simp: revise_assignment_def put_assignment_def ok_iff revised_def plan_frame_def list.rel_refl
      assignment_revised_def split: if_splits intro!: rel_upd_row)

lemma revise_slot_revised:
  assumes "revise_slot d s db = Inr db'" "ps_id s \<in> Some ` S" "d \<in> D" "distinct (map xs_id (tb_slots db))"
  shows "revised D S A db db'"
proof -
  from assms(1,2) obtain k where k: "ps_id s = Some k" "k \<in> S" by auto
  show ?thesis
  proof (cases "List.find (\<lambda>r. xs_id r = k) (tb_slots db)")
    case None
    with assms(1) k show ?thesis by (simp add: revise_slot_def)
  next
    case (Some r)
    then have rk: "xs_id r = k" by (auto dest: find_Some_P)
    have u: "x = r" if "x \<in> set (tb_slots db)" "xs_id x = k" for x
      using find_key_unique[OF assms(4) that(1) Some that(2)] .
    let ?r = "r\<lparr>xs_day := d, xs_candidate := ps_candidate s, xs_type := ps_type s,
         xs_starts := ps_starts s, xs_ends := ps_ends s, xs_sequence := ps_sequence s, xs_status := ''confirmed''\<rparr>"
    have "db' = db\<lparr>tb_slots := upd_row xs_id k (\<lambda>_. ?r) (tb_slots db)\<rparr>"
      using assms(1) k(1) Some rk by (simp add: revise_slot_def put_slot_def ok_iff)
    moreover have "list_all2 (slot_revised D S) (tb_slots db) (upd_row xs_id k (\<lambda>_. ?r) (tb_slots db))"
      by (rule rel_upd_row) (use u assms(3) k(2) rk in \<open>auto simp: slot_revised_def\<close>)
    ultimately show ?thesis by (simp add: revised_def plan_frame_def list.rel_refl)
  qed
qed

text \<open>Identities of slots are the table's keys; every step keeps them.\<close>

lemma revised_keys: "revised D S A db db' \<Longrightarrow> map xs_id (tb_slots db') = map xs_id (tb_slots db)
    \<and> map xd_id (tb_days db') = map xd_id (tb_days db) \<and> map xd_round (tb_days db') = map xd_round (tb_days db)"
  unfolding revised_def list_all2_conv_all_nth day_revised_def slot_revised_def
  by (intro conjI; rule nth_equalityI; force)

lemma revised_slot_keys: "revised D S A db db' \<Longrightarrow> slot_keys db' = slot_keys db"
  using revised_keys unfolding slot_keys_def by metis

lemma fold_revised:
  assumes "fold_res f xs db = Inr db'" "slot_keys db"
    and "\<And>x db db'. x \<in> set xs \<Longrightarrow> f x db = Inr db' \<Longrightarrow> slot_keys db \<Longrightarrow> revised D S A db db'"
  shows "revised D S A db db'"
proof -
  have "slot_keys db \<longrightarrow> revised D S A db db'"
  proof (rule fold_res_rel[OF assms(1), where R = "\<lambda>a b. slot_keys a \<longrightarrow> revised D S A a b"])
    fix a b c assume "slot_keys a \<longrightarrow> revised D S A a b" "slot_keys b \<longrightarrow> revised D S A b c"
    then show "slot_keys a \<longrightarrow> revised D S A a c" using revised_slot_keys revised_trans by blast
  qed (use assms(3) in simp_all)
  with assms(2) show ?thesis by blast
qed

lemma revise_day_parts:
  assumes "revise_day d db = Inr db'"
  obtains i db1 db2 where "pd_id d = Some i"
    "(case List.find (\<lambda>r. xd_id r = i) (tb_days db) of None \<Rightarrow> Inr db
       | Some r \<Rightarrow> put_day (r\<lparr>xd_room := pd_room d, xd_date := pd_date d, xd_status := ''confirmed''\<rparr>) db) = Inr db1"
    "fold_res (revise_assignment i) (pd_assignments d) db1 = Inr db2" "fold_res (revise_slot i) (pd_slots d) db2 = Inr db'"
proof (cases "pd_id d")
  case None
  with assms show ?thesis by (simp add: revise_day_def)
next
  case (Some i)
  with assms that show ?thesis by (auto simp: revise_day_def bnd_Inr_iff)
qed

lemma revise_day_revised:
  assumes r: "revise_day d db = Inr db'" and k: "slot_keys db" and D: "pd_id d \<in> Some ` D"
    and S: "ps_id ` set (pd_slots d) \<subseteq> Some ` S" and A: "pa_id ` set (pd_assignments d) \<subseteq> Some ` A"
  shows "revised D S A db db'"
proof -
  from revise_day_parts[OF r] obtain i db1 db2 where pi: "pd_id d = Some i" and
    d: "(case List.find (\<lambda>r. xd_id r = i) (tb_days db) of None \<Rightarrow> Inr db
         | Some r \<Rightarrow> put_day (r\<lparr>xd_room := pd_room d, xd_date := pd_date d, xd_status := ''confirmed''\<rparr>) db) = Inr db1"
    and a: "fold_res (revise_assignment i) (pd_assignments d) db1 = Inr db2"
    and s: "fold_res (revise_slot i) (pd_slots d) db2 = Inr db'" by blast
  from D pi have i: "pd_id d = Some i" "i \<in> D" by auto
  have one: "revised D S A db db1"
  proof (cases "List.find (\<lambda>r. xd_id r = i) (tb_days db)")
    case None
    with d show ?thesis by simp
  next
    case (Some r)
    then have ri: "xd_id r = i" by (auto dest: find_Some_P)
    have u: "x = r" if "x \<in> set (tb_days db)" "xd_id x = i" for x
      by (rule find_key_unique[OF _ that(1) Some that(2)]) (use k in \<open>simp add: slot_keys_def\<close>)
    let ?r = "r\<lparr>xd_room := pd_room d, xd_date := pd_date d, xd_status := ''confirmed''\<rparr>"
    have "db1 = db\<lparr>tb_days := upd_row xd_id i (\<lambda>_. ?r) (tb_days db)\<rparr>"
      using d Some ri by (simp add: put_day_def ok_iff)
    moreover have "list_all2 (day_revised D) (tb_days db) (upd_row xd_id i (\<lambda>_. ?r) (tb_days db))"
      by (rule rel_upd_row) (use u i(2) ri in \<open>auto simp: day_revised_def\<close>)
    ultimately show ?thesis by (simp add: revised_def plan_frame_def list.rel_refl)
  qed
  then have k1: "slot_keys db1" using k revised_slot_keys by blast
  have two: "revised D S A db1 db2"
    by (rule fold_revised[OF a k1]) (rule revise_assignment_revised, assumption, use A i(2) in auto)
  then have k2: "slot_keys db2" using k1 revised_slot_keys by blast
  have "revised D S A db2 db'"
    by (rule fold_revised[OF s k2]) (rule revise_slot_revised, assumption, use S i(2) in \<open>auto simp: slot_keys_def\<close>)
  with one two show ?thesis using revised_trans by blast
qed

definition editable_days :: "proposal \<Rightarrow> int list \<Rightarrow> plan_day list" where
  "editable_days p protected = filter (\<lambda>d. pd_id d \<notin> Some ` set protected) (pp_days p)"

lemma persist_confirmed_revised:
  assumes r: "persist_confirmed_plan p protected db = Inr db'" and k: "slot_keys db"
    and D: "\<forall>d \<in> set (editable_days p protected). pd_id d \<in> Some ` D \<and> ps_id ` set (pd_slots d) \<subseteq> Some ` S
      \<and> pa_id ` set (pd_assignments d) \<subseteq> Some ` A"
  shows "revised D S A db db'"
proof -
  from r obtain db1 where p: "fold_res park_slot (concat (map pd_slots (editable_days p protected))) db = Inr db1"
    and d: "fold_res revise_day (editable_days p protected) db1 = Inr db'"
    by (auto simp: persist_confirmed_plan_def Let_def editable_days_def bnd_Inr_iff)
  have one: "revised D S A db db1"
    by (rule fold_revised[OF p k]) (rule park_slot_revised, assumption, use D in fastforce)
  then have "slot_keys db1" using k revised_slot_keys by blast
  then have "revised D S A db1 db'"
    by (rule fold_revised[OF d]) (rule revise_day_revised, assumption, assumption, use D in auto)
  with one show ?thesis using revised_trans by blast
qed

subsection \<open>The use case\<close>

lemma save_confirmed_parts:
  assumes "save_confirmed_plan e p reason actor db = Inr (db', q, v, ms)"
  defines "i \<equiv> pp_round p" and "cx \<equiv> sn_context (plan_snapshot e db (pp_round p))"
  shows "\<exists>r prior db1 db2. round_by_id db i = Some r \<and> er_status r = PlConfirmed \<and> er_revision r = pp_revision p
    \<and> pe_lock e i = None \<and> read_proposal db i = Some prior
    \<and> confirmed_plan_shape prior p = Inr ()
    \<and> plan_ok cx ''confirmed'' (normalize_proposal cx ''confirmed'' p)
    \<and> protected_days_unchanged prior (normalize_proposal cx ''confirmed'' p) (cx_protected cx) = Inr ()
    \<and> strip reason \<noteq> []
    \<and> claim_revision i (pp_revision p) {PlConfirmed} PlConfirmed db = Some db1
    \<and> persist_confirmed_plan (normalize_proposal cx ''confirmed'' p) (cx_protected cx) db1 = Inr db2
    \<and> db' = db2\<lparr>tb_revisions := tb_revisions db2 @ [v]\<rparr>
    \<and> xr_round v = i \<and> xr_previous v = pp_revision p \<and> xr_resulting v = pp_revision p + 1 \<and> xr_before v = prior
    \<and> xr_after v = (normalize_proposal cx ''confirmed'' p)\<lparr>pp_revision := pp_revision p + 1\<rparr>
    \<and> xr_reason v = strip reason \<and> xr_actor v = actor
    \<and> read_proposal db' i = Some q"
proof -
  let ?n = "normalize_proposal cx ''confirmed'' p"
  have ni: "pp_round ?n = i" by (simp add: normalize_proposal_def i_def)
  from assms(1)[folded i_def cx_def] obtain r prior where r: "round_by_id db i = Some r" "er_status r = PlConfirmed"
    "er_revision r = pp_revision p" and lock: "pe_lock e i = None" and pr: "read_proposal db i = Some prior"
    and sh: "confirmed_plan_shape prior p = Inr ()" and ok: "plan_ok cx ''confirmed'' ?n"
    and pt: "protected_days_unchanged prior ?n (cx_protected cx) = Inr ()" and st: "strip reason \<noteq> []"
    and re: "revise_confirmed_plan ?n (pp_revision p) (cx_protected cx) actor (strip reason) prior
      (?n\<lparr>pp_revision := pp_revision p + 1\<rparr>) db = Inr (Some (db', v))"
    and q: "read_proposal db' i = Some q"
    by (auto simp: save_confirmed_plan_def Let_def case_Inl_option ok_iff check_lock_def raise_for_invalid_iff snapshot_read
        context_round cx_def i_def split: option.splits)
  from re obtain db1 db2 where w: "claim_revision i (pp_revision p) {PlConfirmed} PlConfirmed db = Some db1"
    "persist_confirmed_plan ?n (cx_protected cx) db1 = Inr db2"
    "db' = db2\<lparr>tb_revisions := tb_revisions db2 @ [v]\<rparr>"
    "xr_round v = i" "xr_previous v = pp_revision p" "xr_resulting v = pp_revision p + 1" "xr_before v = prior"
    "xr_after v = ?n\<lparr>pp_revision := pp_revision p + 1\<rparr>" "xr_reason v = strip reason" "xr_actor v = actor"
    unfolding revise_confirmed_plan_def ni by (auto simp: ok_iff Let_def split: option.splits)
  show ?thesis using r lock pr sh ok pt st w q by blast
qed

subsection \<open>Protected days\<close>

lemma card_map_filter: "card (set (List.map_filter id xs)) = length xs \<Longrightarrow> distinct xs \<and> None \<notin> set xs"
proof (induction xs)
  case (Cons x xs)
  have le: "card (set (List.map_filter id xs)) \<le> length xs" for xs :: "'b option list"
    by (rule order_trans[OF card_length]) (simp add: List.map_filter_def)
  show ?case
  proof (cases x)
    case None
    then show ?thesis using Cons.prems le[of xs] by (simp add: List.map_filter_simps id_def)
  next
    case (Some y)
    let ?s = "set (List.map_filter id xs)"
    have c: "card (insert y ?s) = Suc (length xs)" using Cons.prems Some by (simp add: List.map_filter_simps id_def)
    have "y \<notin> ?s"
    proof
      assume "y \<in> ?s"
      then have "insert y ?s = ?s" by (rule insert_absorb)
      with c le[of xs] show False by simp
    qed
    then have "distinct xs \<and> None \<notin> set xs" using Cons.IH c by (simp add: id_def)
    moreover have "Some y \<notin> set xs" using \<open>y \<notin> ?s\<close> by (force simp: List.map_filter_def)
    ultimately show ?thesis using Some by simp
  qed
qed simp

lemma require_same_Nil:
  assumes "require_same label prior proposed = []"
  shows "distinct proposed \<and> None \<notin> set proposed \<and> set proposed = set prior"
proof -
  from assms have c: "card (set (List.map_filter id proposed)) = length proposed"
    "card (set (List.map_filter id prior)) = length prior" "set (List.map_filter id proposed) = set (List.map_filter id prior)"
    by (auto simp: require_same_def Let_def split: if_splits)
  have s: "set xs = Some ` set (List.map_filter id xs)" if "None \<notin> set xs" for xs :: "int option list"
    using that by (induction xs) (auto simp: List.map_filter_simps split: option.splits)
  have d: "distinct proposed" "None \<notin> set proposed" "None \<notin> set prior" using card_map_filter c(1,2) by blast+
  then show ?thesis using s[of proposed] s[of prior] c(3) by simp
qed

lemma distinct_concat_same:
  "distinct (concat (map f xs)) \<Longrightarrow> x \<in> set xs \<Longrightarrow> y \<in> set xs \<Longrightarrow> z \<in> set (f x) \<Longrightarrow> z \<in> set (f y) \<Longrightarrow> x = y"
proof (induction xs)
  case (Cons a xs)
  have "u \<notin> set (f b)" if "u \<in> set (f a)" "b \<in> set xs" for u b using Cons.prems(1) that by auto
  moreover have "distinct (concat (map f xs))" using Cons.prems(1) by simp
  ultimately show ?case using Cons.IH Cons.prems(2-5) unfolding set_simps insert_iff by blast
qed simp

lemma filter_rel:
  assumes "list_all2 R xs ys" "\<And>x y. x \<in> set xs \<Longrightarrow> R x y \<Longrightarrow> P y = P x \<and> (P x \<longrightarrow> y = x)"
  shows "filter P ys = filter P xs"
  using assms
proof (induction xs ys rule: list_all2_induct)
  case (Cons x xs y ys)
  have "P y = P x" "P x \<Longrightarrow> y = x" using Cons.prems[of x y] Cons.hyps(1) by auto
  moreover have "filter P ys = filter P xs" by (rule Cons.IH) (rule Cons.prems, simp_all)
  ultimately show ?case by (cases "P x") simp_all
qed simp

lemma normalize_ids:
  "map pd_id (pp_days (normalize_proposal cx status p)) = map pd_id (pp_days p)"
  "concat (map (map ps_id \<circ> pd_slots) (pp_days (normalize_proposal cx status p))) = concat (map (map ps_id \<circ> pd_slots) (pp_days p))"
  "concat (map (map pa_id \<circ> pd_assignments) (pp_days (normalize_proposal cx status p))) =
     concat (map (map pa_id \<circ> pd_assignments) (pp_days p))"
proof -
  have a: "pa_id (normalize_assignment status x) = pa_id x" for x by (simp add: normalize_assignment_def)
  have m: "map ps_id (normalize_slots status date lunch xs) = map ps_id xs" for date lunch xs
    by (simp add: list_eq_iff_nth_eq[of "map ps_id (normalize_slots status date lunch xs)"] nth_normalize_slots)
  have s: "map ps_id (pd_slots (normalize_day cx status d)) = map ps_id (pd_slots d)" for d
    by (simp add: normalize_day_def Let_def m)
  have t: "map pa_id (pd_assignments (normalize_day cx status d)) = map pa_id (pd_assignments d)" for d
    by (simp add: normalize_day_def Let_def a)
  show "map pd_id (pp_days (normalize_proposal cx status p)) = map pd_id (pp_days p)"
    by (simp add: normalize_proposal_def normalize_day_def Let_def)
  show "concat (map (map ps_id \<circ> pd_slots) (pp_days (normalize_proposal cx status p))) = concat (map (map ps_id \<circ> pd_slots) (pp_days p))"
    by (simp add: normalize_proposal_def comp_def s)
  show "concat (map (map pa_id \<circ> pd_assignments) (pp_days (normalize_proposal cx status p))) =
     concat (map (map pa_id \<circ> pd_assignments) (pp_days p))"
    by (simp add: normalize_proposal_def comp_def a)
qed

lemma by_key_Some: "by_key f xs k = Some x \<Longrightarrow> x \<in> set xs \<and> f x = k"
  using find_Some_mem find_Some_P unfolding by_key_def by fastforce

lemma protected_members:
  assumes u: "protected_days_unchanged prior n protected = Inr ()" and b: "b \<in> set (pp_days prior)" "pd_id b \<in> Some ` set protected"
  shows "\<exists>d \<in> set (pp_days n). pd_id d = pd_id b \<and> map ps_id (pd_slots d) = map ps_id (pd_slots b)
    \<and> map pa_id (pd_assignments d) = map pa_id (pd_assignments b)"
proof -
  from u b obtain d where d: "by_key pd_id (pp_days n) (pd_id b) = Some d" "restore_server_state b d = b"
    unfolding protected_days_unchanged_def list_all_iff by (fastforce split: if_splits option.splits)
  have s: "ps_id (case o' of None \<Rightarrow> s | Some u \<Rightarrow> s\<lparr>ps_status := ps_status u\<rparr>) = ps_id s" for s and o' :: "plan_slot option"
    by (cases o') simp_all
  have a: "pa_id (case o' of None \<Rightarrow> s | Some u \<Rightarrow> s\<lparr>pa_fallback := pa_fallback u\<rparr>) = pa_id s" for s and o' :: "plan_assignment option"
    by (cases o') simp_all
  have "map ps_id (pd_slots (restore_server_state b d)) = map ps_id (pd_slots d)"
    "map pa_id (pd_assignments (restore_server_state b d)) = map pa_id (pd_assignments d)"
    by (simp_all add: restore_server_state_def comp_def s a)
  with d by_key_Some[OF d(1)] show ?thesis by auto
qed

definition ids_of :: "('a \<Rightarrow> int option) \<Rightarrow> 'a list \<Rightarrow> int set" where
  "ids_of f xs = {k. Some k \<in> f ` set xs}"

text \<open>The rows a revision may touch: those of its editable days.\<close>

lemma shape_parts:
  assumes "confirmed_plan_shape prior p = Inr ()" and n_def: "n = normalize_proposal cx ''confirmed'' p"
  shows "distinct (map pd_id (pp_days n)) \<and> None \<notin> set (map pd_id (pp_days n))
      \<and> set (map pd_id (pp_days n)) = set (map pd_id (pp_days prior))"
    and "distinct (concat (map (map ps_id \<circ> pd_slots) (pp_days n))) \<and> None \<notin> set (concat (map (map ps_id \<circ> pd_slots) (pp_days n)))"
    and "distinct (concat (map (map pa_id \<circ> pd_assignments) (pp_days n)))
      \<and> None \<notin> set (concat (map (map pa_id \<circ> pd_assignments) (pp_days n)))"
proof -
  from assms(1) have sd: "require_same ''days'' (map pd_id (pp_days prior)) (map pd_id (pp_days p)) = []"
    and ss: "require_same ''slots'' (concat (map (map ps_id \<circ> pd_slots) (pp_days prior))) (concat (map (map ps_id \<circ> pd_slots) (pp_days p))) = []"
    and sa: "require_same ''assignments'' (concat (map (map pa_id \<circ> pd_assignments) (pp_days prior)))
      (concat (map (map pa_id \<circ> pd_assignments) (pp_days p))) = []"
    by (simp_all add: confirmed_plan_shape_def Let_def require_Inr_iff)
  show "distinct (map pd_id (pp_days n)) \<and> None \<notin> set (map pd_id (pp_days n)) \<and> set (map pd_id (pp_days n)) = set (map pd_id (pp_days prior))"
    using require_same_Nil[OF sd] unfolding n_def normalize_ids by blast
  show "distinct (concat (map (map ps_id \<circ> pd_slots) (pp_days n))) \<and> None \<notin> set (concat (map (map ps_id \<circ> pd_slots) (pp_days n)))"
    using require_same_Nil[OF ss] unfolding n_def normalize_ids by blast
  show "distinct (concat (map (map pa_id \<circ> pd_assignments) (pp_days n)))
      \<and> None \<notin> set (concat (map (map pa_id \<circ> pd_assignments) (pp_days n)))"
    using require_same_Nil[OF sa] unfolding n_def normalize_ids by blast
qed

lemma editable_ids:
  assumes sh: "confirmed_plan_shape prior p = Inr ()"
    and ed: "ed = editable_days (normalize_proposal cx ''confirmed'' p) protected" and x: "x \<in> set ed"
  shows "pd_id x \<in> Some ` ids_of pd_id ed \<and> ps_id ` set (pd_slots x) \<subseteq> Some ` ids_of ps_id (concat (map pd_slots ed))
    \<and> pa_id ` set (pd_assignments x) \<subseteq> Some ` ids_of pa_id (concat (map pd_assignments ed))"
proof -
  let ?n = "normalize_proposal cx ''confirmed'' p"
  note nd = shape_parts(1)[OF sh refl, of cx] and ns = shape_parts(2)[OF sh refl, of cx] and na = shape_parts(3)[OF sh refl, of cx]
  have xn: "x \<in> set (pp_days ?n)" using x by (simp add: ed editable_days_def)
  then have "pd_id x \<in> pd_id ` set (pp_days ?n)" by blast
  then have n1: "pd_id x \<noteq> None" using nd by (metis set_map)
  have n: "None \<notin> ps_id ` set (pd_slots x)" "None \<notin> pa_id ` set (pd_assignments x)" using ns na xn by auto
  from n1 have "pd_id x \<in> Some ` ids_of pd_id ed" using x by (force simp: ids_of_def)
  moreover have "ps_id ` set (pd_slots x) \<subseteq> Some ` ids_of ps_id (concat (map pd_slots ed))"
  proof
    fix j assume j: "j \<in> ps_id ` set (pd_slots x)"
    then obtain u where "j = Some u" using n(1) by (cases j) auto
    with j x show "j \<in> Some ` ids_of ps_id (concat (map pd_slots ed))" by (auto simp: ids_of_def)
  qed
  moreover have "pa_id ` set (pd_assignments x) \<subseteq> Some ` ids_of pa_id (concat (map pd_assignments ed))"
  proof
    fix j assume j: "j \<in> pa_id ` set (pd_assignments x)"
    then obtain u where "j = Some u" using n(2) by (cases j) auto
    with j x show "j \<in> Some ` ids_of pa_id (concat (map pd_assignments ed))" by (auto simp: ids_of_def)
  qed
  ultimately show ?thesis by blast
qed

lemma claim_tables: "claim_revision i k A t db = Some db1 \<Longrightarrow>
    tb_days db1 = tb_days db \<and> tb_slots db1 = tb_slots db \<and> tb_assignments db1 = tb_assignments db \<and> plan_frame db db1"
  by (auto simp: claim_revision_Some plan_frame_def)

lemma save_confirmed_revised:
  assumes pe: "persist_confirmed_plan (normalize_proposal cx ''confirmed'' p) protected db1 = Inr db2"
    and sh: "confirmed_plan_shape prior p = Inr ()" and k: "slot_keys db1"
    and ed: "ed = editable_days (normalize_proposal cx ''confirmed'' p) protected"
  shows "revised (ids_of pd_id ed) (ids_of ps_id (concat (map pd_slots ed))) (ids_of pa_id (concat (map pd_assignments ed))) db1 db2"
  by (rule persist_confirmed_revised[OF pe k]) (use editable_ids[OF sh ed] in \<open>simp add: ed\<close>)

lemma protected_untouched:
  assumes s: "save_confirmed_plan e p reason actor db = Inr (db', q, v, ms)" and k: "slot_keys db"
    and d: "d \<in> set (tb_days db)" "xd_round d = pp_round p" "protected_day db d"
  shows "d \<in> set (tb_days db') \<and> slots_of db' (xd_id d) = slots_of db (xd_id d)
    \<and> assignments_of db' (xd_id d) = assignments_of db (xd_id d)"
proof -
  let ?i = "pp_round p"
  define cx where "cx = sn_context (plan_snapshot e db ?i)"
  define n where "n = normalize_proposal cx ''confirmed'' p"
  define ed where "ed = editable_days n (cx_protected cx)"
  define D S A where "D = ids_of pd_id ed" and "S = ids_of ps_id (concat (map pd_slots ed))"
    and "A = ids_of pa_id (concat (map pd_assignments ed))"
  from save_confirmed_parts[OF s, folded cx_def, folded n_def] obtain r prior db1 db2 where
    r: "round_by_id db ?i = Some r" and pr: "read_proposal db ?i = Some prior" and sh: "confirmed_plan_shape prior p = Inr ()"
    and pt: "protected_days_unchanged prior n (cx_protected cx) = Inr ()"
    and cl: "claim_revision ?i (pp_revision p) {PlConfirmed} PlConfirmed db = Some db1"
    and pe: "persist_confirmed_plan n (cx_protected cx) db1 = Inr db2"
    and db': "db' = db2\<lparr>tb_revisions := tb_revisions db2 @ [v]\<rparr>"
    by (elim exE conjE) (rule that; assumption)
  note db1 = claim_tables[OF cl]
  have rev: "revised D S A db1 db2" unfolding D_def S_def A_def
    by (rule save_confirmed_revised[OF pe[unfolded n_def] sh]) (use k db1 in \<open>simp_all add: slot_keys_def ed_def n_def\<close>)
  note ns = shape_parts(2)[OF sh n_def] and na = shape_parts(3)[OF sh n_def]
  have en: "set ed \<subseteq> set (pp_days n)" by (auto simp: ed_def editable_days_def)
  let ?k = "xd_id d"
  have prot: "?k \<in> set (cx_protected cx)"
    using d r by (simp add: cx_def plan_snapshot_def planning_context_def Let_def days_of_def)
  then have kD: "?k \<notin> D" by (auto simp: D_def ids_of_def ed_def editable_days_def) (metis imageI)
  have b: "read_day db d \<in> set (pp_days prior)" "pd_id (read_day db d) = Some ?k"
    using pr r d by (auto simp: read_proposal_def read_day_def days_of_def)
  from protected_members[OF pt b(1)] b(2) prot obtain d2 where d2: "d2 \<in> set (pp_days n)" "pd_id d2 = Some ?k"
    "map ps_id (pd_slots d2) = map ps_id (pd_slots (read_day db d))"
    "map pa_id (pd_assignments d2) = map pa_id (pd_assignments (read_day db d))" by auto
  have ne: "d2 \<notin> set ed" using d2(2) prot by (auto simp: ed_def editable_days_def)
  have sS: "xs_id x \<notin> S" if x: "x \<in> set (tb_slots db)" "xs_day x = ?k" for x
  proof
    assume "xs_id x \<in> S"
    then obtain d3 where d3: "d3 \<in> set ed" "Some (xs_id x) \<in> set (map ps_id (pd_slots d3))" by (auto simp: S_def ids_of_def)
    have "Some (xs_id x) \<in> set (map ps_id (pd_slots (read_day db d)))"
      using x by (force simp: read_day_def slots_of_def read_slot_def)
    then have "Some (xs_id x) \<in> set (map ps_id (pd_slots d2))" unfolding d2(3) .
    then have "d2 = d3" using distinct_concat_same[of "map ps_id \<circ> pd_slots" "pp_days n" d2 d3 "Some (xs_id x)"] ns d2(1) d3 en by auto
    with ne d3(1) show False by simp
  qed
  have aA: "xa_id x \<notin> A" if x: "x \<in> set (tb_assignments db)" "xa_day x = ?k" for x
  proof
    assume "xa_id x \<in> A"
    then obtain d3 where d3: "d3 \<in> set ed" "Some (xa_id x) \<in> set (map pa_id (pd_assignments d3))" by (auto simp: A_def ids_of_def)
    have "Some (xa_id x) \<in> set (map pa_id (pd_assignments (read_day db d)))"
      using x by (force simp: read_day_def assignments_of_def read_assignment_def)
    then have "Some (xa_id x) \<in> set (map pa_id (pd_assignments d2))" unfolding d2(4) .
    then have "d2 = d3" using distinct_concat_same[of "map pa_id \<circ> pd_assignments" "pp_days n" d2 d3 "Some (xa_id x)"] na d2(1) d3 en by auto
    with ne d3(1) show False by simp
  qed
  have "filter (\<lambda>x. xs_day x = ?k) (tb_slots db2) = filter (\<lambda>x. xs_day x = ?k) (tb_slots db)"
    by (rule filter_rel[of "slot_revised D S"]) (use rev db1 sS kD in \<open>auto simp: revised_def slot_revised_def\<close>)
  moreover have "filter (\<lambda>x. xa_day x = ?k) (tb_assignments db2) = filter (\<lambda>x. xa_day x = ?k) (tb_assignments db)"
    by (rule filter_rel[of "assignment_revised D A"]) (use rev db1 aA kD in \<open>auto simp: revised_def assignment_revised_def\<close>)
  moreover have fd: "filter (\<lambda>x. xd_id x = ?k) (tb_days db2) = filter (\<lambda>x. xd_id x = ?k) (tb_days db)"
    by (rule filter_rel[of "day_revised D"]) (use rev db1 kD in \<open>auto simp: revised_def day_revised_def\<close>)
  have "d \<in> set (filter (\<lambda>x. xd_id x = ?k) (tb_days db2))" unfolding fd using d(1) by simp
  then have "d \<in> set (tb_days db2)" by simp
  ultimately show ?thesis by (simp add: db' slots_of_def assignments_of_def)
qed

subsection \<open>Slots keep their candidate\<close>

definition slot_subjects :: "plan_db \<Rightarrow> (int \<times> int \<times> string) list" where
  "slot_subjects db = map (\<lambda>s. (xs_id s, xs_candidate s, xs_type s)) (tb_slots db)"

lemma revise_slot_subjects:
  assumes r: "revise_slot d s db = Inr db'" and k: "(ps_candidate s, ps_type s) \<in> snd ` set (slot_subjects db)"
    and dis: "distinct (map fst (slot_subjects db))"
  shows "slot_subjects db' = slot_subjects db"
proof -
  have di: "distinct (map xs_id (tb_slots db))" using dis by (simp add: slot_subjects_def comp_def)
  from r obtain i where i: "ps_id s = Some i" by (cases "ps_id s") (auto simp: revise_slot_def)
  show ?thesis
  proof (cases "List.find (\<lambda>r. xs_id r = i) (tb_slots db)")
    case None
    with r i show ?thesis by (simp add: revise_slot_def)
  next
    case (Some row)
    then have ri: "xs_id row = i" by (auto dest: find_Some_P)
    have u: "x = row" if "x \<in> set (tb_slots db)" "xs_id x = i" for x
      by (rule find_key_unique[OF di that(1) Some that(2)])
    let ?r = "row\<lparr>xs_day := d, xs_candidate := ps_candidate s, xs_type := ps_type s,
         xs_starts := ps_starts s, xs_ends := ps_ends s, xs_sequence := ps_sequence s, xs_status := ''confirmed''\<rparr>"
    have db': "db' = db\<lparr>tb_slots := upd_row xs_id i (\<lambda>_. ?r) (tb_slots db)\<rparr>" and un: "slot_unique ?r (tb_slots db)"
      using r i Some ri by (simp_all add: revise_slot_def put_slot_def ok_iff)
    from k obtain x where x: "x \<in> set (tb_slots db)" "xs_candidate x = ps_candidate s" "xs_type x = ps_type s"
      by (auto simp: slot_subjects_def)
    then have "xs_id x = i" using un ri by (auto simp: slot_unique_def list_ex_iff)
    with u x have "xs_candidate row = ps_candidate s" "xs_type row = ps_type s" by blast+
    with u have "xs_candidate y = ps_candidate s \<and> xs_type y = ps_type s" if "y \<in> set (tb_slots db)" "xs_id y = i" for y
      using that by blast
    then show ?thesis using ri by (auto simp: slot_subjects_def db' upd_row_def)
  qed
qed

lemma revise_day_subjects:
  assumes r: "revise_day d db = Inr db'" and k: "\<forall>s \<in> set (pd_slots d). (ps_candidate s, ps_type s) \<in> snd ` set (slot_subjects db)"
    and dis: "distinct (map fst (slot_subjects db))"
  shows "slot_subjects db' = slot_subjects db"
proof -
  from revise_day_parts[OF r] obtain i db1 db2 where
    d: "(case List.find (\<lambda>r. xd_id r = i) (tb_days db) of None \<Rightarrow> Inr db
         | Some r \<Rightarrow> put_day (r\<lparr>xd_room := pd_room d, xd_date := pd_date d, xd_status := ''confirmed''\<rparr>) db) = Inr db1"
    and a: "fold_res (revise_assignment i) (pd_assignments d) db1 = Inr db2"
    and s: "fold_res (revise_slot i) (pd_slots d) db2 = Inr db'" by blast
  have one: "slot_subjects db1 = slot_subjects db"
    using d by (auto simp: slot_subjects_def put_day_def ok_iff split: option.splits)
  have two: "slot_subjects db2 = slot_subjects db"
    by (rule fold_res_inv[OF a, where I = "\<lambda>x. slot_subjects x = slot_subjects db"])
      (use one in \<open>auto simp: slot_subjects_def revise_assignment_def put_assignment_def ok_iff split: option.splits if_splits\<close>)
  show ?thesis
  proof (rule fold_res_inv[OF s, where I = "\<lambda>x. slot_subjects x = slot_subjects db"])
    fix x s t assume x: "x \<in> set (pd_slots d)" "revise_slot i x s = Inr t" "slot_subjects s = slot_subjects db"
    show "slot_subjects t = slot_subjects db" using revise_slot_subjects[OF x(2)] k dis x(1,3) by simp
  qed (rule two)
qed

lemma persist_confirmed_subjects:
  assumes r: "persist_confirmed_plan p protected db = Inr db'"
    and k: "\<forall>s \<in> set (plan_slots p). (ps_candidate s, ps_type s) \<in> snd ` set (slot_subjects db)"
    and dis: "distinct (map fst (slot_subjects db))"
  shows "slot_subjects db' = slot_subjects db"
proof -
  from r obtain db1 where p: "fold_res park_slot (concat (map pd_slots (editable_days p protected))) db = Inr db1"
    and d: "fold_res revise_day (editable_days p protected) db1 = Inr db'"
    by (auto simp: persist_confirmed_plan_def Let_def editable_days_def bnd_Inr_iff)
  have "slot_subjects t = slot_subjects s" if "park_slot x s = Inr t" for x s t
    using that by (auto simp: park_slot_def ok_iff slot_subjects_def upd_row_def split: option.splits)
  then have one: "slot_subjects db1 = slot_subjects db"
    by (intro fold_res_inv[OF p, where I = "\<lambda>x. slot_subjects x = slot_subjects db"]) auto
  show ?thesis
  proof (rule fold_res_inv[OF d, where I = "\<lambda>x. slot_subjects x = slot_subjects db"])
    fix x s t assume x: "x \<in> set (editable_days p protected)" "revise_day x s = Inr t" "slot_subjects s = slot_subjects db"
    show "slot_subjects t = slot_subjects db"
      using revise_day_subjects[OF x(2)] k dis x(1,3) by (auto simp: plan_slots_def editable_days_def)
  qed (rule one)
qed

lemma plan_subjects:
  assumes n: "plan_ok cx status n" and p: "plan_ok cx status' prior" and s: "s \<in> set (plan_slots n)"
  shows "\<exists>t \<in> set (plan_slots prior). ps_candidate t = ps_candidate s \<and> ps_type t = ps_type s"
proof -
  from n s obtain d st c where d: "d \<in> set (pp_days n)" "s \<in> set (pd_slots d)" "slots_ok cx st status c (pd_slots d)"
    by (fastforce simp: plan_ok_def plan_slots_def day_ok_def)
  then obtain x where x: "x \<in> set (cx_candidates cx)" "cn_id x = ps_candidate s" and t: "ps_type s \<in> {''regular'', ''mep''}"
    by (auto simp: slots_ok_def)
  have pos: "0 < slot_count (ps_candidate s) (ps_type s) (plan_slots n)" using s by (auto simp: slot_count_def filter_empty_conv)
  have "0 < slot_count (ps_candidate s) (ps_type s) (plan_slots prior)"
  proof -
    from n x have "slot_count (ps_candidate s) ''mep'' (plan_slots n) = (if cn_mep x then 1 else 0)"
      by (auto simp: plan_ok_def)
    moreover from p x have "slot_count (ps_candidate s) ''mep'' (plan_slots prior) = (if cn_mep x then 1 else 0)"
      "slot_count (ps_candidate s) ''regular'' (plan_slots prior) = 1" by (auto simp: plan_ok_def)
    ultimately show ?thesis using t pos by (auto split: if_splits)
  qed
  then show ?thesis by (auto simp: slot_count_def filter_empty_conv)
qed

lemma revision_keeps_subjects:
  assumes s: "save_confirmed_plan e p reason actor db = Inr (db', q, v, ms)" and k: "slot_keys db"
    and p: "plan_ok (sn_context (plan_snapshot e db (pp_round p))) ''confirmed'' (xr_before v)"
  shows "slot_subjects db' = slot_subjects db"
proof -
  let ?i = "pp_round p"
  define cx where "cx = sn_context (plan_snapshot e db ?i)"
  define n where "n = normalize_proposal cx ''confirmed'' p"
  from save_confirmed_parts[OF s, folded cx_def, folded n_def] obtain r prior db1 db2 where
    pr: "read_proposal db ?i = Some prior" and ok: "plan_ok cx ''confirmed'' n"
    and cl: "claim_revision ?i (pp_revision p) {PlConfirmed} PlConfirmed db = Some db1"
    and pe: "persist_confirmed_plan n (cx_protected cx) db1 = Inr db2"
    and db': "db' = db2\<lparr>tb_revisions := tb_revisions db2 @ [v]\<rparr>" and v: "xr_before v = prior"
    by (elim exE conjE) (rule that; assumption)
  have db1: "slot_subjects db1 = slot_subjects db" using cl by (auto simp: claim_revision_Some slot_subjects_def)
  have "(ps_candidate x, ps_type x) \<in> snd ` set (slot_subjects db)" if "x \<in> set (plan_slots prior)" for x
    using that pr by (force simp: read_proposal_def plan_slots_def read_day_def slots_of_def read_slot_def slot_subjects_def
        split: option.splits)
  then have "\<forall>x \<in> set (plan_slots n). (ps_candidate x, ps_type x) \<in> snd ` set (slot_subjects db1)"
    unfolding db1 using plan_subjects[OF ok p[folded cx_def, unfolded v]] by metis
  moreover have "distinct (map fst (slot_subjects db1))" using k unfolding db1 by (simp add: slot_keys_def slot_subjects_def comp_def)
  ultimately have "slot_subjects db2 = slot_subjects db" using persist_confirmed_subjects[OF pe] db1 by simp
  then show ?thesis by (simp add: db' slot_subjects_def)
qed

end
