(* ===== verification/Plan_Rounds.thy ===== *)
theory Plan_Rounds
  imports Plan_Revise
begin

text \<open>
  The writers of the round table outside the proposal use cases: creating and updating a round
  (\<open>planning/resources.py\<close>, \<open>persistence/planning_resources.py\<close>), deleting an empty draft and
  closing or cancelling a round (\<open>application/exam_lifecycle.py\<close>,
  \<open>persistence/planning_lifecycle.py\<close>, \<open>persistence/exam_lifecycle.py\<close>).

  The columns of \<open>exam_round\<close> that the proposal snapshot does not carry are rows of their own
  (\<open>round_info\<close>), with the key of the round. What the use cases ask other components for is an
  argument: the committee facts of a creation, dependent rows of Execution, the outcome of the
  readiness evaluation (\<open>Round_Policy\<close>). \<open>created_by_member_id\<close>, audit rows and JSON snapshots of
  a decision are left out.
\<close>

record round_info =
  ri_id :: int
  ri_name :: string
  ri_reminder :: "string option"
  ri_lifecycle :: lifecycle_status
  ri_revision :: int

datatype round_error = MissingRoundField | SeasonInvalid | YearInvalid | NameRequired | AggregateStatus
  | CommitteeNotFound | CommitteeNotReady | CreatorForeign | HalfYearNotFound | ReassignedRound
  | ReminderLate | RoundIntegrity | RoundConflict | NotEmptyDraft | RoundDependencies
  | RoundUnknown | RoundForbidden | RoundLocked | RoundNotReady

fun status_text :: "planning_status \<Rightarrow> string" where
  "status_text PlDraft = ''draft''"
| "status_text PlAvailabilityRequested = ''availability_requested''"
| "status_text PlAvailabilityClosed = ''availability_closed''"
| "status_text PlProposed = ''plan_proposed''"
| "status_text PlConfirmed = ''plan_confirmed''"
| "status_text PlInProgress = ''in_progress''"
| "status_text PlCompleted = ''completed''"
| "status_text PlCancelled = ''cancelled''"

text \<open>The \<open>CHECK\<close> of the status column admits exactly these texts.\<close>

definition planning_status_of :: "string \<Rightarrow> planning_status option" where
  "planning_status_of s = List.find (\<lambda>t. status_text t = s) [PlDraft, PlAvailabilityRequested,
     PlAvailabilityClosed, PlProposed, PlConfirmed, PlInProgress, PlCompleted, PlCancelled]"

definition aggregate_texts :: "string list" where
  "aggregate_texts = [''plan_proposed'', ''plan_confirmed'']"

definition info_of :: "round_info list \<Rightarrow> int \<Rightarrow> round_info option" where
  "info_of infs i = List.find (\<lambda>x. ri_id x = i) infs"

text \<open>\<open>UNIQUE (committee_id, name)\<close> and the \<open>CHECK\<close> of reminder and deadline.\<close>

definition name_taken :: "plan_db \<Rightarrow> round_info list \<Rightarrow> int \<Rightarrow> string \<Rightarrow> int option \<Rightarrow> bool" where
  "name_taken db infs committee name own = list_ex (\<lambda>r. Some (er_id r) \<noteq> own \<and> er_committee r = committee
     \<and> map_option ri_name (info_of infs (er_id r)) = Some name) (tb_rounds db)"

definition reminder_check :: "string option \<Rightarrow> string option \<Rightarrow> bool" where
  "reminder_check deadline reminder = (case (deadline, reminder) of
     (Some d, Some m) \<Rightarrow> m \<le> d | _ \<Rightarrow> True)"

subsection \<open>Creating a round\<close>

record round_values =
  rv_committee :: "int option"
  rv_creator :: "int option"
  rv_half_year :: "int option"
  rv_season :: "string option"
  rv_year :: "int option"
  rv_name :: string
  rv_status :: "string option"
  rv_deadline :: "string option"
  rv_reminder :: "string option"

record creation_context =
  cc_half_year :: "int option"
  cc_half_year_exists :: bool
  cc_committee_exists :: bool
  cc_committee_active :: bool
  cc_committee_ready :: bool
  cc_creator_committee :: "int option"

definition normalize_round_create :: "round_values \<Rightarrow> round_error + unit" where
  "normalize_round_create v =
     require (rv_committee v \<noteq> None \<and> rv_creator v \<noteq> None) MissingRoundField (
     require (rv_half_year v \<noteq> None \<or> rv_season v \<in> {Some ''summer'', Some ''winter''}) SeasonInvalid (
     require (rv_half_year v \<noteq> None
        \<or> (case rv_year v of None \<Rightarrow> False | Some y \<Rightarrow> 2000 \<le> y \<and> y \<le> 2100)) YearInvalid (
     require (strip (rv_name v) \<noteq> []) NameRequired (
     require (case rv_status v of None \<Rightarrow> True | Some s \<Rightarrow> s \<notin> set aggregate_texts) AggregateStatus (
     Inr ())))))"

text \<open>\<open>fresh\<close> is the key of the half-year that is created when none of that season exists.\<close>

definition plan_round_creation :: "creation_context \<Rightarrow> int \<Rightarrow> round_values \<Rightarrow> round_error + int" where
  "plan_round_creation cc fresh v =
     require (cc_committee_exists cc) CommitteeNotFound (
     require (cc_committee_active cc \<and> cc_committee_ready cc) CommitteeNotReady (
     require (cc_creator_committee cc = rv_committee v) CreatorForeign (
     case rv_half_year v of
       Some h \<Rightarrow> require (cc_half_year_exists cc) HalfYearNotFound (Inr h)
     | None \<Rightarrow> Inr (case cc_half_year cc of Some h \<Rightarrow> h | None \<Rightarrow> fresh))))"

definition insert_round :: "int \<Rightarrow> int \<Rightarrow> round_values \<Rightarrow> plan_db \<times> round_info list \<Rightarrow>
    round_error + (plan_db \<times> round_info list)" where
  "insert_round committee half v s = (case s of (db, infs) \<Rightarrow>
     let i = next_id (map er_id (tb_rounds db)) in
     case (case rv_status v of None \<Rightarrow> Some PlDraft | Some t \<Rightarrow> planning_status_of t) of
       None \<Rightarrow> Inl RoundIntegrity
     | Some status \<Rightarrow>
     require (\<not> name_taken db infs committee (rv_name v) None) RoundIntegrity (
     require (\<not> list_ex (\<lambda>r. er_half_year r = half \<and> er_committee r = committee) (tb_rounds db)) RoundIntegrity (
     require (reminder_check (rv_deadline v) (rv_reminder v)) RoundIntegrity (
     Inr (db\<lparr>tb_rounds := tb_rounds db @ [\<lparr>er_id = i, er_committee = committee, er_half_year = half,
            er_status = status, er_revision = 0, er_deadline = rv_deadline v\<rparr>]\<rparr>,
          infs @ [\<lparr>ri_id = i, ri_name = rv_name v, ri_reminder = rv_reminder v,
            ri_lifecycle = LOpen, ri_revision = 1\<rparr>])))))"

definition create_round :: "creation_context \<Rightarrow> int \<Rightarrow> round_values \<Rightarrow> plan_db \<times> round_info list \<Rightarrow>
    round_error + (plan_db \<times> round_info list)" where
  "create_round cc fresh v s = bnd (normalize_round_create v) (\<lambda>_.
     bnd (plan_round_creation cc fresh v) (\<lambda>half.
     case rv_committee v of None \<Rightarrow> Inl MissingRoundField | Some committee \<Rightarrow> insert_round committee half v s))"

subsection \<open>The generic update\<close>

text \<open>The fields a request names; \<open>None\<close> is a field it does not name.\<close>

record round_change =
  ch_half_year :: "int option"
  ch_committee :: "int option"
  ch_name :: "string option"
  ch_status :: "string option"
  ch_deadline :: "string option option"
  ch_reminder :: "string option option"

definition merged :: "'a option \<Rightarrow> 'a \<Rightarrow> 'a" where
  "merged change old = (case change of None \<Rightarrow> old | Some x \<Rightarrow> x)"

definition validate_round_update :: "exam_round \<Rightarrow> round_info \<Rightarrow> round_change \<Rightarrow> round_error + unit" where
  "validate_round_update r row ch =
     require (merged (ch_half_year ch) (er_half_year r) = er_half_year r
        \<and> merged (ch_committee ch) (er_committee r) = er_committee r) ReassignedRound (
     require (\<not> (ch_status ch \<noteq> None \<and> merged (ch_status ch) (status_text (er_status r)) \<noteq> status_text (er_status r)
        \<and> (merged (ch_status ch) (status_text (er_status r)) \<in> set aggregate_texts
           \<or> status_text (er_status r) \<in> set aggregate_texts))) AggregateStatus (
     require (strip (merged (ch_name ch) (ri_name row)) \<noteq> []) NameRequired (
     require (case (merged (ch_deadline ch) (er_deadline r), merged (ch_reminder ch) (ri_reminder row)) of
         (Some d, Some m) \<Rightarrow> d = [] \<or> m = [] \<or> \<not> d < m | _ \<Rightarrow> True) ReminderLate (
     Inr ()))))"

definition update_round :: "int \<Rightarrow> round_change \<Rightarrow> plan_db \<times> round_info list \<Rightarrow>
    round_error + (plan_db \<times> round_info list) option" where
  "update_round i ch s = (case s of (db, infs) \<Rightarrow>
     case (round_by_id db i, info_of infs i) of (Some r, Some row) \<Rightarrow>
       bnd (validate_round_update r row ch) (\<lambda>_.
       let deadline = merged (ch_deadline ch) (er_deadline r);
           reminder = merged (ch_reminder ch) (ri_reminder row); name = merged (ch_name ch) (ri_name row) in
       case planning_status_of (merged (ch_status ch) (status_text (er_status r))) of
         None \<Rightarrow> Inl RoundIntegrity
       | Some status \<Rightarrow>
       require (\<not> name_taken db infs (er_committee r) name (Some i)) RoundIntegrity (
       require (reminder_check deadline reminder) RoundIntegrity (
       Inr (Some (db\<lparr>tb_rounds := upd_row er_id i (\<lambda>r. r\<lparr>er_status := status, er_deadline := deadline\<rparr>) (tb_rounds db)\<rparr>,
          upd_row ri_id i (\<lambda>x. x\<lparr>ri_name := name, ri_reminder := reminder\<rparr>) infs)))))
     | _ \<Rightarrow> Inr None)"

subsection \<open>Deleting an empty draft\<close>

definition planning_dependencies :: "int \<Rightarrow> plan_db \<Rightarrow> bool" where
  "planning_dependencies i db \<longleftrightarrow> list_ex (\<lambda>c. xc_round c = i) (tb_candidates db)
     \<or> list_ex (\<lambda>p. fst p = i) (tb_availability db) \<or> list_ex (\<lambda>p. fst p = i) (tb_settings db)
     \<or> list_ex (\<lambda>v. xr_round v = i) (tb_revisions db)"

text \<open>\<open>manage\<close>, \<open>locked\<close> and \<open>executed\<close> are the answers of the scope, of the lifecycle lock and of
  Execution's dependency counts. The candidate days and exam days of the round go with its row.\<close>

definition delete_empty_exam_round_draft :: "bool \<Rightarrow> bool \<Rightarrow> bool \<Rightarrow> int \<Rightarrow> plan_db \<times> round_info list \<Rightarrow>
    round_error + (plan_db \<times> round_info list) option" where
  "delete_empty_exam_round_draft manage locked executed i s = (case s of (db, infs) \<Rightarrow>
     require (\<not> locked) RoundLocked (
     case (round_by_id db i, info_of infs i) of (Some r, Some row) \<Rightarrow>
       require manage RoundForbidden (
       require (er_status r = PlDraft \<and> ri_lifecycle row = LOpen) NotEmptyDraft (
       require (\<not> planning_dependencies i db \<and> \<not> executed) RoundDependencies (
       let db = fold delete_day (days_of db i) db in
       Inr (Some (db\<lparr>tb_rounds := filter (\<lambda>r. er_id r \<noteq> i) (tb_rounds db),
              tb_candidate_days := filter (\<lambda>p. fst p \<noteq> i) (tb_candidate_days db)\<rparr>,
            filter (\<lambda>x. ri_id x \<noteq> i) infs)))))
     | _ \<Rightarrow> Inr None))"

subsection \<open>Closing and cancelling\<close>

datatype round_decision = CloseRound | CancelRound

definition advance_round_lifecycle :: "int \<Rightarrow> int \<Rightarrow> lifecycle_status \<Rightarrow> round_info list \<Rightarrow> round_info list option" where
  "advance_round_lifecycle i expected status infs =
     (if list_ex (\<lambda>x. ri_id x = i \<and> ri_revision x = expected) infs
      then Some (upd_row ri_id i (\<lambda>x. x\<lparr>ri_revision := ri_revision x + 1, ri_lifecycle := status\<rparr>) infs)
      else None)"

definition cancel_exam_day_slots :: "int list \<Rightarrow> plan_db \<Rightarrow> plan_db" where
  "cancel_exam_day_slots ids db = db\<lparr>tb_slots := map (\<lambda>s. if xs_day s \<in> set ids
     then s\<lparr>xs_status := ''cancelled'', xs_execution := ''cancelled''\<rparr> else s) (tb_slots db)\<rparr>"

definition cancel_exam_days :: "int \<Rightarrow> plan_db \<Rightarrow> plan_db" where
  "cancel_exam_days i db = db\<lparr>tb_days := map (\<lambda>d. if xd_round d = i
     then d\<lparr>xd_status := ''cancelled''\<rparr> else d) (tb_days db)\<rparr>"

text \<open>
  \<open>ready\<close> says that the checklist is fulfilled and that a reopened round has its open reopening; the
  permission of the caller and the replay of an earlier answer, which writes nothing, come before.
\<close>

definition decide_exam_round :: "bool \<Rightarrow> round_decision \<Rightarrow> int \<Rightarrow> int \<Rightarrow> plan_db \<times> round_info list \<Rightarrow>
    round_error + (plan_db \<times> round_info list)" where
  "decide_exam_round ready decision i expected s = (case s of (db, infs) \<Rightarrow>
     case info_of infs i of None \<Rightarrow> Inl RoundUnknown | Some row \<Rightarrow>
     require (ri_revision row = expected) RoundConflict (
     require (ri_lifecycle row \<in> {LOpen, LReopening}) RoundConflict (
     require ready RoundNotReady (
     case decision of
       CloseRound \<Rightarrow> (case advance_round_lifecycle i expected LClosed infs of
           None \<Rightarrow> Inl RoundConflict | Some infs \<Rightarrow> Inr (db, infs))
     | CancelRound \<Rightarrow> (case advance_round_lifecycle i expected LCancelled infs of
           None \<Rightarrow> Inl RoundConflict
         | Some infs \<Rightarrow> Inr (cancel_exam_days i (cancel_exam_day_slots (map xd_id (days_of db i)) db), infs))))))"

subsection \<open>Deleting a committee\<close>

text \<open>
  Identity deletes the row of a committee; the tables of its rounds go with it, as far as the foreign
  keys cascade (a restricting reference makes the request fail and nothing is written).
\<close>

definition rounds_of_committee :: "int \<Rightarrow> plan_db \<Rightarrow> int list" where
  "rounds_of_committee c db = map er_id (filter (\<lambda>r. er_committee r = c) (tb_rounds db))"

definition delete_committee :: "int \<Rightarrow> plan_db \<Rightarrow> plan_db" where
  "delete_committee c db = (let gone = rounds_of_committee c db;
       days = map xd_id (filter (\<lambda>d. xd_round d \<in> set gone) (tb_days db)) in
     db\<lparr>tb_rounds := filter (\<lambda>r. er_committee r \<noteq> c) (tb_rounds db),
       tb_settings := filter (\<lambda>p. fst p \<notin> set gone) (tb_settings db),
       tb_candidates := filter (\<lambda>x. xc_round x \<notin> set gone) (tb_candidates db),
       tb_members := filter (\<lambda>m. mb_committee m \<noteq> c) (tb_members db),
       tb_candidate_days := filter (\<lambda>p. fst p \<notin> set gone) (tb_candidate_days db),
       tb_availability := filter (\<lambda>p. fst p \<notin> set gone) (tb_availability db),
       tb_days := filter (\<lambda>d. xd_round d \<notin> set gone) (tb_days db),
       tb_slots := filter (\<lambda>s. xs_day s \<notin> set days) (tb_slots db),
       tb_assignments := filter (\<lambda>a. xa_day a \<notin> set days) (tb_assignments db),
       tb_revisions := filter (\<lambda>v. xr_round v \<notin> set gone) (tb_revisions db)\<rparr>)"

end
