(* ===== verification/Plan_Machine.thy ===== *)
theory Plan_Machine
  imports Plan_Rounds
begin

text \<open>
  Planning as a state machine: the states are the tables, the steps every use case that writes them
  and returns: the five of the proposal aggregate, creating, updating and deleting a round, closing
  or cancelling it, and the writes of other components to the remaining tables and columns. Columns
  outside \<^typ>\<open>plan_db\<close> and the answers of other components are free in a step, so nothing depends
  on them. The invariant ties the status of a round to the status of its days.
\<close>

text \<open>
  What the other components may write: candidates, settings, members, availabilities, rooms and
  revisions; rooms, dates and closure of exam days; the columns of slots and assignments. They keep
  the rounds, and which days, slots and assignments there are with the status of the days;
  candidate days stay unique, as the constraints of their table demand.
\<close>

definition other_write :: "plan_db \<Rightarrow> plan_db \<Rightarrow> bool" where
  "other_write db db' \<longleftrightarrow> tb_rounds db' = tb_rounds db
     \<and> map (\<lambda>d. (xd_id d, xd_round d, xd_status d)) (tb_days db') = map (\<lambda>d. (xd_id d, xd_round d, xd_status d)) (tb_days db)
     \<and> map (\<lambda>s. (xs_id s, xs_day s)) (tb_slots db') = map (\<lambda>s. (xs_id s, xs_day s)) (tb_slots db)
     \<and> map xa_day (tb_assignments db') = map xa_day (tb_assignments db)
     \<and> (\<forall>i. distinct (map cd_date (candidate_days_of db' i)) \<and> distinct (map cd_id (candidate_days_of db' i)))"

inductive plan_step :: "plan_env \<Rightarrow> plan_db \<Rightarrow> plan_db \<Rightarrow> bool" for e where
  Request: "request_availabilities e i db = Inr (db', r) \<Longrightarrow> plan_step e db db'"
| Generate: "generate_proposal e i db = Inr (db', q, g) \<Longrightarrow> plan_step e db db'"
| Save: "save_proposal e p db = Inr (db', q) \<Longrightarrow> plan_step e db db'"
| Confirm: "confirm_plan e i db = Inr (db', q, days, slots) \<Longrightarrow> plan_step e db db'"
| Revise: "save_confirmed_plan e p reason actor db = Inr (db', q, v, ms) \<Longrightarrow> plan_step e db db'"
| Create: "create_round cc fresh v (db, infs) = Inr (db', infs') \<Longrightarrow> plan_step e db db'"
| Update: "update_round i ch (db, infs) = Inr (Some (db', infs')) \<Longrightarrow> plan_step e db db'"
| Delete: "delete_empty_exam_round_draft manage locked executed i (db, infs) = Inr (Some (db', infs')) \<Longrightarrow>
    plan_step e db db'"
| Decide: "decide_exam_round ready decision i expected (db, infs) = Inr (db', infs') \<Longrightarrow> plan_step e db db'"
| Committee: "plan_step e db (delete_committee c db)"
| Other: "other_write db db' \<Longrightarrow> plan_step e db db'"

definition day_matches :: "exam_round \<Rightarrow> exam_day_row \<Rightarrow> bool" where
  "day_matches r d \<longleftrightarrow> er_status r = PlProposed \<and> xd_status d \<in> {''proposed'', ''cancelled''}
     \<or> er_status r = PlConfirmed \<and> xd_status d \<in> {''confirmed'', ''cancelled''}"

definition plan_inv :: "plan_db \<Rightarrow> bool" where
  "plan_inv db \<longleftrightarrow> plan_wf db \<and> slot_keys db
     \<and> (\<forall>d \<in> set (tb_days db). \<exists>r. round_by_id db (xd_round d) = Some r \<and> day_matches r d)
     \<and> (\<forall>r \<in> set (tb_rounds db). er_status r \<in> {PlProposed, PlConfirmed} \<longrightarrow>
          (\<exists>d \<in> set (tb_days db). xd_round d = er_id r))"

definition own_days :: "int \<Rightarrow> planning_status \<Rightarrow> plan_db \<Rightarrow> bool" where
  "own_days i t db \<longleftrightarrow> (\<exists>d \<in> set (tb_days db). xd_round d = i)
     \<and> (\<forall>d \<in> set (tb_days db). \<forall>r. xd_round d = i \<longrightarrow> er_status r = t \<longrightarrow> day_matches r d)"

lemma list_all2_right: "list_all2 R xs ys \<Longrightarrow> y \<in> set ys \<Longrightarrow> \<exists>x \<in> set xs. R x y"
  by (induction xs ys rule: list_all2_induct) auto

lemma round_write_lookup:
  assumes "round_write i e t db db'"
  shows "round_by_id db' j = map_option (\<lambda>r. if j = i then r\<lparr>er_revision := e + 1, er_status := t\<rparr> else r) (round_by_id db j)"
  using round_by_id_upd[of "\<lambda>r. r\<lparr>er_revision := e + 1, er_status := t\<rparr>" i db j] assms
  by (simp add: round_write_def round_by_id_def)

lemma round_write_inv:
  assumes w: "round_write i e t db db'" and wf': "plan_wf db'" and inv: "plan_inv db"
    and r: "round_by_id db i \<noteq> None" and own: "own_days i t db'"
  shows "plan_inv db'"
proof -
  note look = round_write_lookup[OF w]
  have k: "slot_keys db'" using w inv by (simp add: round_write_def plan_inv_def)
  have fd: "foreign_days i db' = foreign_days i db" using w by (simp add: round_write_def)
  have "\<exists>r. round_by_id db' (xd_round d) = Some r \<and> day_matches r d" if d: "d \<in> set (tb_days db')" for d
  proof (cases "xd_round d = i")
    case True
    from r obtain r where "round_by_id db i = Some r" by blast
    then have "round_by_id db' (xd_round d) = Some (r\<lparr>er_revision := e + 1, er_status := t\<rparr>)" by (simp add: look True)
    moreover have "day_matches (r\<lparr>er_revision := e + 1, er_status := t\<rparr>) d"
      using own d True by (simp add: own_days_def)
    ultimately show ?thesis by blast
  next
    case False
    then have "d \<in> set (foreign_days i db')" using d by (simp add: foreign_days_def)
    then have "d \<in> set (tb_days db)" unfolding fd by (simp add: foreign_days_def)
    then obtain r where "round_by_id db (xd_round d) = Some r" "day_matches r d" using inv by (auto simp: plan_inv_def)
    then show ?thesis using False by (simp add: look)
  qed
  moreover have "\<exists>d \<in> set (tb_days db'). xd_round d = er_id r"
    if r': "r \<in> set (tb_rounds db')" "er_status r \<in> {PlProposed, PlConfirmed}" for r
  proof (cases "er_id r = i")
    case True
    then show ?thesis using own by (simp add: own_days_def)
  next
    case False
    then have "r \<in> set (tb_rounds db)" using r'(1) w by (auto simp: round_write_def upd_row_def split: if_splits)
    then obtain d where "d \<in> set (tb_days db)" "xd_round d = er_id r" using inv r'(2) by (auto simp: plan_inv_def)
    then have "d \<in> set (foreign_days i db)" using False by (simp add: foreign_days_def)
    then have "d \<in> set (tb_days db')" unfolding fd[symmetric] by (simp add: foreign_days_def)
    then show ?thesis using \<open>xd_round d = er_id r\<close> by blast
  qed
  ultimately show ?thesis using wf' k by (simp add: plan_inv_def)
qed

lemma read_own_days:
  assumes q: "read_proposal db i = Some q" and ok: "plan_ok cx status q"
    and t: "t = PlProposed \<and> status = ''proposed'' \<or> t = PlConfirmed \<and> status = ''confirmed''"
  shows "own_days i t db"
proof -
  have d: "pp_days q = map (read_day db) (days_of db i)" using q by (auto simp: read_proposal_def split: option.splits)
  have ne: "days_of db i \<noteq> []" using ok by (auto simp: plan_ok_def d)
  have st: "xd_status x = status" if "x \<in> set (days_of db i)" for x
  proof -
    have "pd_status (read_day db x) = status" using ok that by (fastforce simp: plan_ok_def d day_ok_def)
    then show ?thesis by (simp add: read_day_def)
  qed
  have s: "set (days_of db i) = {d \<in> set (tb_days db). xd_round d = i}" by (simp add: days_of_def)
  then show ?thesis using ne st t unfolding own_days_def day_matches_def by (force simp flip: set_empty2)
qed

lemma stored_inv:
  assumes st: "stored coords db n k db' q" and ok: "plan_ok (sn_context (planning_context coords db (pp_round n))) ''proposed'' n"
    and inv: "plan_inv db" and r: "round_by_id db (pp_round n) \<noteq> None"
  shows "plan_inv db'"
proof -
  from st have wf': "plan_wf db'" and q: "read_proposal db' (pp_round n) = Some q" "same_plan n q"
    and w: "round_write (pp_round n) k PlProposed db db'" by (auto simp: stored_def Let_def)
  have "own_days (pp_round n) PlProposed db'"
    by (rule read_own_days[OF q(1)]) (use ok plan_ok_same[OF q(2)] in auto)
  then show ?thesis by (rule round_write_inv[OF w wf' inv r])
qed

lemma revise_inv:
  assumes s: "save_confirmed_plan e p reason actor db = Inr (db', q, v, ms)" and inv: "plan_inv db"
  shows "plan_inv db' \<and> round_write (pp_round p) (pp_revision p) PlConfirmed db db'"
proof -
  let ?i = "pp_round p"
  define cx where "cx = sn_context (plan_snapshot e db ?i)"
  define n where "n = normalize_proposal cx ''confirmed'' p"
  define ed where "ed = editable_days n (cx_protected cx)"
  define D S A where "D = ids_of pd_id ed" and "S = ids_of ps_id (concat (map pd_slots ed))"
    and "A = ids_of pa_id (concat (map pd_assignments ed))"
  from save_confirmed_parts[OF s, folded cx_def, folded n_def] obtain r prior db1 db2 where
    r: "round_by_id db ?i = Some r" "er_status r = PlConfirmed" and pr: "read_proposal db ?i = Some prior"
    and sh: "confirmed_plan_shape prior p = Inr ()" and ok: "plan_ok cx ''confirmed'' n"
    and cl: "claim_revision ?i (pp_revision p) {PlConfirmed} PlConfirmed db = Some db1"
    and pe: "persist_confirmed_plan n (cx_protected cx) db1 = Inr db2"
    and db': "db' = db2\<lparr>tb_revisions := tb_revisions db2 @ [v]\<rparr>"
    by (elim exE conjE) (rule that; assumption)
  note db1 = claim_tables[OF cl]
  from inv have k: "slot_keys db" and wf: "plan_wf db" by (simp_all add: plan_inv_def)
  have rev: "revised D S A db1 db2" unfolding D_def S_def A_def
    by (rule save_confirmed_revised[OF pe[unfolded n_def] sh]) (use k db1 in \<open>simp_all add: slot_keys_def ed_def n_def\<close>)
  note u = rev[unfolded revised_def] and kk = revised_keys[OF rev]
  have rows: "list_all2 (day_revised D) (tb_days db) (tb_days db')" "list_all2 (slot_revised D S) (tb_slots db) (tb_slots db')"
    "list_all2 (assignment_revised D A) (tb_assignments db) (tb_assignments db')"
    using u db1 by (simp_all add: db')
  have ids: "D \<subseteq> xd_id ` {d \<in> set (tb_days db). xd_round d = ?i}"
  proof
    fix j assume "j \<in> D"
    then have "Some j \<in> pd_id ` set (pp_days n)" by (auto simp: D_def ids_of_def ed_def editable_days_def)
    then have "Some j \<in> pd_id ` set (pp_days prior)" using shape_parts(1)[OF sh n_def] by simp
    then show "j \<in> xd_id ` {d \<in> set (tb_days db). xd_round d = ?i}"
      using pr r(1) by (auto simp: read_proposal_def read_day_def days_of_def)
  qed
  have own: "x \<notin> D" if "x = xd_id d" "d \<in> set (tb_days db)" "xd_round d \<noteq> ?i" for x d
  proof
    assume "x \<in> D"
    with ids obtain d' where d': "d' \<in> set (tb_days db)" "xd_round d' = ?i" "xd_id d' = x" by blast
    moreover have "inj_on xd_id (set (tb_days db))" using k by (simp add: slot_keys_def distinct_map)
    ultimately have "d' = d" using that by (meson inj_onD)
    with d' that show False by simp
  qed
  have fd: "foreign_days ?i db' = foreign_days ?i db"
    unfolding foreign_days_def using u db1 own
    by (simp add: db') (rule filter_rel[of "day_revised D"], auto simp: day_revised_def)
  have rounds: "tb_rounds db' = upd_row er_id ?i (\<lambda>r. r\<lparr>er_revision := pp_revision p + 1, er_status := PlConfirmed\<rparr>) (tb_rounds db)"
    using u cl by (auto simp: db' claim_revision_Some)
  have idd: "map xd_id (tb_days db') = map xd_id (tb_days db)" "map xs_id (tb_slots db') = map xs_id (tb_slots db)"
    using kk db1 by (simp_all add: db')
  then have isd: "xd_id ` set (tb_days db') = xd_id ` set (tb_days db)" by (metis set_map)
  have w: "round_write ?i (pp_revision p) PlConfirmed db db'"
    using rounds fd idd by (simp add: round_write_def slot_keys_def)
  have fr: "plan_frame db db2" by (rule plan_frame_trans[of db db1]) (use db1 u in simp_all)
  have wf': "plan_wf db'"
  proof -
    have er: "map er_id (tb_rounds db') = map er_id (tb_rounds db)" by (simp add: rounds map_key_upd_row)
    have cd: "candidate_days_of db' = candidate_days_of db"
      using candidate_days_of_frame[OF fr] by (simp add: db' candidate_days_of_def fun_eq_iff)
    have D: "D \<subseteq> xd_id ` set (tb_days db)" using ids by auto
    have sl: "xs_day x \<in> xd_id ` set (tb_days db)" if "x \<in> set (tb_slots db')" for x
    proof -
      from list_all2_right[OF rows(2) that] obtain y where y: "y \<in> set (tb_slots db)" "slot_revised D S y x" by blast
      then show ?thesis using wf D by (auto simp: slot_revised_def plan_wf_def)
    qed
    have al: "xa_day x \<in> xd_id ` set (tb_days db)" if "x \<in> set (tb_assignments db')" for x
    proof -
      from list_all2_right[OF rows(3) that] obtain y where y: "y \<in> set (tb_assignments db)" "assignment_revised D A y x" by blast
      then show ?thesis using wf D by (auto simp: assignment_revised_def plan_wf_def)
    qed
    show ?thesis using wf sl al unfolding plan_wf_def idd er isd cd by blast
  qed
  have own': "own_days ?i PlConfirmed db'"
  proof -
    have prior: "pp_days prior = map (read_day db) (days_of db ?i)" using pr r(1) by (auto simp: read_proposal_def)
    have "pp_days n \<noteq> []" using ok by (auto simp: plan_ok_def)
    then have "pp_days prior \<noteq> []" using shape_parts(1)[OF sh n_def] by auto
    then obtain d where "d \<in> set (tb_days db)" "xd_round d = ?i"
    proof -
      have "set (days_of db ?i) \<noteq> {}" using \<open>pp_days prior \<noteq> []\<close> unfolding prior by simp
      then show ?thesis using that by (auto simp: days_of_def)
    qed
    then have "?i \<in> set (map xd_round (tb_days db'))" using kk db1 by (simp add: db') (metis image_eqI list.set_map)
    then have one: "\<exists>d \<in> set (tb_days db'). xd_round d = ?i" by auto
    have st: "xd_status x \<in> {''confirmed'', ''cancelled''}" if x: "x \<in> set (tb_days db')" "xd_round x = ?i" for x
    proof -
      from list_all2_right[OF rows(1) x(1)] obtain y where y: "y \<in> set (tb_days db)" "day_revised D y x" by blast
      show ?thesis
      proof (cases "x = y")
        case True
        then show ?thesis using inv y(1) x(2) r by (force simp: plan_inv_def day_matches_def)
      qed (use y(2) in \<open>simp add: day_revised_def\<close>)
    qed
    show ?thesis using one st by (auto simp: own_days_def day_matches_def)
  qed
  have "plan_inv db'" by (rule round_write_inv[OF w wf' inv _ own']) (simp add: r)
  with w show ?thesis by blast
qed

lemma request_inv:
  assumes s: "request_availabilities e i db = Inr (db', r)" and inv: "plan_inv db"
  shows "plan_inv db'"
proof (cases "db' = db")
  case False
  let ?f = "\<lambda>r. r\<lparr>er_status := PlAvailabilityRequested\<rparr>"
  from s False obtain row where row: "round_by_id db i = Some row" "er_status row = PlDraft"
    and d: "db' = db\<lparr>tb_rounds := upd_row er_id i ?f (tb_rounds db)\<rparr>"
    by (auto simp: request_availabilities_def Let_def case_Inl_option ok_iff snapshot_read context_round
        mark_availabilities_requested_def split: if_splits)
  have look: "round_by_id db' j = map_option (\<lambda>r. if j = i then ?f r else r) (round_by_id db j)" for j
    using round_by_id_upd[of ?f i db j] by (simp add: d)
  have none: "xd_round x \<noteq> i" if "x \<in> set (tb_days db)" for x
    using inv that row by (force simp: plan_inv_def day_matches_def)
  have cd: "candidate_days_of db' = candidate_days_of db" by (simp add: d candidate_days_of_def fun_eq_iff)
  have "map er_id (tb_rounds db') = map er_id (tb_rounds db)" by (simp add: d map_key_upd_row)
  then have wf: "plan_wf db'" using inv unfolding plan_inv_def plan_wf_def cd by (simp add: d)
  have "\<exists>r. round_by_id db' (xd_round x) = Some r \<and> day_matches r x" if "x \<in> set (tb_days db')" for x
    using inv that none[of x] by (simp add: plan_inv_def look) (auto simp: d)
  moreover have "\<exists>x \<in> set (tb_days db'). xd_round x = er_id r"
    if "r \<in> set (tb_rounds db')" "er_status r \<in> {PlProposed, PlConfirmed}" for r
    using inv that by (auto simp: plan_inv_def d upd_row_def split: if_splits)
  ultimately show ?thesis using wf inv by (simp add: plan_inv_def slot_keys_def d)
qed (use inv in simp)

subsection \<open>The other writers of rounds\<close>

lemma planning_status_of_Some: "planning_status_of s = Some t \<longleftrightarrow> s = status_text t"
  by (cases t) (auto simp: planning_status_of_def split: if_splits)

lemma status_text_aggregate: "status_text t \<in> set aggregate_texts \<longleftrightarrow> t \<in> {PlProposed, PlConfirmed}"
  by (cases t) (auto simp: aggregate_texts_def)

lemma create_round_Inr:
  assumes "create_round cc fresh v (db, infs) = Inr (db', infs')"
  obtains r where "db' = db\<lparr>tb_rounds := tb_rounds db @ [r]\<rparr>" "er_id r = next_id (map er_id (tb_rounds db))"
    "er_status r \<notin> {PlProposed, PlConfirmed}"
  using assms status_text_aggregate
  by (fastforce simp: create_round_def insert_round_def normalize_round_create_def ok_iff Let_def planning_status_of_Some
      split: option.split_asm)

lemma update_round_Inr:
  assumes "update_round i ch (db, infs) = Inr (Some (db', infs'))"
  obtains r t u where "round_by_id db i = Some r" "er_status r = t \<or> {er_status r, t} \<inter> {PlProposed, PlConfirmed} = {}"
    "db' = db\<lparr>tb_rounds := upd_row er_id i (\<lambda>r. r\<lparr>er_status := t, er_deadline := u\<rparr>) (tb_rounds db)\<rparr>"
proof -
  from assms obtain r row t u where r: "round_by_id db i = Some r" "validate_round_update r row ch = Inr ()"
    "planning_status_of (merged (ch_status ch) (status_text (er_status r))) = Some t"
    "db' = db\<lparr>tb_rounds := upd_row er_id i (\<lambda>r. r\<lparr>er_status := t, er_deadline := u\<rparr>) (tb_rounds db)\<rparr>"
    by (auto simp: update_round_def ok_iff Let_def split: option.split_asm)
  have m: "merged (ch_status ch) (status_text (er_status r)) = status_text t" using r(3) by (simp add: planning_status_of_Some)
  have "status_text (er_status r) = status_text t \<or> {er_status r, t} \<inter> {PlProposed, PlConfirmed} = {}"
    using r(2) m status_text_aggregate[of t] status_text_aggregate[of "er_status r"]
    by (cases "ch_status ch") (auto simp: validate_round_update_def ok_iff merged_def)
  moreover have "x = y" if "status_text x = status_text y" for x y using that by (cases x; cases y) simp_all
  ultimately show thesis using that[OF r(1) _ r(4)] by blast
qed

lemma update_round_inv:
  assumes s: "update_round i ch (db, infs) = Inr (Some (db', infs'))" and inv: "plan_inv db"
  shows "plan_inv db'"
proof -
  from s obtain row t u where r: "round_by_id db i = Some row" "er_status row = t \<or> {er_status row, t} \<inter> {PlProposed, PlConfirmed} = {}"
    and d: "db' = db\<lparr>tb_rounds := upd_row er_id i (\<lambda>r. r\<lparr>er_status := t, er_deadline := u\<rparr>) (tb_rounds db)\<rparr>"
    by (rule update_round_Inr)
  let ?f = "\<lambda>r. r\<lparr>er_status := t, er_deadline := u\<rparr>"
  have look: "round_by_id db' j = map_option (\<lambda>r. if j = i then ?f r else r) (round_by_id db j)" for j
    using round_by_id_upd[of ?f i db j] by (simp add: d)
  have cd: "candidate_days_of db' = candidate_days_of db" by (simp add: d candidate_days_of_def fun_eq_iff)
  have er: "map er_id (tb_rounds db') = map er_id (tb_rounds db)" by (simp add: d map_key_upd_row)
  have wf: "plan_wf db'" using inv unfolding plan_inv_def plan_wf_def cd er by (simp add: d)
  have m: "\<exists>r. round_by_id db' (xd_round x) = Some r \<and> day_matches r x" if "x \<in> set (tb_days db')" for x
  proof -
    from that inv obtain r where o: "round_by_id db (xd_round x) = Some r" "day_matches r x"
      by (auto simp: plan_inv_def d)
    then have "xd_round x = i \<Longrightarrow> er_status r = t" using r by (auto simp: day_matches_def)
    then have "day_matches (if xd_round x = i then ?f r else r) x" using o(2) by (auto simp: day_matches_def)
    then show ?thesis using o(1) by (simp add: look)
  qed
  have "\<exists>x \<in> set (tb_days db'). xd_round x = er_id y"
    if y: "y \<in> set (tb_rounds db')" "er_status y \<in> {PlProposed, PlConfirmed}" for y
  proof -
    from y(1) obtain z where z: "z \<in> set (tb_rounds db)" "y = z \<or> y = ?f z \<and> er_id z = i"
      by (auto simp: d upd_row_def split: if_splits)
    have "er_status z \<in> {PlProposed, PlConfirmed}"
    proof (cases "y = z")
      case False
      then have "z = row" using z r(1) inv
        find_key_unique[of er_id "tb_rounds db" z i row] by (simp add: plan_inv_def plan_wf_def round_by_id_def)
      then show ?thesis using False z(2) r(2) y(2) by auto
    qed (use y in simp)
    then show ?thesis using inv z by (auto simp: plan_inv_def d)
  qed
  then show ?thesis using wf m inv by (simp add: plan_inv_def slot_keys_def d)
qed

lemma find_snoc: "List.find P xs = Some y \<Longrightarrow> List.find P (xs @ [x]) = Some y"
  by (induction xs) auto

lemma create_round_inv:
  assumes s: "create_round cc fresh v (db, infs) = Inr (db', infs')" and inv: "plan_inv db"
  shows "plan_inv db'"
proof -
  from s obtain n where n: "db' = db\<lparr>tb_rounds := tb_rounds db @ [n]\<rparr>" "er_id n = next_id (map er_id (tb_rounds db))"
    "er_status n \<notin> {PlProposed, PlConfirmed}" by (rule create_round_Inr)
  have cd: "candidate_days_of db' = candidate_days_of db" by (simp add: n(1) candidate_days_of_def fun_eq_iff)
  have "er_id n \<notin> set (map er_id (tb_rounds db))" using next_id_fresh n(2) by metis
  then have wf: "plan_wf db'" using inv unfolding plan_inv_def plan_wf_def cd by (simp add: n(1))
  have "round_by_id db' j = Some r" if "round_by_id db j = Some r" for j r
    using that by (simp add: round_by_id_def n(1) find_snoc)
  then have "\<exists>r. round_by_id db' (xd_round x) = Some r \<and> day_matches r x" if "x \<in> set (tb_days db')" for x
    using that inv by (fastforce simp: plan_inv_def n(1))
  moreover have "\<exists>x \<in> set (tb_days db'). xd_round x = er_id r"
    if "r \<in> set (tb_rounds db')" "er_status r \<in> {PlProposed, PlConfirmed}" for r
    using that inv n by (auto simp: plan_inv_def)
  ultimately show ?thesis using wf inv by (simp add: plan_inv_def slot_keys_def n(1))
qed

lemma delete_round_Inr:
  assumes "delete_empty_exam_round_draft manage locked executed i (db, infs) = Inr (Some (db', infs'))" "plan_inv db"
  obtains r where "round_by_id db i = Some r" "er_status r = PlDraft"
    "\<forall>d \<in> set (tb_days db). xd_round d \<noteq> i"
    "db' = db\<lparr>tb_rounds := filter (\<lambda>r. er_id r \<noteq> i) (tb_rounds db),
       tb_candidate_days := filter (\<lambda>p. fst p \<noteq> i) (tb_candidate_days db)\<rparr>"
proof -
  from assms(1) obtain r where r: "round_by_id db i = Some r" "er_status r = PlDraft"
    and d: "db' = (fold delete_day (days_of db i) db)\<lparr>
        tb_rounds := filter (\<lambda>r. er_id r \<noteq> i) (tb_rounds (fold delete_day (days_of db i) db)),
        tb_candidate_days := filter (\<lambda>p. fst p \<noteq> i) (tb_candidate_days (fold delete_day (days_of db i) db))\<rparr>"
    by (auto simp: delete_empty_exam_round_draft_def ok_iff Let_def split: option.split_asm)
  have no: "\<forall>x \<in> set (tb_days db). xd_round x \<noteq> i" using assms(2) r by (force simp: plan_inv_def day_matches_def)
  then have "set (days_of db i) = {}" by (auto simp: days_of_def)
  then have "days_of db i = []" by simp
  with that[OF r no] d show thesis by simp
qed

lemma find_filter_key: "j \<noteq> i \<Longrightarrow> List.find (\<lambda>x. key x = j) (filter (\<lambda>x. key x \<noteq> i) xs) = List.find (\<lambda>x. key x = j) xs"
  by (induction xs) auto

lemma delete_round_inv:
  assumes s: "delete_empty_exam_round_draft manage locked executed i (db, infs) = Inr (Some (db', infs'))" and inv: "plan_inv db"
  shows "plan_inv db'"
proof -
  from s inv obtain no: "\<forall>d \<in> set (tb_days db). xd_round d \<noteq> i"
    and d: "db' = db\<lparr>tb_rounds := filter (\<lambda>r. er_id r \<noteq> i) (tb_rounds db),
       tb_candidate_days := filter (\<lambda>p. fst p \<noteq> i) (tb_candidate_days db)\<rparr>" by (rule delete_round_Inr)
  have cd: "candidate_days_of db' j = (if j = i then [] else candidate_days_of db j)" for j
  proof -
    have "filter (\<lambda>p. fst p = j) (filter (\<lambda>p. fst p \<noteq> i) (tb_candidate_days db))
        = (if j = i then [] else filter (\<lambda>p. fst p = j) (tb_candidate_days db))"
      by (auto simp: filter_empty_conv intro: filter_cong)
    then show ?thesis by (simp add: d candidate_days_of_def)
  qed
  have "plan_wf db'" using inv by (simp add: plan_inv_def plan_wf_def cd distinct_map_filter) (simp add: d distinct_map_filter)
  moreover have "round_by_id db' j = round_by_id db j" if "j \<noteq> i" for j
    using that by (simp add: round_by_id_def d find_filter_key)
  ultimately show ?thesis using inv no by (auto simp: plan_inv_def slot_keys_def d)
qed

lemma decide_round_Inr:
  assumes "decide_exam_round ready decision i expected (db, infs) = Inr (db', infs')"
  obtains "db' = db" | "db' = cancel_exam_days i (cancel_exam_day_slots (map xd_id (days_of db i)) db)"
  using assms by (auto simp: decide_exam_round_def ok_iff split: option.split_asm round_decision.split_asm)

lemma cancel_round_inv:
  assumes inv: "plan_inv db"
  shows "plan_inv (cancel_exam_days i (cancel_exam_day_slots ids db))"
proof -
  let ?c = "\<lambda>d. if xd_round d = i then d\<lparr>xd_status := ''cancelled''\<rparr> else d"
  define db' where "db' = cancel_exam_days i (cancel_exam_day_slots ids db)"
  have days: "tb_days db' = map ?c (tb_days db)" by (simp add: db'_def cancel_exam_days_def cancel_exam_day_slots_def)
  have rds: "map xd_round (tb_days db') = map xd_round (tb_days db)" by (simp add: days)
  have same: "tb_rounds db' = tb_rounds db" "tb_assignments db' = tb_assignments db" "candidate_days_of db' = candidate_days_of db"
    by (simp_all add: db'_def cancel_exam_days_def cancel_exam_day_slots_def candidate_days_of_def fun_eq_iff)
  have ids: "map xd_id (tb_days db') = map xd_id (tb_days db)" by (simp add: days)
  then have isd: "xd_id ` set (tb_days db') = xd_id ` set (tb_days db)" by (metis set_map)
  have slots: "map xs_id (tb_slots db') = map xs_id (tb_slots db)" "map xs_day (tb_slots db') = map xs_day (tb_slots db)"
    by (simp_all add: db'_def cancel_exam_days_def cancel_exam_day_slots_def)
  have sd: "xs_day ` set (tb_slots db') = xs_day ` set (tb_slots db)" using arg_cong[OF slots(2), of set] by simp
  have "\<forall>s \<in> set (tb_slots db'). xs_day s \<in> xd_id ` set (tb_days db)"
    using inv sd unfolding plan_inv_def plan_wf_def by (metis (no_types, lifting) image_iff)
  then have wf: "plan_wf db'" using inv unfolding plan_inv_def plan_wf_def isd ids same by blast
  have "\<exists>r. round_by_id db' (xd_round x) = Some r \<and> day_matches r x" if "x \<in> set (tb_days db')" for x
  proof -
    from that obtain y where y: "y \<in> set (tb_days db)" "x = ?c y" by (auto simp: days)
    then obtain r where "round_by_id db (xd_round y) = Some r" "day_matches r y" using inv by (auto simp: plan_inv_def)
    with y(2) show ?thesis by (auto simp: round_by_id_def same day_matches_def)
  qed
  moreover have img: "xd_round ` set (tb_days db') = xd_round ` set (tb_days db)"
    using arg_cong[OF rds, of set] by simp
  have "\<exists>x \<in> set (tb_days db'). xd_round x = er_id r"
    if "r \<in> set (tb_rounds db')" "er_status r \<in> {PlProposed, PlConfirmed}" for r
    using inv that img unfolding plan_inv_def same by (metis (no_types, lifting) image_iff)
  ultimately show ?thesis using wf inv ids slots(1) unfolding plan_inv_def slot_keys_def db'_def by simp
qed

lemma delete_committee_lookup:
  assumes "distinct (map er_id (tb_rounds db))"
  shows "round_by_id (delete_committee c db) i = (case round_by_id db i of None \<Rightarrow> None
    | Some r \<Rightarrow> if er_committee r = c then None else Some r)"
proof -
  have "List.find (\<lambda>r. er_id r = i) (filter P rs) = (case List.find (\<lambda>r. er_id r = i) rs of None \<Rightarrow> None
      | Some r \<Rightarrow> if P r then Some r else None)" if "distinct (map er_id rs)" for P rs
    using that
  proof (induction rs)
    case (Cons a rs)
    have "er_id a = i \<Longrightarrow> \<forall>x \<in> set rs. er_id x \<noteq> i" using Cons.prems by (metis distinct.simps(2) image_eqI list.simps(9) list.set_map)
    then have "er_id a = i \<Longrightarrow> List.find (\<lambda>r. er_id r = i) (filter P rs) = None" by (auto simp: find_None_iff)
    then show ?case using Cons by (cases "er_id a = i") simp_all
  qed simp
  from this[OF assms, of "\<lambda>r. er_committee r \<noteq> c"] show ?thesis
    by (auto simp: round_by_id_def delete_committee_def Let_def split: option.split)
qed

lemma delete_committee_inv:
  assumes inv: "plan_inv db"
  shows "plan_inv (delete_committee c db)"
proof -
  let ?g = "set (rounds_of_committee c db)" and ?db = "delete_committee c db"
  let ?days = "set (map xd_id (filter (\<lambda>d. xd_round d \<in> ?g) (tb_days db)))"
  have wf: "plan_wf db" using inv by (simp add: plan_inv_def)
  have k: "distinct (map er_id (tb_rounds db))" "distinct (map xd_id (tb_days db))" using wf by (simp_all add: plan_wf_def)
  have t: "tb_days ?db = filter (\<lambda>d. xd_round d \<notin> ?g) (tb_days db)" "tb_slots ?db = filter (\<lambda>s. xs_day s \<notin> ?days) (tb_slots db)"
    "tb_assignments ?db = filter (\<lambda>a. xa_day a \<notin> ?days) (tb_assignments db)"
    "tb_rounds ?db = filter (\<lambda>r. er_committee r \<noteq> c) (tb_rounds db)"
    "tb_candidate_days ?db = filter (\<lambda>p. fst p \<notin> ?g) (tb_candidate_days db)"
    by (simp_all add: delete_committee_def Let_def)
  have cd: "candidate_days_of ?db j = (if j \<in> ?g then [] else candidate_days_of db j)" for j
  proof -
    have "filter (\<lambda>p. fst p = j) (filter (\<lambda>p. fst p \<notin> ?g) (tb_candidate_days db))
        = (if j \<in> ?g then [] else filter (\<lambda>p. fst p = j) (tb_candidate_days db))"
      by (auto simp: filter_empty_conv intro: filter_cong)
    then show ?thesis by (simp add: t candidate_days_of_def)
  qed
  have keep: "x \<in> xd_id ` set (tb_days ?db)" if "x \<in> xd_id ` set (tb_days db)" "x \<notin> ?days" for x
    using that by (auto simp: t)
  have wf': "plan_wf ?db" unfolding plan_wf_def
  proof (intro conjI ballI allI)
    show "distinct (map xd_id (tb_days ?db))" using k(2) by (simp add: t distinct_map_filter)
    show "distinct (map er_id (tb_rounds ?db))" using k(1) by (simp add: t distinct_map_filter)
    show "xs_day s \<in> xd_id ` set (tb_days ?db)" if "s \<in> set (tb_slots ?db)" for s
      by (rule keep) (use that wf in \<open>simp_all add: t plan_wf_def\<close>)
    show "xa_day a \<in> xd_id ` set (tb_days ?db)" if "a \<in> set (tb_assignments ?db)" for a
      by (rule keep) (use that wf in \<open>simp_all add: t plan_wf_def\<close>)
    show "distinct (map cd_date (candidate_days_of ?db j))" "distinct (map cd_id (candidate_days_of ?db j))" for j
      using wf by (simp_all add: cd plan_wf_def)
  qed
  have keys: "slot_keys ?db" using inv by (simp add: plan_inv_def slot_keys_def t distinct_map_filter)
  have own: "j \<in> ?g" if "round_by_id db j = Some r" "er_committee r = c" for j r
    using that by (auto simp: rounds_of_committee_def round_by_id_def dest: find_Some_mem find_Some_P)
  have "\<exists>r. round_by_id ?db (xd_round d) = Some r \<and> day_matches r d" if d: "d \<in> set (tb_days ?db)" for d
  proof -
    from d have "d \<in> set (tb_days db)" "xd_round d \<notin> ?g" by (simp_all add: t)
    moreover from this inv obtain r where "round_by_id db (xd_round d) = Some r" "day_matches r d" by (auto simp: plan_inv_def)
    ultimately show ?thesis using own by (auto simp: delete_committee_lookup[OF k(1)])
  qed
  moreover have "\<exists>d \<in> set (tb_days ?db). xd_round d = er_id r"
    if r: "r \<in> set (tb_rounds ?db)" "er_status r \<in> {PlProposed, PlConfirmed}" for r
  proof -
    from r have m: "r \<in> set (tb_rounds db)" "er_committee r \<noteq> c" by (simp_all add: t)
    with inv r(2) obtain d where d: "d \<in> set (tb_days db)" "xd_round d = er_id r" by (auto simp: plan_inv_def)
    have "er_id r \<notin> ?g"
    proof
      assume "er_id r \<in> ?g"
      then obtain x where "x \<in> set (tb_rounds db)" "er_id x = er_id r" "er_committee x = c" by (auto simp: rounds_of_committee_def)
      with m k(1) show False by (metis distinct_map inj_onD)
    qed
    with d show ?thesis by (auto simp: t)
  qed
  ultimately show ?thesis using wf' keys by (simp add: plan_inv_def)
qed

lemma other_write_inv:
  assumes w: "other_write db db'" and inv: "plan_inv db"
  shows "plan_inv db'"
proof -
  let ?k = "\<lambda>d. (xd_id d, xd_round d, xd_status d)"
  have rounds: "tb_rounds db' = tb_rounds db" and k: "map ?k (tb_days db') = map ?k (tb_days db)"
    and sk: "map (\<lambda>s. (xs_id s, xs_day s)) (tb_slots db') = map (\<lambda>s. (xs_id s, xs_day s)) (tb_slots db)"
    and ak: "map xa_day (tb_assignments db') = map xa_day (tb_assignments db)"
    using w by (simp_all add: other_write_def)
  have ids: "map xd_id (tb_days db') = map xd_id (tb_days db)" using arg_cong[OF k, of "map fst"] by (simp add: comp_def)
  then have isd: "xd_id ` set (tb_days db') = xd_id ` set (tb_days db)" by (metis set_map)
  have sids: "map xs_id (tb_slots db') = map xs_id (tb_slots db)" "map xs_day (tb_slots db') = map xs_day (tb_slots db)"
    using arg_cong[OF sk, of "map fst"] arg_cong[OF sk, of "map snd"] by (simp_all add: comp_def)
  have img: "xs_day ` set (tb_slots db') = xs_day ` set (tb_slots db)" "xa_day ` set (tb_assignments db') = xa_day ` set (tb_assignments db)"
    "?k ` set (tb_days db') = ?k ` set (tb_days db)"
    using arg_cong[OF sids(2), of set] arg_cong[OF ak, of set] arg_cong[OF k, of set] by simp_all
  have d: "\<exists>y \<in> set (tb_days db). ?k y = ?k x" if "x \<in> set (tb_days db')" for x
    using img(3) that by (metis (no_types, lifting) image_iff)
  have d': "\<exists>y \<in> set (tb_days db'). ?k y = ?k x" if "x \<in> set (tb_days db)" for x
    using img(3) that by (metis (no_types, lifting) image_iff)
  have "\<forall>s \<in> set (tb_slots db'). xs_day s \<in> xd_id ` set (tb_days db)"
    "\<forall>a \<in> set (tb_assignments db'). xa_day a \<in> xd_id ` set (tb_days db)"
    using inv img(1,2) unfolding plan_inv_def plan_wf_def by (metis (no_types, lifting) image_iff)+
  then have wf: "plan_wf db'" using w inv unfolding other_write_def plan_inv_def plan_wf_def isd ids rounds by blast
  have "\<exists>r. round_by_id db' (xd_round x) = Some r \<and> day_matches r x" if x: "x \<in> set (tb_days db')" for x
  proof -
    from d[OF x] obtain y where y: "y \<in> set (tb_days db)" "xd_round y = xd_round x" "xd_status y = xd_status x" by auto
    then obtain r where "round_by_id db (xd_round y) = Some r" "day_matches r y" using inv by (auto simp: plan_inv_def)
    with y show ?thesis by (auto simp: round_by_id_def rounds day_matches_def)
  qed
  moreover have "\<exists>x \<in> set (tb_days db'). xd_round x = er_id r"
    if r: "r \<in> set (tb_rounds db')" "er_status r \<in> {PlProposed, PlConfirmed}" for r
  proof -
    from inv r obtain y where "y \<in> set (tb_days db)" "xd_round y = er_id r" by (auto simp: plan_inv_def rounds)
    with d'[of y] show ?thesis by auto
  qed
  ultimately show ?thesis using wf inv ids sids(1) by (simp add: plan_inv_def slot_keys_def)
qed

lemma plan_step_inv:
  assumes "plan_step e db db'" "plan_inv db"
  shows "plan_inv db'"
  using assms
proof (cases rule: plan_step.cases)
  case (Generate i q g)
  from Generate assms(2) have wf: "plan_wf db" by (simp add: plan_inv_def)
  from generate_proposal_stored[OF Generate wf] obtain n k where n: "pp_round n = i"
    "plan_ok (sn_context (plan_snapshot e db i)) ''proposed'' n" "stored (pe_coordinates e) db n k db' q" by blast
  then have "round_by_id db i \<noteq> None" by (auto simp: plan_ok_def snapshot_read context_round)
  with n assms(2) show ?thesis by (intro stored_inv[OF n(3)]) (simp_all add: snapshot_read)
next
  case (Save p q)
  from Save assms(2) have wf: "plan_wf db" by (simp add: plan_inv_def)
  let ?n = "normalize_proposal (sn_context (plan_snapshot e db (pp_round p))) ''proposed'' p"
  have i: "pp_round (normalize_proposal cx st p) = pp_round p" for cx st by (simp add: normalize_proposal_def)
  from save_proposal_stored[OF Save wf] have n: "plan_ok (sn_context (plan_snapshot e db (pp_round p))) ''proposed'' ?n"
    "stored (pe_coordinates e) db ?n (pp_revision p) db' q" by blast+
  then have "round_by_id db (pp_round p) \<noteq> None" by (auto simp: plan_ok_def snapshot_read context_round)
  with n assms(2) show ?thesis by (intro stored_inv[OF n(2)]) (simp_all add: snapshot_read i)
next
  case (Confirm i q days slots)
  from Confirm assms(2) have wf: "plan_wf db" by (simp add: plan_inv_def)
  from confirm_plan_effect[OF Confirm wf] obtain p :: proposal and r where p: "read_proposal db' i = Some q" "plan_wf db'"
    "round_by_id db i = Some r" "plan_ok (sn_context (plan_snapshot e db' i)) ''confirmed'' q"
    "round_write i (pp_revision p) PlConfirmed db db'"
    by (elim exE conjE) (rule that)
  have own: "own_days i PlConfirmed db'" by (rule read_own_days[OF p(1,4)]) simp
  show ?thesis by (rule round_write_inv[OF p(5,2) assms(2) _ own]) (simp add: p(3))
next
  case (Request i r)
  then show ?thesis by (rule request_inv) (rule assms(2))
next
  case (Revise p reason actor q v ms)
  from revise_inv[OF Revise assms(2)] show ?thesis ..
next
  case (Create cc fresh v infs infs')
  then show ?thesis by (rule create_round_inv) (rule assms(2))
next
  case (Update i ch infs infs')
  then show ?thesis by (rule update_round_inv) (rule assms(2))
next
  case (Delete manage locked executed i infs infs')
  then show ?thesis by (rule delete_round_inv) (rule assms(2))
next
  case (Decide ready decision i expected infs infs')
  then show ?thesis by (rule decide_round_Inr) (use assms(2) cancel_round_inv in simp_all)
next
  case (Committee c)
  then show ?thesis using delete_committee_inv[OF assms(2)] by simp
next
  case Other
  then show ?thesis by (rule other_write_inv) (rule assms(2))
qed

subsection \<open>Consequences\<close>

interpretation planning: invariant_system "plan_step e" plan_inv for e
  by unfold_locales (rule plan_step_inv)

text \<open>A proposal never replaces confirmed days: the guard of \<open>clear_existing_proposal\<close> cannot fire.\<close>

lemma delete_days_ok: "\<forall>d \<in> set ds. xd_status d \<noteq> ''confirmed'' \<Longrightarrow>
    fold_res (\<lambda>d db. require (xd_status d \<noteq> ''confirmed'') e (Inr (delete_day d db))) ds db \<noteq> Inl x"
  by (induction ds arbitrary: db) auto

lemma persist_not_replaced:
  "persist_proposal p db \<noteq> Inl ConfirmedReplaced"
proof -
  have f: "fold_res f xs s \<noteq> Inl ConfirmedReplaced" if "\<And>x s. f x s \<noteq> Inl ConfirmedReplaced" for f :: "'a \<Rightarrow> plan_db \<Rightarrow> plan_error + plan_db" and xs s
    by (induction xs arbitrary: s) (use that in \<open>auto simp: bnd_Inl_iff\<close>)
  have a: "new_assignment k x db \<noteq> Inl ConfirmedReplaced" for k x db
    by (simp add: new_assignment_def add_assignment_def require_Inl_iff)
  have s: "new_slot_row k x db \<noteq> Inl ConfirmedReplaced" for k x db
    by (simp add: new_slot_row_def add_slot_def require_Inl_iff)
  have d: "persist_day i lunch x db \<noteq> Inl ConfirmedReplaced" for i lunch x db
    using f[of "new_assignment k" for k] f[of "new_slot_row k" for k] a s
    by (auto simp: persist_day_def Let_def bnd_Inl_iff add_day_def require_Inl_iff)
  show ?thesis using f[of "persist_day i l" for i l] d by (auto simp: persist_proposal_def split: option.splits)
qed

lemma replace_not_replaced:
  assumes inv: "plan_inv db" and A: "PlConfirmed \<notin> A"
  shows "replace_proposal p k A t db \<noteq> Inl ConfirmedReplaced"
proof
  assume r: "replace_proposal p k A t db = Inl ConfirmedReplaced"
  then obtain db1 where c: "claim_revision (pp_round p) k A t db = Some db1"
    and e: "clear_existing_proposal (pp_round p) db1 = Inl ConfirmedReplaced"
    using persist_not_replaced by (fastforce simp: replace_proposal_def bnd_Inl_iff split: option.splits)
  from c obtain row where row: "round_by_id db (pp_round p) = Some row" "er_status row \<in> A" by (auto simp: claim_revision_Some)
  have "xd_status d \<noteq> ''confirmed''" if "d \<in> set (days_of db1 (pp_round p))" for d
  proof -
    from that have "d \<in> set (tb_days db)" "xd_round d = pp_round p" using claim_tables[OF c] by (simp_all add: days_of_def)
    then have "day_matches row d" using inv row(1) by (force simp: plan_inv_def)
    then show ?thesis using row(2) A by (auto simp: day_matches_def)
  qed
  then have "clear_existing_proposal (pp_round p) db1 \<noteq> Inl ConfirmedReplaced"
    unfolding clear_existing_proposal_def by (intro delete_days_ok) blast
  with e show False by simp
qed

lemma fold_res_Inl: "fold_res f xs s = Inl e \<Longrightarrow> \<exists>x \<in> set xs. \<exists>t. f x t = Inl e"
  by (induction xs arbitrary: s) (auto simp: bnd_Inl_iff)

lemma week_key_Inl: "week_key s = Inl e \<Longrightarrow> e = BadDate"
  by (auto simp: week_key_def split: option.splits prod.splits)

lemma build_proposal_Inl: "build_proposal cx st = Inl e \<Longrightarrow> e \<in> {DefaultRoomRequired, BadDate}"
  by (auto simp: build_proposal_def Let_def require_Inl_iff bnd_Inl_iff group_days_def
      dest!: fold_res_Inl week_key_Inl)

lemma raise_for_invalid_Inl:
  assumes "raise_for_invalid cx status p = Inl e"
  shows "e = BadDate \<or> (\<exists>xs. e = InvalidPlan xs)"
proof -
  have d: "x = BadDate" if "validate_proposal_day cx st k status d s = Inl x" for st k d s x
    using that week_key_Inl unfolding validate_proposal_day_def validate_exam_day_state_def Let_def
    by (auto simp: bnd_Inl_iff split: prod.splits option.splits)
  have "x = BadDate" if "validate_proposal cx status p = Inl x" for x
    using that d by (auto simp: validate_proposal_def bnd_Inl_iff split: option.splits dest!: fold_res_Inl)
  with assms show ?thesis by (auto simp: raise_for_invalid_def bnd_Inl_iff require_Inl_iff)
qed

lemma use_cases_not_replaced:
  assumes inv: "plan_inv db" and lock: "\<forall>i. pe_lock e i \<noteq> Some ConfirmedReplaced"
  shows "generate_proposal e i db \<noteq> Inl ConfirmedReplaced \<and> save_proposal e p db \<noteq> Inl ConfirmedReplaced"
proof
  have l: "check_lock e j \<noteq> Inl ConfirmedReplaced" for j
    using lock by (auto simp: check_lock_def split: option.splits)
  have b: "build_proposal cx st \<noteq> Inl ConfirmedReplaced" for cx st using build_proposal_Inl by blast
  have v: "raise_for_invalid cx status n \<noteq> Inl ConfirmedReplaced" for cx status n using raise_for_invalid_Inl by blast
  have r: "replace_proposal n k coordination t db \<noteq> Inl ConfirmedReplaced" "replace_proposal n k {PlProposed} t db \<noteq> Inl ConfirmedReplaced"
    for n k t by (rule replace_not_replaced[OF inv], simp add: coordination_def)+
  show "generate_proposal e i db \<noteq> Inl ConfirmedReplaced"
    using l b v r by (auto simp: generate_proposal_def Let_def bnd_Inl_iff require_Inl_iff split: option.splits)
  show "save_proposal e p db \<noteq> Inl ConfirmedReplaced"
    using l v r by (auto simp: save_proposal_def Let_def bnd_Inl_iff require_Inl_iff split: option.splits)
qed

subsection \<open>Plans are not taken back\<close>

fun aggregate_rank :: "planning_status \<Rightarrow> nat" where
  "aggregate_rank PlProposed = 1"
| "aggregate_rank PlConfirmed = 2"
| "aggregate_rank _ = 0"

definition plan_stage :: "plan_db \<Rightarrow> int \<Rightarrow> nat" where
  "plan_stage db i = (case round_by_id db i of None \<Rightarrow> 0 | Some r \<Rightarrow> aggregate_rank (er_status r))"

lemma round_write_stage:
  assumes "round_write j k t db db'" "\<And>r. round_by_id db j = Some r \<Longrightarrow> aggregate_rank (er_status r) \<le> aggregate_rank t"
  shows "plan_stage db i \<le> plan_stage db' i"
  using assms(2) by (auto simp: plan_stage_def round_write_lookup[OF assms(1)] split: option.splits)

lemma same_rounds_stage: "tb_rounds db' = tb_rounds db \<Longrightarrow> plan_stage db' i = plan_stage db i"
  by (simp add: plan_stage_def round_by_id_def)

lemma plan_step_stage:
  assumes "plan_step e db db'" "plan_inv db" "\<And>c. db' \<noteq> delete_committee c db"
  shows "plan_stage db i \<le> plan_stage db' i"
  using assms(1,2)
proof (cases rule: plan_step.cases)
  case (Request j r)
  let ?f = "\<lambda>r. r\<lparr>er_status := PlAvailabilityRequested\<rparr>"
  from Request have "db' = db \<or> (\<exists>row. round_by_id db j = Some row \<and> er_status row = PlDraft \<and>
      db' = db\<lparr>tb_rounds := upd_row er_id j ?f (tb_rounds db)\<rparr>)"
    by (auto simp: request_availabilities_def Let_def case_Inl_option ok_iff snapshot_read context_round
        mark_availabilities_requested_def split: if_splits)
  then show ?thesis using round_by_id_upd[of ?f j db i] by (auto simp: plan_stage_def split: option.splits)
next
  case (Generate j q g)
  from Generate assms(2) have wf: "plan_wf db" by (simp add: plan_inv_def)
  from generate_proposal_stored[OF Generate wf] obtain n k where n: "pp_round n = j" "stored (pe_coordinates e) db n k db' q" by blast
  from Generate have "\<And>r. round_by_id db j = Some r \<Longrightarrow> aggregate_rank (er_status r) \<le> 1"
    by (auto simp: generate_proposal_def Let_def case_Inl_option ok_iff snapshot_read context_round coordination_def)
  with n show ?thesis by (intro round_write_stage[of j k PlProposed]) (auto simp: stored_def Let_def)
next
  case (Save p q)
  from Save assms(2) have wf: "plan_wf db" by (simp add: plan_inv_def)
  have i: "pp_round (normalize_proposal cx st p) = pp_round p" for cx st by (simp add: normalize_proposal_def)
  from save_proposal_stored[OF Save wf] have w: "round_write (pp_round p) (pp_revision p) PlProposed db db'"
    by (auto simp: stored_def Let_def i)
  from Save have "\<And>r. round_by_id db (pp_round p) = Some r \<Longrightarrow> aggregate_rank (er_status r) \<le> 1"
    by (auto simp: save_proposal_def Let_def case_Inl_option ok_iff snapshot_read context_round)
  with w show ?thesis by (intro round_write_stage[OF w]) simp
next
  case (Confirm j q days slots)
  from Confirm assms(2) have wf: "plan_wf db" by (simp add: plan_inv_def)
  from confirm_plan_effect[OF Confirm wf] obtain p :: proposal and r where p: "round_by_id db j = Some r" "er_status r = PlProposed"
    "round_write j (pp_revision p) PlConfirmed db db'" by blast
  then show ?thesis by (intro round_write_stage[OF p(3)]) simp
next
  case (Revise p reason actor q v ms)
  from revise_inv[OF Revise assms(2)] have w: "round_write (pp_round p) (pp_revision p) PlConfirmed db db'" by blast
  from save_confirmed_parts[OF Revise] obtain r where "round_by_id db (pp_round p) = Some r" "er_status r = PlConfirmed" by blast
  then show ?thesis by (intro round_write_stage[OF w]) simp
next
  case (Create cc fresh v infs infs')
  then obtain n where "db' = db\<lparr>tb_rounds := tb_rounds db @ [n]\<rparr>" by (rule create_round_Inr)
  then show ?thesis by (auto simp: plan_stage_def round_by_id_def find_snoc split: option.split)
next
  case (Update j ch infs infs')
  from Update obtain r t u where r: "round_by_id db j = Some r" "er_status r = t \<or> {er_status r, t} \<inter> {PlProposed, PlConfirmed} = {}"
    "db' = db\<lparr>tb_rounds := upd_row er_id j (\<lambda>r. r\<lparr>er_status := t, er_deadline := u\<rparr>) (tb_rounds db)\<rparr>"
    by (rule update_round_Inr)
  have "aggregate_rank (er_status r) \<le> aggregate_rank t" using r(2) by (cases "er_status r") simp_all
  moreover have "round_by_id db' i = map_option (\<lambda>x. if i = j then x\<lparr>er_status := t, er_deadline := u\<rparr> else x) (round_by_id db i)"
    using round_by_id_upd[of "\<lambda>r. r\<lparr>er_status := t, er_deadline := u\<rparr>" j db i] by (simp add: r(3))
  ultimately show ?thesis using r(1) by (cases "round_by_id db i"; cases "i = j") (simp_all add: plan_stage_def)
next
  case (Delete manage locked executed j infs infs')
  from Delete assms(2) obtain r where r: "round_by_id db j = Some r" "er_status r = PlDraft"
    "db' = db\<lparr>tb_rounds := filter (\<lambda>r. er_id r \<noteq> j) (tb_rounds db),
       tb_candidate_days := filter (\<lambda>p. fst p \<noteq> j) (tb_candidate_days db)\<rparr>" by (rule delete_round_Inr)
  have "round_by_id db' k = round_by_id db k" if "k \<noteq> j" for k
    using that by (simp add: round_by_id_def r(3) find_filter_key)
  then show ?thesis using r(1,2) unfolding plan_stage_def by (cases "i = j") simp_all
next
  case (Decide ready decision j expected infs infs')
  then have "tb_rounds db' = tb_rounds db"
    by (rule decide_round_Inr) (simp_all add: cancel_exam_days_def cancel_exam_day_slots_def)
  from same_rounds_stage[OF this] show ?thesis by simp
next
  case (Committee c)
  with assms(3)[of c] show ?thesis by simp
next
  case Other
  then have "tb_rounds db' = tb_rounds db" by (simp add: other_write_def)
  from same_rounds_stage[OF this] show ?thesis by simp
qed

text \<open>No use case takes a plan back, except that a round goes with its committee.\<close>

lemma plan_step_keeps_plan:
  assumes s: "plan_step e db db'" and inv: "plan_inv db"
    and r: "round_by_id db i = Some r" "er_status r \<in> {PlProposed, PlConfirmed}"
  shows "(\<exists>r'. round_by_id db' i = Some r' \<and> er_status r' \<in> {er_status r, PlConfirmed})
    \<or> db' = delete_committee (er_committee r) db"
proof (cases "\<exists>c. db' = delete_committee c db")
  case True
  then obtain c where c: "db' = delete_committee c db" by blast
  have "distinct (map er_id (tb_rounds db))" using inv by (simp add: plan_inv_def plan_wf_def)
  from delete_committee_lookup[OF this] r c show ?thesis by (cases "er_committee r = c") simp_all
next
  case False
  have "aggregate_rank (er_status r) \<le> plan_stage db' i"
    using plan_step_stage[OF s inv, of i] False r(1) by (simp add: plan_stage_def)
  then have "\<exists>r'. round_by_id db' i = Some r' \<and> aggregate_rank (er_status r) \<le> aggregate_rank (er_status r')"
    using r(2) by (auto simp: plan_stage_def split: option.split_asm)
  then obtain r' where r': "round_by_id db' i = Some r'" "aggregate_rank (er_status r) \<le> aggregate_rank (er_status r')" by blast
  have "er_status r' \<in> {er_status r, PlConfirmed}" using r(2) r'(2) by (cases "er_status r'") auto
  with r'(1) show ?thesis by blast
qed

end
