(* ===== verification/Plan_Sample.thy ===== *)
theory Plan_Sample
  imports Plan_Service
begin

text \<open>A small planning database: one committee of four, one candidate with a MEP, one candidate day.\<close>

definition sample_member :: "int \<Rightarrow> side \<Rightarrow> committee_role \<Rightarrow> member" where
  "sample_member i s r = \<lparr>mb_id = i, mb_person = 100 + i, mb_committee = 7, mb_side = s, mb_role = r, mb_active = True\<rparr>"

definition sample_round :: exam_round where
  "sample_round = \<lparr>er_id = 1, er_committee = 7, er_half_year = 1, er_status = PlAvailabilityRequested,
     er_revision = 0, er_deadline = Some ''2026-10-01''\<rparr>"

definition sample_plan_db :: plan_db where
  "sample_plan_db = \<lparr>tb_rounds = [sample_round],
     tb_settings = [(1, \<lparr>st_room = Some 5, st_lunch = True, st_exams_per_day = 3, st_max_days = 3\<rparr>)],
     tb_candidates = map (\<lambda>(i, m). \<lparr>xc_round = 1, xc_active = True, xc_candidate = \<lparr>cn_id = i, cn_mep = m\<rparr>\<rparr>)
       [(11, True)],
     tb_members = [sample_member 1 Employer ChairRole, sample_member 2 Employee MemberRole,
       sample_member 3 School MemberRole, sample_member 4 Employer MemberRole],
     tb_candidate_days = [(1, \<lparr>cd_id = 21, cd_date = ''2026-11-16'', cd_active = True\<rparr>)],
     tb_availability = map (\<lambda>(m, d). (1, \<lparr>av_member = m, av_day = d, av_value = ''full_day''\<rparr>))
       [(1, 21), (2, 21), (3, 21), (4, 21)],
     tb_active = [(11, 1)],
     tb_rooms = [\<lparr>xm_id = 5, xm_active = True, xm_venue_active = True, xm_global = True, xm_owner = None,
       xm_confirmed = False\<rparr>],
     tb_days = [], tb_slots = [], tb_assignments = [], tb_revisions = []\<rparr>"

definition sample_plan_env :: plan_env where
  "sample_plan_env = \<lparr>pe_lock = (\<lambda>_. None), pe_coordinates = False\<rparr>"


subsection \<open>The round at each stage\<close>

text \<open>The tables and the plan after the generation and the confirmation: status and revision of the
  round, status of the rows, answer of the fallback.\<close>

definition sample_stage :: "planning_status \<Rightarrow> int \<Rightarrow> string \<Rightarrow> string \<Rightarrow> plan_db" where
  "sample_stage t k status fb = sample_plan_db\<lparr>tb_rounds := [sample_round\<lparr>er_status := t, er_revision := k\<rparr>],
     tb_days := [\<lparr>xd_id = 1, xd_round = 1, xd_room = 5, xd_date = ''2026-11-16'', xd_status = status, xd_lunch = True,
       xd_closure = ''open''\<rparr>],
     tb_slots := [\<lparr>xs_id = 1, xs_day = 1, xs_candidate = 11, xs_type = ''regular'', xs_starts = ''2026-11-16 08:30:00'',
         xs_ends = ''2026-11-16 09:30:00'', xs_sequence = 1, xs_status = status, xs_execution = ''open'',
         xs_started = None, xs_completed = None\<rparr>,
       \<lparr>xs_id = 2, xs_day = 1, xs_candidate = 11, xs_type = ''mep'', xs_starts = ''2026-11-16 09:30:00'',
         xs_ends = ''2026-11-16 10:30:00'', xs_sequence = 2, xs_status = status, xs_execution = ''open'',
         xs_started = None, xs_completed = None\<rparr>],
     tb_assignments := map (\<lambda>m. \<lparr>xa_id = m, xa_day = 1, xa_member = m, xa_role = ''examiner'', xa_part = ''morning'',
         xa_fallback = None\<rparr>) [1, 2, 3] @
       [\<lparr>xa_id = 4, xa_day = 1, xa_member = 4, xa_role = ''fallback'', xa_part = ''morning'', xa_fallback = Some fb\<rparr>]\<rparr>"

definition sample_stage_plan :: "int \<Rightarrow> string \<Rightarrow> string \<Rightarrow> proposal" where
  "sample_stage_plan k status fb = \<lparr>pp_round = 1, pp_revision = k, pp_days = [\<lparr>pd_id = Some 1, pd_candidate_day = 21, pd_room = 5,
     pd_slots = [\<lparr>ps_id = Some 1, ps_candidate = 11, ps_type = ''regular'', ps_sequence = 1,
         ps_starts = ''2026-11-16 08:30:00'', ps_ends = ''2026-11-16 09:30:00'', ps_status = status\<rparr>,
       \<lparr>ps_id = Some 2, ps_candidate = 11, ps_type = ''mep'', ps_sequence = 2,
         ps_starts = ''2026-11-16 09:30:00'', ps_ends = ''2026-11-16 10:30:00'', ps_status = status\<rparr>],
     pd_assignments = map (\<lambda>m. \<lparr>pa_id = Some m, pa_member = m, pa_role = ''examiner'', pa_part = ''morning'',
         pa_fallback = None\<rparr>) [1, 2, 3] @
       [\<lparr>pa_id = Some 4, pa_member = 4, pa_role = ''fallback'', pa_part = ''morning'', pa_fallback = Some fb\<rparr>],
     pd_date = ''2026-11-16'', pd_status = status\<rparr>]\<rparr>"

definition sample_proposed :: "int \<Rightarrow> plan_db" where
  "sample_proposed k = sample_stage PlProposed k ''proposed'' ''requested''"

definition sample_proposal :: "int \<Rightarrow> proposal" where
  "sample_proposal k = sample_stage_plan k ''proposed'' ''requested''"

definition sample_result :: generated where
  "sample_result = \<lparr>ge_days = [\<lparr>pl_date = ''2026-11-16'', pl_day = 21, pl_exams = 2,
     pl_morning = \<lparr>sc_crew = [1, 2, 3], sc_fallback = 4\<rparr>, pl_afternoon = None, pl_regular = [11], pl_mep = [11]\<rparr>],
     ge_passed = True, ge_messages = [], ge_required = 2, ge_planned = 2, ge_regular = 1, ge_mep = 1\<rparr>"

definition sample_context :: plan_context where
  "sample_context = sn_context (plan_snapshot sample_plan_env sample_plan_db 1)"

definition sample_settings :: plan_settings where
  "sample_settings = \<lparr>st_room = Some 5, st_lunch = True, st_exams_per_day = 3, st_max_days = 3\<rparr>"

lemma sample_builds: "build_proposal sample_context sample_settings = Inr sample_result"
  by code_simp

lemma sample_generates: "generate_proposal sample_plan_env 1 sample_plan_db =
    Inr (sample_proposed 1, sample_proposal 1, sample_result)"
  by code_simp

lemma sample_saves: "save_proposal sample_plan_env (sample_proposal 1) (sample_proposed 1) =
    Inr (sample_proposed 2, sample_proposal 2)"
  by code_simp

definition sample_confirmed :: plan_db where
  "sample_confirmed = sample_stage PlConfirmed 2 ''confirmed'' ''confirmed''"

definition sample_confirmed_plan :: proposal where
  "sample_confirmed_plan = sample_stage_plan 2 ''confirmed'' ''confirmed''"

lemma sample_confirms: "confirm_plan sample_plan_env 1 (sample_proposed 1) =
    Inr (sample_confirmed, sample_confirmed_plan, 1, 2)"
  by code_simp

end
