(* ===== verification/PyOrder.thy ===== *)
theory PyOrder
  imports PyDate
begin

text \<open>
  The order of texts that spell numbers and dates with a fixed number of digits: comparing such
  texts, as the source and the database do, is comparing the numbers and dates.
\<close>

lemma char_of_digit_less: "0 \<le> a \<Longrightarrow> a < b \<Longrightarrow> b < 10 \<Longrightarrow> char_of_digit a < char_of_digit b"
  by (simp add: char_of_digit_def less_char_def nat_less_iff)

lemma append_less: "length xs = length ys \<Longrightarrow> xs < ys \<Longrightarrow> xs @ us < ys @ (vs :: 'a :: order list)"
proof (induction xs ys rule: list_induct2)
  case (Cons x xs y ys)
  then show ?case by auto
qed simp

lemma append_less_same [simp]: "xs @ us < xs @ vs \<longleftrightarrow> us < (vs :: 'a :: order list)"
  by (induction xs) auto

lemma length_pad_digits [simp]: "length (pad_digits k n) = k"
  by (induction k arbitrary: n) auto

lemma pad_digits_less: "0 \<le> a \<Longrightarrow> a < b \<Longrightarrow> b < 10 ^ k \<Longrightarrow> pad_digits k a < pad_digits k b"
proof (induction k arbitrary: a b)
  case (Suc k)
  show ?case
  proof (cases "a div 10 = b div 10")
    case True
    then have "a mod 10 < b mod 10" using Suc.prems(2) by (metis div_mult_mod_eq add_less_cancel_left)
    then have "char_of_digit a < char_of_digit b"
      using char_of_digit_less[of "a mod 10" "b mod 10"] by (simp add: char_of_digit_def)
    then show ?thesis using True by simp
  next
    case False
    then have "a div 10 < b div 10" using Suc.prems(2) zdiv_mono1[of a b 10] by simp
    moreover have "b div 10 < 10 ^ k" using Suc.prems by (simp add: div_less_iff_less_mult)
    ultimately have "pad_digits k (a div 10) < pad_digits k (b div 10)" using Suc.IH Suc.prems(1) by simp
    then show ?thesis by (simp add: append_less)
  qed
qed simp

lemma pad_digits_less_iff: "0 \<le> a \<Longrightarrow> 0 \<le> b \<Longrightarrow> a < 10 ^ k \<Longrightarrow> b < 10 ^ k \<Longrightarrow>
    pad_digits k a < pad_digits k b \<longleftrightarrow> a < b"
  using pad_digits_less[of a b k] pad_digits_less[of b a k] by (metis less_asym linorder_neq_iff)

lemma pad_digits_eq_iff: "0 \<le> a \<Longrightarrow> 0 \<le> b \<Longrightarrow> a < 10 ^ k \<Longrightarrow> b < 10 ^ k \<Longrightarrow>
    pad_digits k a = pad_digits k b \<longleftrightarrow> a = b"
  using pad_digits_less[of a b k] pad_digits_less[of b a k] by (metis less_irrefl linorder_neq_iff)

end
