(* ===== verification/Plan_Claims.thy ===== *)
theory Plan_Claims
  imports Plan_Machine Plan_Sample PyOrder
begin

text \<open>
  The properties of planning: what the validation accepts, what the generator produces, and the
  way of a proposal through storage and confirmation. Their witnesses run on the sample database.
\<close>

subsection \<open>Validation and generation\<close>

text \<open>C2: The validation of a proposal reports nothing exactly when the plan meets its contract: known and
  active candidate days used once, usable rooms, slots numbered and timed by the schedule with MEP
  last, complete crews of available members that are not reserved elsewhere, weekly and daily
  limits, one regular slot and the required MEP slot for every candidate.\<close>

theorem validation_complete: "validate_proposal cx status p = Inr [] \<longleftrightarrow> plan_ok cx status p"
  by (rule validate_iff)

text \<open>C4: The generator and the validation agree: in a well-formed context with candidates a generated
  plan, once normalised, is valid exactly when the generator reports that everything was placed.\<close>

theorem generated_plan_valid_iff:
  assumes "cx_wf cx r st" "build_proposal cx st = Inr g" "cx_candidates cx \<noteq> []"
  shows "plan_ok cx ''proposed'' (normalize_proposal cx ''proposed'' (generated_aggregate r st g)) \<longleftrightarrow> ge_passed g"
  by (rule generated_valid_iff) (rule assms)+

lemma generated_plan_valid_iff_witness:
  "plan_ok sample_context ''proposed'' (normalize_proposal sample_context ''proposed''
     (generated_aggregate sample_round sample_settings sample_result))"
proof -
  have w: "cx_wf sample_context sample_round sample_settings"
    by (simp add: cx_wf_def sample_context_def sample_settings_def plan_snapshot_def planning_context_def Let_def
        round_by_id_def candidate_days_of_def usable_room_ids_def sample_plan_db_def sample_plan_env_def sample_member_def
        sample_round_def)
  have n: "cx_candidates sample_context \<noteq> []"
    by (simp add: sample_context_def plan_snapshot_def planning_context_def Let_def sample_plan_db_def)
  from generated_plan_valid_iff[OF w sample_builds n] show ?thesis by (simp add: sample_result_def)
qed

text \<open>C36: The crew of a shift: when four available members cover the three sides, the choice returns one
  least loaded examiner of each side and a least loaded other member as fallback, all different;
  otherwise it returns nothing.\<close>

theorem shift_crew_choice:
  assumes "distinct (map mb_id (cx_members cx))"
  shows "case choose_shift_crew cx d part load of
      None \<Rightarrow> \<not> crew_possible (available_members cx d part)
    | Some c \<Rightarrow> crew_possible (available_members cx d part)
        \<and> (\<exists>xs f. crew_of (available_members cx d part) load c xs f)"
proof (cases "choose_shift_crew cx d part load")
  case None
  then show ?thesis using choose_shift_crew_None_iff[OF assms, of d part load] by simp
next
  case (Some c)
  then show ?thesis using choose_shift_crew_None_iff[OF assms, of d part load] choose_shift_crew_Some[OF Some] by simp
qed

lemma shift_crew_choice_witness:
  "crew_possible (available_members sample_context 21 ''morning'')"
proof -
  have d: "distinct (map mb_id (cx_members sample_context))"
    by (simp add: sample_context_def plan_snapshot_def planning_context_def Let_def sample_plan_db_def sample_member_def
        round_by_id_def sample_round_def)
  have c: "choose_shift_crew sample_context 21 ''morning'' (\<lambda>_. 0) \<noteq> None" by code_simp
  from shift_crew_choice[OF d, of 21 "''morning''" "\<lambda>_. 0"] c show ?thesis by (auto split: option.splits)
qed

subsection \<open>The schedule of a day\<close>

definition schedule_ok :: "(string \<times> string) list \<Rightarrow> bool" where
  "schedule_ok ts \<longleftrightarrow> (\<forall>i < length ts. fst (ts ! i) < snd (ts ! i))
     \<and> (\<forall>i. Suc i < length ts \<longrightarrow> snd (ts ! i) \<le> fst (ts ! Suc i))"

definition slot_hour :: "bool \<Rightarrow> nat \<Rightarrow> int" where
  "slot_hour lunch i = 8 + int i + (if lunch \<and> 4 \<le> i then 1 else 0)"

lemma clock_half: "clock (60 * h + 30) = pad_digits 2 (h mod 24) @ '':30''"
proof -
  have r: "0 \<le> h mod 24" "h mod 24 < 24" by simp_all
  have "60 * h + 30 = 60 * (h mod 24) + 30 + (h div 24) * 1440" using div_mult_mod_eq[of h 24] by linarith
  then have "(60 * h + 30) mod 1440 = (60 * (h mod 24) + 30) mod 1440" by (simp only: mod_mult_self1)
  then have "(60 * h + 30) mod 1440 = 60 * (h mod 24) + 30" using r by simp
  then have "(60 * h + 30) mod 1440 div 60 = h mod 24" using r by simp
  moreover have "pad_digits 2 ((60 * h + 30) mod 60) = ''30''"
  proof -
    have "(60 * h + 30) mod 60 = 30" by simp
    moreover have "pad_digits 2 30 = ''30''" by code_simp
    ultimately show ?thesis by simp
  qed
  ultimately show ?thesis by (simp add: clock_def)
qed

lemma slot_times_nth:
  assumes "i < n"
  shows "slot_times n lunch ! i = (pad_digits 2 (slot_hour lunch i mod 24) @ '':30'',
    pad_digits 2 ((slot_hour lunch i + 1) mod 24) @ '':30'')"
proof -
  have "slot_minutes lunch 510 n ! i = (60 * slot_hour lunch i + 30, 60 * (slot_hour lunch i + 1) + 30)"
    unfolding slot_minutes_closed[OF assms] by (simp add: Let_def slot_hour_def)
  then have "slot_times n lunch ! i = (clock (60 * slot_hour lunch i + 30), clock (60 * (slot_hour lunch i + 1) + 30))"
    using assms by (simp add: slot_times_def del: slot_minutes.simps)
  then show ?thesis unfolding clock_half .
qed

lemma half_past_less: "0 \<le> g \<Longrightarrow> g < h \<Longrightarrow> h < 100 \<Longrightarrow> pad_digits 2 g @ '':30'' < pad_digits 2 h @ '':30''"
  by (intro append_less pad_digits_less) simp_all

text \<open>C37: The slot times of a day can be stored exactly when the day has at most 15 exams, 14 with a lunch
  break: up to there every slot ends after it starts and the next one starts no earlier, and from
  there on the clock passes midnight and the check constraint on a slot refuses the row.\<close>

theorem schedule_bound: "schedule_ok (slot_times n lunch) \<longleftrightarrow> n \<le> (if lunch then 14 else 15)"
proof
  assume n: "n \<le> (if lunch then 14 else 15)"
  have h: "slot_hour lunch i + 1 \<le> 23" "8 \<le> slot_hour lunch i" if "i < n" for i
    using n that by (auto simp: slot_hour_def split: if_splits)
  have t: "slot_times n lunch ! i = (pad_digits 2 (slot_hour lunch i) @ '':30'', pad_digits 2 (slot_hour lunch i + 1) @ '':30'')"
    if "i < n" for i using h[OF that] slot_times_nth[OF that, of lunch] by simp
  have step: "slot_hour lunch i + 1 \<le> slot_hour lunch (Suc i)" for i by (simp add: slot_hour_def)
  have "pad_digits 2 (slot_hour lunch i + 1) @ '':30'' \<le> pad_digits 2 (slot_hour lunch (Suc i)) @ '':30''" if "Suc i < n" for i
  proof (cases "slot_hour lunch i + 1 = slot_hour lunch (Suc i)")
    case False
    then have "slot_hour lunch i + 1 < slot_hour lunch (Suc i)" using step[of i] by simp
    then show ?thesis using half_past_less[of "slot_hour lunch i + 1" "slot_hour lunch (Suc i)"] h[of i] h[of "Suc i"] that
      by (simp add: less_imp_le)
  qed simp
  moreover have "pad_digits 2 (slot_hour lunch i) @ '':30'' < pad_digits 2 (slot_hour lunch i + 1) @ '':30''" if "i < n" for i
    by (rule half_past_less) (use h[OF that] in simp_all)
  ultimately show "schedule_ok (slot_times n lunch)" by (simp add: schedule_ok_def t)
next
  let ?i = "if lunch then 14 else 15 :: nat"
  have h: "slot_hour lunch ?i = 23" by (simp add: slot_hour_def)
  have m: "(24::int) mod 24 = 0" by simp
  show "n \<le> ?i" if "schedule_ok (slot_times n lunch)"
  proof (rule ccontr)
    assume "\<not> n \<le> ?i"
    then have i: "?i < n" by simp
    have "slot_times n lunch ! ?i = (pad_digits 2 23 @ '':30'', pad_digits 2 0 @ '':30'')"
      unfolding slot_times_nth[OF i] h by simp
    moreover have "pad_digits 2 0 @ '':30'' < pad_digits 2 23 @ '':30''" by (rule half_past_less) simp_all
    ultimately show False using that i unfolding schedule_ok_def
      by (metis fst_conv length_slot_times less_asym snd_conv)
  qed
qed

subsection \<open>From a proposal to a confirmed plan\<close>

text \<open>C9: Round trip of a saved proposal: the proposal that is read back is the normalised input up to row
  identities and the order of days and assignments, one revision later.\<close>

theorem save_then_read:
  assumes "save_proposal e p db = Inr (db', q)" "plan_wf db"
  shows "get_proposal e (pp_round p) db' = Inr q \<and> pp_revision q = pp_revision p + 1
    \<and> same_plan (normalize_proposal (sn_context (plan_snapshot e db (pp_round p))) ''proposed'' p) q"
proof -
  have i: "pp_round (normalize_proposal cx status p) = pp_round p" for cx status
    by (simp add: normalize_proposal_def)
  from save_proposal_stored[OF assms] show ?thesis
    by (auto simp: stored_def Let_def i get_proposal_def snapshot_read context_round)
qed

lemma plan_wf_code: "plan_wf db \<longleftrightarrow> distinct (map xd_id (tb_days db)) \<and> distinct (map er_id (tb_rounds db))
     \<and> list_all (\<lambda>s. xs_day s \<in> xd_id ` set (tb_days db)) (tb_slots db)
     \<and> list_all (\<lambda>a. xa_day a \<in> xd_id ` set (tb_days db)) (tb_assignments db)
     \<and> list_all (\<lambda>i. distinct (map cd_date (candidate_days_of db i)) \<and> distinct (map cd_id (candidate_days_of db i)))
          (remdups (map fst (tb_candidate_days db)))"
proof -
  have "candidate_days_of db i = []" if "i \<notin> set (map fst (tb_candidate_days db))" for i
  proof -
    have "filter (\<lambda>p. fst p = i) (tb_candidate_days db) = []" using that by (auto simp: filter_empty_conv)
    then show ?thesis by (simp add: candidate_days_of_def)
  qed
  then have "(\<forall>i. distinct (map cd_date (candidate_days_of db i)) \<and> distinct (map cd_id (candidate_days_of db i))) \<longleftrightarrow>
      (\<forall>i \<in> set (map fst (tb_candidate_days db)). distinct (map cd_date (candidate_days_of db i))
         \<and> distinct (map cd_id (candidate_days_of db i)))" by (metis distinct.simps(1) list.simps(8))
  then show ?thesis unfolding plan_wf_def by (simp add: list_all_iff)
qed

lemma sample_wf: "plan_wf sample_plan_db" "plan_wf (sample_proposed k)"
  by (simp_all add: plan_wf_code sample_proposed_def sample_stage_def sample_plan_db_def candidate_days_of_def)

lemma save_then_read_witness:
  "get_proposal sample_plan_env 1 (sample_proposed 2) = Inr (sample_proposal 2)"
  using save_then_read[OF sample_saves sample_wf(2)] by (simp add: sample_proposal_def sample_stage_plan_def)

text \<open>C20: A generated proposal that was accepted can be confirmed as it is: the confirmation returns the
  stored plan with every status set to confirmed.\<close>

theorem generated_then_confirmed:
  assumes "generate_proposal e i db = Inr (db1, q, g)" "plan_wf db"
  shows "\<exists>db2 days slots. confirm_plan e i db1 = Inr (db2, confirmed q, days, slots)"
  using generate_proposal_stored[OF assms] stored_confirmable by metis

lemma generated_then_confirmed_witness:
  "\<exists>db2 days slots. confirm_plan sample_plan_env 1 (sample_proposed 1) = Inr (db2, confirmed (sample_proposal 1), days, slots)"
  by (rule generated_then_confirmed[OF sample_generates sample_wf(1)])

text \<open>C21: What a confirmation does: it needs a valid stored proposal, keeps its content, sets the statuses of
  days, slots and fallbacks, moves the round to confirmed with the next revision, and leaves a plan
  that is valid as a confirmed plan.\<close>

theorem confirmation_effect:
  assumes "confirm_plan e i db = Inr (db', q, days, slots)" "plan_wf db"
  shows "\<exists>p. read_proposal db i = Some p \<and> q = confirmed p \<and> read_proposal db' i = Some q \<and> plan_wf db'
    \<and> (\<exists>r. round_by_id db i = Some r \<and> er_status r = PlProposed
        \<and> round_by_id db' i = Some (r\<lparr>er_revision := er_revision r + 1, er_status := PlConfirmed\<rparr>))
    \<and> plan_ok (sn_context (plan_snapshot e db' i)) ''confirmed'' q"
  using confirm_plan_effect[OF assms] by blast

lemma confirmation_effect_witness: "plan_ok (sn_context (plan_snapshot sample_plan_env sample_confirmed 1)) ''confirmed''
    sample_confirmed_plan"
  using confirmation_effect[OF sample_confirms sample_wf(2)] by blast

text \<open>C24: Two editors: once a proposal has been saved, saving another version of the same revision is refused
  as stale, whatever it contains.\<close>

theorem second_editor_stale:
  assumes "save_proposal e p db = Inr (db', q)" "plan_wf db" "pp_round p' = pp_round p" "pp_revision p' = pp_revision p"
  shows "save_proposal e p' db' = Inl StaleRevision"
proof -
  have i: "pp_round (normalize_proposal cx status p) = pp_round p" for cx status
    by (simp add: normalize_proposal_def)
  from save_proposal_stored[OF assms(1,2)] obtain r where "round_by_id db' (pp_round p) = Some r"
    "er_revision r = pp_revision p + 1" "er_status r = PlProposed" "pe_lock e (pp_round p) = None"
    by (auto simp: stored_def Let_def i)
  then show ?thesis using assms(3,4) by (simp add: save_proposal_def Let_def snapshot_read context_round check_lock_def)
qed

lemma second_editor_stale_witness:
  "save_proposal sample_plan_env (sample_proposal 1) (sample_proposed 2) = Inl StaleRevision"
  by (rule second_editor_stale[OF sample_saves sample_wf(2) refl refl])

subsection \<open>Revising a confirmed plan\<close>

text \<open>C10: A revision of a confirmed plan leaves every protected day as it is: the row of the day, its slots
  with their execution columns, and its assignments. Protected is a day that is not confirmed any
  more, closed, or has a slot on which execution has started.\<close>

theorem protected_days_kept:
  assumes "save_confirmed_plan e p reason actor db = Inr (db', q, v, ms)" "slot_keys db"
    and "d \<in> set (tb_days db)" "xd_round d = pp_round p" "protected_day db d"
  shows "d \<in> set (tb_days db') \<and> slots_of db' (xd_id d) = slots_of db (xd_id d)
    \<and> assignments_of db' (xd_id d) = assignments_of db (xd_id d)"
  by (rule protected_untouched) (rule assms)+

definition sample_locked :: plan_db where
  "sample_locked = sample_confirmed\<lparr>tb_days := [\<lparr>xd_id = 1, xd_round = 1, xd_room = 5, xd_date = ''2026-11-16'',
     xd_status = ''confirmed'', xd_lunch = True, xd_closure = ''closed''\<rparr>]\<rparr>"

lemma sample_revises:
  "\<not> isl (save_confirmed_plan sample_plan_env sample_confirmed_plan ''x'' 1 sample_confirmed)"
  by code_simp

lemma sample_revises_locked:
  "\<not> isl (save_confirmed_plan sample_plan_env sample_confirmed_plan ''x'' 1 sample_locked)"
  by code_simp

lemma sample_keys: "slot_keys sample_confirmed" "slot_keys sample_locked" "slot_keys (sample_proposed k)" "slot_keys sample_plan_db"
  by (simp_all add: slot_keys_def sample_locked_def sample_confirmed_def sample_proposed_def sample_stage_def sample_plan_db_def)

lemma sample_locked_day: "tb_days sample_locked = [d] \<Longrightarrow> xd_round d = 1 \<and> protected_day sample_locked d"
  by (auto simp: sample_locked_def protected_day_def)

lemma protected_days_kept_witness:
  "\<exists>d db'. tb_days sample_locked = [d] \<and> d \<in> set (tb_days db') \<and> slots_of db' (xd_id d) = slots_of sample_locked (xd_id d)"
proof -
  obtain db' q v ms where r: "save_confirmed_plan sample_plan_env sample_confirmed_plan ''x'' 1 sample_locked = Inr (db', q, v, ms)"
    using sample_revises_locked by (cases "save_confirmed_plan sample_plan_env sample_confirmed_plan ''x'' 1 sample_locked") auto
  obtain d where d: "tb_days sample_locked = [d]" by (simp add: sample_locked_def)
  have "pp_round sample_confirmed_plan = 1" by (simp add: sample_confirmed_plan_def sample_stage_plan_def)
  with protected_days_kept[OF r sample_keys(2), of d] sample_locked_day[OF d] d show ?thesis by auto
qed

text \<open>Two slots of a confirmed plan whose candidates are to be exchanged.\<close>

definition swap_slot :: "int \<Rightarrow> int \<Rightarrow> string \<Rightarrow> string \<Rightarrow> plan_slot" where
  "swap_slot k c s t = \<lparr>ps_id = Some k, ps_candidate = c, ps_type = ''regular'', ps_sequence = k,
     ps_starts = s, ps_ends = t, ps_status = ''confirmed''\<rparr>"

text \<open>A confirmed plan of two candidates, with the candidates \<open>a\<close> and \<open>b\<close> in its two slots.\<close>

definition two_slot_plan :: "int \<Rightarrow> int \<Rightarrow> proposal" where
  "two_slot_plan a b = sample_confirmed_plan\<lparr>pp_days := map (\<lambda>d. d\<lparr>pd_slots :=
     [swap_slot 1 a ''2026-11-16 08:30:00'' ''2026-11-16 09:30:00'',
      swap_slot 2 b ''2026-11-16 09:30:00'' ''2026-11-16 10:30:00'']\<rparr>) (pp_days sample_confirmed_plan)\<rparr>"

definition two_slot_db :: plan_db where
  "two_slot_db = sample_confirmed\<lparr>
     tb_candidates := map (\<lambda>i. \<lparr>xc_round = 1, xc_active = True, xc_candidate = \<lparr>cn_id = i, cn_mep = False\<rparr>\<rparr>) [11, 12],
     tb_active := [(11, 1), (12, 1)],
     tb_slots := map (\<lambda>(s, c). s\<lparr>xs_candidate := c, xs_type := ''regular''\<rparr>) (zip (tb_slots sample_confirmed) [11, 12])\<rparr>"

definition two_slot_context :: plan_context where
  "two_slot_context = sn_context (plan_snapshot sample_plan_env two_slot_db 1)"

lemma exchange_stored: "read_proposal two_slot_db 1 = Some (two_slot_plan 11 12)"
  by code_simp

lemma exchange_accepted: "validate_proposal two_slot_context ''confirmed''
    (normalize_proposal two_slot_context ''confirmed'' (two_slot_plan 12 11)) = Inr []"
  by code_simp

lemma exchange_refused: "save_confirmed_plan sample_plan_env (two_slot_plan 12 11) ''x'' 1 two_slot_db = Inl Integrity"
  by code_simp

text \<open>C15: As long as the stored plan still satisfies the validation in the present context (no candidate
  was deactivated or added since, for example), a revision that succeeds never gives a slot another
  candidate or type. Exchanging two candidates between their slots is refused by the database, not by
  the validation, as the second part shows for a stored plan of two candidates: the plan with the two
  exchanged raises no finding and ends in the integrity error.\<close>

theorem revision_keeps_candidates:
  assumes "save_confirmed_plan e p reason actor db = Inr (db', q, v, ms)" "slot_keys db"
    and "plan_ok (sn_context (plan_snapshot e db (pp_round p))) ''confirmed'' (xr_before v)"
  shows "slot_subjects db' = slot_subjects db
    \<and> read_proposal two_slot_db 1 = Some (two_slot_plan 11 12)
    \<and> validate_proposal two_slot_context ''confirmed''
        (normalize_proposal two_slot_context ''confirmed'' (two_slot_plan 12 11)) = Inr []
    \<and> save_confirmed_plan sample_plan_env (two_slot_plan 12 11) ''x'' 1 two_slot_db = Inl Integrity"
  using revision_keeps_subjects[OF assms] exchange_stored exchange_accepted exchange_refused by simp

lemma revision_keeps_candidates_witness:
  "\<exists>db'. slot_subjects db' = slot_subjects sample_confirmed"
proof -
  let ?r = "save_confirmed_plan sample_plan_env sample_confirmed_plan ''x'' 1 sample_confirmed"
  obtain db' q v ms where r: "?r = Inr (db', q, v, ms)" using sample_revises by (cases ?r) auto
  have i: "pp_round sample_confirmed_plan = 1" by (simp add: sample_confirmed_plan_def sample_stage_plan_def)
  from confirm_plan_effect[OF sample_confirms sample_wf(2)]
  have c: "read_proposal sample_confirmed 1 = Some sample_confirmed_plan"
    "plan_ok (sn_context (plan_snapshot sample_plan_env sample_confirmed 1)) ''confirmed'' sample_confirmed_plan" by blast+
  from save_confirmed_parts[OF r] have "read_proposal sample_confirmed 1 = Some (xr_before v)" unfolding i by blast
  with c have "plan_ok (sn_context (plan_snapshot sample_plan_env sample_confirmed (pp_round sample_confirmed_plan))) ''confirmed'' (xr_before v)"
    by (simp add: i)
  from revision_keeps_candidates[OF r sample_keys(1) this] show ?thesis by blast
qed

text \<open>C25: What a revision records: one revision entry with the plan before it, the plan that was asked for,
  the two revision numbers, the trimmed reason and the member who asked, for a plan that has the
  days, slots and assignments of the stored one and is valid as a confirmed plan.\<close>

theorem revision_record:
  assumes "save_confirmed_plan e p reason actor db = Inr (db', q, v, ms)" "slot_keys db"
  shows "\<exists>old n. tb_revisions db' = tb_revisions db @ [v] \<and> read_proposal db (pp_round p) = Some (xr_before v)
    \<and> pp_revision (xr_before v) = pp_revision p \<and> xr_previous v = pp_revision p \<and> xr_resulting v = pp_revision p + 1
    \<and> n = normalize_proposal (sn_context (plan_snapshot e db (pp_round p))) ''confirmed'' p
    \<and> xr_after v = n\<lparr>pp_revision := pp_revision p + 1\<rparr> \<and> plan_ok (sn_context (plan_snapshot e db (pp_round p))) ''confirmed'' n
    \<and> xr_reason v = strip reason \<and> xr_reason v \<noteq> [] \<and> xr_actor v = actor
    \<and> round_by_id db (pp_round p) = Some old \<and> er_status old = PlConfirmed
    \<and> round_by_id db' (pp_round p) = Some (old\<lparr>er_revision := pp_revision p + 1\<rparr>)"
proof -
  let ?i = "pp_round p" and ?cx = "sn_context (plan_snapshot e db (pp_round p))"
  from save_confirmed_parts[OF assms(1)] obtain r prior db1 db2 where
    sh: "confirmed_plan_shape prior p = Inr ()" and a: "round_by_id db ?i = Some r" "er_status r = PlConfirmed" "er_revision r = pp_revision p"
      "read_proposal db ?i = Some prior" "plan_ok ?cx ''confirmed'' (normalize_proposal ?cx ''confirmed'' p)" "strip reason \<noteq> []"
    and cl: "claim_revision ?i (pp_revision p) {PlConfirmed} PlConfirmed db = Some db1"
    and pe: "persist_confirmed_plan (normalize_proposal ?cx ''confirmed'' p) (cx_protected ?cx) db1 = Inr db2"
    and db': "db' = db2\<lparr>tb_revisions := tb_revisions db2 @ [v]\<rparr>"
    and v: "xr_previous v = pp_revision p" "xr_resulting v = pp_revision p + 1" "xr_before v = prior"
      "xr_after v = (normalize_proposal ?cx ''confirmed'' p)\<lparr>pp_revision := pp_revision p + 1\<rparr>"
      "xr_reason v = strip reason" "xr_actor v = actor"
    by (elim exE conjE) (rule that; assumption)
  have "slot_keys db1" using assms(2) claim_tables[OF cl] by (simp add: slot_keys_def)
  from save_confirmed_revised[OF pe sh this refl] have f: "tb_rounds db2 = tb_rounds db1 \<and> tb_revisions db2 = tb_revisions db1"
    by (simp add: revised_def plan_frame_def)
  let ?f = "\<lambda>r. r\<lparr>er_revision := pp_revision p + 1, er_status := PlConfirmed\<rparr>"
  from cl have c: "tb_rounds db1 = upd_row er_id ?i ?f (tb_rounds db)" "tb_revisions db1 = tb_revisions db"
    by (auto simp: claim_revision_Some)
  have "round_by_id db' ?i = Some (?f r)"
    using round_by_id_upd[of ?f ?i db ?i] a(1) f c by (simp add: db' round_by_id_def)
  then have "round_by_id db' ?i = Some (r\<lparr>er_revision := pp_revision p + 1\<rparr>)" using a(2) by simp
  moreover have "pp_revision prior = pp_revision p" using a by (auto simp: read_proposal_def)
  moreover have "tb_revisions db' = tb_revisions db @ [v]" using f c by (simp add: db')
  ultimately show ?thesis using a v by simp
qed

lemma revision_record_witness:
  "\<exists>(db' :: plan_db) v. tb_revisions db' = [v] \<and> xr_previous v = 2 \<and> xr_reason v = ''x''"
proof -
  let ?r = "save_confirmed_plan sample_plan_env sample_confirmed_plan ''x'' 1 sample_confirmed"
  obtain db' q v ms where r: "?r = Inr (db', q, v, ms)" using sample_revises by (cases ?r) auto
  have i: "pp_round sample_confirmed_plan = 1" "pp_revision sample_confirmed_plan = 2"
    by (simp_all add: sample_confirmed_plan_def sample_stage_plan_def)
  have s: "strip ''x'' = ''x''" by code_simp
  have t: "tb_revisions sample_confirmed = []" by (simp add: sample_confirmed_def sample_stage_def sample_plan_db_def)
  from revision_record[OF r sample_keys(1)] have "tb_revisions db' = [v] \<and> xr_previous v = 2 \<and> xr_reason v = ''x''"
    unfolding i s t by auto
  then show ?thesis by blast
qed

subsection \<open>The states of planning\<close>

text \<open>C6: In every state that requests reach from a well-formed one, the days of a round say what the
  round says: rounds without a proposal have no exam days, the days of a proposed round are proposed
  and those of a confirmed round confirmed, or they were cancelled with the round; a proposed or
  confirmed round has days, every day has its round, slots and assignments have their day, and keys
  stay unique. The requests are the five use cases of the proposal aggregate, creating, updating and
  deleting a round, closing or cancelling it, deleting its committee, and the writes of other
  components to the remaining tables and columns.\<close>

theorem planning_invariant:
  assumes "(plan_step e)\<^sup>*\<^sup>* db db'" "plan_inv db"
  shows "plan_inv db'"
  by (rule planning.steps_invar) (rule assms)+

lemma plan_inv_code: "plan_inv db \<longleftrightarrow> plan_wf db \<and> slot_keys db
     \<and> list_all (\<lambda>d. case round_by_id db (xd_round d) of None \<Rightarrow> False | Some r \<Rightarrow> day_matches r d) (tb_days db)
     \<and> list_all (\<lambda>r. er_status r \<in> {PlProposed, PlConfirmed} \<longrightarrow> list_ex (\<lambda>d. xd_round d = er_id r) (tb_days db)) (tb_rounds db)"
  by (fastforce simp: plan_inv_def list_all_iff list_ex_iff split: option.splits)

lemma sample_plan_inv: "plan_inv sample_plan_db"
  unfolding plan_inv_code using sample_wf(1) sample_keys(4) by (simp add: sample_plan_db_def sample_round_def)

lemma sample_steps: "(plan_step sample_plan_env)\<^sup>*\<^sup>* sample_plan_db sample_confirmed"
  using plan_step.Generate[OF sample_generates] plan_step.Confirm[OF sample_confirms] by (meson converse_rtranclp_into_rtranclp rtranclp.rtrancl_refl)

lemma planning_invariant_witness: "plan_inv sample_confirmed"
  by (rule planning_invariant[OF sample_steps sample_plan_inv])

text \<open>C39: In reachable states generating or saving a proposal never fails because it would replace confirmed
  days: the guard in the unit of work is unreachable behind the status check.\<close>

theorem confirmed_days_never_replaced:
  assumes "(plan_step e)\<^sup>*\<^sup>* db db'" "plan_inv db" "\<forall>i. pe_lock e i \<noteq> Some ConfirmedReplaced"
  shows "generate_proposal e i db' \<noteq> Inl ConfirmedReplaced \<and> save_proposal e p db' \<noteq> Inl ConfirmedReplaced"
  using use_cases_not_replaced[OF planning.steps_invar[OF assms(1,2)] assms(3)] by blast

lemma confirmed_days_never_replaced_witness:
  "generate_proposal sample_plan_env 1 sample_confirmed \<noteq> Inl ConfirmedReplaced"
  using confirmed_days_never_replaced[OF sample_steps sample_plan_inv, of 1 "sample_proposal 1"]
  by (simp add: sample_plan_env_def)

text \<open>C38: No use case takes a plan back: whichever single request runs - a use case of the proposal
  aggregate, the generic update of a round, its creation, deletion, closing or cancellation, a write
  of another component - a round with a proposed plan still exists afterwards and is proposed or
  confirmed, and a round with a confirmed plan stays confirmed. The one exception is that the whole
  round goes when its committee is deleted.\<close>

theorem plan_never_taken_back:
  assumes "plan_step e db db'" "plan_inv db"
    and "round_by_id db i = Some r" "er_status r \<in> {PlProposed, PlConfirmed}"
  shows "(\<exists>r'. round_by_id db' i = Some r' \<and> (er_status r' = PlConfirmed
      \<or> er_status r = PlProposed \<and> er_status r' = PlProposed))
    \<or> db' = delete_committee (er_committee r) db \<and> round_by_id db' i = None"
proof -
  have k: "distinct (map er_id (tb_rounds db))" using assms(2) by (simp add: plan_inv_def plan_wf_def)
  have "round_by_id (delete_committee (er_committee r) db) i = None"
    using delete_committee_lookup[OF k] assms(3) by simp
  with plan_step_keeps_plan[OF assms] assms(4) show ?thesis by auto
qed

definition rename_change :: round_change where
  "rename_change = \<lparr>ch_half_year = None, ch_committee = None, ch_name = Some ''B'',
     ch_status = Some ''plan_confirmed'', ch_deadline = Some None, ch_reminder = None\<rparr>"

definition sample_infos :: "round_info list" where
  "sample_infos = [\<lparr>ri_id = 1, ri_name = ''A'', ri_reminder = Some ''2026-09-01'', ri_lifecycle = LOpen, ri_revision = 1\<rparr>]"

lemma sample_update: "case update_round 1 rename_change (sample_confirmed, sample_infos) of
    Inr (Some s) \<Rightarrow> map er_deadline (tb_rounds (fst s)) = [None] | _ \<Rightarrow> False"
  by code_simp

lemma plan_never_taken_back_witness:
  "\<exists>db' infs' r'. update_round 1 rename_change (sample_confirmed, sample_infos) = Inr (Some (db', infs'))
     \<and> round_by_id db' 1 = Some r' \<and> er_status r' = PlConfirmed"
proof -
  obtain db' infs' where u: "update_round 1 rename_change (sample_confirmed, sample_infos) = Inr (Some (db', infs'))"
    "map er_deadline (tb_rounds db') = [None]" using sample_update by (auto split: sum.splits option.splits)
  obtain r where r: "round_by_id sample_confirmed 1 = Some r" "er_status r = PlConfirmed"
    by (simp add: round_by_id_def sample_confirmed_def sample_stage_def sample_round_def)
  have ne: "db' \<noteq> delete_committee (er_committee r) sample_confirmed"
  proof
    assume "db' = delete_committee (er_committee r) sample_confirmed"
    with u(2) r(1) show False
      by (auto simp: delete_committee_def Let_def round_by_id_def sample_confirmed_def sample_stage_def sample_round_def)
  qed
  have "plan_inv sample_confirmed" by (rule planning.steps_invar[OF sample_steps sample_plan_inv])
  from plan_never_taken_back[OF plan_step.Update[OF u(1)] this r(1)] r(2) ne u(1) show ?thesis by auto
qed

end
