(* ===== verification/Candidate_Days.thy ===== *)
theory Candidate_Days
  imports Round_Status PyDate
begin

text \<open>
  Generation of candidate exam days (\<open>planning/candidate_days.py\<close> over
  \<open>persistence/candidate_days.py\<close>): the weekdays from the Monday of the first to the Friday of the
  last calendar week, without the days that exist and without public holidays. Dates are handled
  as ordinals, \<open>datetime.date\<close> values as triples; the holiday provider is a third-party library
  behind a port and a parameter of the model.
\<close>

datatype candidate_error = CdSettingsMissing | CdWeekFormat | CdWeekInvalid | CdRangeInvalid
  | CdStateRequired | CdStoredDate | CdOverflow

record candidate_settings =
  gs_round :: int
  gs_week_from :: string
  gs_week_to :: string
  gs_exclude :: int
  gs_code :: "string option"

record candidate_row =
  kd_id :: int
  kd_round :: int
  kd_date :: string
  kd_active :: int

record candidate_db =
  kb_settings :: "candidate_settings list"
  kb_days :: "candidate_row list"

record generation =
  gn_created :: "candidate_row list"
  gn_skipped :: "string list"
  gn_excluded :: "(string \<times> string) list"
  gn_weekdays :: nat

type_synonym holiday_provider = "date \<Rightarrow> date \<Rightarrow> string \<Rightarrow> (date \<times> string) list"

subsection \<open>Calendar weeks\<close>

text \<open>\<open>ISO_WEEK_PATTERN.fullmatch\<close>: four digits, \<open>-W\<close>, two digits.\<close>

definition match_iso_week :: "string \<Rightarrow> (int \<times> int) option" where
  "match_iso_week s = (if length s = 8 \<and> take 2 (drop 4 s) = ''-W''
     then Option.bind (int_of_digits (take 4 s)) (\<lambda>y. map_option (\<lambda>w. (y, w)) (int_of_digits (drop 6 s)))
     else None)"

definition week_date :: "string \<Rightarrow> int \<Rightarrow> candidate_error + int" where
  "week_date s d = (case match_iso_week s of
     None \<Rightarrow> Inl CdWeekFormat
   | Some (y, w) \<Rightarrow> (case fromisocalendar y w d of None \<Rightarrow> Inl CdWeekInvalid | Some ord \<Rightarrow> Inr ord))"

text \<open>The loop adds a day after every step, which overflows behind the last representable date.\<close>

function weekdays :: "int \<Rightarrow> int \<Rightarrow> candidate_error + int list" where
  "weekdays current stop = (if stop < current then Inr []
     else if max_ordinal \<le> current then Inl CdOverflow
     else bnd (weekdays (current + 1) stop) (\<lambda>r.
       Inr (if weekday current < 5 then current # r else r)))"
  by pat_completeness auto
termination by (relation "measure (\<lambda>(current, stop). nat (stop + 1 - current))") auto

declare weekdays.simps [simp del]

subsection \<open>Generation\<close>

definition holidays :: "holiday_provider \<Rightarrow> candidate_settings \<Rightarrow> int \<Rightarrow> int \<Rightarrow> candidate_error + (date \<times> string) list" where
  "holidays provider st start stop = (if gs_exclude st = 0 then Inr []
     else (case gs_code st of None \<Rightarrow> Inl CdStateRequired
       | Some c \<Rightarrow> require (c \<noteq> []) CdStateRequired (Inr (rev (provider (fromordinal start) (fromordinal stop) c)))))"

definition create_candidate_day :: "int \<Rightarrow> date \<Rightarrow> candidate_db \<Rightarrow> candidate_db \<times> candidate_row" where
  "create_candidate_day i d db = (let r = \<lparr>kd_id = next_id (map kd_id (kb_days db)), kd_round = i,
       kd_date = isoformat d, kd_active = 1\<rparr>
     in (db\<lparr>kb_days := kb_days db @ [r]\<rparr>, r))"

definition existing_dates :: "candidate_db \<Rightarrow> int \<Rightarrow> candidate_error + date list" where
  "existing_dates db i = map_res (\<lambda>r. case fromisoformat (kd_date r) of None \<Rightarrow> Inl CdStoredDate | Some d \<Rightarrow> Inr d)
     (filter (\<lambda>r. kd_round r = i) (kb_days db))"

definition place_day :: "int \<Rightarrow> date list \<Rightarrow> (date \<times> string) list \<Rightarrow> int \<Rightarrow> candidate_db \<times> generation \<Rightarrow> candidate_db \<times> generation" where
  "place_day i ex hs ord s = (case s of (db, g) \<Rightarrow> let d = fromordinal ord in
     if d \<in> set ex then (db, g\<lparr>gn_skipped := gn_skipped g @ [isoformat d]\<rparr>)
     else (case map_of hs d of
         Some name \<Rightarrow> (db, g\<lparr>gn_excluded := gn_excluded g @ [(isoformat d, name)]\<rparr>)
       | None \<Rightarrow> (case create_candidate_day i d db of (db', r) \<Rightarrow> (db', g\<lparr>gn_created := gn_created g @ [r]\<rparr>))))"

definition generate_days :: "holiday_provider \<Rightarrow> int \<Rightarrow> candidate_db \<Rightarrow> candidate_error + (candidate_db \<times> generation)" where
  "generate_days provider i db =
     (case List.find (\<lambda>s. gs_round s = i) (kb_settings db) of
        None \<Rightarrow> Inl CdSettingsMissing
      | Some st \<Rightarrow>
        bnd (week_date (gs_week_from st) 1) (\<lambda>start.
        bnd (week_date (gs_week_to st) 5) (\<lambda>stop.
        require (start \<le> stop) CdRangeInvalid (
        bnd (weekdays start stop) (\<lambda>ds.
        bnd (holidays provider st start stop) (\<lambda>hs.
        bnd (existing_dates db i) (\<lambda>ex.
        Inr (fold (place_day i ex hs) ds (db, \<lparr>gn_created = [], gn_skipped = [], gn_excluded = [],
          gn_weekdays = length ds\<rparr>)))))))))"

subsection \<open>Weekdays\<close>

lemma weekdays_Inr: "weekdays a b = Inr ds \<Longrightarrow> ds = filter (\<lambda>d. weekday d < 5) [a..b] \<and> (a \<le> b \<longrightarrow> b < max_ordinal)"
proof (induction a b arbitrary: ds rule: weekdays.induct)
  case (1 a b)
  show ?case
  proof (cases "b < a")
    case True
    then show ?thesis using "1.prems" by (simp add: weekdays.simps)
  next
    case False
    with "1.prems" have m: "a < max_ordinal" by (simp add: weekdays.simps split: if_splits)
    with False "1.prems" obtain r where r: "weekdays (a + 1) b = Inr r" "ds = (if weekday a < 5 then a # r else r)"
      by (auto simp: weekdays.simps[of a b] bnd_Inr_iff)
    have "r = filter (\<lambda>d. weekday d < 5) [a + 1..b] \<and> (a + 1 \<le> b \<longrightarrow> b < max_ordinal)"
      by (rule "1.IH") (use False m r in simp_all)
    then show ?thesis using r False m by (auto simp: upto_rec1)
  qed
qed

lemma weekdays_total: "b < max_ordinal \<Longrightarrow> \<exists>ds. weekdays a b = Inr ds"
proof (induction a b rule: weekdays.induct)
  case (1 a b)
  show ?case
  proof (cases "b < a")
    case False
    with "1.prems" have "\<exists>ds. weekdays (a + 1) b = Inr ds" by (intro "1.IH") simp_all
    then show ?thesis using False "1.prems" by (auto simp: weekdays.simps[of a b])
  qed (simp add: weekdays.simps)
qed

text \<open>From a Monday to a Friday: five days a week.\<close>

lemma weekdays_week: "weekday m = 0 \<Longrightarrow> filter (\<lambda>d. weekday d < 5) [m..m + 6] = [m, m + 1, m + 2, m + 3, m + 4]"
proof -
  assume w: "weekday m = 0"
  have u: "[m..m + 6] = [m, m + 1, m + 2, m + 3, m + 4, m + 5, m + 6]" by (simp add: upto.simps)
  have "(m + 6) mod 7 = 0" using w by (simp add: weekday_def)
  then have "(m + k + 6) mod 7 = k" if "0 \<le> k" "k < 7" for k using that by presburger
  then have "weekday (m + k) = k" if "0 \<le> k" "k < 7" for k using that by (simp add: weekday_def)
  from this[of 1] this[of 2] this[of 3] this[of 4] this[of 5] this[of 6] w show ?thesis by (simp add: u)
qed

lemma upto_append: "a \<le> b \<Longrightarrow> b \<le> c \<Longrightarrow> [a..b] @ [b + 1..c] = [a..c]"
  by (cases "a \<le> b") (use upto_split2[of a b c] in auto)

lemma weekdays_count: "weekday m = 0 \<Longrightarrow> length (filter (\<lambda>d. weekday d < 5) [m..m + 7 * int k + 4]) = 5 * (k + 1)"
proof (induction k arbitrary: m)
  case 0
  have e: "[m..m + 4] @ [m + 5..m + 6] = [m..m + 6]" using upto_append[of m "m + 4" "m + 6"] by (simp add: add.assoc)
  have "(m + 6) mod 7 = 0" using 0 by (simp add: weekday_def)
  then have "\<forall>d \<in> set [m + 5..m + 6]. \<not> weekday d < 5" by (auto simp: weekday_def) presburger
  then have "filter (\<lambda>d. weekday d < 5) [m + 5..m + 6] = []" by (simp add: filter_empty_conv)
  then show ?case using weekdays_week[OF 0] arg_cong[OF e, of "filter (\<lambda>d. weekday d < 5)"] by simp
next
  case (Suc k)
  have "(m + 6) mod 7 = 0" using Suc.prems by (simp add: weekday_def)
  then have w: "weekday (m + 7) = 0" unfolding weekday_def by presburger
  have e: "[m..m + 6] @ [m + 7..m + 7 * int (Suc k) + 4] = [m..m + 7 * int (Suc k) + 4]"
    using upto_append[of m "m + 6" "m + 7 * int (Suc k) + 4"] by (simp add: add.assoc)
  have "m + 7 * int (Suc k) + 4 = (m + 7) + 7 * int k + 4" by simp
  then have "length (filter (\<lambda>d. weekday d < 5) [m + 7..m + 7 * int (Suc k) + 4]) = 5 * (k + 1)"
    using Suc.IH[OF w] by simp
  then show ?case using weekdays_week[OF Suc.prems] arg_cong[OF e, of "\<lambda>x. length (filter (\<lambda>d. weekday d < 5) x)"] by simp
qed

lemma week_date_weekday:
  assumes "week_date s d = Inr ord" "d = 1 \<or> d = 5"
  shows "weekday ord = d - 1"
proof -
  from assms(1) obtain y w where "fromisocalendar y w d = Some ord"
    by (auto simp: week_date_def split: option.splits)
  with assms(2) show ?thesis using weekday_fromisocalendar by auto
qed

subsection \<open>The loop over the weekdays\<close>

definition day_text :: "int \<Rightarrow> string" where
  "day_text ord = isoformat (fromordinal ord)"

definition fresh_day :: "date list \<Rightarrow> (date \<times> string) list \<Rightarrow> int \<Rightarrow> bool" where
  "fresh_day ex hs ord \<longleftrightarrow> fromordinal ord \<notin> set ex \<and> map_of hs (fromordinal ord) = None"

lemma place_days:
  assumes "fold (place_day i ex hs) ds (db, g) = (db', g')"
  shows "\<exists>rows. kb_days db' = kb_days db @ rows \<and> kb_settings db' = kb_settings db
    \<and> gn_created g' = gn_created g @ rows \<and> gn_weekdays g' = gn_weekdays g
    \<and> map kd_date rows = map day_text (filter (fresh_day ex hs) ds) \<and> (\<forall>r \<in> set rows. kd_round r = i \<and> kd_active r = 1)
    \<and> gn_skipped g' = gn_skipped g @ map day_text (filter (\<lambda>d. fromordinal d \<in> set ex) ds)
    \<and> map fst (gn_excluded g') = map fst (gn_excluded g)
        @ map day_text (filter (\<lambda>d. fromordinal d \<notin> set ex \<and> map_of hs (fromordinal d) \<noteq> None) ds)"
  using assms
proof (induction ds arbitrary: db g)
  case Nil
  then show ?case by (intro exI[of _ "[]"]) auto
next
  case (Cons d ds)
  obtain db1 g1 where one: "place_day i ex hs d (db, g) = (db1, g1)" by fastforce
  with Cons.prems have "fold (place_day i ex hs) ds (db1, g1) = (db', g')" by simp
  from Cons.IH[OF this] obtain rows where r:
    "kb_days db' = kb_days db1 @ rows" "kb_settings db' = kb_settings db1" "gn_created g' = gn_created g1 @ rows"
    "gn_weekdays g' = gn_weekdays g1" "map kd_date rows = map day_text (filter (fresh_day ex hs) ds)"
    "\<forall>r \<in> set rows. kd_round r = i \<and> kd_active r = 1"
    "gn_skipped g' = gn_skipped g1 @ map day_text (filter (\<lambda>d. fromordinal d \<in> set ex) ds)"
    "map fst (gn_excluded g') = map fst (gn_excluded g1)
        @ map day_text (filter (\<lambda>d. fromordinal d \<notin> set ex \<and> map_of hs (fromordinal d) \<noteq> None) ds)"
    by (elim exE conjE) (rule that; assumption)
  show ?case
  proof (cases "fromordinal d \<in> set ex")
    case True
    then have "db1 = db" "g1 = g\<lparr>gn_skipped := gn_skipped g @ [day_text d]\<rparr>"
      using one by (simp_all add: place_day_def Let_def day_text_def)
    moreover have "\<not> fresh_day ex hs d" using True by (simp add: fresh_day_def)
    ultimately show ?thesis using r True by (intro exI[of _ rows]) simp
  next
    case False
    show ?thesis
    proof (cases "map_of hs (fromordinal d)")
      case (Some name)
      then have "db1 = db" "g1 = g\<lparr>gn_excluded := gn_excluded g @ [(day_text d, name)]\<rparr>"
        using one False by (simp_all add: place_day_def Let_def day_text_def)
      moreover have "\<not> fresh_day ex hs d" using Some by (simp add: fresh_day_def)
      ultimately show ?thesis using r False Some by (intro exI[of _ rows]) simp
    next
      case None
      define row where "row = \<lparr>kd_id = next_id (map kd_id (kb_days db)), kd_round = i, kd_date = day_text d, kd_active = 1\<rparr>"
      have "db1 = db\<lparr>kb_days := kb_days db @ [row]\<rparr>" "g1 = g\<lparr>gn_created := gn_created g @ [row]\<rparr>"
        using one False None by (simp_all add: place_day_def create_candidate_day_def Let_def row_def day_text_def)
      moreover have "fresh_day ex hs d" using False None by (simp add: fresh_day_def)
      ultimately show ?thesis using r False None by (intro exI[of _ "row # rows"]) (simp add: row_def)
    qed
  qed
qed

lemma generate_days_Inr:
  assumes "generate_days provider i db = Inr (db', g)"
  shows "\<exists>st start stop hs ex rows. List.find (\<lambda>s. gs_round s = i) (kb_settings db) = Some st
    \<and> week_date (gs_week_from st) 1 = Inr start \<and> week_date (gs_week_to st) 5 = Inr stop \<and> start \<le> stop \<and> stop < max_ordinal
    \<and> holidays provider st start stop = Inr hs \<and> existing_dates db i = Inr ex
    \<and> kb_days db' = kb_days db @ rows \<and> kb_settings db' = kb_settings db \<and> gn_created g = rows
    \<and> (\<forall>r \<in> set rows. kd_round r = i \<and> kd_active r = 1)
    \<and> (let ds = filter (\<lambda>d. weekday d < 5) [start..stop] in gn_weekdays g = length ds
       \<and> map kd_date rows = map day_text (filter (fresh_day ex hs) ds)
       \<and> gn_skipped g = map day_text (filter (\<lambda>d. fromordinal d \<in> set ex) ds)
       \<and> map fst (gn_excluded g) = map day_text (filter (\<lambda>d. fromordinal d \<notin> set ex \<and> map_of hs (fromordinal d) \<noteq> None) ds))"
proof -
  from assms obtain st start stop ds hs ex where a: "List.find (\<lambda>s. gs_round s = i) (kb_settings db) = Some st"
    "week_date (gs_week_from st) 1 = Inr start" "week_date (gs_week_to st) 5 = Inr stop" "start \<le> stop"
    "weekdays start stop = Inr ds" "holidays provider st start stop = Inr hs" "existing_dates db i = Inr ex"
    and f: "fold (place_day i ex hs) ds (db, \<lparr>gn_created = [], gn_skipped = [], gn_excluded = [], gn_weekdays = length ds\<rparr>) = (db', g)"
    by (auto simp: generate_days_def ok_iff split: option.splits)
  from place_days[OF f] obtain rows where r: "kb_days db' = kb_days db @ rows" "kb_settings db' = kb_settings db"
    "gn_created g = rows" "gn_weekdays g = length ds" "map kd_date rows = map day_text (filter (fresh_day ex hs) ds)"
    "\<forall>r \<in> set rows. kd_round r = i \<and> kd_active r = 1" "gn_skipped g = map day_text (filter (\<lambda>d. fromordinal d \<in> set ex) ds)"
    "map fst (gn_excluded g) = map day_text (filter (\<lambda>d. fromordinal d \<notin> set ex \<and> map_of hs (fromordinal d) \<noteq> None) ds)"
    by auto
  note w = weekdays_Inr[OF a(5)]
  show ?thesis
    using a w r by (intro exI[of _ st] exI[of _ start] exI[of _ stop] exI[of _ hs] exI[of _ ex] exI[of _ rows]) (simp add: Let_def)
qed

end
