(* ===== verification/PyIso.thy ===== *)
theory PyIso
  imports PyOrder
begin

text \<open>
  The round trip of \<open>date.isoformat\<close> and \<open>date.fromisoformat\<close>, and the fact that every ordinal up
  to the last representable day is a valid date: what makes a stored date text and the date it
  came from interchangeable.
\<close>

subsection \<open>Digits\<close>

lemma digit_char: "is_digit (char_of_digit n)" "digit_val (char_of_digit n) = n mod 10"
proof -
  have r: "0 \<le> n mod 10" "n mod 10 < 10" by simp_all
  then have "(of_char (char_of_digit n) :: nat) = nat (48 + n mod 10)"
    unfolding char_of_digit_def by simp
  with r show "is_digit (char_of_digit n)" by (simp add: is_digit_def nat_le_iff le_nat_iff)
  have "(of_char (char_of_digit n) :: int) = int (of_char (char_of_digit n) :: nat)"
    by (simp add: of_char_def)
  then have "(of_char (char_of_digit n) :: int) = 48 + n mod 10"
    using r \<open>of_char (char_of_digit n) = nat (48 + n mod 10)\<close> by simp
  then show "digit_val (char_of_digit n) = n mod 10" by (simp add: digit_val_def)
qed

lemma digits_val_snoc: "digits_val (xs @ [c]) = 10 * digits_val xs + digit_val c"
  by (simp add: digits_val_def)

lemma pad_digits_val: "0 \<le> n \<Longrightarrow> n < 10 ^ k \<Longrightarrow> digits_val (pad_digits k n) = n \<and> list_all is_digit (pad_digits k n)"
proof (induction k arbitrary: n)
  case 0
  then show ?case by (simp add: digits_val_def)
next
  case (Suc k)
  have "n div 10 < 10 ^ k" using Suc.prems by (simp add: div_less_iff_less_mult)
  with Suc.IH[of "n div 10"] Suc.prems(1) show ?case by (simp add: digits_val_snoc digit_char)
qed

lemma int_of_pad_digits: "0 < k \<Longrightarrow> 0 \<le> n \<Longrightarrow> n < 10 ^ k \<Longrightarrow> int_of_digits (pad_digits k n) = Some n"
  using pad_digits_val[of n k] length_pad_digits[of k n] by (cases "pad_digits k n") (auto simp: int_of_digits_def)

lemma hd_digit_not: "is_digit c \<Longrightarrow> c \<noteq> CHR ''W''"
  by (auto simp: is_digit_def)

subsection \<open>Texts of dates\<close>

lemma valid_date_bounds: "valid_date (y, m, d) \<Longrightarrow> 1 \<le> y \<and> y \<le> 9999 \<and> 1 \<le> m \<and> m \<le> 12 \<and> 1 \<le> d \<and> d \<le> 31"
  by (auto simp: valid_date_def days_in_month_def split: if_splits)

lemma fromisoformat_isoformat:
  assumes "valid_date t"
  shows "fromisoformat (isoformat t) = Some t"
proof -
  obtain y m d where t: "t = (y, m, d)" by (cases t)
  note b = valid_date_bounds[OF assms[unfolded t]]
  let ?y = "pad_digits 4 y" and ?m = "pad_digits 2 m" and ?d = "pad_digits 2 d"
  have s: "isoformat t = ?y @ CHR ''-'' # ?m @ CHR ''-'' # ?d" by (simp add: isoformat_def t)
  have n4: "(?y @ CHR ''-'' # ?m @ CHR ''-'' # ?d) ! 4 = CHR ''-''" by (simp add: nth_append)
  obtain c cs where c: "?m = c # cs" using length_pad_digits[of 2 m] by (cases ?m) auto
  have "list_all is_digit ?m" using pad_digits_val[of m 2] b by simp
  then have nW: "c \<noteq> CHR ''W''" using hd_digit_not by (simp add: c)
  have dr: "drop 5 (?y @ CHR ''-'' # ?m @ CHR ''-'' # ?d) = ?m @ CHR ''-'' # ?d" by simp
  have iy: "int_of_digits ?y = Some y" using b by (intro int_of_pad_digits) simp_all
  have im: "int_of_digits ?m = Some m" using b by (intro int_of_pad_digits) simp_all
  have id: "int_of_digits ?d = Some d" using b by (intro int_of_pad_digits) simp_all
  have t1: "take 1 (?m @ CHR ''-'' # ?d) \<noteq> ''W''" using nW by (simp add: c)
  show ?thesis
    unfolding fromisoformat_def s n4 Let_def if_True dr using t1 iy im id assms
    by (simp add: check_date_def t del: pad_digits.simps)
qed

subsection \<open>Ordinals\<close>

lemma month_cases: "1 \<le> m \<Longrightarrow> m \<le> (12 :: int) \<Longrightarrow> m \<in> {1, 2, 3, 4, 5, 6, 7, 8, 9, 10, 11, 12}"
  by simp presburger

lemma month_of_day:
  assumes "0 \<le> n" "n \<le> 364"
  defines "m \<equiv> (n + 50) div 32"
  shows "if n < days_before_month y m then 1 \<le> m - 1 \<and> m - 1 \<le> 12 \<and> 1 \<le> n - (days_before_month y m - days_in_month y (m - 1)) + 1
      \<and> n - (days_before_month y m - days_in_month y (m - 1)) + 1 \<le> days_in_month y (m - 1)
      \<and> days_before_month y (m - 1) = days_before_month y m - days_in_month y (m - 1)
    else 1 \<le> m \<and> m \<le> 12 \<and> 1 \<le> n - days_before_month y m + 1 \<and> n - days_before_month y m + 1 \<le> days_in_month y m"
proof -
  have m: "32 * m \<le> n + 50" "n + 50 < 32 * m + 32" unfolding m_def by (simp_all add: algebra_simps)
  then have "1 \<le> m" "m \<le> 12" using assms(1,2) by linarith+
  then have "m \<in> {1, 2, 3, 4, 5, 6, 7, 8, 9, 10, 11, 12}" by (rule month_cases)
  then show ?thesis using m assms(1,2) unfolding days_before_month_def days_in_month_def
    by (elim insertE emptyE) (cases "is_leap y"; simp)+
qed

lemma days_before_year_split:
  assumes "0 \<le> b" "b \<le> 3" "0 \<le> c" "c \<le> 24" "0 \<le> e" "e \<le> 3"
  shows "days_before_year (a * 400 + 1 + b * 100 + c * 4 + e) = 146097 * a + 36524 * b + 1461 * c + 365 * e"
proof -
  have "(a * 400 + b * 100 + c * 4 + e) div 4 = a * 100 + b * 25 + c"
    "(a * 400 + b * 100 + c * 4 + e) div 100 = a * 4 + b" "(a * 400 + b * 100 + c * 4 + e) div 400 = a"
    using assms by (auto intro: int_div_pos_eq[where r = e] int_div_pos_eq[where r = "c * 4 + e"]
      int_div_pos_eq[where r = "b * 100 + c * 4 + e"])
  then show ?thesis unfolding days_before_year_def by (simp add: algebra_simps)
qed

lemma leap_400: "is_leap (400 * k)"
proof -
  have "400 * k = 4 * (100 * k)" by simp
  then have "400 * k mod 4 = 0" by (simp only: mod_mult_self1_is_0)
  moreover have "400 * k mod 400 = 0" by (simp only: mod_mult_self1_is_0)
  ultimately show ?thesis by (simp only: is_leap_def simp_thms)
qed

lemma leap_4: "0 \<le> c \<Longrightarrow> c \<le> 23 \<Longrightarrow> is_leap (a * 400 + b * 100 + c * 4 + 4)"
proof -
  assume "0 \<le> c" "c \<le> 23"
  then have "(a * 400 + b * 100 + c * 4 + 4) mod 100 = c * 4 + 4" by (intro int_mod_pos_eq[where q = "a * 4 + b"]) simp_all
  moreover have "(a * 400 + b * 100 + c * 4 + 4) mod 4 = 0" by presburger
  ultimately show ?thesis using \<open>0 \<le> c\<close> by (simp add: is_leap_def)
qed

lemma fromordinal_ok:
  assumes "1 \<le> n" "n \<le> max_ordinal"
  shows "valid_date (fromordinal n) \<and> toordinal (fromordinal n) = n"
proof -
  define a where "a = n - 1"
  define n400 where "n400 = a div 146097"
  define b where "b = a mod 146097"
  define n100 where "n100 = b div 36524"
  define c where "c = b mod 36524"
  define n4 where "n4 = c div 1461"
  define e where "e = c mod 1461"
  define n1 where "n1 = e div 365"
  define f where "f = e mod 365"
  define y where "y = n400 * 400 + 1 + n100 * 100 + n4 * 4 + n1"
  have a: "0 \<le> a" "a \<le> 3652058" using assms by (simp_all add: a_def max_ordinal_def)
  have q: "a = 146097 * n400 + b" "0 \<le> b" "b < 146097" "b = 36524 * n100 + c" "0 \<le> c" "c < 36524"
    "c = 1461 * n4 + e" "0 \<le> e" "e < 1461" "e = 365 * n1 + f" "0 \<le> f" "f < 365"
    by (simp_all add: n400_def b_def n100_def c_def n4_def e_def n1_def f_def)
  then have r: "0 \<le> n400" "0 \<le> n100" "n100 \<le> 4" "0 \<le> n4" "n4 \<le> 24" "0 \<le> n1" "n1 \<le> 4" "n400 \<le> 24" using a by linarith+
  have e: "fromordinal n = (if n1 = 4 \<or> n100 = 4 then (y - 1, 12, 31)
       else let month = (f + 50) div 32; p = days_before_month y month in
         if f < p then (y, month - 1, f - (p - days_in_month y (month - 1)) + 1) else (y, month, f - p + 1))"
    by (simp only: fromordinal_def Let_def a_def[symmetric] n400_def[symmetric] b_def[symmetric] n100_def[symmetric]
        c_def[symmetric] n4_def[symmetric] e_def[symmetric] n1_def[symmetric] f_def[symmetric] y_def[symmetric])
  show ?thesis
  proof (cases "n1 = 4 \<or> n100 = 4")
    case True
    have "1 \<le> y - 1 \<and> y - 1 \<le> 9999"
    proof
      show "1 \<le> y - 1" using True r by (auto simp: y_def)
      show "y - 1 \<le> 9999" using True q r a by (auto simp: y_def)
    qed
    moreover have "toordinal (y - 1, 12, 31) = n"
    proof (cases "n100 = 4")
      case True
      then have c: "b = 146096" "c = 0" using q by linarith+
      then have n4: "n4 = 0" "e = 0" using q r by linarith+
      then have "n1 = 0" "f = 0" using q r by linarith+
      note z = c n4 this
      have y: "y - 1 = n400 * 400 + 1 + 3 * 100 + 24 * 4 + 3" unfolding y_def True z by simp
      have "is_leap (y - 1)" using leap_400[of "n400 + 1"] unfolding y by (simp add: algebra_simps)
      moreover have "days_before_year (y - 1) = 146097 * n400 + 36524 * 3 + 1461 * 24 + 365 * 3"
        unfolding y by (rule days_before_year_split) simp_all
      ultimately show ?thesis using q(1) z by (simp add: toordinal_def days_before_month_def a_def)
    next
      case no: False
      with True have n1: "n1 = 4" by simp
      with q have z: "e = 1460" "f = 0" by linarith+
      have n4: "n4 \<le> 23" using q z by linarith
      have y: "y - 1 = n400 * 400 + 1 + n100 * 100 + n4 * 4 + 3" unfolding y_def n1 by simp
      have "is_leap (y - 1)" using leap_4[OF r(4) n4, of n400 n100] unfolding y by (simp add: algebra_simps)
      moreover have "days_before_year (y - 1) = 146097 * n400 + 36524 * n100 + 1461 * n4 + 365 * 3"
        unfolding y by (rule days_before_year_split) (use r no n4 in simp_all)
      ultimately show ?thesis using q(1,4,7) z by (simp add: toordinal_def days_before_month_def a_def)
    qed
    ultimately show ?thesis using True by (simp add: e valid_date_def days_in_month_def)
  next
    case False
    then have s: "n1 \<le> 3" "n100 \<le> 3" using r by auto
    have "y \<le> 9999" using s q r a unfolding y_def by linarith
    moreover have "1 \<le> y" using r by (simp add: y_def)
    moreover have f: "0 \<le> f" "f \<le> 364" using q by auto
    moreover have "days_before_year y = 146097 * n400 + 36524 * n100 + 1461 * n4 + 365 * n1"
      unfolding y_def using s r by (intro days_before_year_split) simp_all
    then have dy: "days_before_year y + f + 1 = n" using q by (simp add: a_def)
    ultimately show ?thesis
    proof (cases "f < days_before_month y ((f + 50) div 32)")
      case True
      have "fromordinal n = (y, (f + 50) div 32 - 1, f - (days_before_month y ((f + 50) div 32)
          - days_in_month y ((f + 50) div 32 - 1)) + 1)" unfolding e Let_def using False True by simp
      then show ?thesis using month_of_day[OF f, of y] True \<open>y \<le> 9999\<close> \<open>1 \<le> y\<close> dy
        by (simp only: valid_date_def toordinal_def) simp
    next
      case notless: False
      have "fromordinal n = (y, (f + 50) div 32, f - days_before_month y ((f + 50) div 32) + 1)"
        unfolding e Let_def using False notless by simp
      then show ?thesis using month_of_day[OF f, of y] notless \<open>y \<le> 9999\<close> \<open>1 \<le> y\<close> dy
        by (simp only: valid_date_def toordinal_def) simp
    qed
  qed
qed

lemmas valid_fromordinal = fromordinal_ok[THEN conjunct1]
lemmas toordinal_fromordinal = fromordinal_ok[THEN conjunct2]

lemma fromordinal_text_inj: "inj_on (\<lambda>n. isoformat (fromordinal n)) {1..max_ordinal}"
proof (rule inj_on_inverseI)
  show "toordinal (the (fromisoformat (isoformat (fromordinal n)))) = n" if "n \<in> {1..max_ordinal}" for n
    using that by (simp add: fromisoformat_isoformat valid_fromordinal toordinal_fromordinal)
qed

end
