(* ===== verification/Candidate_Claims.thy ===== *)
theory Candidate_Claims
  imports Candidate_Days PyIso
begin

text \<open>
  What the generation of candidate days guarantees: every weekday of the configured weeks is
  accounted for once, and a repeated run changes nothing.
\<close>

lemma existing_dates_Inr: "existing_dates db i = Inr ex \<longleftrightarrow>
    map (\<lambda>r. fromisoformat (kd_date r)) (filter (\<lambda>r. kd_round r = i) (kb_days db)) = map Some ex"
proof -
  have "map_res (\<lambda>r. case fromisoformat (kd_date r) of None \<Rightarrow> Inl CdStoredDate | Some d \<Rightarrow> Inr d) rs = Inr ex
      \<longleftrightarrow> map (\<lambda>r. fromisoformat (kd_date r)) rs = map Some ex" for rs
    by (induction rs arbitrary: ex) (auto simp: bnd_Inr_iff Cons_eq_map_conv split: option.splits)
  then show ?thesis by (simp add: existing_dates_def)
qed

lemma week_date_pos: "week_date s d = Inr ord \<Longrightarrow> 1 \<le> ord"
  by (auto simp: week_date_def fromisocalendar_def Let_def split: option.splits if_splits)

lemma fromisoformat_day_text: "1 \<le> d \<Longrightarrow> d \<le> max_ordinal \<Longrightarrow> fromisoformat (day_text d) = Some (fromordinal d)"
  unfolding day_text_def by (intro fromisoformat_isoformat valid_fromordinal)

lemma mset_three: "(\<forall>x. (P x \<longrightarrow> \<not> Q x) \<and> (R x \<longleftrightarrow> \<not> P x \<and> \<not> Q x)) \<Longrightarrow>
    mset (map f (filter R xs)) + mset (map f (filter P xs)) + mset (map f (filter Q xs)) = mset (map f xs)"
  by (induction xs) auto

lemma weekdays_range:
  assumes "weekday start = 0" "weekday stop = 4" "start \<le> stop"
  shows "length (filter (\<lambda>d. weekday d < 5) [start..stop]) = 5 * (nat ((stop - start) div 7) + 1)"
proof -
  define k where "k = (stop - start) div 7"
  have "stop = start + 7 * k + 4" using assms(1,2) unfolding k_def weekday_def by presburger
  moreover have "0 \<le> k" using assms(3) by (simp add: k_def)
  ultimately show ?thesis using weekdays_count[OF assms(1), of "nat k"] by (simp add: k_def)
qed

lemma place_days_none:
  assumes "\<forall>d \<in> set ds. \<not> fresh_day ex hs d"
  shows "\<exists>g'. fold (place_day i ex hs) ds (db, g) = (db, g') \<and> gn_created g' = gn_created g"
  using assms
proof (induction ds arbitrary: g)
  case (Cons d ds)
  have "\<not> fresh_day ex hs d" using Cons.prems by simp
  then obtain g1 where "place_day i ex hs d (db, g) = (db, g1)" "gn_created g1 = gn_created g"
    by (cases "map_of hs (fromordinal d)"; cases "fromordinal d \<in> set ex") (auto simp: place_day_def fresh_day_def Let_def)
  moreover have "\<forall>d \<in> set ds. \<not> fresh_day ex hs d" using Cons.prems by simp
  ultimately show ?case using Cons.IH[of g1] by simp
qed simp

subsection \<open>An example\<close>

text \<open>One week with a day that exists and a holiday.\<close>

definition sample_provider :: holiday_provider where
  "sample_provider a b c = [((2024, 3, 6), ''Feiertag'')]"

definition sample_days :: candidate_db where
  "sample_days = \<lparr>kb_settings = [\<lparr>gs_round = 1, gs_week_from = ''2024-W10'', gs_week_to = ''2024-W10'', gs_exclude = 1,
       gs_code = Some ''BY''\<rparr>], kb_days = [\<lparr>kd_id = 4, kd_round = 1, kd_date = ''2024-03-05'', kd_active = 0\<rparr>]\<rparr>"

definition sample_created :: "candidate_row list" where
  "sample_created = [\<lparr>kd_id = 5, kd_round = 1, kd_date = ''2024-03-04'', kd_active = 1\<rparr>,
     \<lparr>kd_id = 6, kd_round = 1, kd_date = ''2024-03-07'', kd_active = 1\<rparr>, \<lparr>kd_id = 7, kd_round = 1, kd_date = ''2024-03-08'', kd_active = 1\<rparr>]"

lemma sample_generation: "generate_days sample_provider 1 sample_days
  = Inr (sample_days\<lparr>kb_days := kb_days sample_days @ sample_created\<rparr>, \<lparr>gn_created = sample_created,
      gn_skipped = [''2024-03-05''], gn_excluded = [(''2024-03-06'', ''Feiertag'')], gn_weekdays = 5\<rparr>)"
  by code_simp

text \<open>C18: The generation of candidate days accounts for every weekday of the configured calendar
  weeks exactly once: it is created, reported as existing or reported as an excluded holiday.
  Their number is five per week, the created rows are appended, active and of the round, their dates
  are distinct and new to the round, so the unique key of the table cannot refuse them, and nothing
  else is written.\<close>

theorem candidate_days_generated:
  assumes "generate_days provider i db = Inr (db', g)"
  shows "\<exists>st start stop. List.find (\<lambda>s. gs_round s = i) (kb_settings db) = Some st
    \<and> week_date (gs_week_from st) 1 = Inr start \<and> week_date (gs_week_to st) 5 = Inr stop
    \<and> mset (map kd_date (gn_created g)) + mset (gn_skipped g) + mset (map fst (gn_excluded g))
        = mset (map (\<lambda>d. isoformat (fromordinal d)) (filter (\<lambda>d. weekday d < 5) [start..stop]))
    \<and> gn_weekdays g = 5 * (nat ((stop - start) div 7) + 1)
    \<and> db' = db\<lparr>kb_days := kb_days db @ gn_created g\<rparr>
    \<and> distinct (map kd_date (gn_created g))
    \<and> (\<forall>r \<in> set (gn_created g). kd_round r = i \<and> kd_active r = 1)
    \<and> (\<forall>r \<in> set (gn_created g). \<forall>o' \<in> set (kb_days db). kd_round o' = i \<longrightarrow> fromisoformat (kd_date o') \<noteq> fromisoformat (kd_date r))"
proof -
  from generate_days_Inr[OF assms] obtain st start stop hs ex where
    a: "List.find (\<lambda>s. gs_round s = i) (kb_settings db) = Some st" "week_date (gs_week_from st) 1 = Inr start"
      "week_date (gs_week_to st) 5 = Inr stop" "start \<le> stop" "stop < max_ordinal" "existing_dates db i = Inr ex"
    and d: "kb_days db' = kb_days db @ gn_created g" "kb_settings db' = kb_settings db"
    and r: "\<forall>r \<in> set (gn_created g). kd_round r = i \<and> kd_active r = 1"
    and n: "gn_weekdays g = length (filter (\<lambda>d. weekday d < 5) [start..stop])"
    and c: "map kd_date (gn_created g) = map day_text (filter (fresh_day ex hs) (filter (\<lambda>d. weekday d < 5) [start..stop]))"
    and k: "gn_skipped g = map day_text (filter (\<lambda>d. fromordinal d \<in> set ex) (filter (\<lambda>d. weekday d < 5) [start..stop]))"
    and h: "map fst (gn_excluded g) = map day_text (filter (\<lambda>d. fromordinal d \<notin> set ex \<and> map_of hs (fromordinal d) \<noteq> None)
        (filter (\<lambda>d. weekday d < 5) [start..stop]))"
    unfolding Let_def by (elim exE conjE) (rule that; (assumption | simp only:))
  let ?ds = "filter (\<lambda>d. weekday d < 5) [start..stop]"
  have m: "mset (map kd_date (gn_created g)) + mset (gn_skipped g) + mset (map fst (gn_excluded g)) = mset (map day_text ?ds)"
    unfolding c k h by (rule mset_three) (auto simp: fresh_day_def)
  have w: "weekday start = 0" "weekday stop = 4" using week_date_weekday[OF a(2)] week_date_weekday[OF a(3)] by simp_all
  have f: "fromisoformat (kd_date o') \<noteq> fromisoformat (kd_date r)"
    if "r \<in> set (gn_created g)" "o' \<in> set (kb_days db)" "kd_round o' = i" for r o'
  proof -
    have "kd_date r \<in> set (map kd_date (gn_created g))" using that(1) by simp
    then obtain d where d: "kd_date r = day_text d" "start \<le> d" "d \<le> stop" "fresh_day ex hs d" unfolding c by auto
    have "fromisoformat (kd_date r) = Some (fromordinal d)"
      unfolding d(1) using d(2,3) a(5) week_date_pos[OF a(2)] by (intro fromisoformat_day_text) auto
    moreover have "fromisoformat (kd_date o') \<in> set (map Some ex)"
      using that(2,3) by (simp add: a(6)[unfolded existing_dates_Inr, symmetric])
    ultimately show ?thesis using d(4) by (auto simp: fresh_day_def)
  qed
  have u: "distinct (map kd_date (gn_created g))"
    unfolding c distinct_map day_text_def
  proof (intro conjI)
    show "inj_on (\<lambda>d. isoformat (fromordinal d)) (set (filter (fresh_day ex hs) ?ds))"
      by (rule inj_on_subset[OF fromordinal_text_inj]) (use a(5) week_date_pos[OF a(2)] in auto)
  qed simp
  have db: "db' = db\<lparr>kb_days := kb_days db @ gn_created g\<rparr>" using d by simp
  show ?thesis
    using a m[unfolded day_text_def] weekdays_range[OF w a(4)] n db r f u
    by (intro exI[of _ st] exI[of _ start] exI[of _ stop]) simp
qed

lemma candidate_days_generated_witness:
  "mset (map kd_date sample_created) + mset [''2024-03-05''] + mset [''2024-03-06'']
    = mset (map (\<lambda>d. isoformat (fromordinal d)) (filter (\<lambda>d. weekday d < 5) [738949..738953]))"
proof -
  have "week_date ''2024-W10'' 1 = Inr 738949" "week_date ''2024-W10'' 5 = Inr 738953" by code_simp+
  with candidate_days_generated[OF sample_generation] show ?thesis by (simp add: sample_days_def)
qed

text \<open>C27: Running the generation again creates no further day and leaves the database as it is: the
  dates it stored are read back as the dates it stands for.\<close>

theorem candidate_days_rerun:
  assumes "generate_days provider i db = Inr (db', g)"
  shows "\<exists>g'. generate_days provider i db' = Inr (db', g') \<and> gn_created g' = [] \<and> gn_weekdays g' = gn_weekdays g"
proof -
  from generate_days_Inr[OF assms] obtain st start stop hs ex where
    a: "List.find (\<lambda>s. gs_round s = i) (kb_settings db) = Some st" "week_date (gs_week_from st) 1 = Inr start"
      "week_date (gs_week_to st) 5 = Inr stop" "start \<le> stop" "stop < max_ordinal" "holidays provider st start stop = Inr hs"
      "existing_dates db i = Inr ex"
    and d: "kb_days db' = kb_days db @ gn_created g" "kb_settings db' = kb_settings db"
    and r: "\<forall>r \<in> set (gn_created g). kd_round r = i \<and> kd_active r = 1"
    and n: "gn_weekdays g = length (filter (\<lambda>d. weekday d < 5) [start..stop])"
    and c: "map kd_date (gn_created g) = map day_text (filter (fresh_day ex hs) (filter (\<lambda>d. weekday d < 5) [start..stop]))"
    unfolding Let_def by (elim exE conjE) (rule that; (assumption | simp only:))
  define ds where "ds = filter (\<lambda>d. weekday d < 5) [start..stop]"
  define new where "new = map fromordinal (filter (fresh_day ex hs) ds)"
  have p: "\<forall>d \<in> set ds. 1 \<le> d \<and> d \<le> max_ordinal" using week_date_pos[OF a(2)] a(5) by (auto simp: ds_def)
  have "map (\<lambda>r. fromisoformat (kd_date r)) (gn_created g) = map fromisoformat (map kd_date (gn_created g))" by simp
  also have "\<dots> = map Some new" unfolding c ds_def[symmetric] new_def using p by (simp add: fromisoformat_day_text)
  finally have "existing_dates db' i = Inr (ex @ new)"
    using a(7) r unfolding existing_dates_Inr d(1) by (simp add: filter_id_conv)
  moreover have "weekdays start stop = Inr ds"
    using weekdays_total[OF a(5), of start] weekdays_Inr[of start stop] by (auto simp: ds_def)
  moreover have "\<forall>d \<in> set ds. \<not> fresh_day (ex @ new) hs d" by (auto simp: fresh_day_def new_def)
  from place_days_none[OF this] obtain g' where "fold (place_day i (ex @ new) hs) ds (db',
      \<lparr>gn_created = [], gn_skipped = [], gn_excluded = [], gn_weekdays = length ds\<rparr>) = (db', g')"
    and "gn_created g' = []" by fastforce
  moreover from place_days[OF this(1)] have "gn_weekdays g' = gn_weekdays g" using n by (auto simp: ds_def)
  ultimately show ?thesis using a d(2) unfolding generate_days_def by (intro exI[of _ g']) simp
qed

lemma candidate_days_rerun_witness:
  "\<exists>db' g g'. generate_days sample_provider 1 sample_days = Inr (db', g) \<and> length (gn_created g) = 3
    \<and> generate_days sample_provider 1 db' = Inr (db', g') \<and> gn_created g' = []"
proof -
  have "length sample_created = 3" by (simp add: sample_created_def)
  with sample_generation candidate_days_rerun[OF sample_generation] show ?thesis by fastforce
qed

end
