(* ===== verification/Day_Guard.thy ===== *)
theory Day_Guard
  imports Assess_Store PyOrder
begin

text \<open>
  The guard around every mutation of an exam day (\<open>persistence/day_mutations.py\<close>): optimistic
  revision check on an open day, the exceptions for closed days, and the bounded correction window
  of a reopened day. The JSON columns of a reopening are the lists of tokens they encode. A query
  without \<open>ORDER BY\<close> delivers the rows of a table in list order.
\<close>

subsection \<open>State\<close>

record day_row =
  dw_id :: int
  dw_round :: int
  dw_date :: string
  dw_status :: day_status
  dw_closure :: closure_status
  dw_revision :: int

record day_reopening =
  dr_id :: int
  dr_day :: int
  dr_status :: string
  dr_scope :: "string list"
  dr_completed :: "string list"

record day_task =
  dt_day :: int
  dt_type :: string
  dt_recipient :: int
  dt_protocol_revision :: "int option"
  dt_status :: string
  dt_completed_at :: "string option"

record day_event =
  de_day :: int
  de_revision :: int
  de_type :: string
  de_actor :: int
  de_reopening :: "int option"
  de_reason :: "string option"
  de_scope :: "string list"
  de_at :: string

record day_db =
  dd_days :: "day_row list"
  dd_reopenings :: "day_reopening list"
  dd_tasks :: "day_task list"
  dd_events :: "day_event list"

datatype day_error = DayStale | DayNoFollowUp | DayClosed | DayInconsistent | DayRevisionRequired
  | DayOutOfScope | DayForbidden

record day_guard =
  dg_day :: int
  dg_token :: string
  dg_reopening :: "int option"
  dg_touch :: bool
  dg_late :: bool

definition day_of :: "day_db \<Rightarrow> int \<Rightarrow> day_row option" where
  "day_of db i = List.find (\<lambda>d. dw_id d = i) (dd_days db)"

subsection \<open>Tokens and revisions\<close>

text \<open>\<open>str\<close> of an integer.\<close>

fun nat_text :: "nat \<Rightarrow> string" where
  "nat_text n = (if n < 10 then [char_of_digit (int n)] else nat_text (n div 10) @ [char_of_digit (int (n mod 10))])"

declare nat_text.simps [simp del]

definition int_text :: "int \<Rightarrow> string" where
  "int_text i = (if i < 0 then ''-'' @ nat_text (nat (- i)) else nat_text (nat i))"

definition domain_mutation_token :: "string \<Rightarrow> int \<Rightarrow> string" where
  "domain_mutation_token kind i = (let k = (if kind \<in> {''protocol_response'', ''protocol_correction_request''} then ''exam_protocol''
       else if take 7 kind = ''result_'' then ''exam_result'' else kind)
     in k @ '':'' @ int_text i)"

definition post_close_result_kinds :: "string set" where
  "post_close_result_kinds = {''result_external'', ''result_determine'', ''result_confirm_record'',
     ''result_communicate'', ''result_retention''}"

text \<open>A JSON object has text keys only, so the second lookup of the source finds nothing.\<close>

definition supplied_day_revision :: "payload \<Rightarrow> int \<Rightarrow> json" where
  "supplied_day_revision p i = (case jget p ''day_revisions'' of
     JObj revisions \<Rightarrow> jget revisions (int_text i)
   | _ \<Rightarrow> jget p ''day_revision'')"

text \<open>Python's \<open>==\<close> between a JSON value and an integer: \<open>True\<close> is 1 and \<open>3.0\<close> is 3.\<close>

definition json_is_int :: "json \<Rightarrow> int \<Rightarrow> bool" where
  "json_is_int v n \<longleftrightarrow> (case v of JInt i \<Rightarrow> i = n | JBool b \<Rightarrow> (if b then 1 else 0) = n
     | JFloat s \<Rightarrow> parse_decimal s = Some (Finite (of_int n)) | _ \<Rightarrow> False)"

subsection \<open>The guard\<close>

definition guard_open_day_mutation :: "day_row \<Rightarrow> string \<Rightarrow> json \<Rightarrow> day_error + day_guard" where
  "guard_open_day_mutation d t supplied =
     require (supplied = JNull \<or> json_is_int supplied (dw_revision d)) DayStale
       (Inr \<lparr>dg_day = dw_id d, dg_token = t, dg_reopening = None, dg_touch = True, dg_late = False\<rparr>)"

definition follow_up :: "day_row \<Rightarrow> int \<Rightarrow> int \<Rightarrow> day_task \<Rightarrow> bool" where
  "follow_up d m r t \<longleftrightarrow> dt_day t = dw_id d \<and> dt_type t = ''protocol_follow_up'' \<and> dt_recipient t = m
     \<and> dt_protocol_revision t = Some r \<and> dt_status t = ''open''"

definition guard_late_protocol_response ::
  "day_db \<Rightarrow> day_row \<Rightarrow> string \<Rightarrow> int option \<Rightarrow> int option \<Rightarrow> day_error + day_guard" where
  "guard_late_protocol_response db d t actor revision = (case (actor, revision) of
     (Some m, Some r) \<Rightarrow> (case List.find (follow_up d m r) (dd_tasks db) of
         None \<Rightarrow> Inl DayNoFollowUp
       | Some task \<Rightarrow> Inr \<lparr>dg_day = dw_id d, dg_token = t, dg_reopening = None, dg_touch = False, dg_late = True\<rparr>)
   | _ \<Rightarrow> Inl DayForbidden)"

definition guard_reopening_mutation :: "day_db \<Rightarrow> day_row \<Rightarrow> string \<Rightarrow> json \<Rightarrow> day_error + day_guard" where
  "guard_reopening_mutation db d t supplied =
     require (dw_closure d = ClReopening) DayClosed (
     case List.find (\<lambda>r. dr_day r = dw_id d \<and> dr_status r = ''open'') (dd_reopenings db) of
       None \<Rightarrow> Inl DayInconsistent
     | Some r \<Rightarrow> (case supplied of
         JInt n \<Rightarrow> require (n = dw_revision d) DayStale (
           require (t \<in> set (dr_scope r)) DayOutOfScope (
             Inr \<lparr>dg_day = dw_id d, dg_token = t, dg_reopening = Some (dr_id r), dg_touch = True, dg_late = False\<rparr>))
       | _ \<Rightarrow> Inl DayRevisionRequired))"

definition guard_day_mutation ::
  "day_db \<Rightarrow> day_row \<Rightarrow> string \<Rightarrow> int \<Rightarrow> payload option \<Rightarrow> json \<Rightarrow> int option \<Rightarrow> int option \<Rightarrow> day_error + day_guard" where
  "guard_day_mutation db d kind i p expected actor revision =
     (let t = domain_mutation_token kind i;
          supplied = (case p of Some p \<Rightarrow> supplied_day_revision p (dw_id d) | None \<Rightarrow> expected)
      in if dw_closure d = ClOpen then guard_open_day_mutation d t supplied
         else if kind \<in> post_close_result_kinds \<or> kind = ''protocol_correction_request''
         then Inr \<lparr>dg_day = dw_id d, dg_token = t, dg_reopening = None, dg_touch = False, dg_late = False\<rparr>
         else if dw_closure d = ClClosedException \<and> kind = ''protocol_response''
         then guard_late_protocol_response db d t actor revision
         else guard_reopening_mutation db d t supplied)"

subsection \<open>Completion\<close>

definition day_event_of :: "day_guard \<Rightarrow> int \<Rightarrow> string \<Rightarrow> int \<Rightarrow> string option \<Rightarrow> string \<Rightarrow> day_event" where
  "day_event_of g n type actor reason now = \<lparr>de_day = dg_day g, de_revision = n, de_type = type, de_actor = actor,
     de_reopening = dg_reopening g, de_reason = reason, de_scope = [dg_token g], de_at = now\<rparr>"

definition touch_day :: "day_guard \<Rightarrow> int \<Rightarrow> string option \<Rightarrow> string \<Rightarrow> day_db \<Rightarrow> day_db" where
  "touch_day g actor reason now db =
     (let db = db\<lparr>dd_days := upd_row dw_id (dg_day g) (\<lambda>d. d\<lparr>dw_revision := dw_revision d + 1\<rparr>) (dd_days db)\<rparr>
      in case dg_reopening g of None \<Rightarrow> db
       | Some r \<Rightarrow> db\<lparr>dd_reopenings := upd_row dr_id r (\<lambda>x. x\<lparr>dr_completed := sort (remdups (dg_token g # dr_completed x))\<rparr>) (dd_reopenings db),
           dd_events := dd_events db @ [day_event_of g (case day_of db (dg_day g) of None \<Rightarrow> 0 | Some d \<Rightarrow> dw_revision d)
             ''correction'' actor reason now]\<rparr>)"

text \<open>The first open follow-up is completed; the guard has found one.\<close>

fun complete_first :: "(day_task \<Rightarrow> bool) \<Rightarrow> string \<Rightarrow> day_task list \<Rightarrow> day_task list" where
  "complete_first P now [] = []"
| "complete_first P now (t # ts) = (if P t then t\<lparr>dt_status := ''completed'', dt_completed_at := Some now\<rparr> # ts
     else t # complete_first P now ts)"

definition late_response :: "day_guard \<Rightarrow> int \<Rightarrow> string option \<Rightarrow> int option \<Rightarrow> string \<Rightarrow> day_db \<Rightarrow> day_db" where
  "late_response g actor reason revision now db = (case day_of db (dg_day g) of None \<Rightarrow> db
     | Some d \<Rightarrow> db\<lparr>dd_tasks := (case revision of None \<Rightarrow> dd_tasks db
           | Some r \<Rightarrow> complete_first (follow_up d actor r) now (dd_tasks db)),
         dd_events := dd_events db @ [day_event_of (g\<lparr>dg_reopening := None\<rparr>) (dw_revision d) ''late_protocol_response'' actor reason now]\<rparr>)"

definition complete_day_mutation ::
  "day_guard \<Rightarrow> int \<Rightarrow> string option \<Rightarrow> int option \<Rightarrow> string \<Rightarrow> day_db \<Rightarrow> day_db" where
  "complete_day_mutation g actor reason revision now db =
     (let db = (if dg_touch g then touch_day g actor reason now db else db)
      in if dg_late g then late_response g actor reason revision now db else db)"

subsection \<open>What completion changes\<close>

lemma days_complete: "dd_days (complete_day_mutation g actor reason pr now db) =
    (if dg_touch g then upd_row dw_id (dg_day g) (\<lambda>d. d\<lparr>dw_revision := dw_revision d + 1\<rparr>) (dd_days db) else dd_days db)"
  by (simp add: complete_day_mutation_def touch_day_def late_response_def Let_def split: option.splits)

lemma day_of_complete: "day_of (complete_day_mutation g actor reason pr now db) i =
    (if dg_touch g \<and> i = dg_day g then map_option (\<lambda>d. d\<lparr>dw_revision := dw_revision d + 1\<rparr>) (day_of db i) else day_of db i)"
  by (simp add: day_of_def days_complete find_upd_row)

lemma day_of_id: "day_of db i = Some d \<Longrightarrow> dw_id d = i"
  by (auto simp: day_of_def find_Some_P dest: find_Some_P)

lemma reopenings_complete: "dd_reopenings (complete_day_mutation g actor reason pr now db) =
    (case dg_reopening g of Some r \<Rightarrow> if dg_touch g
        then upd_row dr_id r (\<lambda>x. x\<lparr>dr_completed := sort (remdups (dg_token g # dr_completed x))\<rparr>) (dd_reopenings db)
        else dd_reopenings db
     | None \<Rightarrow> dd_reopenings db)"
  by (simp add: complete_day_mutation_def touch_day_def late_response_def Let_def split: option.splits)

subsection \<open>What the guard lets through\<close>

text \<open>
  The contract of the guard, without its order of checks: who may change a day in which closure
  state, and whether the change is counted as a revision of the day.
\<close>

definition permitted :: "day_db \<Rightarrow> day_row \<Rightarrow> string \<Rightarrow> int \<Rightarrow> json \<Rightarrow> int option \<Rightarrow> int option \<Rightarrow> bool" where
  "permitted db d kind i supplied actor pr \<longleftrightarrow> (case dw_closure d of
     ClOpen \<Rightarrow> supplied = JNull \<or> json_is_int supplied (dw_revision d)
   | ClReopening \<Rightarrow> kind \<in> insert ''protocol_correction_request'' post_close_result_kinds
       \<or> (supplied = JInt (dw_revision d) \<and> (\<exists>r. List.find (\<lambda>r. dr_day r = dw_id d \<and> dr_status r = ''open'') (dd_reopenings db) = Some r
            \<and> domain_mutation_token kind i \<in> set (dr_scope r)))
   | ClClosedException \<Rightarrow> kind \<in> insert ''protocol_correction_request'' post_close_result_kinds
       \<or> (kind = ''protocol_response'' \<and> (\<exists>m r. actor = Some m \<and> pr = Some r \<and> (\<exists>t \<in> set (dd_tasks db). follow_up d m r t)))
   | _ \<Rightarrow> kind \<in> insert ''protocol_correction_request'' post_close_result_kinds)"

lemma guard_Inr_iff: "(\<exists>g. guard_day_mutation db d kind i (Some p) expected actor pr = Inr g)
    \<longleftrightarrow> permitted db d kind i (supplied_day_revision p (dw_id d)) actor pr"
proof -
  have late: "(\<exists>g. guard_late_protocol_response db d t actor pr = Inr g)
      \<longleftrightarrow> (\<exists>m r. actor = Some m \<and> pr = Some r \<and> (\<exists>t \<in> set (dd_tasks db). follow_up d m r t))" for t
    by (auto simp: guard_late_protocol_response_def find_None_iff_not_ex split: option.splits
        dest: find_Some_mem find_Some_P)
  have reopening: "(\<exists>g. guard_reopening_mutation db d t supplied = Inr g) \<longleftrightarrow> dw_closure d = ClReopening \<and> supplied = JInt (dw_revision d)
      \<and> (\<exists>r. List.find (\<lambda>r. dr_day r = dw_id d \<and> dr_status r = ''open'') (dd_reopenings db) = Some r \<and> t \<in> set (dr_scope r))"
    for t supplied
    by (cases supplied) (auto simp: guard_reopening_mutation_def ok_iff split: option.splits)
  have opened: "(\<exists>g. guard_open_day_mutation d t supplied = Inr g) \<longleftrightarrow> supplied = JNull \<or> json_is_int supplied (dw_revision d)"
    for t supplied
    by (auto simp: guard_open_day_mutation_def ok_iff)
  show ?thesis
    unfolding guard_day_mutation_def permitted_def Let_def option.case
    by (cases "dw_closure d") (auto simp: late reopening opened post_close_result_kinds_def)
qed

lemma guard_touch:
  assumes "guard_day_mutation db d kind i (Some p) expected actor pr = Inr g"
  shows "dg_day g = dw_id d \<and> dg_token g = domain_mutation_token kind i
    \<and> (dg_touch g \<longleftrightarrow> dw_closure d = ClOpen \<or> (dw_closure d = ClReopening
        \<and> kind \<notin> insert ''protocol_correction_request'' post_close_result_kinds))
    \<and> (dg_touch g \<longrightarrow> supplied_day_revision p (dw_id d) = JNull \<and> dw_closure d = ClOpen
        \<or> json_is_int (supplied_day_revision p (dw_id d)) (dw_revision d))
    \<and> (dg_reopening g \<noteq> None \<longrightarrow> dw_closure d = ClReopening)"
proof -
  have reopening: "guard_reopening_mutation db d t v = Inr g \<Longrightarrow> dw_closure d = ClReopening \<and> json_is_int v (dw_revision d)
      \<and> dg_day g = dw_id d \<and> dg_token g = t \<and> dg_touch g" for t v
    by (cases v) (auto simp: guard_reopening_mutation_def json_is_int_def ok_iff split: option.splits)
  have opened: "guard_open_day_mutation d t v = Inr g \<Longrightarrow> (v = JNull \<or> json_is_int v (dw_revision d))
      \<and> dg_day g = dw_id d \<and> dg_token g = t \<and> dg_touch g \<and> dg_reopening g = None" for t v
    by (auto simp: guard_open_day_mutation_def ok_iff)
  have late: "guard_late_protocol_response db d t actor pr = Inr g \<Longrightarrow> dg_day g = dw_id d \<and> dg_token g = t
      \<and> \<not> dg_touch g \<and> dg_reopening g = None" for t
    by (auto simp: guard_late_protocol_response_def split: option.splits)
  show ?thesis
    using assms unfolding guard_day_mutation_def Let_def option.case
    by (cases "dw_closure d") (auto split: if_splits dest: reopening opened late)
qed

end
