(* ===== verification/Day_Claims.thy ===== *)
theory Day_Claims
  imports Day_Guard
begin

text \<open>
  The interface of a guarded mutation, its interpretation on the day guard, and what the guard
  promises to every workflow that changes an exam day.
\<close>

subsection \<open>Guarded mutations\<close>

text \<open>
  A mutation is checked against the state, and completed in the same transaction. A command may name
  the revision it was made for; a mutation that counts raises the revision by one.
\<close>

locale revision_guard =
  fixes guard :: "'c \<Rightarrow> 'd \<Rightarrow> 'g option"
    and complete :: "'g \<Rightarrow> 'd \<Rightarrow> 'd"
    and revision :: "'d \<Rightarrow> int"
    and counts :: "'g \<Rightarrow> bool"
    and names :: "'c \<Rightarrow> int \<Rightarrow> bool"
  assumes current: "guard c s = Some g \<Longrightarrow> counts g \<Longrightarrow> names c n \<Longrightarrow> n = revision s"
    and counted: "guard c s = Some g \<Longrightarrow> revision (complete g s) = (if counts g then revision s + 1 else revision s)"

inductive mutated :: "('c \<Rightarrow> 'd \<Rightarrow> 'g option) \<Rightarrow> ('g \<Rightarrow> 'd \<Rightarrow> 'd) \<Rightarrow> 'd \<Rightarrow> 'd \<Rightarrow> bool"
  for guard complete s where
  start: "mutated guard complete s s"
| mutate: "mutated guard complete s s' \<Longrightarrow> guard c s' = Some g \<Longrightarrow> mutated guard complete s (complete g s')"

context revision_guard
begin

lemma revision_grows: "mutated guard complete s s' \<Longrightarrow> revision s \<le> revision s'"
  by (induction rule: mutated.induct) (auto simp: counted)

lemma superseded:
  assumes "guard c s = Some g" "counts g" "names c n" "mutated guard complete (complete g s) s'"
    and "names c' n" "guard c' s' = Some g'"
  shows "\<not> counts g'"
proof
  assume "counts g'"
  with assms(5,6) have "n = revision s'" by (rule current[rotated 2])
  moreover have "n = revision s" using assms(1-3) by (rule current)
  moreover have "revision s + 1 \<le> revision s'" using revision_grows[OF assms(4)] counted[OF assms(1)] assms(2) by simp
  ultimately show False by simp
qed

end

subsection \<open>The day guard\<close>

text \<open>A mutation of one day with all it brings along: kind, entity, payload, acting member, protocol
  revision, and the member, reason and time it is completed with.\<close>

record day_command =
  dc_kind :: string
  dc_entity :: int
  dc_payload :: payload
  dc_actor :: "int option"
  dc_protocol :: "int option"
  dc_member :: int
  dc_reason :: "string option"
  dc_now :: string

definition day_guarded :: "int \<Rightarrow> day_command \<Rightarrow> day_db \<Rightarrow> (day_guard \<times> day_command) option" where
  "day_guarded j c db = (case day_of db j of None \<Rightarrow> None
     | Some d \<Rightarrow> (case guard_day_mutation db d (dc_kind c) (dc_entity c) (Some (dc_payload c)) JNull (dc_actor c) (dc_protocol c) of
         Inl _ \<Rightarrow> None | Inr g \<Rightarrow> Some (g, c)))"

definition day_completed :: "day_guard \<times> day_command \<Rightarrow> day_db \<Rightarrow> day_db" where
  "day_completed x db = (case x of (g, c) \<Rightarrow> complete_day_mutation g (dc_member c) (dc_reason c) (dc_protocol c) (dc_now c) db)"

definition day_revision :: "int \<Rightarrow> day_db \<Rightarrow> int" where
  "day_revision j db = (case day_of db j of None \<Rightarrow> 0 | Some d \<Rightarrow> dw_revision d)"

definition names_revision :: "int \<Rightarrow> day_command \<Rightarrow> int \<Rightarrow> bool" where
  "names_revision j c n \<longleftrightarrow> json_is_int (supplied_day_revision (dc_payload c) j) n"

lemma json_null_no_int [simp]: "\<not> json_is_int JNull n"
  by (simp add: json_is_int_def)

lemma json_is_int_unique: "json_is_int v n \<Longrightarrow> json_is_int v m \<Longrightarrow> n = m"
  by (cases v) (auto simp: json_is_int_def)

lemma day_guarded_D: "day_guarded j c db = Some x \<Longrightarrow> \<exists>d g. x = (g, c) \<and> day_of db j = Some d \<and> dw_id d = j
    \<and> guard_day_mutation db d (dc_kind c) (dc_entity c) (Some (dc_payload c)) JNull (dc_actor c) (dc_protocol c) = Inr g"
  by (auto simp: day_guarded_def day_of_id split: option.splits sum.splits)

interpretation day: revision_guard "day_guarded j" day_completed "day_revision j" "\<lambda>x. dg_touch (fst x)" "names_revision j"
proof
  fix c db x n
  assume "day_guarded j c db = Some x" "dg_touch (fst x)" "names_revision j c n"
  then obtain d g where d: "day_of db j = Some d" "dw_id d = j" "dg_touch g" "json_is_int (supplied_day_revision (dc_payload c) j) n"
    "guard_day_mutation db d (dc_kind c) (dc_entity c) (Some (dc_payload c)) JNull (dc_actor c) (dc_protocol c) = Inr g"
    by (auto simp: names_revision_def dest!: day_guarded_D)
  moreover from guard_touch[OF d(5)] d have "json_is_int (supplied_day_revision (dc_payload c) j) (dw_revision d)" by auto
  ultimately show "n = day_revision j db" by (auto simp: day_revision_def dest: json_is_int_unique)
next
  fix c db x
  assume "day_guarded j c db = Some x"
  then obtain d g where d: "x = (g, c)" "day_of db j = Some d" "dw_id d = j"
    "guard_day_mutation db d (dc_kind c) (dc_entity c) (Some (dc_payload c)) JNull (dc_actor c) (dc_protocol c) = Inr g"
    by (auto dest!: day_guarded_D)
  then have "dg_day g = j" using guard_touch[OF d(4)] by simp
  then show "day_revision j (day_completed x db) = (if dg_touch (fst x) then day_revision j db + 1 else day_revision j db)"
    by (simp add: d(1,2) day_completed_def day_revision_def day_of_complete)
qed

text \<open>C12: No lost update on a day: once a mutation made for revision \<open>n\<close> of a day was completed and
  counted, and after any further mutations of the day, a request that names the same revision is
  never again let through as a counted mutation.\<close>

theorem day_revision_superseded:
  assumes "day_guarded j c db = Some x" "dg_touch (fst x)" "names_revision j c n"
    and "mutated (day_guarded j) day_completed (day_completed x db) db'"
    and "names_revision j c' n" "day_guarded j c' db' = Some x'"
  shows "\<not> dg_touch (fst x')"
  using assms by (rule day.superseded)

text \<open>A day that two members edit: the second request names the revision of the first.\<close>

definition sample_day :: day_row where
  "sample_day = \<lparr>dw_id = 7, dw_round = 1, dw_date = ''2024-03-04'', dw_status = DyConfirmed, dw_closure = ClReopening, dw_revision = 3\<rparr>"

definition sample_day_db :: day_db where
  "sample_day_db = \<lparr>dd_days = [sample_day], dd_reopenings = [\<lparr>dr_id = 1, dr_day = 7, dr_status = ''open'',
     dr_scope = [''absence:4''], dr_completed = []\<rparr>], dd_tasks = [], dd_events = []\<rparr>"

definition sample_command :: "string \<Rightarrow> day_command" where
  "sample_command k = \<lparr>dc_kind = k, dc_entity = 4, dc_payload = [(''day_revision'', JInt 3)], dc_actor = Some 2, dc_protocol = None,
     dc_member = 2, dc_reason = None, dc_now = []\<rparr>"

lemma day_revision_superseded_witness:
  "\<exists>x x'. day_guarded 7 (sample_command ''absence'') sample_day_db = Some x \<and> dg_touch (fst x)
    \<and> day_guarded 7 (sample_command ''result_communicate'') (day_completed x sample_day_db) = Some x' \<and> \<not> dg_touch (fst x')"
proof -
  let ?g = "\<lparr>dg_day = 7, dg_token = ''absence:4'', dg_reopening = Some 1, dg_touch = True, dg_late = False\<rparr>"
  let ?x = "(?g, sample_command ''absence'')"
  have one: "day_guarded 7 (sample_command ''absence'') sample_day_db = Some ?x" by code_simp
  obtain x' where two: "day_guarded 7 (sample_command ''result_communicate'') (day_completed ?x sample_day_db) = Some x'"
  proof -
    have "day_guarded 7 (sample_command ''result_communicate'') (day_completed ?x sample_day_db) \<noteq> None" by code_simp
    then show ?thesis using that by blast
  qed
  have "names_revision 7 (sample_command ''absence'') 3" "names_revision 7 (sample_command ''result_communicate'') 3" by code_simp+
  with day_revision_superseded[OF one _ _ mutated.start _ two] have "\<not> dg_touch (fst x')" by simp
  with one two show ?thesis by (intro exI[of _ ?x] exI[of _ x']) simp
qed

end
