(* ===== verification/Absence_Model.thy ===== *)
theory Absence_Model
  imports Day_Guard Plan_Model Candidate_Days
begin

text \<open>
  The data of the absence and replacement process and its unit of work
  (\<open>execution/absence_ports.py\<close>, \<open>persistence/absence_uow.py\<close>, tables of
  \<open>persistence/models.py\<close>). A point in time is its number of microseconds since 1 January 1970 in
  UTC; a stored stamp is such a number cut to whole seconds, and the start of a slot the instant that
  \<open>_parse\<close> reads from its text. A query without \<open>ORDER BY\<close> delivers the rows of a table in list
  order.
\<close>

subsection \<open>Tables\<close>

datatype answer = Pending | Available | Unavailable

record staffing =
  sf_id :: int
  sf_day :: int
  sf_member :: int
  sf_revision :: int
  sf_role :: string
  sf_part :: string
  sf_fallback :: "string option"

record absence_report =
  ab_id :: int
  ab_day :: int
  ab_assignment :: int
  ab_member :: int
  ab_reporter :: int
  ab_reported_at :: int
  ab_reason :: "string option"
  ab_status :: absence_status
  ab_selected :: "int option"
  ab_version :: int
  ab_updated :: "int option"

record absence_response =
  an_id :: int
  an_report :: int
  an_member :: int
  an_answer :: answer
  an_requested_at :: int
  an_expires_at :: "int option"
  an_urgent :: bool
  an_responded_at :: "int option"

datatype audit_type = EvReported | EvResponse | EvFallbackExpired | EvSearchOpened | EvWithdrawn
  | EvSelected | EvReopened | EvCancelled

datatype audit_details = DtMember int | DtReason string

record absence_audit =
  ae_id :: int
  ae_report :: int
  ae_actor :: int
  ae_type :: audit_type
  ae_from :: "absence_status option"
  ae_to :: absence_status
  ae_details :: "audit_details option"
  ae_at :: int

datatype notice = NoticeUrgent | NoticeReported | NoticeExpired | NoticeRequested | NoticeConfirmation
  | NoticeSelected | NoticeReopened | NoticeCancelled

record guard_snapshot =
  gp_day :: int
  gp_revision :: int
  gp_closure :: closure_status
  gp_token :: string
  gp_touch :: bool
  gp_reopening :: "int option"
  gp_scope :: "string list option"
  gp_late :: bool

record consequence_source =
  cs_audit :: int
  cs_report :: int
  cs_version :: int
  cs_assignment :: int
  cs_assignment_revision :: int
  cs_previous :: int
  cs_selected :: "int option"
  cs_day :: int
  cs_closure :: closure_status
  cs_calendar :: bool
  cs_action :: "string option"
  cs_round :: int
  cs_committee :: int
  cs_recipients :: "int list"
  cs_event :: notice
  cs_urgent :: "bool option"
  cs_before :: "json list"
  cs_guard :: guard_snapshot
  cs_at :: int

record lock_round =
  lr_round :: int
  lr_status :: lifecycle_status

record lock_reopening =
  lo_round :: int
  lo_status :: string
  lo_scope :: "string list"

record absence_db =
  bd_day :: day_db
  bd_rounds :: "exam_round list"
  bd_locks :: "lock_round list"
  bd_unlocked :: "lock_reopening list"
  bd_members :: "member list"
  bd_staffing :: "staffing list"
  bd_slots :: "(int \<times> int) list"
  bd_candidate_days :: "candidate_row list"
  bd_availability :: "availability list"
  bd_reports :: "absence_report list"
  bd_responses :: "absence_response list"
  bd_audits :: "absence_audit list"
  bd_sources :: "consequence_source list"

datatype absence_error = AbNotMember | AbNotOwn | AbStarted | AbNotConfirmed | AbDuplicate | AbTargetMissing
  | AbFieldRequired | AbFieldInvalid | AbIntInvalid | AbBadReason | AbReasonRequired | AbInaccessible
  | AbAnswerUnknown | AbAnswerUnhashable | AbAnswered | AbReportMissing | AbStaffingMissing | AbVersionConflict
  | AbNotSelectable | AbLeadOnly | AbNoAnswer | AbNotEligible | AbFinished | AbNotReopenable | AbConflict
  | AbAlreadySelected | AbDayMissing | AbDateInvalid | AbRoundMissing | AbRoundLocked | AbRoundScope
  | AbForbidden | AbBindInvalid | AbUniqueViolated | AbGuard day_error

definition ae :: "day_error + 'a \<Rightarrow> absence_error + 'a" where
  "ae x = (case x of Inl e \<Rightarrow> Inl (AbGuard e) | Inr y \<Rightarrow> Inr y)"

subsection \<open>Reads\<close>

definition report_of :: "absence_db \<Rightarrow> int \<Rightarrow> absence_report option" where
  "report_of db i = List.find (\<lambda>r. ab_id r = i) (bd_reports db)"

definition staffing_of :: "absence_db \<Rightarrow> int \<Rightarrow> staffing option" where
  "staffing_of db i = List.find (\<lambda>a. sf_id a = i) (bd_staffing db)"

definition member_of :: "absence_db \<Rightarrow> int \<Rightarrow> member option" where
  "member_of db i = List.find (\<lambda>m. mb_id m = i) (bd_members db)"

definition round_of :: "absence_db \<Rightarrow> int \<Rightarrow> exam_round option" where
  "round_of db i = List.find (\<lambda>r. er_id r = i) (bd_rounds db)"

definition response_of :: "absence_db \<Rightarrow> int \<Rightarrow> absence_response option" where
  "response_of db i = List.find (\<lambda>n. an_id n = i) (bd_responses db)"

definition report_context :: "absence_db \<Rightarrow> int \<Rightarrow> (absence_report \<times> day_row \<times> exam_round) option" where
  "report_context db i = Option.bind (report_of db i) (\<lambda>r.
     Option.bind (day_of (bd_day db) (ab_day r)) (\<lambda>d.
     Option.bind (round_of db (dw_round d)) (\<lambda>o'. Some (r, d, o'))))"

definition target :: "absence_db \<Rightarrow> int \<Rightarrow> int option \<Rightarrow> int option \<Rightarrow> (day_row \<times> exam_round \<times> staffing \<times> member) option" where
  "target db day assignment m =
     (let a = (case Option.bind assignment (staffing_of db) of
          Some a \<Rightarrow> Some a
        | None \<Rightarrow> Option.bind m (\<lambda>m. List.find (\<lambda>a. sf_day a = day \<and> sf_member a = m) (bd_staffing db)))
      in Option.bind (day_of (bd_day db) day) (\<lambda>d.
         Option.bind (round_of db (dw_round d)) (\<lambda>r.
         Option.bind a (\<lambda>a.
         Option.bind (member_of db (sf_member a)) (\<lambda>t.
           if sf_day a = dw_id d then Some (d, r, a, t) else None)))))"

definition response_member_ids :: "absence_db \<Rightarrow> int \<Rightarrow> int list" where
  "response_member_ids db i = map an_member (filter (\<lambda>n. an_report n = i) (bd_responses db))"

definition active_report_exists :: "absence_db \<Rightarrow> int \<Rightarrow> absence_status set \<Rightarrow> bool" where
  "active_report_exists db a statuses \<longleftrightarrow> list_ex (\<lambda>r. ab_assignment r = a \<and> ab_status r \<in> statuses) (bd_reports db)"

definition notification_recipients :: "absence_db \<Rightarrow> int \<Rightarrow> committee_role list option \<Rightarrow> int option \<Rightarrow> int list" where
  "notification_recipients db c roles excluded = map mb_id (filter (\<lambda>m. mb_committee m = c \<and> mb_active m
     \<and> (case roles of None \<Rightarrow> True | Some rs \<Rightarrow> mb_role m \<in> set rs)
     \<and> (case excluded of None \<Rightarrow> True | Some x \<Rightarrow> mb_id m \<noteq> x)) (bd_members db))"

subsection \<open>Facts about candidates\<close>

record candidate_facts =
  cf_active :: "member list"
  cf_regular :: "int list"
  cf_fallback :: "int list"
  cf_available :: "int list"
  cf_conflict_free :: "int list"

definition parts_overlap :: "string \<Rightarrow> string \<Rightarrow> bool" where
  "parts_overlap p q \<longleftrightarrow> p = ''full_day'' \<or> q = ''full_day'' \<or> p = q"

definition other_staffing :: "absence_db \<Rightarrow> day_row \<Rightarrow> exam_round \<Rightarrow> staffing list" where
  "other_staffing db d r = filter (\<lambda>a. case day_of (bd_day db) (sf_day a) of None \<Rightarrow> False
     | Some d' \<Rightarrow> dw_id d' \<noteq> dw_id d \<and> dw_status d' = DyConfirmed \<and> dw_date d' = dw_date d
        \<and> (case round_of db (dw_round d') of None \<Rightarrow> False | Some r' \<Rightarrow> er_half_year r' = er_half_year r)) (bd_staffing db)"

definition candidate_facts_of :: "absence_db \<Rightarrow> day_row \<Rightarrow> staffing \<Rightarrow> candidate_facts" where
  "candidate_facts_of db d a = (case round_of db (dw_round d) of
     None \<Rightarrow> \<lparr>cf_active = [], cf_regular = [], cf_fallback = [], cf_available = [], cf_conflict_free = []\<rparr>
   | Some r \<Rightarrow>
      let active = filter (\<lambda>m. mb_committee m = er_committee r \<and> mb_active m) (bd_members db);
          staff = filter (\<lambda>s. sf_day s = dw_id d) (bd_staffing db);
          cday = List.find (\<lambda>k. kd_round k = dw_round d \<and> kd_date k = dw_date d) (bd_candidate_days db)
      in \<lparr>cf_active = active,
          cf_regular = map sf_member (filter (\<lambda>s. sf_role s = ''examiner'') staff),
          cf_fallback = map sf_member (filter (\<lambda>s. sf_role s = ''fallback'' \<and> sf_part s \<in> {sf_part a, ''full_day''}) staff),
          cf_available = (case cday of None \<Rightarrow> [] | Some k \<Rightarrow>
             map av_member (filter (\<lambda>v. av_day v = kd_id k \<and> av_value v \<in> {''full_day'', sf_part a}) (bd_availability db))),
          cf_conflict_free = map mb_id (filter (\<lambda>m. \<not> list_ex (\<lambda>s. sf_member s = mb_id m \<and> parts_overlap (sf_part a) (sf_part s))
             (other_staffing db d r)) active)\<rparr>)"

subsection \<open>Writes\<close>

definition insert_report :: "day_row \<Rightarrow> staffing \<Rightarrow> member \<Rightarrow> int \<Rightarrow> int \<Rightarrow> string option \<Rightarrow> absence_status \<Rightarrow>
    absence_db \<Rightarrow> absence_db \<times> absence_report" where
  "insert_report d a t reporter at' reason status db =
     (let r = \<lparr>ab_id = next_id (map ab_id (bd_reports db)), ab_day = dw_id d, ab_assignment = sf_id a, ab_member = mb_id t,
        ab_reporter = reporter, ab_reported_at = at', ab_reason = reason, ab_status = status, ab_selected = None,
        ab_version = 0, ab_updated = None\<rparr>
      in (db\<lparr>bd_reports := bd_reports db @ [r]\<rparr>, r))"

definition insert_response :: "int \<Rightarrow> int \<Rightarrow> int option \<Rightarrow> bool \<Rightarrow> int \<Rightarrow> absence_db \<Rightarrow> absence_db" where
  "insert_response i at' expires urgent m db =
     db\<lparr>bd_responses := bd_responses db @ [\<lparr>an_id = next_id (map an_id (bd_responses db)), an_report = i, an_member = m,
        an_answer = Pending, an_requested_at = at', an_expires_at = expires, an_urgent = urgent, an_responded_at = None\<rparr>]\<rparr>"

definition insert_audit :: "int \<Rightarrow> int \<Rightarrow> audit_type \<Rightarrow> absence_status option \<Rightarrow> absence_status \<Rightarrow> int \<Rightarrow>
    audit_details option \<Rightarrow> absence_db \<Rightarrow> absence_db \<times> int" where
  "insert_audit i actor type fr to' at' details db =
     (let n = next_id (map ae_id (bd_audits db))
      in (db\<lparr>bd_audits := bd_audits db @ [\<lparr>ae_id = n, ae_report = i, ae_actor = actor, ae_type = type, ae_from = fr,
            ae_to = to', ae_details = details, ae_at = at'\<rparr>]\<rparr>, n))"

text \<open>The selected member is written only when the caller says so; the version always counts.\<close>

definition update_report :: "int \<Rightarrow> absence_status \<Rightarrow> int \<Rightarrow> int option option \<Rightarrow> absence_db \<Rightarrow> absence_db" where
  "update_report i status at' selected db = db\<lparr>bd_reports := upd_row ab_id i (\<lambda>r. r\<lparr>ab_status := status,
     ab_selected := (case selected of None \<Rightarrow> ab_selected r | Some s \<Rightarrow> s), ab_version := ab_version r + 1,
     ab_updated := Some at'\<rparr>) (bd_reports db)\<rparr>"

definition update_response :: "int \<Rightarrow> answer \<Rightarrow> int \<Rightarrow> absence_db \<Rightarrow> absence_db" where
  "update_response i answer at' db = db\<lparr>bd_responses := upd_row an_id i (\<lambda>n. n\<lparr>an_answer := answer,
     an_responded_at := Some at'\<rparr>) (bd_responses db)\<rparr>"

text \<open>
  The compare-and-set updates of Planning (\<open>persistence/planning_lifecycle.py\<close>); the table has a
  unique key over day, member, role and day part.
\<close>

definition staffing_unique :: "staffing list \<Rightarrow> bool" where
  "staffing_unique as \<longleftrightarrow> distinct (map (\<lambda>a. (sf_day a, sf_member a, sf_role a, sf_part a)) as)"

definition reassign_absence_assignment :: "int \<Rightarrow> int \<Rightarrow> int \<Rightarrow> int \<Rightarrow> string option \<Rightarrow> absence_db \<Rightarrow>
    absence_error + absence_db" where
  "reassign_absence_assignment i revision expected m fallback db =
     require (list_ex (\<lambda>a. sf_id a = i \<and> sf_revision a = revision \<and> sf_member a = expected) (bd_staffing db)) AbConflict (
     let staff = upd_row sf_id i (\<lambda>a. a\<lparr>sf_member := m, sf_revision := sf_revision a + 1,
         sf_fallback := (case fallback of None \<Rightarrow> sf_fallback a | Some f \<Rightarrow> Some f)\<rparr>) (bd_staffing db)
     in require (staffing_unique staff) AbUniqueViolated (Inr (db\<lparr>bd_staffing := staff\<rparr>)))"

definition restore_absence_assignment :: "int \<Rightarrow> int \<Rightarrow> int \<Rightarrow> int \<Rightarrow> absence_db \<Rightarrow> absence_error + absence_db" where
  "restore_absence_assignment i revision expected m db = reassign_absence_assignment i revision expected m None db"

text \<open>Two further writes of the unit of work, which no use case calls.\<close>

definition update_assignment_member :: "int \<Rightarrow> int \<Rightarrow> string option \<Rightarrow> absence_db \<Rightarrow> absence_error + absence_db" where
  "update_assignment_member i m fallback db = (case staffing_of db i of None \<Rightarrow> Inl AbStaffingMissing
     | Some _ \<Rightarrow> Inr (db\<lparr>bd_staffing := upd_row sf_id i (\<lambda>a. a\<lparr>sf_member := m, sf_revision := sf_revision a + 1,
         sf_fallback := (case fallback of None \<Rightarrow> sf_fallback a | Some f \<Rightarrow> Some f)\<rparr>) (bd_staffing db)\<rparr>))"

definition set_fallback_status :: "int \<Rightarrow> string \<Rightarrow> absence_db \<Rightarrow> absence_error + absence_db" where
  "set_fallback_status i f db = (case staffing_of db i of None \<Rightarrow> Inl AbStaffingMissing
     | Some _ \<Rightarrow> Inr (db\<lparr>bd_staffing := upd_row sf_id i (\<lambda>a. a\<lparr>sf_fallback := Some f\<rparr>) (bd_staffing db)\<rparr>))"

text \<open>The day guard of a report, with the kind and the entity of the mutation.\<close>

definition guard_day :: "absence_db \<Rightarrow> int \<Rightarrow> string \<Rightarrow> int \<Rightarrow> payload \<Rightarrow> int \<Rightarrow> absence_error + day_guard" where
  "guard_day db day kind i p actor = (case day_of (bd_day db) day of None \<Rightarrow> Inl AbDayMissing
     | Some d \<Rightarrow> ae (guard_day_mutation (bd_day db) d kind i (Some p) JNull (Some actor) None))"

definition complete_day :: "day_guard \<Rightarrow> int \<Rightarrow> string option \<Rightarrow> string \<Rightarrow> absence_db \<Rightarrow> absence_db" where
  "complete_day g actor reason now db = db\<lparr>bd_day := complete_day_mutation g actor reason None now (bd_day db)\<rparr>"

definition day_guard_snapshot :: "absence_db \<Rightarrow> day_row \<Rightarrow> day_guard \<Rightarrow> guard_snapshot" where
  "day_guard_snapshot db d g = \<lparr>gp_day = dw_id d, gp_revision = dw_revision d, gp_closure = dw_closure d,
     gp_token = dg_token g, gp_touch = dg_touch g, gp_reopening = dg_reopening g,
     gp_scope = Option.bind (dg_reopening g) (\<lambda>r. map_option dr_scope (List.find (\<lambda>x. dr_id x = r) (dd_reopenings (bd_day db)))),
     gp_late = dg_late g\<rparr>"

end
