(* ===== verification/Absence_Service.thy ===== *)
theory Absence_Service
  imports Absence_Model Assess_Service
begin

text \<open>
  The use cases of the absence and replacement process: \<open>AbsenceService\<close>
  (\<open>execution/absence.py\<close>), the three use cases that \<open>ExamLifecycleService\<close>
  (\<open>application/exam_lifecycle.py\<close>) runs over Execution and Planning together, and the round lock
  they ask first (\<open>persistence/exam_lifecycle.py\<close>). A use case runs in one transaction: an
  exception leaves the database as it was.

  The environment holds the instant a command is run at, the wall clock that day mutations are
  stamped with, and the image of calendar entries before a change, which Calendar computes.
\<close>

record absence_env =
  vn_now :: int
  vn_clock :: string
  vn_before :: "int \<Rightarrow> json list"

subsection \<open>Numbers and times\<close>

text \<open>\<open>int(...)\<close> of a JSON value: a text may have blanks around it, a sign, and single underscores
  between digits; a float is cut towards zero.\<close>

fun underscores_ok :: "string \<Rightarrow> bool" where
  "underscores_ok [] = True"
| "underscores_ok [c] = (c \<noteq> CHR ''_'')"
| "underscores_ok (c # d # r) = (\<not> (c = CHR ''_'' \<and> d = CHR ''_'') \<and> underscores_ok (d # r))"

definition int_literal :: "string \<Rightarrow> int option" where
  "int_literal s = (let (sg, u) = split_sign (strip s); ds = filter (\<lambda>c. c \<noteq> CHR ''_'') u in
     if ds \<noteq> [] \<and> list_all is_digit ds \<and> hd u \<noteq> CHR ''_'' \<and> underscores_ok u then Some (sg * digits_val ds) else None)"

definition json_int :: "json \<Rightarrow> int option" where
  "json_int v = (case v of JInt n \<Rightarrow> Some n | JBool b \<Rightarrow> Some (if b then 1 else 0) | JStr s \<Rightarrow> int_literal s
     | JFloat s \<Rightarrow> (case parse_decimal s of Some (Finite x) \<Rightarrow> Some (if x < 0 then - \<lfloor>- x\<rfloor> else \<lfloor>x\<rfloor>) | _ \<Rightarrow> None)
     | _ \<Rightarrow> None)"

definition required_int :: "payload \<Rightarrow> string \<Rightarrow> absence_error + int" where
  "required_int p k = (case Option.bind (map_of p k) json_int of None \<Rightarrow> Inl AbFieldRequired
     | Some n \<Rightarrow> require (1 \<le> n) AbFieldInvalid (Inr n))"

definition optional_int :: "json \<Rightarrow> absence_error + int option" where
  "optional_int v = (if v = JNull then Inr None else case json_int v of None \<Rightarrow> Inl AbIntInvalid | Some n \<Rightarrow> Inr (Some n))"

definition optional_reason :: "json \<Rightarrow> absence_error + string option" where
  "optional_reason v = (case v of JNull \<Rightarrow> Inr None
     | JStr s \<Rightarrow> require (length s \<le> 500) AbBadReason (Inr (if strip s = [] then None else Some (strip s)))
     | _ \<Rightarrow> Inl AbBadReason)"

definition required_reason :: "payload \<Rightarrow> absence_error + string" where
  "required_reason p = bnd (optional_reason (jget p ''reason'')) (\<lambda>r.
     case r of None \<Rightarrow> Inl AbReasonRequired | Some s \<Rightarrow> Inr s)"

definition check_version :: "absence_report \<Rightarrow> payload \<Rightarrow> absence_error + unit" where
  "check_version r p = (case map_of p ''version'' of None \<Rightarrow> Inr ()
     | Some v \<Rightarrow> (case json_int v of None \<Rightarrow> Inl AbIntInvalid
        | Some n \<Rightarrow> require (n = ab_version r) AbVersionConflict (Inr ())))"

definition second :: int where "second = 1000000"

definition hours :: "int \<Rightarrow> int" where
  "hours n = n * 3600 * second"

definition stamp_of :: "int \<Rightarrow> int" where
  "stamp_of t = t - t mod second"

definition hour_of :: "int \<Rightarrow> int" where
  "hour_of t = t div hours 1 mod 24"

definition epoch_ordinal :: int where "epoch_ordinal = 719163"

subsection \<open>The round lock\<close>

text \<open>A JSON value as SQLite compares it with an integer column; arrays and objects cannot be bound.\<close>

definition integral_text :: "string \<Rightarrow> int option" where
  "integral_text s = (if CHR ''_'' \<in> set s then None else case parse_decimal s of
     Some (Finite x) \<Rightarrow> if x = of_int \<lfloor>x\<rfloor> then Some \<lfloor>x\<rfloor> else None | _ \<Rightarrow> None)"

definition sql_int :: "json \<Rightarrow> absence_error + int option" where
  "sql_int v = (case v of JNull \<Rightarrow> Inr None | JInt n \<Rightarrow> Inr (Some n) | JBool b \<Rightarrow> Inr (Some (if b then 1 else 0))
     | JList _ \<Rightarrow> Inl AbBindInvalid | JObj _ \<Rightarrow> Inl AbBindInvalid
     | JStr s \<Rightarrow> Inr (integral_text s) | JFloat s \<Rightarrow> Inr (integral_text s))"

definition absence_report_mutation_token :: "absence_db \<Rightarrow> int option \<Rightarrow> payload \<Rightarrow> absence_error + (int \<times> string) option" where
  "absence_report_mutation_token db identifier p = (case identifier of
     Some i \<Rightarrow> Inr (Option.bind (report_of db i) (\<lambda>r. Option.bind (day_of (bd_day db) (ab_day r)) (\<lambda>d.
       if dw_round d = 0 then None else Some (dw_round d, ''absence:'' @ int_text i))))
   | None \<Rightarrow> (case jget p ''exam_day_id'' of
       JInt day \<Rightarrow>
         bnd (if jget p ''exam_day_assignment_id'' = JNull \<and> jget p ''committee_member_id'' \<noteq> JNull
              then bnd (sql_int (jget p ''committee_member_id'')) (\<lambda>m. Inr (Option.bind m (\<lambda>m.
                map_option sf_id (List.find (\<lambda>a. sf_day a = day \<and> sf_member a = m) (bd_staffing db)))))
              else Inr (case jget p ''exam_day_assignment_id'' of JInt a \<Rightarrow> Some a | _ \<Rightarrow> None)) (\<lambda>a.
         Inr (Option.bind (day_of (bd_day db) day) (\<lambda>d. if dw_round d = 0 then None
           else Some (dw_round d, case a of None \<Rightarrow> ''unresolved_absence_report'' | Some a \<Rightarrow> ''staffing:'' @ int_text a))))
     | _ \<Rightarrow> Inr None))"

definition assert_mutation_allowed :: "absence_db \<Rightarrow> int option \<Rightarrow> payload \<Rightarrow> absence_error + unit" where
  "assert_mutation_allowed db identifier p = bnd (absence_report_mutation_token db identifier p) (\<lambda>resolved.
     case resolved of None \<Rightarrow> Inr ()
     | Some (rd, token) \<Rightarrow> (case List.find (\<lambda>r. lr_round r = rd) (bd_locks db) of
         None \<Rightarrow> Inl AbRoundMissing
       | Some r \<Rightarrow> if lr_status r = LOpen then Inr ()
           else if lr_status r \<noteq> LReopening then Inl AbRoundLocked
           else (case List.find (\<lambda>x. lo_round x = rd \<and> lo_status x = ''open'') (bd_unlocked db) of
               None \<Rightarrow> Inl AbRoundScope
             | Some x \<Rightarrow> require (token \<in> set (lo_scope x)) AbRoundScope (Inr ()))))"

subsection \<open>Start of an assignment\<close>

definition affected_slots :: "absence_db \<Rightarrow> day_row \<Rightarrow> staffing \<Rightarrow> int list" where
  "affected_slots db d a = (let slots = map snd (filter (\<lambda>s. fst s = dw_id d) (bd_slots db)) in
     if sf_part a = ''full_day'' then slots
     else filter (\<lambda>t. (sf_part a = ''morning'' \<and> hour_of t < 12) \<or> (sf_part a = ''afternoon'' \<and> 12 \<le> hour_of t)) slots)"

definition assignment_start :: "absence_db \<Rightarrow> day_row \<Rightarrow> staffing \<Rightarrow> absence_error + int" where
  "assignment_start db d a = (case affected_slots db d a of
     t # ts \<Rightarrow> Inr (fold min ts t)
   | [] \<Rightarrow> (case fromisoformat (dw_date d) of None \<Rightarrow> Inl AbDateInvalid
        | Some day \<Rightarrow> Inr ((toordinal day - epoch_ordinal) * hours 24)))"

definition assert_before_start :: "absence_db \<Rightarrow> day_row \<Rightarrow> staffing option \<Rightarrow> int \<Rightarrow> absence_error + unit" where
  "assert_before_start db d a now = (if dw_closure d = ClReopening then Inr ()
     else case a of None \<Rightarrow> Inl AbStarted
       | Some a \<Rightarrow> bnd (assignment_start db d a) (\<lambda>s. require (now < s) AbStarted (Inr ())))"

subsection \<open>Eligible members\<close>

definition suits :: "staffing \<Rightarrow> member \<Rightarrow> member \<Rightarrow> bool" where
  "suits a t m \<longleftrightarrow> sf_role a = ''fallback'' \<or> mb_side m = mb_side t"

definition eligible_candidates ::
  "absence_db \<Rightarrow> day_row \<Rightarrow> staffing \<Rightarrow> member \<Rightarrow> int option \<Rightarrow> member list \<times> member option" where
  "eligible_candidates db d a t include =
     (let cf = candidate_facts_of db d a;
          base = filter (\<lambda>m. mb_id m \<noteq> mb_id t \<and> mb_id m \<notin> set (cf_regular cf) \<and> mb_id m \<in> set (cf_available cf)
            \<and> mb_id m \<in> set (cf_conflict_free cf) \<and> suits a t m) (cf_active cf);
          fb = (if sf_role a = ''examiner'' then List.find (\<lambda>m. mb_id m \<in> set (cf_fallback cf)) base else None);
          el = (if sf_role a = ''examiner'' then filter (\<lambda>m. mb_id m \<notin> set (cf_fallback cf)) base else base)
      in (case Option.bind include (\<lambda>i. List.find (\<lambda>m. mb_id m = i) (cf_active cf)) of
            None \<Rightarrow> (el, fb)
          | Some c \<Rightarrow> if mb_id c \<notin> set (map mb_id el) \<and> Some (mb_id c) \<noteq> map_option mb_id fb \<and> mb_id c \<noteq> mb_id t
                \<and> mb_id c \<in> set (cf_available cf) \<and> mb_id c \<in> set (cf_conflict_free cf) \<and> suits a t c
              then (el @ [c], fb) else (el, fb)))"

subsection \<open>Views and sources\<close>

record absence_view =
  vw_report :: absence_report
  vw_day :: day_row
  vw_round :: exam_round
  vw_staffing :: staffing
  vw_responses :: "absence_response list"
  vw_audits :: "absence_audit list"

definition required_view :: "absence_db \<Rightarrow> int \<Rightarrow> absence_error + absence_view" where
  "required_view db i = (case report_context db i of None \<Rightarrow> Inl AbReportMissing
     | Some (r, d, o') \<Rightarrow> (case staffing_of db (ab_assignment r) of None \<Rightarrow> Inl AbStaffingMissing
        | Some a \<Rightarrow> Inr \<lparr>vw_report = r, vw_day = d, vw_round = o', vw_staffing = a,
            vw_responses = sort_key (\<lambda>n. (an_requested_at n, an_id n)) (filter (\<lambda>n. an_report n = i) (bd_responses db)),
            vw_audits = sort_key (\<lambda>e. (ae_at e, ae_id e)) (filter (\<lambda>e. ae_report e = i) (bd_audits db))\<rparr>))"

definition get_view :: "actor \<Rightarrow> int \<Rightarrow> absence_db \<Rightarrow> absence_error + absence_view option" where
  "get_view ac i db = (if report_of db i = None then Inr None else bnd (required_view db i) (\<lambda>v.
     Inr (if er_committee (vw_round v) \<in> set (ac_committees ac) then Some v else None)))"

definition list_views :: "actor \<Rightarrow> absence_db \<Rightarrow> absence_error + absence_view list" where
  "list_views ac db = map_res (\<lambda>r. required_view db (ab_id r))
     (rev (sort_key (\<lambda>r. (ab_reported_at r, ab_id r)) (filter (\<lambda>r. case report_context db (ab_id r) of None \<Rightarrow> False
        | Some (r, d, o') \<Rightarrow> er_committee o' \<in> set (ac_committees ac)) (bd_reports db))))"

definition id_set :: "int list \<Rightarrow> int list" where
  "id_set xs = sort (remdups xs)"

definition record_source :: "consequence_source \<Rightarrow> absence_db \<Rightarrow> absence_db" where
  "record_source s db = db\<lparr>bd_sources := bd_sources db @ [s]\<rparr>"

definition follow_up_source :: "int \<Rightarrow> absence_report \<Rightarrow> staffing \<Rightarrow> day_row \<Rightarrow> exam_round \<Rightarrow> int list \<Rightarrow> notice \<Rightarrow>
    int \<Rightarrow> guard_snapshot \<Rightarrow> bool \<Rightarrow> consequence_source" where
  "follow_up_source audit r a d o' recipients event at' g urgent = \<lparr>cs_audit = audit, cs_report = ab_id r,
     cs_version = ab_version r, cs_assignment = sf_id a, cs_assignment_revision = sf_revision a, cs_previous = sf_member a,
     cs_selected = None, cs_day = dw_id d, cs_closure = dw_closure d, cs_calendar = False, cs_action = Some ''update'',
     cs_round = er_id o', cs_committee = er_committee o', cs_recipients = id_set recipients, cs_event = event,
     cs_urgent = Some urgent, cs_before = [], cs_guard = g, cs_at = at'\<rparr>"

text \<open>
  What the replay of consequences reads: the sources behind the watermark that the migration captured,
  one source by its origin, and the number of older history entries that cannot be replayed.
\<close>

definition sources_after_cutover :: "int option \<Rightarrow> absence_db \<Rightarrow> consequence_source list" where
  "sources_after_cutover watermark db = (case watermark of None \<Rightarrow> [] | Some w \<Rightarrow> filter (\<lambda>s. w < cs_audit s) (bd_sources db))"

definition source_by_origin :: "int option \<Rightarrow> string \<Rightarrow> absence_db \<Rightarrow> consequence_source option" where
  "source_by_origin watermark origin db = (case watermark of None \<Rightarrow> None
     | Some w \<Rightarrow> List.find (\<lambda>s. ''absence-audit:'' @ int_text (cs_audit s) = origin \<and> w < cs_audit s) (bd_sources db))"

definition legacy_unreplayable_count :: "int option \<Rightarrow> absence_db \<Rightarrow> nat" where
  "legacy_unreplayable_count watermark db = (case watermark of None \<Rightarrow> 0
     | Some w \<Rightarrow> length (filter (\<lambda>e. ae_id e \<le> w \<and> ae_id e \<notin> cs_audit ` set (bd_sources db)) (bd_audits db)))"

definition member_for :: "actor \<Rightarrow> int \<Rightarrow> int option" where
  "member_for ac c = map_of (ac_member_by_committee ac) c"

definition actor_or :: "int option \<Rightarrow> int \<Rightarrow> int" where
  "actor_or actor m = (case actor of None \<Rightarrow> m | Some x \<Rightarrow> if x = 0 then m else x)"

definition leads :: "committee_role list" where
  "leads = [ChairRole, DeputyChairRole]"

end
