(* ===== verification/Absence_Cases.thy ===== *)
theory Absence_Cases
  imports Absence_Service
begin

text \<open>
  The use cases that change an absence report: report, respond and withdraw of
  \<open>AbsenceService\<close>, and selection, reopening and cancellation, which also write Planning's
  assignment and the calendar source.
\<close>

definition authorized_report :: "absence_db \<Rightarrow> actor \<Rightarrow> int \<Rightarrow> absence_error + (absence_report \<times> day_row \<times> exam_round)" where
  "authorized_report db ac i = (case report_context db i of None \<Rightarrow> Inl AbReportMissing
     | Some (r, d, o') \<Rightarrow> require (er_committee o' \<in> set (ac_committees ac)) AbInaccessible (Inr (r, d, o')))"

definition with_absence_view :: "int \<Rightarrow> absence_db \<Rightarrow> absence_error + (absence_db \<times> absence_view)" where
  "with_absence_view i db = bnd (required_view db i) (\<lambda>v. Inr (db, v))"

subsection \<open>Report\<close>

definition known_statuses :: "absence_status set" where
  "known_statuses = {AbReported, AbFallbackRequested, AbFallbackConfirmed, AbFallbackExpired, AbReplacementRequested,
     AbReplacementSelected, AbResolved, AbWithdrawn, AbDayCancelled}"

definition payload_target :: "absence_db \<Rightarrow> payload \<Rightarrow> absence_error + (day_row \<times> exam_round \<times> staffing \<times> member)" where
  "payload_target db p =
     bnd (required_int p ''exam_day_id'') (\<lambda>day.
     bnd (optional_int (jget p ''exam_day_assignment_id'')) (\<lambda>a.
     bnd (optional_int (jget p ''committee_member_id'')) (\<lambda>m.
     case target db day a m of None \<Rightarrow> Inl AbTargetMissing | Some x \<Rightarrow> Inr x)))"

text \<open>Whom a report asks, until when, and the status it starts with.\<close>

definition first_requests :: "staffing \<Rightarrow> bool \<Rightarrow> int \<Rightarrow> member list \<times> member option \<Rightarrow> int list \<times> int option \<times> absence_status" where
  "first_requests a urgent now c = (case c of (eligible, fallback) \<Rightarrow>
     (case fallback of
        Some f \<Rightarrow> if sf_role a = ''examiner'' \<and> \<not> urgent
          then ([mb_id f], Some (stamp_of (now + hours 24)), AbFallbackRequested)
          else (let ids = map mb_id eligible @ (if urgent then [mb_id f] else [])
                in (ids, None, if ids = [] then AbNoReplacement else AbReplacementRequested))
      | None \<Rightarrow> (map mb_id eligible, None, if eligible = [] then AbNoReplacement else AbReplacementRequested)))"

definition ask_members :: "int \<Rightarrow> int \<Rightarrow> bool \<Rightarrow> int option \<Rightarrow> int option \<Rightarrow> int list \<Rightarrow> absence_db \<Rightarrow> absence_db" where
  "ask_members i at' urgent expires fb ids db = fold (\<lambda>m. insert_response i at' (if fb = Some m then expires else None) urgent m)
     (id_set ids) db"

text \<open>The writes of a report, after every check.\<close>

definition file_report :: "absence_env \<Rightarrow> day_row \<Rightarrow> exam_round \<Rightarrow> staffing \<Rightarrow> member \<Rightarrow> int \<Rightarrow> day_guard \<Rightarrow> bool \<Rightarrow>
    member list \<times> member option \<Rightarrow> string option \<Rightarrow> absence_db \<Rightarrow> absence_error + (absence_db \<times> absence_view)" where
  "file_report e d o' a t actor g urgent c reason db = (let at' = stamp_of (vn_now e) in
     case first_requests a urgent (vn_now e) c of (ids, expires, status) \<Rightarrow>
     case insert_report d a t actor at' reason status db of (db, r) \<Rightarrow>
     let db = ask_members (ab_id r) at' urgent expires (map_option mb_id (snd c)) ids db in
     case insert_audit (ab_id r) actor EvReported None status at' None db of (db, audit) \<Rightarrow>
     let gs = day_guard_snapshot db d g;
         db = complete_day g actor (ab_reason r) (vn_clock e) db;
         notify = actor # mb_id t # notification_recipients db (er_committee o') (Some leads) None @ ids;
         db = record_source (follow_up_source audit r a d o' notify (if urgent then NoticeUrgent else NoticeReported) at' gs urgent) db
     in with_absence_view (ab_id r) db)"

definition report_absence :: "absence_env \<Rightarrow> actor \<Rightarrow> payload \<Rightarrow> absence_db \<Rightarrow> absence_error + (absence_db \<times> absence_view)" where
  "report_absence e ac p db =
     bnd (assert_mutation_allowed db None p) (\<lambda>_.
     bnd (payload_target db p) (\<lambda>(d, o', a, t).
     case member_for ac (er_committee o') of None \<Rightarrow> Inl AbNotMember | Some actor \<Rightarrow>
     require (can_manage ac (er_committee o') \<or> actor = mb_id t) AbNotOwn (
     bnd (assert_before_start db d (Some a) (vn_now e)) (\<lambda>_.
     require (er_status o' = PlConfirmed \<and> dw_status d = DyConfirmed) AbNotConfirmed (
     require (\<not> active_report_exists db (sf_id a) known_statuses) AbDuplicate (
     bnd (guard_day db (dw_id d) ''staffing'' (sf_id a) p actor) (\<lambda>g.
     bnd (assignment_start db d a) (\<lambda>start.
     bnd (optional_reason (jget p ''reason'')) (\<lambda>reason.
     file_report e d o' a t actor g (start < vn_now e + hours 48) (eligible_candidates db d a t None) reason db)))))))))"

subsection \<open>Answers\<close>

definition open_further_search ::
  "absence_db \<Rightarrow> absence_report \<Rightarrow> day_row \<Rightarrow> absence_status \<Rightarrow> int \<Rightarrow> absence_db \<times> absence_status" where
  "open_further_search db r d initial now = (case (staffing_of db (ab_assignment r), member_of db (ab_member r)) of
     (Some a, Some t) \<Rightarrow>
       (let eligible = map mb_id (fst (eligible_candidates db d a t None));
            status = (if eligible = [] then AbNoReplacement else AbReplacementRequested);
            asked = response_member_ids db (ab_id r);
            db = fold (insert_response (ab_id r) (stamp_of now) None True) (filter (\<lambda>m. m \<notin> set asked) eligible) db
        in (fst (insert_audit (ab_id r) (ab_reporter r) EvSearchOpened (Some initial) status (stamp_of now) None db), status))
   | _ \<Rightarrow> (db, initial))"

definition response_report_status ::
  "absence_db \<Rightarrow> absence_report \<Rightarrow> day_row \<Rightarrow> int \<Rightarrow> answer \<Rightarrow> bool \<Rightarrow> int \<Rightarrow> absence_db \<times> absence_status" where
  "response_report_status db r d m answer expired now =
     (if ab_status r \<noteq> AbFallbackRequested then (db, ab_status r)
      else if answer = Available then (db, AbFallbackConfirmed)
      else if expired then open_further_search
        (fst (insert_audit (ab_id r) m EvFallbackExpired (Some (ab_status r)) AbFallbackExpired (stamp_of now) None db))
        r d AbFallbackExpired now
      else open_further_search db r d (ab_status r) now)"

definition parse_answer :: "json \<Rightarrow> absence_error + answer" where
  "parse_answer v = (case v of JStr s \<Rightarrow> if s = ''available'' then Inr Available
       else if s = ''unavailable'' then Inr Unavailable else Inl AbAnswerUnknown
     | JList _ \<Rightarrow> Inl AbAnswerUnhashable | JObj _ \<Rightarrow> Inl AbAnswerUnhashable | _ \<Rightarrow> Inl AbAnswerUnknown)"

definition record_answer_source :: "int \<Rightarrow> int \<Rightarrow> int \<Rightarrow> day_row \<Rightarrow> exam_round \<Rightarrow> int list \<Rightarrow> notice \<Rightarrow> int \<Rightarrow> guard_snapshot \<Rightarrow>
    absence_db \<Rightarrow> absence_db" where
  "record_answer_source audit i assignment d o' recipients event at' gs db =
     (case (staffing_of db assignment, report_of db i) of
        (Some a, Some r) \<Rightarrow> record_source (follow_up_source audit r a d o' recipients event at' gs False) db
      | _ \<Rightarrow> db)"

definition respond_absence :: "absence_env \<Rightarrow> actor \<Rightarrow> int \<Rightarrow> payload \<Rightarrow> absence_db \<Rightarrow> absence_error + (absence_db \<times> absence_view)" where
  "respond_absence e ac n p db = (let now = vn_now e; at' = stamp_of now in
     case response_of db n of None \<Rightarrow> Inl AbInaccessible | Some q \<Rightarrow>
     require (an_member q \<in> set (ac_members ac)) AbInaccessible (
     case report_context db (an_report q) of None \<Rightarrow> Inl AbInaccessible | Some (r, d, o') \<Rightarrow>
     require (er_committee o' \<in> set (ac_committees ac)) AbInaccessible (
     bnd (assert_mutation_allowed db (Some (ab_id r)) p) (\<lambda>_.
     bnd (parse_answer (jget p ''response'')) (\<lambda>given.
     require (an_answer q = Pending) AbAnswered (
     bnd (guard_day db (dw_id d) ''absence'' (ab_id r) p (an_member q)) (\<lambda>g.
     let expired = (case an_expires_at q of None \<Rightarrow> False | Some x \<Rightarrow> x \<le> now);
         answer = (if expired then Unavailable else given);
         db = update_response n answer at' db in
     case response_report_status db r d (an_member q) answer expired now of (db, status) \<Rightarrow>
     let db = update_report (ab_id r) status at' None db in
     case insert_audit (ab_id r) (an_member q) EvResponse (Some (ab_status r)) status at' None db of (db, audit) \<Rightarrow>
     let recipients = notification_recipients db (er_committee o') (Some leads) None @ response_member_ids db (ab_id r);
         event = (if expired then NoticeExpired else if status = AbReplacementRequested then NoticeRequested else NoticeConfirmation);
         gs = day_guard_snapshot db d g;
         db = complete_day g (an_member q) None (vn_clock e) db;
         db = record_answer_source audit (ab_id r) (ab_assignment r) d o' recipients event at' gs db
     in with_absence_view (ab_id r) db)))))))"

subsection \<open>Withdrawal\<close>

definition withdraw_absence :: "absence_env \<Rightarrow> actor \<Rightarrow> int \<Rightarrow> payload \<Rightarrow> absence_db \<Rightarrow> absence_error + (absence_db \<times> absence_view)" where
  "withdraw_absence e ac i p db = (let now = vn_now e; at' = stamp_of now in
     bnd (authorized_report db ac i) (\<lambda>(r, d, o').
     bnd (assert_mutation_allowed db (Some (ab_id r)) p) (\<lambda>_.
     let actor = member_for ac (er_committee o') in
     require (actor = Some (ab_member r) \<or> can_manage ac (er_committee o')) AbNotOwn (
     bnd (assert_before_start db d (staffing_of db (ab_assignment r)) now) (\<lambda>_.
     require (ab_selected r = None) AbAlreadySelected (
     let actor = actor_or actor (ab_member r) in
     bnd (guard_day db (dw_id d) ''absence'' (ab_id r) p actor) (\<lambda>g.
     let db = update_report (ab_id r) AbWithdrawn at' None db;
         db = fst (insert_audit (ab_id r) actor EvWithdrawn (Some (ab_status r)) AbWithdrawn at' None db);
         db = complete_day g actor None (vn_clock e) db
     in with_absence_view (ab_id r) db)))))))"

subsection \<open>Selection of a replacement\<close>

definition require_replacement_selection ::
  "absence_db \<Rightarrow> absence_report \<Rightarrow> day_row \<Rightarrow> exam_round \<Rightarrow> actor \<Rightarrow> payload \<Rightarrow> int \<Rightarrow> absence_error + int" where
  "require_replacement_selection db r d o' ac p now =
     require (can_manage ac (er_committee o')) AbLeadOnly (
     bnd (assert_before_start db d (staffing_of db (ab_assignment r)) now) (\<lambda>_.
     require (ab_status r \<in> {AbFallbackConfirmed, AbReplacementRequested, AbFallbackExpired}) AbNotSelectable (
     bnd (check_version r p) (\<lambda>_.
     case member_for ac (er_committee o') of None \<Rightarrow> Inl AbForbidden | Some actor \<Rightarrow> Inr actor))))"

definition available_replacement :: "absence_db \<Rightarrow> absence_report \<Rightarrow> day_row \<Rightarrow> int \<Rightarrow> absence_error + (staffing \<times> member)" where
  "available_replacement db r d m = bnd (required_view db (ab_id r)) (\<lambda>v.
     require (list_ex (\<lambda>n. an_member n = m \<and> an_answer n = Available) (vw_responses v)) AbNoAnswer (
     case (staffing_of db (ab_assignment r), member_of db (ab_member r), member_of db m) of
       (Some a, Some t, Some x) \<Rightarrow>
         (case eligible_candidates db d a t (Some m) of (el, fb) \<Rightarrow>
            require (mb_id x \<in> set (map mb_id el) \<or> Some (mb_id x) = map_option mb_id fb) AbNotEligible (Inr (a, x)))
     | _ \<Rightarrow> Inl AbStaffingMissing))"

text \<open>The sources of the three use cases that write an assignment.\<close>

definition assignment_source :: "int \<Rightarrow> int \<Rightarrow> int \<Rightarrow> staffing \<Rightarrow> int \<Rightarrow> day_row \<Rightarrow> exam_round \<Rightarrow> bool \<Rightarrow> string option \<Rightarrow> int list \<Rightarrow>
    notice \<Rightarrow> json list \<Rightarrow> guard_snapshot \<Rightarrow> int \<Rightarrow> consequence_source" where
  "assignment_source audit report version a selected d o' calendar action recipients event prior gs at' =
     \<lparr>cs_audit = audit, cs_report = report, cs_version = version, cs_assignment = sf_id a,
      cs_assignment_revision = sf_revision a + 1, cs_previous = sf_member a, cs_selected = Some selected, cs_day = dw_id d,
      cs_closure = dw_closure d, cs_calendar = calendar, cs_action = action, cs_round = er_id o',
      cs_committee = er_committee o', cs_recipients = id_set recipients, cs_event = event, cs_urgent = None,
      cs_before = prior, cs_guard = gs, cs_at = at'\<rparr>"

definition select_absence_replacement :: "absence_env \<Rightarrow> actor \<Rightarrow> int \<Rightarrow> payload \<Rightarrow> absence_db \<Rightarrow> absence_error + (absence_db \<times> absence_view)" where
  "select_absence_replacement e ac i p db = (let now = vn_now e; at' = stamp_of now in
     case report_context db i of None \<Rightarrow> Inl AbReportMissing | Some (r, d, o') \<Rightarrow>
     bnd (assert_mutation_allowed db (Some (ab_id r)) p) (\<lambda>_.
     bnd (require_replacement_selection db r d o' ac p now) (\<lambda>actor.
     bnd (guard_day db (dw_id d) ''absence'' (ab_id r) p actor) (\<lambda>g.
     bnd (required_int p ''committee_member_id'') (\<lambda>m.
     bnd (available_replacement db r d m) (\<lambda>(a, x).
     let calendar = dw_closure d = ClOpen; prior = (if calendar then vn_before e (sf_id a) else []) in
     bnd (reassign_absence_assignment (sf_id a) (sf_revision a) (sf_member a) (mb_id x)
       (if sf_role a = ''fallback'' then Some ''confirmed'' else None) db) (\<lambda>db.
     let db = update_report (ab_id r) AbReplacementSelected at' (Some (Some (mb_id x))) db in
     case insert_audit (ab_id r) actor EvSelected (Some (ab_status r)) AbReplacementSelected at' (Some (DtMember (mb_id x))) db of (db, audit) \<Rightarrow>
     let gs = day_guard_snapshot db d g;
         db = complete_day g actor None (vn_clock e) db;
         recipients = sf_member a # mb_id x # notification_recipients db (er_committee o') None (Some (mb_id x));
         db = record_source (assignment_source audit (ab_id r) (ab_version r + 1) a (mb_id x) d o' calendar None recipients
           NoticeSelected prior gs at') db
     in with_absence_view (ab_id r) db)))))))"

subsection \<open>Reopening\<close>

definition reopenable :: "absence_status \<Rightarrow> bool" where
  "reopenable s \<longleftrightarrow> s \<in> {AbReplacementSelected, AbResolved, AbDayCancelled}"

text \<open>A selected replacement gives way to the original member; otherwise only the revision advances.\<close>

definition restore_original :: "absence_report \<Rightarrow> staffing \<Rightarrow> absence_db \<Rightarrow> absence_error + absence_db" where
  "restore_original r a db = (if ab_selected r \<noteq> None
     then restore_absence_assignment (sf_id a) (sf_revision a) (sf_member a) (ab_member r) db
     else reassign_absence_assignment (sf_id a) (sf_revision a) (sf_member a) (sf_member a) None db)"

definition reopen_recipients :: "absence_db \<Rightarrow> absence_report \<Rightarrow> exam_round \<Rightarrow> int list" where
  "reopen_recipients db r o' = ab_member r # ab_reporter r # notification_recipients db (er_committee o') None None
     @ (case ab_selected r of None \<Rightarrow> [] | Some s \<Rightarrow> [s])"

definition reopen_absence :: "absence_env \<Rightarrow> actor \<Rightarrow> int \<Rightarrow> payload \<Rightarrow> absence_db \<Rightarrow> absence_error + (absence_db \<times> absence_view)" where
  "reopen_absence e ac i p db = (let now = vn_now e; at' = stamp_of now in
     bnd (required_reason p) (\<lambda>reason.
     bnd (authorized_report db ac i) (\<lambda>(r, d, o').
     bnd (assert_mutation_allowed db (Some (ab_id r)) p) (\<lambda>_.
     require (can_manage ac (er_committee o')) AbLeadOnly (
     case staffing_of db (ab_assignment r) of None \<Rightarrow> Inl AbStaffingMissing | Some a \<Rightarrow>
     bnd (assert_before_start db d (Some a) now) (\<lambda>_.
     require (reopenable (ab_status r)) AbNotReopenable (
     let actor = actor_or (member_for ac (er_committee o')) (ab_member r) in
     bnd (guard_day db (dw_id d) ''absence'' (ab_id r) p actor) (\<lambda>g.
     let calendar = dw_closure d = ClOpen; prior = (if calendar then vn_before e (sf_id a) else []) in
     bnd (restore_original r a db) (\<lambda>db.
     let db = update_report (ab_id r) AbReplacementRequested at' (Some None) db in
     case insert_audit (ab_id r) actor EvReopened (Some (ab_status r)) AbReplacementRequested at' (Some (DtReason reason)) db of (db, audit) \<Rightarrow>
     let gs = day_guard_snapshot db d g;
         db = complete_day g actor (Some reason) (vn_clock e) db;
         recipients = reopen_recipients db r o';
         db = record_source (assignment_source audit (ab_id r) (ab_version r + 1) a (ab_member r) d o' calendar None recipients
           NoticeReopened prior gs at') db
     in with_absence_view (ab_id r) db)))))))))"

subsection \<open>Cancellation\<close>

definition cancel_absence :: "absence_env \<Rightarrow> actor \<Rightarrow> int \<Rightarrow> payload \<Rightarrow> absence_db \<Rightarrow> absence_error + (absence_db \<times> absence_view)" where
  "cancel_absence e ac i p db = (let now = vn_now e; at' = stamp_of now in
     bnd (required_reason p) (\<lambda>reason.
     bnd (authorized_report db ac i) (\<lambda>(r, d, o').
     bnd (assert_mutation_allowed db (Some (ab_id r)) p) (\<lambda>_.
     require (can_manage ac (er_committee o')) AbLeadOnly (
     require (ab_status r \<notin> {AbWithdrawn, AbDayCancelled}) AbFinished (
     case staffing_of db (ab_assignment r) of None \<Rightarrow> Inl AbStaffingMissing | Some a \<Rightarrow>
     bnd (assert_before_start db d (Some a) now) (\<lambda>_.
     let actor = actor_or (member_for ac (er_committee o')) (ab_member r) in
     bnd (guard_day db (dw_id d) ''absence'' (ab_id r) p actor) (\<lambda>g.
     let calendar = dw_closure d = ClOpen; prior = (if calendar then vn_before e (sf_id a) else []) in
     bnd (reassign_absence_assignment (sf_id a) (sf_revision a) (sf_member a) (sf_member a) None db) (\<lambda>db.
     let db = update_report (ab_id r) AbDayCancelled at' None db in
     case insert_audit (ab_id r) actor EvCancelled (Some (ab_status r)) AbDayCancelled at' (Some (DtReason reason)) db of (db, audit) \<Rightarrow>
     let gs = day_guard_snapshot db d g;
         db = complete_day g actor (Some reason) (vn_clock e) db;
         db = record_source (assignment_source audit (ab_id r) (ab_version r + 1) a (sf_member a) d o' calendar (Some ''cancel'') []
           NoticeCancelled prior gs at') db
     in with_absence_view (ab_id r) db)))))))))"

end
