(* ===== verification/Absence_Inv.thy ===== *)
theory Absence_Inv
  imports Absence_Cases
begin

text \<open>
  The invariant of the absence tables: keys and references as the schema demands them, one request
  per member and never to the absent one, an answer exactly with its time, a selected member exactly
  where the status has one, and a history whose last entry is the status and that counts the
  versions.
\<close>

subsection \<open>The invariant\<close>

definition parties :: "absence_db \<Rightarrow> (int \<times> int) list" where
  "parties db = map (\<lambda>r. (ab_id r, ab_member r)) (bd_reports db)"

definition asked :: "absence_db \<Rightarrow> (int \<times> int) list" where
  "asked db = map (\<lambda>n. (an_report n, an_member n)) (bd_responses db)"

definition keys_ok :: "absence_db \<Rightarrow> bool" where
  "keys_ok db \<longleftrightarrow> distinct (map fst (parties db)) \<and> distinct (map an_id (bd_responses db))
     \<and> distinct (map ae_id (bd_audits db)) \<and> distinct (map sf_id (bd_staffing db)) \<and> staffing_unique (bd_staffing db)
     \<and> distinct (map mb_id (bd_members db)) \<and> distinct (asked db)
     \<and> fst ` set (asked db) \<subseteq> fst ` set (parties db) \<and> ae_report ` set (bd_audits db) \<subseteq> fst ` set (parties db)
     \<and> set (asked db) \<inter> set (parties db) = {}"

definition answers_ok :: "absence_db \<Rightarrow> bool" where
  "answers_ok db \<longleftrightarrow> (\<forall>n \<in> set (bd_responses db). an_answer n = Pending \<longleftrightarrow> an_responded_at n = None)"

definition selected_ok :: "absence_report \<Rightarrow> bool" where
  "selected_ok r \<longleftrightarrow> (ab_status r = AbReplacementSelected \<longrightarrow> ab_selected r \<noteq> None)
     \<and> (ab_selected r \<noteq> None \<longrightarrow> ab_status r \<in> {AbReplacementSelected, AbDayCancelled})"

text \<open>The history entries that stand for a new version of the report.\<close>

definition counted :: "absence_audit \<Rightarrow> bool" where
  "counted e \<longleftrightarrow> ae_type e \<notin> {EvReported, EvFallbackExpired, EvSearchOpened}"

definition report_history :: "absence_db \<Rightarrow> int \<Rightarrow> absence_audit list" where
  "report_history db i = filter (\<lambda>e. ae_report e = i) (bd_audits db)"

definition trail_ok :: "absence_db \<Rightarrow> bool" where
  "trail_ok db \<longleftrightarrow> (\<forall>r \<in> set (bd_reports db). report_history db (ab_id r) \<noteq> [] \<and> ae_to (last (report_history db (ab_id r))) = ab_status r
     \<and> ab_version r = int (length (filter counted (report_history db (ab_id r)))))"

definition absence_inv :: "absence_db \<Rightarrow> bool" where
  "absence_inv db \<longleftrightarrow> keys_ok db \<and> answers_ok db \<and> list_all selected_ok (bd_reports db) \<and> trail_ok db"

subsection \<open>What each write changes\<close>

lemma frame_complete [simp]:
  "bd_reports (complete_day g a rs now db) = bd_reports db" "bd_responses (complete_day g a rs now db) = bd_responses db"
  "bd_audits (complete_day g a rs now db) = bd_audits db" "bd_staffing (complete_day g a rs now db) = bd_staffing db"
  "bd_members (complete_day g a rs now db) = bd_members db"
  "bd_day (complete_day g a rs now db) = complete_day_mutation g a rs None now (bd_day db)"
  by (simp_all add: complete_day_def)

lemma frame_source [simp]:
  "bd_reports (record_source s db) = bd_reports db" "bd_responses (record_source s db) = bd_responses db"
  "bd_audits (record_source s db) = bd_audits db" "bd_staffing (record_source s db) = bd_staffing db"
  "bd_members (record_source s db) = bd_members db" "bd_day (record_source s db) = bd_day db"
  by (simp_all add: record_source_def)

lemma frame_audit [simp]:
  "bd_reports (fst (insert_audit i a t f s at' d db)) = bd_reports db"
  "bd_responses (fst (insert_audit i a t f s at' d db)) = bd_responses db"
  "bd_staffing (fst (insert_audit i a t f s at' d db)) = bd_staffing db"
  "bd_members (fst (insert_audit i a t f s at' d db)) = bd_members db"
  "bd_day (fst (insert_audit i a t f s at' d db)) = bd_day db"
  by (simp_all add: insert_audit_def Let_def)

lemma frame_update_report [simp]:
  "bd_responses (update_report i s at' sel db) = bd_responses db" "bd_audits (update_report i s at' sel db) = bd_audits db"
  "bd_staffing (update_report i s at' sel db) = bd_staffing db" "bd_members (update_report i s at' sel db) = bd_members db"
  "bd_day (update_report i s at' sel db) = bd_day db"
  by (simp_all add: update_report_def)

lemma frame_update_response [simp]:
  "bd_reports (update_response i s at' db) = bd_reports db" "bd_audits (update_response i s at' db) = bd_audits db"
  "bd_staffing (update_response i s at' db) = bd_staffing db" "bd_members (update_response i s at' db) = bd_members db"
  "bd_day (update_response i s at' db) = bd_day db"
  by (simp_all add: update_response_def)

lemma frame_insert_response [simp]:
  "bd_reports (insert_response i at' x u m db) = bd_reports db" "bd_audits (insert_response i at' x u m db) = bd_audits db"
  "bd_staffing (insert_response i at' x u m db) = bd_staffing db" "bd_members (insert_response i at' x u m db) = bd_members db"
  "bd_day (insert_response i at' x u m db) = bd_day db"
  by (simp_all add: insert_response_def)

lemma frame_insert_responses [simp]:
  "bd_reports (fold (\<lambda>m. insert_response i at' (x m) u m) ms db) = bd_reports db"
  "bd_audits (fold (\<lambda>m. insert_response i at' (x m) u m) ms db) = bd_audits db"
  "bd_staffing (fold (\<lambda>m. insert_response i at' (x m) u m) ms db) = bd_staffing db"
  "bd_members (fold (\<lambda>m. insert_response i at' (x m) u m) ms db) = bd_members db"
  "bd_day (fold (\<lambda>m. insert_response i at' (x m) u m) ms db) = bd_day db"
  by (induction ms arbitrary: db) simp_all

lemma parties_simps [simp]: "parties (complete_day g a rs now db) = parties db" "parties (record_source s db) = parties db"
  "parties (fst (insert_audit i a t f st at' d db)) = parties db" "parties (update_report i st at' sel db) = parties db"
  "parties (update_response i an at' db) = parties db" "parties (fold (\<lambda>m. insert_response i at' (x m) u m) ms db) = parties db"
  by (simp_all add: parties_def update_report_def upd_row_def)

lemma parties_insert [simp]: "parties (insert_response i at' x u m db) = parties db"
  by (simp add: parties_def)

lemma asked_insert [simp]: "asked (insert_response i at' x u m db) = asked db @ [(i, m)]"
  by (simp add: asked_def insert_response_def)

lemma asked_simps [simp]: "asked (complete_day g a rs now db) = asked db" "asked (record_source s db) = asked db"
  "asked (fst (insert_audit i a t f st at' d db)) = asked db" "asked (update_report i st at' sel db) = asked db"
  "asked (update_response i an at' db) = asked db"
  by (simp_all add: asked_def update_response_def upd_row_def)

lemma audit_ids: "bd_audits (fst (insert_audit i a t f s at' d db)) = bd_audits db @ [\<lparr>ae_id = next_id (map ae_id (bd_audits db)),
    ae_report = i, ae_actor = a, ae_type = t, ae_from = f, ae_to = s, ae_details = d, ae_at = at'\<rparr>]"
  by (simp add: insert_audit_def Let_def)

lemma response_ids_update [simp]: "map an_id (bd_responses (update_response i an at' db)) = map an_id (bd_responses db)"
  by (simp add: update_response_def map_key_upd_row)

subsection \<open>Keys\<close>

lemma keys_frame [simp]: "keys_ok (complete_day g a rs now db) = keys_ok db" "keys_ok (record_source s db) = keys_ok db"
  "keys_ok (update_report i st at' sel db) = keys_ok db" "keys_ok (update_response i an at' db) = keys_ok db"
  by (simp_all add: keys_ok_def)

lemma keys_insert_audit: "keys_ok db \<Longrightarrow> i \<in> fst ` set (parties db) \<Longrightarrow> keys_ok (fst (insert_audit i a t f s at' d db))"
  using next_id_fresh[of "map ae_id (bd_audits db)"] by (simp add: keys_ok_def audit_ids del: next_id_fresh)

lemma keys_insert_response:
  assumes "keys_ok db" "i \<in> fst ` set (parties db)" "(i, m) \<notin> set (asked db)" "(i, m) \<notin> set (parties db)"
  shows "keys_ok (insert_response i at' x u m db)"
proof -
  have "parties (insert_response i at' x u m db) = parties db" "asked (insert_response i at' x u m db) = asked db @ [(i, m)]"
    "map an_id (bd_responses (insert_response i at' x u m db)) = map an_id (bd_responses db) @ [next_id (map an_id (bd_responses db))]"
    by (simp_all add: insert_response_def parties_def asked_def)
  with assms show ?thesis using next_id_fresh[of "map an_id (bd_responses db)"] by (simp add: keys_ok_def del: next_id_fresh)
qed

lemma asked_inserts: "asked (fold (\<lambda>m. insert_response i at' (x m) u m) ms db) = asked db @ map (Pair i) ms"
  by (induction ms arbitrary: db) (simp_all add: asked_def insert_response_def)

lemma keys_insert_responses:
  assumes "keys_ok db" "i \<in> fst ` set (parties db)" "distinct ms" "Pair i ` set ms \<inter> (set (asked db) \<union> set (parties db)) = {}"
  shows "keys_ok (fold (\<lambda>m. insert_response i at' (x m) u m) ms db)"
  using assms
proof (induction ms arbitrary: db)
  case (Cons m ms)
  have "keys_ok (insert_response i at' (x m) u m db)" using Cons.prems by (intro keys_insert_response) auto
  moreover have "Pair i ` set ms \<inter> (set (asked (insert_response i at' (x m) u m db))
      \<union> set (parties (insert_response i at' (x m) u m db))) = {}"
    using Cons.prems(3,4) by auto
  ultimately show ?case using Cons.prems(2,3) by (simp add: Cons.IH)
qed simp

lemma reassign_Inr:
  assumes "reassign_absence_assignment i v x m f db = Inr db'"
  shows "\<exists>staff. db' = db\<lparr>bd_staffing := staff\<rparr> \<and> map sf_id staff = map sf_id (bd_staffing db) \<and> staffing_unique staff
    \<and> staff = upd_row sf_id i (\<lambda>a. a\<lparr>sf_member := m, sf_revision := sf_revision a + 1,
        sf_fallback := (case f of None \<Rightarrow> sf_fallback a | Some f \<Rightarrow> Some f)\<rparr>) (bd_staffing db)
    \<and> (\<exists>a \<in> set (bd_staffing db). sf_id a = i \<and> sf_revision a = v \<and> sf_member a = x)"
  using assms by (simp add: reassign_absence_assignment_def Let_def ok_iff list_ex_iff map_key_upd_row)

lemma keys_staffing: "keys_ok db \<Longrightarrow> map sf_id staff = map sf_id (bd_staffing db) \<Longrightarrow> staffing_unique staff
    \<Longrightarrow> keys_ok (db\<lparr>bd_staffing := staff\<rparr>)"
  by (simp add: keys_ok_def parties_def asked_def)

lemma keys_reassign: "keys_ok db \<Longrightarrow> reassign_absence_assignment i v x m f db = Inr db' \<Longrightarrow> keys_ok db'"
  by (drule reassign_Inr) (auto intro: keys_staffing)

subsection \<open>Histories\<close>

text \<open>
  One step of a report: its row gets the new status and version, and history entries of this report
  are appended, the last with the new status and exactly one of them counted.
\<close>

definition stepped :: "int \<Rightarrow> absence_status \<Rightarrow> absence_db \<Rightarrow> absence_db \<Rightarrow> bool" where
  "stepped i st db db' \<longleftrightarrow> (\<exists>f es. bd_reports db' = upd_row ab_id i f (bd_reports db)
     \<and> (\<forall>r. ab_id (f r) = ab_id r \<and> ab_status (f r) = st \<and> ab_version (f r) = ab_version r + 1)
     \<and> bd_audits db' = bd_audits db @ es \<and> es \<noteq> [] \<and> list_all (\<lambda>e. ae_report e = i) es \<and> ae_to (last es) = st
     \<and> length (filter counted es) = 1)"

lemma history_append: "bd_audits db' = bd_audits db @ es \<Longrightarrow> list_all (\<lambda>e. ae_report e = i) es \<Longrightarrow>
    report_history db' j = report_history db j @ (if j = i then es else [])"
  by (induction es) (auto simp: report_history_def list_all_iff filter_empty_conv filter_id_conv)

lemma trail_stepped:
  assumes "trail_ok db" "stepped i st db db'"
  shows "trail_ok db'"
proof -
  from assms(2) obtain f es where f: "bd_reports db' = upd_row ab_id i f (bd_reports db)"
    "\<And>r. ab_id (f r) = ab_id r \<and> ab_status (f r) = st \<and> ab_version (f r) = ab_version r + 1"
    and es: "bd_audits db' = bd_audits db @ es" "es \<noteq> []" "list_all (\<lambda>e. ae_report e = i) es" "ae_to (last es) = st"
      "length (filter counted es) = 1"
    by (auto simp: stepped_def)
  note h = history_append[OF es(1,3)]
  show ?thesis
    unfolding trail_ok_def f(1) set_upd_row
  proof (intro ballI)
    fix r' assume "r' \<in> (\<lambda>x. if ab_id x = i then f x else x) ` set (bd_reports db)"
    then obtain r where r: "r \<in> set (bd_reports db)" "r' = (if ab_id r = i then f r else r)" by blast
    with assms(1) have "report_history db (ab_id r) \<noteq> []" "ae_to (last (report_history db (ab_id r))) = ab_status r"
      "ab_version r = int (length (filter counted (report_history db (ab_id r))))" by (auto simp: trail_ok_def)
    then show "report_history db' (ab_id r') \<noteq> [] \<and> ae_to (last (report_history db' (ab_id r'))) = ab_status r'
        \<and> ab_version r' = int (length (filter counted (report_history db' (ab_id r'))))"
      using r(2) f(2)[of r] es(2,4,5) by (cases "ab_id r = i") (simp_all add: h)
  qed
qed

lemma trail_ok_cong: "bd_reports db' = bd_reports db \<Longrightarrow> bd_audits db' = bd_audits db \<Longrightarrow> trail_ok db' = trail_ok db"
  by (simp add: trail_ok_def report_history_def)

lemma inv_frame [simp]: "absence_inv (complete_day g a rs now db) = absence_inv db"
  "absence_inv (record_source s db) = absence_inv db"
  by (simp_all add: absence_inv_def answers_ok_def trail_ok_def report_history_def)

end
