(* ===== verification/Absence_Steps.thy ===== *)
theory Absence_Steps
  imports Absence_Inv
begin

text \<open>
  Every use case of the absence process preserves the invariant: the eligible members, the parts of
  the answer, then one preservation lemma for each use case.
\<close>

subsection \<open>Eligible members\<close>

text \<open>
  What the tables say of a member who can stand in on a post of a day: an active member of the
  committee of the round, other than the absent one, of the same side when the post is not a
  fallback's; an availability for the day's candidate day that covers the part of the post; and no
  post on another confirmed day of the same date and half year whose part overlaps. The posts of the
  day itself are not looked at.
\<close>

definition fits :: "absence_db \<Rightarrow> day_row \<Rightarrow> staffing \<Rightarrow> member \<Rightarrow> member \<Rightarrow> bool" where
  "fits db d a t m \<longleftrightarrow> m \<in> set (bd_members db) \<and> mb_active m \<and> mb_id m \<noteq> mb_id t
     \<and> (sf_role a \<noteq> ''fallback'' \<longrightarrow> mb_side m = mb_side t)
     \<and> (\<exists>k \<in> set (bd_candidate_days db). kd_round k = dw_round d \<and> kd_date k = dw_date d
          \<and> (\<exists>v \<in> set (bd_availability db). av_member v = mb_id m \<and> av_day v = kd_id k
               \<and> (av_value v = ''full_day'' \<or> av_value v = sf_part a)))
     \<and> (\<exists>r. round_of db (dw_round d) = Some r \<and> mb_committee m = er_committee r
          \<and> (\<forall>s \<in> set (bd_staffing db). \<forall>d' r'. sf_member s = mb_id m \<and> day_of (bd_day db) (sf_day s) = Some d'
               \<and> dw_id d' \<noteq> dw_id d \<and> dw_status d' = DyConfirmed \<and> dw_date d' = dw_date d
               \<and> round_of db (dw_round d') = Some r' \<and> er_half_year r' = er_half_year r
             \<longrightarrow> sf_part s \<noteq> ''full_day'' \<and> sf_part a \<noteq> ''full_day'' \<and> sf_part s \<noteq> sf_part a))"

lemma facts_fit:
  assumes "m \<in> set (cf_active (candidate_facts_of db d a))" "mb_id m \<noteq> mb_id t" "suits a t m"
    and "mb_id m \<in> set (cf_available (candidate_facts_of db d a))" "mb_id m \<in> set (cf_conflict_free (candidate_facts_of db d a))"
  shows "fits db d a t m"
proof -
  from assms(1) obtain r where r: "round_of db (dw_round d) = Some r" "mb_committee m = er_committee r" "mb_active m" "m \<in> set (bd_members db)"
    by (auto simp: candidate_facts_of_def Let_def split: option.splits)
  from assms(4) r(1) obtain k where "List.find (\<lambda>k. kd_round k = dw_round d \<and> kd_date k = dw_date d) (bd_candidate_days db) = Some k"
    by (cases "List.find (\<lambda>k. kd_round k = dw_round d \<and> kd_date k = dw_date d) (bd_candidate_days db)")
      (simp_all add: candidate_facts_of_def Let_def)
  with assms(4) r(1) obtain v where k: "List.find (\<lambda>k. kd_round k = dw_round d \<and> kd_date k = dw_date d) (bd_candidate_days db) = Some k"
    "v \<in> set (bd_availability db)" "av_member v = mb_id m" "av_day v = kd_id k" "av_value v = ''full_day'' \<or> av_value v = sf_part a"
    by (auto simp: candidate_facts_of_def Let_def)
  have "\<not> list_ex (\<lambda>s. sf_member s = mb_id m \<and> parts_overlap (sf_part a) (sf_part s)) (other_staffing db d r)"
    using assms(5) r(1) by (auto simp: candidate_facts_of_def Let_def)
  then have "\<forall>s \<in> set (bd_staffing db). \<forall>d' r'. sf_member s = mb_id m \<and> day_of (bd_day db) (sf_day s) = Some d'
      \<and> dw_id d' \<noteq> dw_id d \<and> dw_status d' = DyConfirmed \<and> dw_date d' = dw_date d
      \<and> round_of db (dw_round d') = Some r' \<and> er_half_year r' = er_half_year r
    \<longrightarrow> sf_part s \<noteq> ''full_day'' \<and> sf_part a \<noteq> ''full_day'' \<and> sf_part s \<noteq> sf_part a"
    by (auto simp: list_ex_iff other_staffing_def parts_overlap_def)
  moreover have "k \<in> set (bd_candidate_days db) \<and> kd_round k = dw_round d \<and> kd_date k = dw_date d"
    using find_Some_mem[OF k(1)] find_Some_P[OF k(1)] by simp
  ultimately show ?thesis using assms(2,3) r k(2-5) unfolding fits_def suits_def by blast
qed

lemma eligible_fits:
  assumes "eligible_candidates db d a t inc = (el, fb)" "m \<in> set el \<or> fb = Some m"
  shows "fits db d a t m"
proof -
  let ?cf = "candidate_facts_of db d a"
  define base where "base = filter (\<lambda>m. mb_id m \<noteq> mb_id t \<and> mb_id m \<notin> set (cf_regular ?cf) \<and> mb_id m \<in> set (cf_available ?cf)
      \<and> mb_id m \<in> set (cf_conflict_free ?cf) \<and> suits a t m) (cf_active ?cf)"
  define fb' where "fb' = (if sf_role a = ''examiner'' then List.find (\<lambda>m. mb_id m \<in> set (cf_fallback ?cf)) base else None)"
  define el' where "el' = (if sf_role a = ''examiner'' then filter (\<lambda>m. mb_id m \<notin> set (cf_fallback ?cf)) base else base)"
  have e: "eligible_candidates db d a t inc = (case Option.bind inc (\<lambda>i. List.find (\<lambda>m. mb_id m = i) (cf_active ?cf)) of
       None \<Rightarrow> (el', fb')
     | Some c \<Rightarrow> if mb_id c \<notin> set (map mb_id el') \<and> Some (mb_id c) \<noteq> map_option mb_id fb' \<and> mb_id c \<noteq> mb_id t
           \<and> mb_id c \<in> set (cf_available ?cf) \<and> mb_id c \<in> set (cf_conflict_free ?cf) \<and> suits a t c
         then (el' @ [c], fb') else (el', fb'))"
    by (simp only: eligible_candidates_def Let_def el'_def fb'_def base_def)
  have fb: "fits db d a t m" if "m \<in> set base" for m using that by (auto simp: base_def intro!: facts_fit)
  have old: "fits db d a t m" if "m \<in> set el' \<or> fb' = Some m"
  proof (rule fb)
    show "m \<in> set base" using that by (auto simp: el'_def fb'_def split: if_splits dest: find_Some_mem)
  qed
  show ?thesis
  proof (cases "Option.bind inc (\<lambda>i. List.find (\<lambda>m. mb_id m = i) (cf_active ?cf))")
    case None
    with assms e old show ?thesis by simp
  next
    case (Some c)
    then have c: "c \<in> set (cf_active ?cf)" by (auto simp: bind_eq_Some_conv dest: find_Some_mem)
    consider "m \<in> set el' \<or> fb' = Some m" | "m = c" "mb_id c \<noteq> mb_id t" "mb_id c \<in> set (cf_available ?cf)"
        "mb_id c \<in> set (cf_conflict_free ?cf)" "suits a t c"
      using assms unfolding e Some option.case by (cases "m = c") (auto split: if_splits)
    then show ?thesis
    proof cases
      case 2
      then show ?thesis using c by (auto intro!: facts_fit)
    qed (rule old)
  qed
qed

lemma distinct_active: "keys_ok db \<Longrightarrow> distinct (map mb_id (cf_active (candidate_facts_of db d a)))"
  by (auto simp: candidate_facts_of_def Let_def keys_ok_def distinct_map_filter split: option.splits)

lemma distinct_eligible: "keys_ok db \<Longrightarrow> eligible_candidates db d a t None = (el, fb) \<Longrightarrow> distinct (map mb_id el)"
  using distinct_active[of db d a] by (auto simp: eligible_candidates_def Let_def distinct_map_filter)

subsection \<open>Rows\<close>

lemma report_of_D: "report_of db i = Some r \<Longrightarrow> r \<in> set (bd_reports db) \<and> ab_id r = i \<and> (i, ab_member r) \<in> set (parties db)"
  by (auto simp: report_of_def parties_def image_iff dest: find_Some_mem find_Some_P)

lemma report_context_D: "report_context db i = Some (r, d, o') \<Longrightarrow> report_of db i = Some r
    \<and> day_of (bd_day db) (ab_day r) = Some d \<and> round_of db (dw_round d) = Some o'"
  by (auto simp: report_context_def bind_eq_Some_conv)

lemma party_unique: "keys_ok db \<Longrightarrow> (i, m) \<in> set (parties db) \<Longrightarrow> (i, m') \<in> set (parties db) \<Longrightarrow> m = m'"
  by (auto simp: keys_ok_def dest: eq_key_imp_eq_value)

lemma report_unique:
  assumes "keys_ok db" "report_of db i = Some r" "r' \<in> set (bd_reports db)" "ab_id r' = i"
  shows "r' = r"
proof -
  have "distinct (map ab_id (bd_reports db))" using assms(1) by (simp add: keys_ok_def parties_def comp_def)
  with assms report_of_D[OF assms(2)] show ?thesis by (auto simp: distinct_map inj_on_def)
qed

lemma answers_update: "answers_ok db \<Longrightarrow> a \<noteq> Pending \<Longrightarrow> answers_ok (update_response n a at' db)"
  by (auto simp: answers_ok_def update_response_def set_upd_row)

lemma answers_cong: "bd_responses db' = bd_responses db \<Longrightarrow> answers_ok db' = answers_ok db"
  by (simp add: answers_ok_def)

lemma answers_inserts: "answers_ok db \<Longrightarrow> answers_ok (fold (\<lambda>m. insert_response i at' (x m) u m) ms db)"
proof (induction ms arbitrary: db)
  case (Cons m ms)
  have "answers_ok (insert_response i at' (x m) u m db)" using Cons.prems by (auto simp: answers_ok_def insert_response_def)
  then show ?case by (simp add: Cons.IH)
qed simp

lemma selected_update:
  assumes "list_all selected_ok (bd_reports db)" "\<And>r. r \<in> set (bd_reports db) \<Longrightarrow> ab_id r = i \<Longrightarrow>
      selected_ok (r\<lparr>ab_status := st, ab_selected := (case sel of None \<Rightarrow> ab_selected r | Some s \<Rightarrow> s)\<rparr>)"
  shows "list_all selected_ok (bd_reports (update_report i st at' sel db))"
  using assms by (auto simp: list_all_iff update_report_def set_upd_row selected_ok_def)

text \<open>The writes that every use case ends with are one step of the report.\<close>

lemma stepped_update:
  assumes "bd_reports db1 = bd_reports db" "bd_audits db1 = bd_audits db @ es" "list_all (\<lambda>e. ae_report e = i \<and> \<not> counted e) es"
    and "t \<notin> {EvReported, EvFallbackExpired, EvSearchOpened}"
  shows "stepped i st db (fst (insert_audit i a t fr st at' det (update_report i st at' sel db1)))"
proof -
  define e where "e = \<lparr>ae_id = next_id (map ae_id (bd_audits db1)), ae_report = i, ae_actor = a, ae_type = t, ae_from = fr,
      ae_to = st, ae_details = det, ae_at = at'\<rparr>"
  have "filter counted es = []" using assms(3) by (auto simp: filter_empty_conv list_all_iff)
  moreover have "counted e" using assms(4) by (auto simp: counted_def e_def)
  ultimately have "length (filter counted (es @ [e])) = 1" by simp
  moreover have "list_all (\<lambda>e. ae_report e = i) (es @ [e])" using assms(3) by (auto simp: list_all_iff e_def)
  ultimately show ?thesis
    unfolding stepped_def
    by (intro exI[of _ "\<lambda>r. r\<lparr>ab_status := st, ab_selected := (case sel of None \<Rightarrow> ab_selected r | Some s \<Rightarrow> s),
        ab_version := ab_version r + 1, ab_updated := Some at'\<rparr>"] exI[of _ "es @ [e]"])
      (simp add: assms(1,2) update_report_def[of i st at' sel db1] audit_ids e_def)
qed

lemma inv_step:
  assumes "absence_inv db" "keys_ok db1" "answers_ok db1" "bd_reports db1 = bd_reports db" "bd_audits db1 = bd_audits db @ es"
    and "list_all (\<lambda>e. ae_report e = i \<and> \<not> counted e) es" "t \<notin> {EvReported, EvFallbackExpired, EvSearchOpened}"
    and "report_of db i = Some r" "selected_ok (r\<lparr>ab_status := st, ab_selected := (case sel of None \<Rightarrow> ab_selected r | Some s \<Rightarrow> s)\<rparr>)"
  shows "absence_inv (fst (insert_audit i a t fr st at' det (update_report i st at' sel db1)))"
proof -
  have "keys_ok db" "trail_ok db" "list_all selected_ok (bd_reports db)" using assms(1) by (simp_all add: absence_inv_def)
  note u = report_unique[OF this(1) assms(8)]
  have "i \<in> fst ` set (parties db1)" using report_of_D[OF assms(8)] assms(4) by (force simp: parties_def)
  with assms(2) have "keys_ok (fst (insert_audit i a t fr st at' det (update_report i st at' sel db1)))"
    by (simp add: keys_insert_audit)
  moreover have "answers_ok (fst (insert_audit i a t fr st at' det (update_report i st at' sel db1)))"
    using assms(3) by (simp add: answers_ok_def)
  moreover have "list_all selected_ok (bd_reports (update_report i st at' sel db1))"
    using \<open>list_all selected_ok _\<close> u assms(4,9) by (intro selected_update) auto
  moreover have "trail_ok (fst (insert_audit i a t fr st at' det (update_report i st at' sel db1)))"
    using trail_stepped[OF \<open>trail_ok db\<close> stepped_update[OF assms(4-7)]] .
  ultimately show ?thesis by (simp add: absence_inv_def)
qed

subsection \<open>Answers\<close>

text \<open>The writes before the last two: requests and history entries that are not counted.\<close>

definition prepared :: "int \<Rightarrow> absence_db \<Rightarrow> absence_db \<Rightarrow> bool" where
  "prepared i db db' \<longleftrightarrow> keys_ok db' \<and> (answers_ok db \<longrightarrow> answers_ok db') \<and> bd_reports db' = bd_reports db
     \<and> bd_staffing db' = bd_staffing db \<and> bd_members db' = bd_members db \<and> bd_day db' = bd_day db
     \<and> (\<exists>es. bd_audits db' = bd_audits db @ es \<and> list_all (\<lambda>e. ae_report e = i \<and> \<not> counted e) es)"

lemma prepared_refl: "keys_ok db \<Longrightarrow> prepared i db db"
  by (auto simp: prepared_def intro: exI[of _ "[]"])

lemma prepared_audit:
  assumes "prepared i db db1" "report_of db i = Some r" "t \<in> {EvReported, EvFallbackExpired, EvSearchOpened}"
  shows "prepared i db (fst (insert_audit i a t fr st at' det db1))"
proof -
  from assms(1) obtain es where es: "bd_audits db1 = bd_audits db @ es" "list_all (\<lambda>e. ae_report e = i \<and> \<not> counted e) es"
    by (auto simp: prepared_def)
  define e where "e = \<lparr>ae_id = next_id (map ae_id (bd_audits db1)), ae_report = i, ae_actor = a, ae_type = t, ae_from = fr,
      ae_to = st, ae_details = det, ae_at = at'\<rparr>"
  have "i \<in> fst ` set (parties db1)" using report_of_D[OF assms(2)] assms(1) by (force simp: parties_def prepared_def)
  moreover have "list_all (\<lambda>e. ae_report e = i \<and> \<not> counted e) (es @ [e])" using es(2) assms(3) by (auto simp: counted_def e_def)
  moreover have "bd_audits (fst (insert_audit i a t fr st at' det db1)) = bd_audits db @ es @ [e]" by (simp add: audit_ids es(1) e_def)
  ultimately show ?thesis using assms(1) unfolding prepared_def
    by (auto simp: keys_insert_audit answers_cong[of "fst (insert_audit i a t fr st at' det db1)" db1])
qed

lemma prepared_inserts:
  assumes "prepared i db db1" "report_of db i = Some r" "distinct ms" "Pair i ` set ms \<inter> set (asked db1) = {}" "ab_member r \<notin> set ms"
  shows "prepared i db (fold (\<lambda>m. insert_response i at' (x m) u m) ms db1)"
proof -
  have k: "keys_ok db1" and p: "parties db1 = parties db" using assms(1) by (simp_all add: prepared_def parties_def)
  have r: "(i, ab_member r) \<in> set (parties db1)" using report_of_D[OF assms(2)] p by simp
  then have "Pair i ` set ms \<inter> set (parties db1) = {}" using assms(5) party_unique[OF k] by auto
  with assms(3,4) k r have "keys_ok (fold (\<lambda>m. insert_response i at' (x m) u m) ms db1)"
    by (intro keys_insert_responses) force+
  then show ?thesis using assms(1) by (auto simp: prepared_def answers_inserts)
qed

lemma open_search:
  assumes "prepared (ab_id r) db db1" "report_of db (ab_id r) = Some r" "open_further_search db1 r d st0 now = (db', st)"
  shows "prepared (ab_id r) db db' \<and> (st = st0 \<or> st \<in> {AbNoReplacement, AbReplacementRequested})"
proof (cases "staffing_of db1 (ab_assignment r)")
  case None
  with assms show ?thesis by (simp add: open_further_search_def)
next
  case (Some a)
  show ?thesis
  proof (cases "member_of db1 (ab_member r)")
    case None
    with Some assms show ?thesis by (simp add: open_further_search_def)
  next
    case t: (Some t)
    obtain el fb where el: "eligible_candidates db1 d a t None = (el, fb)" by fastforce
    define ms where "ms = filter (\<lambda>m. m \<notin> set (response_member_ids db1 (ab_id r))) (map mb_id el)"
    have k: "keys_ok db1" using assms(1) by (simp add: prepared_def)
    have "mb_id t = ab_member r" using t unfolding member_of_def by (rule find_Some_P)
    then have "\<forall>m \<in> set el. mb_id m \<noteq> ab_member r" using eligible_fits[OF el] by (simp add: fits_def)
    then have "ab_member r \<notin> set ms" unfolding ms_def by fastforce
    moreover have "distinct ms" using distinct_eligible[OF k el] by (simp add: ms_def)
    moreover have "Pair (ab_id r) ` set ms \<inter> set (asked db1) = {}"
      by (auto simp: ms_def asked_def response_member_ids_def)
    ultimately have "prepared (ab_id r) db (fold (insert_response (ab_id r) (stamp_of now) None True) ms db1)"
      using prepared_inserts[OF assms(1,2), of ms "stamp_of now" "\<lambda>_. None" True] by simp
    with assms(2,3) show ?thesis
      by (auto simp: open_further_search_def Some t el Let_def ms_def[symmetric] split: if_splits intro!: prepared_audit)
  qed
qed

lemma answered_status:
  assumes "prepared (ab_id r) db db1" "report_of db (ab_id r) = Some r"
    and "response_report_status db1 r d m answer expired now = (db', st)"
  shows "prepared (ab_id r) db db' \<and> (if ab_status r = AbFallbackRequested
    then st \<in> {AbFallbackConfirmed, AbFallbackRequested, AbFallbackExpired, AbNoReplacement, AbReplacementRequested} else st = ab_status r)"
proof (cases "ab_status r = AbFallbackRequested \<and> answer \<noteq> Available")
  case True
  define db2 where "db2 = (if expired then fst (insert_audit (ab_id r) m EvFallbackExpired (Some (ab_status r)) AbFallbackExpired
      (stamp_of now) None db1) else db1)"
  have p: "prepared (ab_id r) db db2" using assms(1,2) by (simp add: db2_def prepared_audit)
  have o2: "open_further_search db2 r d (if expired then AbFallbackExpired else ab_status r) now = (db', st)"
    using assms(3) True by (simp add: response_report_status_def db2_def split: if_splits)
  note open_search[OF p assms(2) o2]
  with True show ?thesis by (cases expired) auto
qed (use assms in \<open>auto simp: response_report_status_def split: if_splits\<close>)

end
