(* ===== verification/Absence_Keep.thy ===== *)
theory Absence_Keep
  imports Absence_Steps
begin

text \<open>Every use case of the absence process preserves the invariant.\<close>

lemma with_view_iff: "with_absence_view i x = Inr (db', v) \<longleftrightarrow> db' = x \<and> required_view x i = Inr v"
  by (auto simp: with_absence_view_def bnd_Inr_iff)

lemma withdraw_Inr:
  assumes "withdraw_absence e ac i p db = Inr (db', v)"
  shows "\<exists>r d o' actor g. report_context db i = Some (r, d, o') \<and> er_committee o' \<in> set (ac_committees ac)
    \<and> (member_for ac (er_committee o') = Some (ab_member r) \<or> can_manage ac (er_committee o')) \<and> ab_selected r = None
    \<and> guard_day db (dw_id d) ''absence'' (ab_id r) p actor = Inr g
    \<and> db' = complete_day g actor None (vn_clock e) (fst (insert_audit (ab_id r) actor EvWithdrawn (Some (ab_status r)) AbWithdrawn
        (stamp_of (vn_now e)) None (update_report (ab_id r) AbWithdrawn (stamp_of (vn_now e)) None db)))"
  using assms
  by (auto simp: withdraw_absence_def authorized_report_def with_view_iff Let_def ok_iff split: option.splits prod.splits)

lemma withdraw_inv:
  assumes "absence_inv db" "withdraw_absence e ac i p db = Inr (db', v)"
  shows "absence_inv db'"
proof -
  from withdraw_Inr[OF assms(2)] obtain r d o' actor g where r: "report_context db i = Some (r, d, o')" "ab_selected r = None"
    and db: "db' = complete_day g actor None (vn_clock e) (fst (insert_audit (ab_id r) actor EvWithdrawn (Some (ab_status r)) AbWithdrawn
        (stamp_of (vn_now e)) None (update_report (ab_id r) AbWithdrawn (stamp_of (vn_now e)) None db)))"
    by (elim exE conjE) (rule that; assumption)
  have "report_of db (ab_id r) = Some r" using report_context_D[OF r(1)] report_of_D by auto
  moreover have "keys_ok db" "answers_ok db" using assms(1) by (simp_all add: absence_inv_def)
  ultimately show ?thesis
    unfolding db inv_frame using assms(1) r(2) by (intro inv_step[where es = "[]"]) (simp_all add: selected_ok_def)
qed

subsection \<open>Answers\<close>

definition expired_at :: "int \<Rightarrow> absence_response \<Rightarrow> bool" where
  "expired_at now q \<longleftrightarrow> (case an_expires_at q of None \<Rightarrow> False | Some x \<Rightarrow> x \<le> now)"

lemma answer_source: "record_answer_source audit i a d o' rs ev at' gs db = db
    \<or> (\<exists>s. record_answer_source audit i a d o' rs ev at' gs db = record_source s db)"
  by (auto simp: record_answer_source_def split: option.splits)

lemma respond_Inr:
  assumes "respond_absence e ac n p db = Inr (db', v)"
  shows "\<exists>q r d o' g given answer db1 st db2 audit rs ev gs. response_of db n = Some q \<and> an_member q \<in> set (ac_members ac)
    \<and> an_answer q = Pending \<and> report_context db (an_report q) = Some (r, d, o') \<and> er_committee o' \<in> set (ac_committees ac)
    \<and> parse_answer (jget p ''response'') = Inr given
    \<and> guard_day db (dw_id d) ''absence'' (ab_id r) p (an_member q) = Inr g
    \<and> answer = (if expired_at (vn_now e) q then Unavailable else given)
    \<and> response_report_status (update_response n answer (stamp_of (vn_now e)) db) r d (an_member q) answer
        (expired_at (vn_now e) q) (vn_now e) = (db1, st)
    \<and> insert_audit (ab_id r) (an_member q) EvResponse (Some (ab_status r)) st (stamp_of (vn_now e)) None
        (update_report (ab_id r) st (stamp_of (vn_now e)) None db1) = (db2, audit)
    \<and> db' = record_answer_source audit (ab_id r) (ab_assignment r) d o' rs ev (stamp_of (vn_now e)) gs
        (complete_day g (an_member q) None (vn_clock e) db2)"
proof -
  from assms obtain q ctx g given where a: "response_of db n = Some q" "an_member q \<in> set (ac_members ac)" "an_answer q = Pending"
    "report_context db (an_report q) = Some ctx" "er_committee (snd (snd ctx)) \<in> set (ac_committees ac)"
    "parse_answer (jget p ''response'') = Inr given" "guard_day db (dw_id (fst (snd ctx))) ''absence'' (ab_id (fst ctx)) p (an_member q) = Inr g"
    by (auto simp: respond_absence_def Let_def ok_iff case_prod_unfold split: option.splits)
  obtain r d o' where ctx: "ctx = (r, d, o')" by (cases ctx)
  define answer where "answer = (if expired_at (vn_now e) q then Unavailable else given)"
  obtain db1 st where st: "response_report_status (update_response n answer (stamp_of (vn_now e)) db) r d (an_member q) answer
        (expired_at (vn_now e) q) (vn_now e) = (db1, st)" by fastforce
  obtain db2 audit where au: "insert_audit (ab_id r) (an_member q) EvResponse (Some (ab_status r)) st (stamp_of (vn_now e)) None
        (update_report (ab_id r) st (stamp_of (vn_now e)) None db1) = (db2, audit)" by fastforce
  note a = a[unfolded ctx fst_conv snd_conv]
  have "\<exists>rs ev gs. db' = record_answer_source audit (ab_id r) (ab_assignment r) d o' rs ev (stamp_of (vn_now e)) gs
        (complete_day g (an_member q) None (vn_clock e) db2)"
    using assms by (simp add: respond_absence_def expired_at_def[symmetric] answer_def[symmetric] a ctx st au Let_def ok_iff with_view_iff
        split del: if_split) blast
  with a st au show ?thesis unfolding answer_def by blast
qed

lemma respond_inv:
  assumes "absence_inv db" "respond_absence e ac n p db = Inr (db', v)"
  shows "absence_inv db'"
proof -
  from respond_Inr[OF assms(2)] obtain q r d o' g given answer db1 st db2 audit rs ev gs where
    q: "report_context db (an_report q) = Some (r, d, o')" "parse_answer (jget p ''response'') = Inr given"
      "answer = (if expired_at (vn_now e) q then Unavailable else given)"
    and st: "response_report_status (update_response n answer (stamp_of (vn_now e)) db) r d (an_member q) answer
        (expired_at (vn_now e) q) (vn_now e) = (db1, st)"
    and au: "insert_audit (ab_id r) (an_member q) EvResponse (Some (ab_status r)) st (stamp_of (vn_now e)) None
        (update_report (ab_id r) st (stamp_of (vn_now e)) None db1) = (db2, audit)"
    and db: "db' = record_answer_source audit (ab_id r) (ab_assignment r) d o' rs ev (stamp_of (vn_now e)) gs
        (complete_day g (an_member q) None (vn_clock e) db2)"
    by (elim exE conjE) (rule that; assumption)
  have r: "report_of db (ab_id r) = Some r" using report_context_D[OF q(1)] report_of_D by auto
  have k: "keys_ok db" "answers_ok db" "list_all selected_ok (bd_reports db)" using assms(1) by (simp_all add: absence_inv_def)
  have "given \<noteq> Pending" using q(2) by (auto simp: parse_answer_def split: json.splits if_splits)
  then have "answer \<noteq> Pending" using q(3) by simp
  then have an: "answers_ok (update_response n answer (stamp_of (vn_now e)) db)" using k(2) by (rule answers_update[rotated])
  have "prepared (ab_id r) db (update_response n answer (stamp_of (vn_now e)) db)"
    using k(1) an by (auto simp: prepared_def intro: exI[of _ "[]"])
  note answered_status[OF this r st]
  note pr = this[THEN conjunct1] and s = this[THEN conjunct2]
  have "selected_ok r" using k(3) report_of_D[OF r] by (simp add: list_all_iff)
  with s have "selected_ok (r\<lparr>ab_status := st, ab_selected := ab_selected r\<rparr>)"
    by (auto simp: selected_ok_def split: if_splits)
  then have "absence_inv (fst (insert_audit (ab_id r) (an_member q) EvResponse (Some (ab_status r)) st (stamp_of (vn_now e)) None
      (update_report (ab_id r) st (stamp_of (vn_now e)) None db1)))"
    using pr k(2) assms(1) r unfolding prepared_def by (elim conjE exE) (rule inv_step, simp_all)
  then have "absence_inv (complete_day g (an_member q) None (vn_clock e) db2)" by (simp add: au)
  then show ?thesis using answer_source unfolding db by (metis inv_frame(2))
qed

subsection \<open>Selection\<close>

lemma select_Inr:
  assumes "select_absence_replacement e ac i p db = Inr (db', v)"
  shows "\<exists>r d o' actor g m a x db1 db2 audit src. report_context db i = Some (r, d, o')
    \<and> require_replacement_selection db r d o' ac p (vn_now e) = Inr actor
    \<and> guard_day db (dw_id d) ''absence'' (ab_id r) p actor = Inr g \<and> required_int p ''committee_member_id'' = Inr m
    \<and> available_replacement db r d m = Inr (a, x)
    \<and> reassign_absence_assignment (sf_id a) (sf_revision a) (sf_member a) (mb_id x)
        (if sf_role a = ''fallback'' then Some ''confirmed'' else None) db = Inr db1
    \<and> insert_audit (ab_id r) actor EvSelected (Some (ab_status r)) AbReplacementSelected (stamp_of (vn_now e)) (Some (DtMember (mb_id x)))
        (update_report (ab_id r) AbReplacementSelected (stamp_of (vn_now e)) (Some (Some (mb_id x))) db1) = (db2, audit)
    \<and> db' = record_source src (complete_day g actor None (vn_clock e) db2) \<and> required_view db' (ab_id r) = Inr v"
proof -
  from assms obtain ctx actor g m ax db1 where a: "report_context db i = Some ctx"
    "require_replacement_selection db (fst ctx) (fst (snd ctx)) (snd (snd ctx)) ac p (vn_now e) = Inr actor"
    "guard_day db (dw_id (fst (snd ctx))) ''absence'' (ab_id (fst ctx)) p actor = Inr g" "required_int p ''committee_member_id'' = Inr m"
    "available_replacement db (fst ctx) (fst (snd ctx)) m = Inr ax"
    "reassign_absence_assignment (sf_id (fst ax)) (sf_revision (fst ax)) (sf_member (fst ax)) (mb_id (snd ax))
        (if sf_role (fst ax) = ''fallback'' then Some ''confirmed'' else None) db = Inr db1"
    by (auto simp: select_absence_replacement_def Let_def ok_iff case_prod_unfold split: option.splits split del: if_split)
  obtain r d o' where ctx: "ctx = (r, d, o')" by (cases ctx)
  obtain a' x where ax: "ax = (a', x)" by (cases ax)
  note a = a[unfolded ctx ax fst_conv snd_conv]
  obtain db2 audit where au: "insert_audit (ab_id r) actor EvSelected (Some (ab_status r)) AbReplacementSelected (stamp_of (vn_now e))
      (Some (DtMember (mb_id x))) (update_report (ab_id r) AbReplacementSelected (stamp_of (vn_now e)) (Some (Some (mb_id x))) db1)
      = (db2, audit)" by fastforce
  have "\<exists>src. db' = record_source src (complete_day g actor None (vn_clock e) db2) \<and> required_view db' (ab_id r) = Inr v"
    using assms by (simp add: select_absence_replacement_def a au Let_def ok_iff with_view_iff split del: if_split) blast
  with a au show ?thesis by blast
qed

lemma inv_step_assigned:
  assumes "absence_inv db" "reassign_absence_assignment sa sv sm m f db = Inr db1" "report_of db i = Some r"
    and "insert_audit i a t fr st at' det (update_report i st at' sel db1) = (db2, audit)"
    and "t \<notin> {EvReported, EvFallbackExpired, EvSearchOpened}"
    and "selected_ok (r\<lparr>ab_status := st, ab_selected := (case sel of None \<Rightarrow> ab_selected r | Some s \<Rightarrow> s)\<rparr>)"
  shows "absence_inv db2"
proof -
  have "keys_ok db1" using assms(1) keys_reassign[OF _ assms(2)] by (simp add: absence_inv_def)
  moreover have "bd_reports db1 = bd_reports db" "bd_audits db1 = bd_audits db @ []" "bd_responses db1 = bd_responses db"
    using reassign_Inr[OF assms(2)] by auto
  moreover have "answers_ok db1" using assms(1) answers_cong[OF \<open>bd_responses db1 = bd_responses db\<close>] by (simp add: absence_inv_def)
  ultimately have "absence_inv (fst (insert_audit i a t fr st at' det (update_report i st at' sel db1)))"
    using assms by (intro inv_step[where es = "[]" and r = r]) simp_all
  then show ?thesis by (simp add: assms(4))
qed

lemma select_inv:
  assumes "absence_inv db" "select_absence_replacement e ac i p db = Inr (db', v)"
  shows "absence_inv db'"
proof -
  from select_Inr[OF assms(2)] obtain r :: absence_report and d o' actor g m and a :: staffing and x :: member and db1 db2 audit src where
    r: "report_context db i = Some (r, d, o')"
    and s: "reassign_absence_assignment (sf_id a) (sf_revision a) (sf_member a) (mb_id x)
        (if sf_role a = ''fallback'' then Some ''confirmed'' else None) db = Inr db1"
      "insert_audit (ab_id r) actor EvSelected (Some (ab_status r)) AbReplacementSelected (stamp_of (vn_now e)) (Some (DtMember (mb_id x)))
        (update_report (ab_id r) AbReplacementSelected (stamp_of (vn_now e)) (Some (Some (mb_id x))) db1) = (db2, audit)"
    and db: "db' = record_source src (complete_day g actor None (vn_clock e) db2)"
    by (elim exE conjE) (rule that; assumption)
  have "report_of db (ab_id r) = Some r" using report_context_D[OF r] report_of_D by auto
  from inv_step_assigned[OF assms(1) s(1) this s(2)] show ?thesis by (simp add: db selected_ok_def)
qed

subsection \<open>Reopening and cancellation\<close>

lemma reopen_Inr:
  assumes "reopen_absence e ac i p db = Inr (db', v)"
  shows "\<exists>r d o' a g db1 db2 actor audit src reason. report_context db i = Some (r, d, o') \<and> staffing_of db (ab_assignment r) = Some a
    \<and> reopenable (ab_status r) \<and> can_manage ac (er_committee o') \<and> actor = actor_or (member_for ac (er_committee o')) (ab_member r)
    \<and> guard_day db (dw_id d) ''absence'' (ab_id r) p actor = Inr g \<and> restore_original r a db = Inr db1
    \<and> insert_audit (ab_id r) actor EvReopened (Some (ab_status r)) AbReplacementRequested (stamp_of (vn_now e)) (Some (DtReason reason))
        (update_report (ab_id r) AbReplacementRequested (stamp_of (vn_now e)) (Some None) db1) = (db2, audit)
    \<and> db' = record_source src (complete_day g actor (Some reason) (vn_clock e) db2)"
proof -
  from assms obtain reason ctx a g db1 where a: "required_reason p = Inr reason" "authorized_report db ac i = Inr ctx"
    "assert_mutation_allowed db (Some (ab_id (fst ctx))) p = Inr ()"
    "staffing_of db (ab_assignment (fst ctx)) = Some a" "reopenable (ab_status (fst ctx))"
    "can_manage ac (er_committee (snd (snd ctx)))" "assert_before_start db (fst (snd ctx)) (Some a) (vn_now e) = Inr ()"
    "guard_day db (dw_id (fst (snd ctx))) ''absence'' (ab_id (fst ctx)) p
      (actor_or (member_for ac (er_committee (snd (snd ctx)))) (ab_member (fst ctx))) = Inr g"
    "restore_original (fst ctx) a db = Inr db1"
    by (auto simp: reopen_absence_def Let_def ok_iff case_prod_unfold split: option.splits split del: if_split)
  obtain r d o' where ctx: "ctx = (r, d, o')" by (cases ctx)
  note a = a[unfolded ctx fst_conv snd_conv]
  obtain db2 audit where au: "insert_audit (ab_id r) (actor_or (member_for ac (er_committee o')) (ab_member r)) EvReopened (Some (ab_status r))
        AbReplacementRequested (stamp_of (vn_now e)) (Some (DtReason reason))
        (update_report (ab_id r) AbReplacementRequested (stamp_of (vn_now e)) (Some None) db1) = (db2, audit)" by fastforce
  have "\<exists>src. db' = record_source src (complete_day g (actor_or (member_for ac (er_committee o')) (ab_member r)) (Some reason) (vn_clock e) db2)"
    using assms by (simp add: reopen_absence_def a au Let_def ok_iff with_view_iff split del: if_split) blast
  moreover have "report_context db i = Some (r, d, o')"
    using a(2) by (auto simp: authorized_report_def ok_iff split: option.splits)
  ultimately show ?thesis using a au by blast
qed

lemma restore_original_D: "restore_original r a db = Inr db1 \<Longrightarrow>
    \<exists>m. reassign_absence_assignment (sf_id a) (sf_revision a) (sf_member a) m None db = Inr db1
      \<and> m = (if ab_selected r \<noteq> None then ab_member r else sf_member a)"
  by (auto simp: restore_original_def restore_absence_assignment_def split: if_splits)

lemma reopen_inv:
  assumes "absence_inv db" "reopen_absence e ac i p db = Inr (db', v)"
  shows "absence_inv db'"
proof -
  from reopen_Inr[OF assms(2)] obtain r :: absence_report and d o' and a :: staffing and g db1 db2 actor audit src reason where
    r: "report_context db i = Some (r, d, o')"
    and s: "restore_original r a db = Inr db1"
      "insert_audit (ab_id r) actor EvReopened (Some (ab_status r)) AbReplacementRequested (stamp_of (vn_now e)) (Some (DtReason reason))
        (update_report (ab_id r) AbReplacementRequested (stamp_of (vn_now e)) (Some None) db1) = (db2, audit)"
    and db: "db' = record_source src (complete_day g actor (Some reason) (vn_clock e) db2)"
    by (elim exE conjE) (rule that; assumption)
  have r: "report_of db (ab_id r) = Some r" using report_context_D[OF r] report_of_D by auto
  from restore_original_D[OF s(1)] obtain m where
    "reassign_absence_assignment (sf_id a) (sf_revision a) (sf_member a) m None db = Inr db1" by blast
  from inv_step_assigned[OF assms(1) this r s(2)] show ?thesis by (simp add: db selected_ok_def)
qed

lemma cancel_Inr:
  assumes "cancel_absence e ac i p db = Inr (db', v)"
  shows "\<exists>r d o' a g db1 db2 actor audit src reason. report_context db i = Some (r, d, o') \<and> staffing_of db (ab_assignment r) = Some a
    \<and> ab_status r \<notin> {AbWithdrawn, AbDayCancelled} \<and> can_manage ac (er_committee o')
    \<and> actor = actor_or (member_for ac (er_committee o')) (ab_member r)
    \<and> guard_day db (dw_id d) ''absence'' (ab_id r) p actor = Inr g
    \<and> reassign_absence_assignment (sf_id a) (sf_revision a) (sf_member a) (sf_member a) None db = Inr db1
    \<and> insert_audit (ab_id r) actor EvCancelled (Some (ab_status r)) AbDayCancelled (stamp_of (vn_now e)) (Some (DtReason reason))
        (update_report (ab_id r) AbDayCancelled (stamp_of (vn_now e)) None db1) = (db2, audit)
    \<and> db' = record_source src (complete_day g actor (Some reason) (vn_clock e) db2)"
proof -
  from assms obtain reason ctx a g db1 where a: "required_reason p = Inr reason" "authorized_report db ac i = Inr ctx"
    "assert_mutation_allowed db (Some (ab_id (fst ctx))) p = Inr ()"
    "staffing_of db (ab_assignment (fst ctx)) = Some a" "ab_status (fst ctx) \<notin> {AbWithdrawn, AbDayCancelled}"
    "can_manage ac (er_committee (snd (snd ctx)))" "assert_before_start db (fst (snd ctx)) (Some a) (vn_now e) = Inr ()"
    "guard_day db (dw_id (fst (snd ctx))) ''absence'' (ab_id (fst ctx)) p
      (actor_or (member_for ac (er_committee (snd (snd ctx)))) (ab_member (fst ctx))) = Inr g"
    "reassign_absence_assignment (sf_id a) (sf_revision a) (sf_member a) (sf_member a) None db = Inr db1"
    by (auto simp: cancel_absence_def Let_def ok_iff case_prod_unfold split: option.splits split del: if_split)
  obtain r d o' where ctx: "ctx = (r, d, o')" by (cases ctx)
  note a = a[unfolded ctx fst_conv snd_conv]
  obtain db2 audit where au: "insert_audit (ab_id r) (actor_or (member_for ac (er_committee o')) (ab_member r)) EvCancelled (Some (ab_status r))
        AbDayCancelled (stamp_of (vn_now e)) (Some (DtReason reason))
        (update_report (ab_id r) AbDayCancelled (stamp_of (vn_now e)) None db1) = (db2, audit)" by fastforce
  have "\<exists>src. db' = record_source src (complete_day g (actor_or (member_for ac (er_committee o')) (ab_member r)) (Some reason) (vn_clock e) db2)"
    using assms a(5) by (simp add: cancel_absence_def a(1-4,6-) au Let_def ok_iff with_view_iff split del: if_split) blast
  moreover have "report_context db i = Some (r, d, o')"
    using a(2) by (auto simp: authorized_report_def ok_iff split: option.splits)
  ultimately show ?thesis using a au by blast
qed

lemma cancel_inv:
  assumes "absence_inv db" "cancel_absence e ac i p db = Inr (db', v)"
  shows "absence_inv db'"
proof -
  from cancel_Inr[OF assms(2)] obtain r :: absence_report and d o' and a :: staffing and g db1 db2 actor audit src reason where
    r: "report_context db i = Some (r, d, o')"
    and s: "reassign_absence_assignment (sf_id a) (sf_revision a) (sf_member a) (sf_member a) None db = Inr db1"
      "insert_audit (ab_id r) actor EvCancelled (Some (ab_status r)) AbDayCancelled (stamp_of (vn_now e)) (Some (DtReason reason))
        (update_report (ab_id r) AbDayCancelled (stamp_of (vn_now e)) None db1) = (db2, audit)"
    and db: "db' = record_source src (complete_day g actor (Some reason) (vn_clock e) db2)"
    by (elim exE conjE) (rule that; assumption)
  have r: "report_of db (ab_id r) = Some r" using report_context_D[OF r] report_of_D by auto
  from inv_step_assigned[OF assms(1) s(1) r s(2)] show ?thesis by (simp add: db selected_ok_def)
qed

end
