(* ===== verification/Absence_Report.thy ===== *)
theory Absence_Report
  imports Absence_Keep
begin

text \<open>A new report: its effect, and that it preserves the invariant.\<close>

lemma report_Inr:
  assumes "report_absence e ac p db = Inr (db', v)"
  shows "\<exists>d o' a t actor g start el fb ids expires status reason r db1 db2 audit src. payload_target db p = Inr (d, o', a, t)
    \<and> member_for ac (er_committee o') = Some actor \<and> (can_manage ac (er_committee o') \<or> actor = mb_id t)
    \<and> er_status o' = PlConfirmed \<and> dw_status d = DyConfirmed \<and> \<not> active_report_exists db (sf_id a) known_statuses
    \<and> guard_day db (dw_id d) ''staffing'' (sf_id a) p actor = Inr g \<and> assignment_start db d a = Inr start
    \<and> eligible_candidates db d a t None = (el, fb)
    \<and> first_requests a (start < vn_now e + hours 48) (vn_now e) (el, fb) = (ids, expires, status)
    \<and> insert_report d a t actor (stamp_of (vn_now e)) reason status db = (db1, r)
    \<and> insert_audit (ab_id r) actor EvReported None status (stamp_of (vn_now e)) None
        (ask_members (ab_id r) (stamp_of (vn_now e)) (start < vn_now e + hours 48) expires (map_option mb_id fb) ids db1) = (db2, audit)
    \<and> db' = record_source src (complete_day g actor (ab_reason r) (vn_clock e) db2)"
proof -
  from assms obtain tt actor g start reason where a: "payload_target db p = Inr tt"
    "assert_mutation_allowed db None p = Inr ()" "member_for ac (er_committee (fst (snd tt))) = Some actor"
    "can_manage ac (er_committee (fst (snd tt))) \<or> actor = mb_id (snd (snd (snd tt)))"
    "assert_before_start db (fst tt) (Some (fst (snd (snd tt)))) (vn_now e) = Inr ()"
    "er_status (fst (snd tt)) = PlConfirmed \<and> dw_status (fst tt) = DyConfirmed"
    "\<not> active_report_exists db (sf_id (fst (snd (snd tt)))) known_statuses"
    "guard_day db (dw_id (fst tt)) ''staffing'' (sf_id (fst (snd (snd tt)))) p actor = Inr g"
    "assignment_start db (fst tt) (fst (snd (snd tt))) = Inr start" "optional_reason (jget p ''reason'') = Inr reason"
    and fl: "file_report e (fst tt) (fst (snd tt)) (fst (snd (snd tt))) (snd (snd (snd tt))) actor g (start < vn_now e + hours 48)
      (eligible_candidates db (fst tt) (fst (snd (snd tt))) (snd (snd (snd tt))) None) reason db = Inr (db', v)"
    by (auto simp: report_absence_def ok_iff case_prod_unfold split: option.splits)
  obtain d o' a' t where tt: "tt = (d, o', a', t)" by (cases tt)
  note a = a[unfolded tt fst_conv snd_conv] and fl = fl[unfolded tt fst_conv snd_conv]
  obtain el fb where el: "eligible_candidates db d a' t None = (el, fb)" by fastforce
  obtain ids expires status where f: "first_requests a' (start < vn_now e + hours 48) (vn_now e) (el, fb) = (ids, expires, status)"
    by (cases "first_requests a' (start < vn_now e + hours 48) (vn_now e) (el, fb)") auto
  obtain db1 r where ir: "insert_report d a' t actor (stamp_of (vn_now e)) reason status db = (db1, r)" by fastforce
  obtain db2 audit where au: "insert_audit (ab_id r) actor EvReported None status (stamp_of (vn_now e)) None
        (ask_members (ab_id r) (stamp_of (vn_now e)) (start < vn_now e + hours 48) expires (map_option mb_id fb) ids db1) = (db2, audit)"
    by fastforce
  have "\<exists>src. db' = record_source src (complete_day g actor (ab_reason r) (vn_clock e) db2)"
    using fl by (simp add: file_report_def el f ir au Let_def with_view_iff split del: if_split) blast
  with a el f ir au show ?thesis by blast
qed

lemma first_requests_D:
  assumes "first_requests a u now (el, fb) = (ids, expires, status)"
  shows "set ids \<subseteq> mb_id ` {m. m \<in> set el \<or> fb = Some m} \<and> status \<in> {AbFallbackRequested, AbNoReplacement, AbReplacementRequested}"
  using assms by (auto simp: first_requests_def Let_def split: option.splits if_splits)

lemma report_inv:
  assumes "absence_inv db" "report_absence e ac p db = Inr (db', v)"
  shows "absence_inv db'"
proof -
  from report_Inr[OF assms(2)] obtain d o' and a :: staffing and t :: member and actor g start el fb ids expires status reason
      and r :: absence_report and db1 db2 audit src where
    el: "eligible_candidates db d a t None = (el, fb)"
    and f: "first_requests a (start < vn_now e + hours 48) (vn_now e) (el, fb) = (ids, expires, status)"
    and ir: "insert_report d a t actor (stamp_of (vn_now e)) reason status db = (db1, r)"
    and au: "insert_audit (ab_id r) actor EvReported None status (stamp_of (vn_now e)) None
        (ask_members (ab_id r) (stamp_of (vn_now e)) (start < vn_now e + hours 48) expires (map_option mb_id fb) ids db1) = (db2, audit)"
    and db: "db' = record_source src (complete_day g actor (ab_reason r) (vn_clock e) db2)"
    by (elim exE conjE) (rule that; assumption)
  let ?i = "ab_id r" and ?q = "ask_members (ab_id r) (stamp_of (vn_now e)) (start < vn_now e + hours 48) expires (map_option mb_id fb) ids db1"
  have k: "keys_ok db" "answers_ok db" "list_all selected_ok (bd_reports db)" "trail_ok db"
    using assms(1) by (simp_all add: absence_inv_def)
  have r: "bd_reports db1 = bd_reports db @ [r]" "?i = next_id (map ab_id (bd_reports db))" "ab_member r = mb_id t"
    "ab_status r = status" "ab_selected r = None" "ab_version r = 0"
    and d1: "bd_responses db1 = bd_responses db" "bd_audits db1 = bd_audits db" "bd_staffing db1 = bd_staffing db"
      "bd_members db1 = bd_members db"
    using ir by (auto simp: insert_report_def Let_def)
  have p: "parties db1 = parties db @ [(?i, mb_id t)]" "asked db1 = asked db" by (simp_all add: parties_def asked_def r d1)
  have i: "?i \<notin> fst ` set (parties db)" using next_id_fresh[of "map ab_id (bd_reports db)"] by (auto simp: r(2) parties_def)
  have sub: "fst ` set (asked db) \<subseteq> fst ` set (parties db)" "ae_report ` set (bd_audits db) \<subseteq> fst ` set (parties db)"
    using k(1) by (simp_all add: keys_ok_def)
  have na: "(?i, m) \<notin> set (asked db)" for m using sub(1) i by force
  have "keys_ok db1" unfolding keys_ok_def p d1 using k(1) i na sub by (simp add: keys_ok_def subset_insertI2)
  moreover have "mb_id m \<noteq> mb_id t" if "m \<in> set el \<or> fb = Some m" for m using eligible_fits[OF el that] by (simp add: fits_def)
  then have "mb_id t \<notin> set ids" using first_requests_D[OF f] by fastforce
  moreover have "(?i, m) \<notin> set (parties db)" for m using i by force
  ultimately have kq: "keys_ok ?q" unfolding ask_members_def using na
    by (intro keys_insert_responses) (auto simp: p id_set_def)
  have q: "bd_reports ?q = bd_reports db @ [r]" "bd_audits ?q = bd_audits db" by (simp_all add: ask_members_def r d1)
  have "keys_ok (fst (insert_audit ?i actor EvReported None status (stamp_of (vn_now e)) None ?q))"
    using kq by (rule keys_insert_audit) (simp add: ask_members_def p)
  then have "keys_ok db2" by (simp add: au)
  moreover have "answers_ok ?q" unfolding ask_members_def using k(2) answers_cong[OF d1(1)] by (intro answers_inserts) simp
  then have "answers_ok (fst (insert_audit ?i actor EvReported None status (stamp_of (vn_now e)) None ?q))" by (simp add: answers_ok_def)
  then have "answers_ok db2" by (simp add: au)
  moreover have rep: "bd_reports db2 = bd_reports db @ [r]"
    using frame_audit(1)[of ?i actor EvReported None status "stamp_of (vn_now e)" None ?q] by (simp add: au q)
  then have "list_all selected_ok (bd_reports db2)" using k(3) r first_requests_D[OF f] by (auto simp: selected_ok_def)
  moreover have "trail_ok db2"
  proof -
    obtain x where x: "bd_audits db2 = bd_audits db @ [x]" "ae_report x = ?i" "ae_to x = status" "\<not> counted x"
      using audit_ids[of ?i actor EvReported None status "stamp_of (vn_now e)" None ?q] by (simp add: au q counted_def)
    have "\<forall>e \<in> set (bd_audits db). ae_report e \<noteq> ?i" using sub(2) i by force
    then have "report_history db2 ?i = [x]" by (auto simp: report_history_def x filter_empty_conv)
    moreover have "report_history db2 j = report_history db j" if "j \<noteq> ?i" for j using that by (simp add: report_history_def x)
    moreover have "ab_id r' \<noteq> ?i" if "r' \<in> set (bd_reports db)" for r' using i that unfolding parties_def set_map image_image fst_conv by (metis imageI)
    ultimately show ?thesis using k(4) x r by (auto simp: trail_ok_def rep)
  qed
  ultimately have "absence_inv db2" by (simp add: absence_inv_def)
  then show ?thesis by (simp add: db)
qed

end
