(* ===== verification/Absence_Machine.thy ===== *)
theory Absence_Machine
  imports Absence_Report Day_Claims
begin

text \<open>
  The absence process as a state machine: its steps are the use cases that return. Planning, members
  and slots stay as they are in between.
\<close>

inductive absence_step :: "absence_db \<Rightarrow> absence_db \<Rightarrow> bool" where
  report: "report_absence e ac p db = Inr (db', v) \<Longrightarrow> absence_step db db'"
| respond: "respond_absence e ac n p db = Inr (db', v) \<Longrightarrow> absence_step db db'"
| withdraw: "withdraw_absence e ac i p db = Inr (db', v) \<Longrightarrow> absence_step db db'"
| select: "select_absence_replacement e ac i p db = Inr (db', v) \<Longrightarrow> absence_step db db'"
| reopen: "reopen_absence e ac i p db = Inr (db', v) \<Longrightarrow> absence_step db db'"
| cancel: "cancel_absence e ac i p db = Inr (db', v) \<Longrightarrow> absence_step db db'"

lemma absence_step_inv: "absence_step db db' \<Longrightarrow> absence_inv db \<Longrightarrow> absence_inv db'"
  by (induction rule: absence_step.induct)
    (auto intro: report_inv respond_inv withdraw_inv select_inv reopen_inv cancel_inv)

lemma absence_reachable_inv: "absence_step\<^sup>*\<^sup>* db db' \<Longrightarrow> absence_inv db \<Longrightarrow> absence_inv db'"
  by (induction rule: rtranclp_induct) (auto dest: absence_step_inv)

subsection \<open>The guarded day\<close>

lemma guard_counted:
  assumes "guard_day db j kind i p actor = Inr g" "kind \<in> {''absence'', ''staffing''}"
  shows "\<exists>d. day_of (bd_day db) j = Some d \<and> dw_id d = j \<and> dg_touch g \<and> dg_day g = j \<and> dw_closure d \<in> {ClOpen, ClReopening}
    \<and> guard_day_mutation (bd_day db) d kind i (Some p) JNull (Some actor) None = Inr g"
proof -
  from assms(1) obtain d where d: "day_of (bd_day db) j = Some d"
    "guard_day_mutation (bd_day db) d kind i (Some p) JNull (Some actor) None = Inr g"
    by (auto simp: guard_day_def ae_def split: option.splits sum.splits)
  have k: "kind \<notin> insert ''protocol_correction_request'' post_close_result_kinds" "kind \<noteq> ''protocol_response''"
    using assms(2) by (auto simp: post_close_result_kinds_def)
  have "permitted (bd_day db) d kind i (supplied_day_revision p (dw_id d)) (Some actor) None"
    using d(2) guard_Inr_iff by blast
  then have "dw_closure d \<in> {ClOpen, ClReopening}" using k by (cases "dw_closure d") (auto simp: permitted_def)
  with d k day_of_id[OF d(1)] guard_touch[OF d(2)] show ?thesis by auto
qed

text \<open>Every step is one counted mutation of the day of its report.\<close>

definition day_touched :: "absence_db \<Rightarrow> absence_db \<Rightarrow> bool" where
  "day_touched db db' \<longleftrightarrow> (\<exists>j d c x. day_of (bd_day db) j = Some d \<and> dw_closure d \<in> {ClOpen, ClReopening}
     \<and> day_guarded j c (bd_day db) = Some x \<and> dg_touch (fst x) \<and> bd_day db' = day_completed x (bd_day db))"

lemma day_touchedI:
  assumes "guard_day db j kind i p actor = Inr g" "kind \<in> {''absence'', ''staffing''}"
    and "bd_day db' = complete_day_mutation g actor' reason None now (bd_day db)"
  shows "day_touched db db'"
proof -
  from guard_counted[OF assms(1,2)] obtain d where d: "day_of (bd_day db) j = Some d" "dg_touch g" "dw_closure d \<in> {ClOpen, ClReopening}"
    "guard_day_mutation (bd_day db) d kind i (Some p) JNull (Some actor) None = Inr g" by blast
  let ?c = "\<lparr>dc_kind = kind, dc_entity = i, dc_payload = p, dc_actor = Some actor, dc_protocol = None, dc_member = actor',
      dc_reason = reason, dc_now = now\<rparr>"
  have "day_guarded j ?c (bd_day db) = Some (g, ?c)" by (simp add: day_guarded_def d)
  with d assms(3) show ?thesis unfolding day_touched_def
    by (intro exI[of _ j] exI[of _ d] exI[of _ ?c] exI[of _ "(g, ?c)"]) (simp add: day_completed_def)
qed

lemma bd_day_audit: "insert_audit i a t f s at' d db = (db', n) \<Longrightarrow> bd_day db' = bd_day db"
  using frame_audit(5)[of i a t f s at' d db] by simp

lemma bd_day_reassign: "reassign_absence_assignment i v x m f db = Inr db' \<Longrightarrow> bd_day db' = bd_day db"
  by (drule reassign_Inr) auto

lemma bd_day_search: "open_further_search db r d st now = (db', s) \<Longrightarrow> bd_day db' = bd_day db"
  by (auto simp: open_further_search_def Let_def split: option.splits)

lemma bd_day_status: "response_report_status db r d m a ex now = (db', s) \<Longrightarrow> bd_day db' = bd_day db"
  by (auto simp: response_report_status_def dest: bd_day_search split: if_splits)

lemma report_day: "report_absence e ac p db = Inr (db', v) \<Longrightarrow> day_touched db db'"
  by (drule report_Inr, elim exE conjE, rule day_touchedI, assumption)
    (auto dest!: bd_day_audit simp: ask_members_def insert_report_def Let_def)

lemma respond_day: "respond_absence e ac n p db = Inr (db', v) \<Longrightarrow> day_touched db db'"
proof (drule respond_Inr, elim exE conjE)
  fix q :: absence_response and r :: absence_report and d o' g given answer db1 st db2 audit rs ev gs
  assume g: "guard_day db (dw_id d) ''absence'' (ab_id r) p (an_member q) = Inr g"
    and s: "response_report_status (update_response n answer (stamp_of (vn_now e)) db) r d (an_member q) answer
        (expired_at (vn_now e) q) (vn_now e) = (db1, st)"
      "insert_audit (ab_id r) (an_member q) EvResponse (Some (ab_status r)) st (stamp_of (vn_now e)) None
        (update_report (ab_id r) st (stamp_of (vn_now e)) None db1) = (db2, audit)"
    and db: "db' = record_answer_source audit (ab_id r) (ab_assignment r) d o' rs ev (stamp_of (vn_now e)) gs
        (complete_day g (an_member q) None (vn_clock e) db2)"
  have "bd_day db2 = bd_day db" using bd_day_audit[OF s(2)] bd_day_status[OF s(1)] by simp
  moreover have "bd_day db' = bd_day (complete_day g (an_member q) None (vn_clock e) db2)"
    unfolding db by (simp add: record_answer_source_def split: option.splits)
  ultimately show ?thesis by (intro day_touchedI[OF g]) simp_all
qed

lemma withdraw_day: "withdraw_absence e ac i p db = Inr (db', v) \<Longrightarrow> day_touched db db'"
  by (drule withdraw_Inr, elim exE conjE, rule day_touchedI, assumption) simp_all

lemma select_day: "select_absence_replacement e ac i p db = Inr (db', v) \<Longrightarrow> day_touched db db'"
  by (drule select_Inr, elim exE conjE, rule day_touchedI, assumption) (auto dest!: bd_day_audit bd_day_reassign)

lemma reopen_day: "reopen_absence e ac i p db = Inr (db', v) \<Longrightarrow> day_touched db db'"
  by (drule reopen_Inr, elim exE conjE, rule day_touchedI, assumption)
    (auto dest!: bd_day_audit bd_day_reassign restore_original_D)

lemma cancel_day: "cancel_absence e ac i p db = Inr (db', v) \<Longrightarrow> day_touched db db'"
  by (drule cancel_Inr, elim exE conjE, rule day_touchedI, assumption) (auto dest!: bd_day_audit bd_day_reassign)

lemma absence_step_day: "absence_step db db' \<Longrightarrow> day_touched db db'"
  by (induction rule: absence_step.induct)
    (auto intro: report_day respond_day withdraw_day select_day reopen_day cancel_day)

end
