(* ===== verification/Absence_Sample.thy ===== *)
theory Absence_Sample
  imports Absence_Machine
begin

text \<open>
  A small confirmed day: an examiner of the employers and a fallback of the employees for the
  morning, a third member who is available. Both report an absence, the third member answers both
  requests, and the chair selects them twice.
\<close>

definition crew_member :: "int \<Rightarrow> side \<Rightarrow> committee_role \<Rightarrow> member" where
  "crew_member i s r = \<lparr>mb_id = i, mb_person = i, mb_committee = 1, mb_side = s, mb_role = r, mb_active = True\<rparr>"

definition sample_absence :: absence_db where
  "sample_absence = \<lparr>
     bd_day = \<lparr>dd_days = [\<lparr>dw_id = 7, dw_round = 1, dw_date = ''1970-01-08'', dw_status = DyConfirmed, dw_closure = ClOpen, dw_revision = 1\<rparr>],
       dd_reopenings = [], dd_tasks = [], dd_events = []\<rparr>,
     bd_rounds = [\<lparr>er_id = 1, er_committee = 1, er_half_year = 1, er_status = PlConfirmed, er_revision = 1, er_deadline = None\<rparr>],
     bd_locks = [\<lparr>lr_round = 1, lr_status = LOpen\<rparr>], bd_unlocked = [],
     bd_members = [crew_member 1 Employer ChairRole, crew_member 2 Employee MemberRole, crew_member 3 Employer MemberRole],
     bd_staffing = [\<lparr>sf_id = 10, sf_day = 7, sf_member = 1, sf_revision = 1, sf_role = ''examiner'', sf_part = ''morning'', sf_fallback = None\<rparr>,
       \<lparr>sf_id = 11, sf_day = 7, sf_member = 2, sf_revision = 1, sf_role = ''fallback'', sf_part = ''morning'', sf_fallback = Some ''requested''\<rparr>],
     bd_slots = [(7, hours (7 * 24 + 8))],
     bd_candidate_days = [\<lparr>kd_id = 4, kd_round = 1, kd_date = ''1970-01-08'', kd_active = 1\<rparr>],
     bd_availability = [\<lparr>av_member = 3, av_day = 4, av_value = ''full_day''\<rparr>],
     bd_reports = [], bd_responses = [], bd_audits = [], bd_sources = []\<rparr>"

definition calm_env :: absence_env where
  "calm_env = \<lparr>vn_now = 0, vn_clock = [], vn_before = (\<lambda>_. [])\<rparr>"

definition sample_chair :: actor where
  "sample_chair = \<lparr>ac_committees = [1], ac_members = [1], ac_management = [1], ac_member_by_committee = [(1, 1)]\<rparr>"

definition sample_third :: actor where
  "sample_third = \<lparr>ac_committees = [1], ac_members = [3], ac_management = [], ac_member_by_committee = [(1, 3)]\<rparr>"

definition report_payload :: "int \<Rightarrow> payload" where
  "report_payload a = [(''exam_day_id'', JInt 7), (''exam_day_assignment_id'', JInt a)]"

definition selection :: payload where
  "selection = [(''committee_member_id'', JInt 3)]"

definition agreed :: payload where
  "agreed = [(''response'', JStr ''available'')]"

text \<open>The rows of the example, and its state after each of the six commands.\<close>

definition row_report :: "int \<Rightarrow> absence_status \<Rightarrow> int option \<Rightarrow> int \<Rightarrow> absence_report" where
  "row_report i st sel n = \<lparr>ab_id = i, ab_day = 7, ab_assignment = 9 + i, ab_member = i, ab_reporter = 1, ab_reported_at = 0,
     ab_reason = None, ab_status = st, ab_selected = sel, ab_version = n, ab_updated = (if n = 0 then None else Some 0)\<rparr>"

definition row_answer :: "int \<Rightarrow> answer \<Rightarrow> absence_response" where
  "row_answer i a = \<lparr>an_id = i, an_report = i, an_member = 3, an_answer = a, an_requested_at = 0, an_expires_at = None,
     an_urgent = False, an_responded_at = (if a = Pending then None else Some 0)\<rparr>"

definition row_audit :: "int \<Rightarrow> int \<Rightarrow> int \<Rightarrow> audit_type \<Rightarrow> absence_status option \<Rightarrow> absence_status \<Rightarrow> audit_details option \<Rightarrow> absence_audit" where
  "row_audit n i m t f st d = \<lparr>ae_id = n, ae_report = i, ae_actor = m, ae_type = t, ae_from = f, ae_to = st, ae_details = d, ae_at = 0\<rparr>"

definition row_source :: "int \<Rightarrow> int \<Rightarrow> int \<Rightarrow> int list \<Rightarrow> notice \<Rightarrow> string \<Rightarrow> consequence_source" where
  "row_source n i v rs ev tk = (let sel = (ev = NoticeSelected) in \<lparr>cs_audit = n, cs_report = i, cs_version = v, cs_assignment = 9 + i,
     cs_assignment_revision = (if sel then 2 else 1), cs_previous = i, cs_selected = (if sel then Some 3 else None),
     cs_day = 7, cs_closure = ClOpen, cs_calendar = sel, cs_action = (if sel then None else Some ''update''), cs_round = 1,
     cs_committee = 1, cs_recipients = rs, cs_event = ev, cs_urgent = (if sel then None else Some False), cs_before = [],
     cs_guard = \<lparr>gp_day = 7, gp_revision = n, gp_closure = ClOpen, gp_token = tk, gp_touch = True, gp_reopening = None,
       gp_scope = None, gp_late = False\<rparr>, cs_at = 0\<rparr>)"

definition sample_audits :: "absence_audit list" where
  "sample_audits = [row_audit 1 1 1 EvReported None AbReplacementRequested None,
     row_audit 2 2 1 EvReported None AbReplacementRequested None,
     row_audit 3 1 3 EvResponse (Some AbReplacementRequested) AbReplacementRequested None,
     row_audit 4 2 3 EvResponse (Some AbReplacementRequested) AbReplacementRequested None,
     row_audit 5 1 1 EvSelected (Some AbReplacementRequested) AbReplacementSelected (Some (DtMember 3)),
     row_audit 6 2 1 EvSelected (Some AbReplacementRequested) AbReplacementSelected (Some (DtMember 3))]"

definition sample_sources :: "consequence_source list" where
  "sample_sources = [row_source 1 1 0 [1, 3] NoticeReported ''staffing:10'', row_source 2 2 0 [1, 2, 3] NoticeReported ''staffing:11'',
     row_source 3 1 1 [1, 3] NoticeRequested ''absence:1'', row_source 4 2 1 [1, 3] NoticeRequested ''absence:2'',
     row_source 5 1 2 [1, 2, 3] NoticeSelected ''absence:1'', row_source 6 2 2 [1, 2, 3] NoticeSelected ''absence:2'']"

definition sample_at :: "nat \<Rightarrow> staffing list \<Rightarrow> absence_report list \<Rightarrow> absence_response list \<Rightarrow> absence_db" where
  "sample_at n staff rs as = sample_absence\<lparr>
     bd_day := \<lparr>dd_days = [\<lparr>dw_id = 7, dw_round = 1, dw_date = ''1970-01-08'', dw_status = DyConfirmed, dw_closure = ClOpen,
       dw_revision = int n + 1\<rparr>], dd_reopenings = [], dd_tasks = [], dd_events = []\<rparr>,
     bd_staffing := staff, bd_reports := rs, bd_responses := as, bd_audits := take n sample_audits, bd_sources := take n sample_sources\<rparr>"

definition staff :: "bool \<Rightarrow> bool \<Rightarrow> staffing list" where
  "staff x y = [\<lparr>sf_id = 10, sf_day = 7, sf_member = (if x then 3 else 1), sf_revision = (if x then 2 else 1), sf_role = ''examiner'',
       sf_part = ''morning'', sf_fallback = None\<rparr>,
     \<lparr>sf_id = 11, sf_day = 7, sf_member = (if y then 3 else 2), sf_revision = (if y then 2 else 1), sf_role = ''fallback'',
       sf_part = ''morning'', sf_fallback = Some (if y then ''confirmed'' else ''requested'')\<rparr>]"

definition first_report :: absence_db where
  "first_report = sample_at 1 (staff False False) [row_report 1 AbReplacementRequested None 0] [row_answer 1 Pending]"

definition both_reports :: absence_db where
  "both_reports = sample_at 2 (staff False False) [row_report 1 AbReplacementRequested None 0, row_report 2 AbReplacementRequested None 0]
     [row_answer 1 Pending, row_answer 2 Pending]"

definition first_answer :: absence_db where
  "first_answer = sample_at 3 (staff False False) [row_report 1 AbReplacementRequested None 1, row_report 2 AbReplacementRequested None 0]
     [row_answer 1 Available, row_answer 2 Pending]"

definition both_answers :: absence_db where
  "both_answers = sample_at 4 (staff False False) [row_report 1 AbReplacementRequested None 1, row_report 2 AbReplacementRequested None 1]
     [row_answer 1 Available, row_answer 2 Available]"

definition first_selected :: absence_db where
  "first_selected = sample_at 5 (staff True False) [row_report 1 AbReplacementSelected (Some 3) 2, row_report 2 AbReplacementRequested None 1]
     [row_answer 1 Available, row_answer 2 Available]"

definition both_selected :: absence_db where
  "both_selected = sample_at 6 (staff True True) [row_report 1 AbReplacementSelected (Some 3) 2, row_report 2 AbReplacementSelected (Some 3) 2]
     [row_answer 1 Available, row_answer 2 Available]"

definition yields :: "absence_error + (absence_db \<times> absence_view) \<Rightarrow> absence_db \<Rightarrow> bool" where
  "yields x db = (case x of Inl _ \<Rightarrow> False | Inr (db', v) \<Rightarrow> db' = db)"

lemma yields_D: "yields x db \<Longrightarrow> \<exists>v. x = Inr (db, v)"
  by (auto simp: yields_def split: sum.splits)

lemma sample_inv_start: "absence_inv sample_absence"
  by code_simp

lemma run_report: "yields (report_absence calm_env sample_chair (report_payload 10) sample_absence) first_report"
  by code_simp

text \<open>The second report is evaluated check by check.\<close>

definition second_day :: day_row where
  "second_day = \<lparr>dw_id = 7, dw_round = 1, dw_date = ''1970-01-08'', dw_status = DyConfirmed, dw_closure = ClOpen, dw_revision = 2\<rparr>"

definition absence_round :: exam_round where
  "absence_round = \<lparr>er_id = 1, er_committee = 1, er_half_year = 1, er_status = PlConfirmed, er_revision = 1, er_deadline = None\<rparr>"

definition second_guard :: day_guard where
  "second_guard = \<lparr>dg_day = 7, dg_token = ''staffing:11'', dg_reopening = None, dg_touch = True, dg_late = False\<rparr>"

definition fallback_row :: staffing where
  "fallback_row = staff False False ! 1"

lemma second_checks:
  "assert_mutation_allowed first_report None (report_payload 11) = Inr ()"
  "payload_target first_report (report_payload 11) = Inr (second_day, absence_round, fallback_row, crew_member 2 Employee MemberRole)"
  "assert_before_start first_report second_day (Some fallback_row) 0 = Inr ()"
  "\<not> active_report_exists first_report 11 known_statuses"
  "guard_day first_report 7 ''staffing'' 11 (report_payload 11) 1 = Inr second_guard"
  "assignment_start first_report second_day fallback_row = Inr (hours 176)"
  "eligible_candidates first_report second_day fallback_row (crew_member 2 Employee MemberRole) None
     = ([crew_member 3 Employer MemberRole], None)"
  by code_simp+

lemma second_filed: "yields (file_report calm_env second_day absence_round fallback_row (crew_member 2 Employee MemberRole) 1
    second_guard False ([crew_member 3 Employer MemberRole], None) None first_report) both_reports"
  by code_simp

lemma run_second_report: "yields (report_absence calm_env sample_chair (report_payload 11) first_report) both_reports"
proof -
  have "member_for sample_chair (er_committee absence_round) = Some 1" "can_manage sample_chair (er_committee absence_round)"
    "er_status absence_round = PlConfirmed" "dw_status second_day = DyConfirmed" "dw_id second_day = 7" "sf_id fallback_row = 11"
    "vn_now calm_env = 0" "\<not> hours 176 < 0 + hours 48" "optional_reason (jget (report_payload 11) ''reason'') = Inr None"
    by code_simp+
  then show ?thesis using second_filed by (simp add: report_absence_def second_checks)
qed

lemma run_answer: "yields (respond_absence calm_env sample_third 1 agreed both_reports) first_answer"
  by code_simp

lemma run_second_answer: "yields (respond_absence calm_env sample_third 2 agreed first_answer) both_answers"
  by code_simp

lemma run_selection: "yields (select_absence_replacement calm_env sample_chair 1 selection both_answers) first_selected"
  by code_simp

lemma run_second_selection: "yields (select_absence_replacement calm_env sample_chair 2 selection first_selected) both_selected"
  by code_simp

lemma absence_sample_reachable: "absence_step\<^sup>*\<^sup>* sample_absence both_answers" "absence_step\<^sup>*\<^sup>* sample_absence first_selected"
  "absence_step\<^sup>*\<^sup>* sample_absence both_selected"
proof -
  have "absence_step sample_absence first_report" "absence_step first_report both_reports" "absence_step both_reports first_answer"
    "absence_step first_answer both_answers" "absence_step both_answers first_selected" "absence_step first_selected both_selected"
    using run_report[THEN yields_D] run_second_report[THEN yields_D] run_answer[THEN yields_D] run_second_answer[THEN yields_D]
      run_selection[THEN yields_D] run_second_selection[THEN yields_D] by (auto intro: absence_step.intros)
  then show "absence_step\<^sup>*\<^sup>* sample_absence both_answers" "absence_step\<^sup>*\<^sup>* sample_absence first_selected"
    "absence_step\<^sup>*\<^sup>* sample_absence both_selected"
    by (auto intro: rtranclp.rtrancl_into_rtrancl)
qed

end
