(* ===== verification/Absence_Claims.thy ===== *)
theory Absence_Claims
  imports Absence_Sample
begin

text \<open>What the absence process guarantees, and where it books a member twice.\<close>

text \<open>C13: Every use case of the absence process is one counted mutation of exactly one exam day, which
  is open or reopened: the day guard let it through, the revision of that day grows by one, and
  every other day stays as it is. A closed day is never changed by an absence.\<close>

theorem absence_step_guarded:
  assumes "absence_step db db'"
  shows "\<exists>j d. day_of (bd_day db) j = Some d \<and> dw_closure d \<in> {ClOpen, ClReopening}
    \<and> day_of (bd_day db') j = Some (d\<lparr>dw_revision := dw_revision d + 1\<rparr>)
    \<and> (\<forall>k. k \<noteq> j \<longrightarrow> day_of (bd_day db') k = day_of (bd_day db) k)
    \<and> mutated (day_guarded j) day_completed (bd_day db) (bd_day db')"
proof -
  from absence_step_day[OF assms] obtain j d c x where t: "day_of (bd_day db) j = Some d" "dw_closure d \<in> {ClOpen, ClReopening}"
    "day_guarded j c (bd_day db) = Some x" "dg_touch (fst x)" "bd_day db' = day_completed x (bd_day db)"
    unfolding day_touched_def by (elim exE conjE) (rule that; assumption)
  from day_guarded_D[OF t(3)] guard_touch obtain g where x: "x = (g, c)" "dg_day g = j" using t(1) by fastforce
  have "mutated (day_guarded j) day_completed (bd_day db) (bd_day db')"
    unfolding t(5) using t(3) by (intro mutated.mutate[where c = c] mutated.start)
  moreover have "day_of (bd_day db') k = (if k = j then Some (d\<lparr>dw_revision := dw_revision d + 1\<rparr>) else day_of (bd_day db) k)" for k
    using t(1,4) unfolding t(5) by (simp add: x day_completed_def day_of_complete)
  ultimately show ?thesis using t(1,2) by (intro exI[of _ j] exI[of _ d]) simp
qed

lemma absence_step_guarded_witness:
  "\<exists>j d. day_of (bd_day sample_absence) j = Some d \<and> day_of (bd_day first_report) j = Some (d\<lparr>dw_revision := dw_revision d + 1\<rparr>)"
proof -
  from yields_D[OF run_report] obtain v where
    "report_absence calm_env sample_chair (report_payload 10) sample_absence = Inr (first_report, v)" by blast
  from absence_step_guarded[OF absence_step.report[OF this]] show ?thesis by blast
qed

text \<open>C3: In every state that the absence process reaches from a day without reports, the tables are
  well-formed. A member is asked once for a report and never for their own absence. A request is
  pending exactly as long as it has no time of answer. A selected member stands only with the status
  that says so, or with the cancellation after it. The last entry of the history of a report is its
  status, and its version counts the entries after the first that a use case made. Posts stay unique.\<close>

theorem absence_tables_wellformed:
  assumes "absence_step\<^sup>*\<^sup>* start db"
    and "bd_reports start = []" "bd_responses start = []" "bd_audits start = []"
    and "distinct (map sf_id (bd_staffing start))" "staffing_unique (bd_staffing start)" "distinct (map mb_id (bd_members start))"
  shows "distinct (map (\<lambda>n. (an_report n, an_member n)) (bd_responses db)) \<and> staffing_unique (bd_staffing db)
    \<and> (\<forall>n \<in> set (bd_responses db). (an_answer n = Pending \<longleftrightarrow> an_responded_at n = None)
        \<and> (\<exists>r \<in> set (bd_reports db). ab_id r = an_report n \<and> ab_member r \<noteq> an_member n))
    \<and> (\<forall>r \<in> set (bd_reports db). (ab_status r = AbReplacementSelected \<longrightarrow> ab_selected r \<noteq> None)
        \<and> (ab_selected r \<noteq> None \<longrightarrow> ab_status r \<in> {AbReplacementSelected, AbDayCancelled})
        \<and> report_history db (ab_id r) \<noteq> [] \<and> ae_to (last (report_history db (ab_id r))) = ab_status r
        \<and> ab_version r = int (length (filter counted (report_history db (ab_id r)))))"
proof -
  have "absence_inv start" using assms(2-) by (simp add: absence_inv_def keys_ok_def parties_def asked_def answers_ok_def trail_ok_def)
  from absence_reachable_inv[OF assms(1) this] have inv: "keys_ok db" "answers_ok db" "list_all selected_ok (bd_reports db)" "trail_ok db"
    by (simp_all add: absence_inv_def)
  have "\<exists>r \<in> set (bd_reports db). ab_id r = an_report n \<and> ab_member r \<noteq> an_member n" if n: "n \<in> set (bd_responses db)" for n
  proof -
    have "(an_report n, an_member n) \<in> set (asked db)" using n by (auto simp: asked_def)
    with inv(1) have "an_report n \<in> fst ` set (parties db)" "(an_report n, an_member n) \<notin> set (parties db)"
      unfolding keys_ok_def by force+
    then show ?thesis by (auto simp: parties_def)
  qed
  with inv show ?thesis by (auto simp: keys_ok_def asked_def answers_ok_def trail_ok_def selected_ok_def list_all_iff)
qed

lemma absence_tables_wellformed_witness:
  "distinct (map (\<lambda>n. (an_report n, an_member n)) (bd_responses both_selected)) \<and> length (bd_responses both_selected) = 2"
proof -
  have "bd_reports sample_absence = [] \<and> bd_responses sample_absence = [] \<and> bd_audits sample_absence = []"
    "distinct (map sf_id (bd_staffing sample_absence))" "staffing_unique (bd_staffing sample_absence)"
    "distinct (map mb_id (bd_members sample_absence))" by code_simp+
  with absence_tables_wellformed[OF absence_sample_reachable(3)] show ?thesis by (simp add: both_selected_def sample_at_def)
qed

lemma available_replacement_D:
  assumes "available_replacement db r d m = Inr (a, x)" "keys_ok db"
  shows "\<exists>t. member_of db (ab_member r) = Some t \<and> staffing_of db (ab_assignment r) = Some a \<and> fits db d a t x
    \<and> (\<exists>n \<in> set (bd_responses db). an_report n = ab_id r \<and> an_member n = mb_id x \<and> an_answer n = Available)"
proof -
  from assms(1) obtain v t where v: "required_view db (ab_id r) = Inr v" "list_ex (\<lambda>n. an_member n = m \<and> an_answer n = Available) (vw_responses v)"
    "staffing_of db (ab_assignment r) = Some a" "member_of db (ab_member r) = Some t" "member_of db m = Some x"
    and el: "mb_id x \<in> set (map mb_id (fst (eligible_candidates db d a t (Some m))))
      \<or> Some (mb_id x) = map_option mb_id (snd (eligible_candidates db d a t (Some m)))"
    by (auto simp: available_replacement_def ok_iff case_prod_unfold split: option.splits)
  have m: "mb_id x = m" using v(5) unfolding member_of_def by (rule find_Some_P)
  obtain es fb where e: "eligible_candidates db d a t (Some m) = (es, fb)" by fastforce
  from el have "(\<exists>y \<in> set es. mb_id y = mb_id x) \<or> (\<exists>y. fb = Some y \<and> mb_id y = mb_id x)" unfolding e by (cases fb) force+
  then obtain y where y: "y \<in> set es \<or> fb = Some y" "mb_id y = mb_id x" by blast
  have "fits db d a t y" using eligible_fits[OF e y(1)] .
  moreover have "x \<in> set (bd_members db)" using v(5) unfolding member_of_def by (rule find_Some_mem)
  then have "y = x" using y(2) assms(2) \<open>fits db d a t y\<close> by (auto simp: keys_ok_def fits_def distinct_map inj_on_def)
  moreover have "set (vw_responses v) \<subseteq> {n \<in> set (bd_responses db). an_report n = ab_id r}"
    using v(1) by (auto simp: required_view_def split: option.splits)
  with v(2) have "\<exists>n \<in> set (bd_responses db). an_report n = ab_id r \<and> an_member n = m \<and> an_answer n = Available"
    unfolding list_ex_iff by blast
  ultimately show ?thesis using v(3,4) m by (intro exI[of _ t]) simp
qed

text \<open>C8: Who is selected as a replacement was asked for this report and answered available, and fits the
  post by the tables: an active member of the committee of the round other than the absent one, of the
  same side unless the post is a fallback's, with an availability for that date that covers the part
  of the post, and on no post of another confirmed day of the same date and half year whose part
  overlaps. The selection puts exactly this member on the post of the report and advances that post by
  one revision, and the report shows the member and the next version; every other post, every other
  report, all requests and all members stay as they are. It is not promised that the member has no
  other post on the same day: the developer documentation demands that a regular examiner of the day
  is refused, and the code does not refuse them.\<close>

theorem replacement_selected:
  assumes "absence_inv db" "select_absence_replacement e ac i p db = Inr (db', v)"
  shows "\<exists>r d a t x. report_of db i = Some r \<and> day_of (bd_day db) (ab_day r) = Some d \<and> staffing_of db (ab_assignment r) = Some a
    \<and> member_of db (ab_member r) = Some t \<and> fits db d a t x
    \<and> (\<exists>n \<in> set (bd_responses db). an_report n = i \<and> an_member n = mb_id x \<and> an_answer n = Available)
    \<and> staffing_of db' (sf_id a) = Some (a\<lparr>sf_member := mb_id x, sf_revision := sf_revision a + 1,
        sf_fallback := (if sf_role a = ''fallback'' then Some ''confirmed'' else sf_fallback a)\<rparr>)
    \<and> (\<forall>k. k \<noteq> sf_id a \<longrightarrow> staffing_of db' k = staffing_of db k)
    \<and> report_of db' i = Some (r\<lparr>ab_status := AbReplacementSelected, ab_selected := Some (mb_id x),
        ab_version := ab_version r + 1, ab_updated := Some (stamp_of (vn_now e))\<rparr>)
    \<and> (\<forall>k. k \<noteq> i \<longrightarrow> report_of db' k = report_of db k)
    \<and> bd_responses db' = bd_responses db \<and> bd_members db' = bd_members db"
proof -
  from select_Inr[OF assms(2)] obtain r :: absence_report and d o' actor g m and a :: staffing and x :: member and db1 db2 audit src where
    r: "report_context db i = Some (r, d, o')" and av: "available_replacement db r d m = Inr (a, x)"
    and s: "reassign_absence_assignment (sf_id a) (sf_revision a) (sf_member a) (mb_id x)
        (if sf_role a = ''fallback'' then Some ''confirmed'' else None) db = Inr db1"
      "insert_audit (ab_id r) actor EvSelected (Some (ab_status r)) AbReplacementSelected (stamp_of (vn_now e)) (Some (DtMember (mb_id x)))
        (update_report (ab_id r) AbReplacementSelected (stamp_of (vn_now e)) (Some (Some (mb_id x))) db1) = (db2, audit)"
    and db: "db' = record_source src (complete_day g actor None (vn_clock e) db2)"
    by (elim exE conjE) (rule that; assumption)
  have c: "report_of db i = Some r" "ab_id r = i" "day_of (bd_day db) (ab_day r) = Some d"
    using report_context_D[OF r] report_of_D by auto
  from available_replacement_D[OF av] assms(1) c(2) obtain t where t: "member_of db (ab_member r) = Some t" "staffing_of db (ab_assignment r) = Some a"
    "fits db d a t x" "\<exists>n \<in> set (bd_responses db). an_report n = i \<and> an_member n = mb_id x \<and> an_answer n = Available"
    by (auto simp: absence_inv_def)
  have "bd_staffing db' = bd_staffing db1" "bd_reports db' = bd_reports (update_report (ab_id r) AbReplacementSelected
      (stamp_of (vn_now e)) (Some (Some (mb_id x))) db1)"
    "bd_responses db' = bd_responses db1" "bd_members db' = bd_members db1"
    using frame_audit(1-4)[of "ab_id r" actor EvSelected "Some (ab_status r)" AbReplacementSelected "stamp_of (vn_now e)"
        "Some (DtMember (mb_id x))" "update_report (ab_id r) AbReplacementSelected (stamp_of (vn_now e)) (Some (Some (mb_id x))) db1"]
    by (simp_all add: s(2) db)
  moreover have "sf_id a = ab_assignment r" using t(2) by (auto simp: staffing_of_def dest: find_Some_P)
  ultimately show ?thesis using c t reassign_Inr[OF s(1)]
    by (intro exI[of _ r] exI[of _ d] exI[of _ a] exI[of _ t] exI[of _ x])
      (auto simp: staffing_of_def report_of_def update_report_def find_upd_row)
qed

lemma replacement_selected_witness:
  "\<exists>r a x. report_of both_answers 1 = Some r \<and> staffing_of both_answers (ab_assignment r) = Some a
    \<and> staffing_of first_selected (sf_id a) = Some (a\<lparr>sf_member := mb_id x, sf_revision := sf_revision a + 1,
        sf_fallback := (if sf_role a = ''fallback'' then Some ''confirmed'' else sf_fallback a)\<rparr>)
    \<and> report_of first_selected 1 = Some (r\<lparr>ab_status := AbReplacementSelected, ab_selected := Some (mb_id (x :: member)),
        ab_version := ab_version r + 1, ab_updated := Some (stamp_of (vn_now calm_env))\<rparr>)"
proof -
  from yields_D[OF run_selection] obtain v where
    s: "select_absence_replacement calm_env sample_chair 1 selection both_answers = Inr (first_selected, v)" by blast
  from replacement_selected[OF absence_reachable_inv[OF absence_sample_reachable(1) sample_inv_start] s] show ?thesis
    by (elim exE conjE) (intro exI conjI; assumption)
qed

text \<open>C16: A member can be selected twice for the same part of the same day. From a day without reports
  whose posts are held by different members, the absence process reaches a state in which a member
  without a post there was selected for the post of an absent examiner and stands on it, so that a
  search for the absent fallback of the same part asks nobody. Still the selection for the
  fallback's report succeeds with the same member: it repeats the check without the test for the
  regular examiners of the day. Both reports then show the member, and the member holds both posts.\<close>

theorem replacement_double_booked:
  "\<exists>start db db' e ac v x r1 r2 a b b0 d t. bd_reports start = [] \<and> distinct (map sf_member (bd_staffing start))
    \<and> x \<notin> sf_member ` set (bd_staffing start) \<and> absence_step\<^sup>*\<^sup>* start db \<and> absence_inv db
    \<and> report_of db 1 = Some r1 \<and> ab_status r1 = AbReplacementSelected \<and> ab_selected r1 = Some x
    \<and> staffing_of db (ab_assignment r1) = Some a \<and> sf_role a = ''examiner'' \<and> sf_member a = x
    \<and> staffing_of db (ab_assignment r2) = Some b0 \<and> sf_role b0 = ''fallback'' \<and> sf_member b0 \<noteq> x
    \<and> day_of (bd_day db) (sf_day b0) = Some d \<and> member_of db (sf_member b0) = Some t
    \<and> eligible_candidates db d b0 t None = ([], None)
    \<and> select_absence_replacement e ac 2 [(''committee_member_id'', JInt x)] db = Inr (db', v)
    \<and> report_of db' 1 = Some r1 \<and> staffing_of db' (ab_assignment r1) = Some a
    \<and> report_of db' 2 = Some r2 \<and> ab_status r2 = AbReplacementSelected \<and> ab_selected r2 = Some x
    \<and> staffing_of db' (ab_assignment r2) = Some b \<and> sf_member b = x \<and> sf_role b = ''fallback''
    \<and> sf_id a \<noteq> sf_id b \<and> sf_day a = sf_day b \<and> sf_part a = sf_part b"
proof -
  from yields_D[OF run_second_selection] obtain v where
    s: "select_absence_replacement calm_env sample_chair 2 [(''committee_member_id'', JInt 3)] first_selected = Inr (both_selected, v)"
    unfolding selection_def by blast
  let ?r1 = "row_report 1 AbReplacementSelected (Some 3) 2" and ?r2 = "row_report 2 AbReplacementSelected (Some 3) 2"
  have facts: "bd_reports sample_absence = []"
    "distinct (map sf_member (bd_staffing sample_absence))"
    "3 \<notin> sf_member ` set (bd_staffing sample_absence)"
    "report_of first_selected 1 = Some ?r1"
    "ab_status ?r1 = AbReplacementSelected"
    "ab_selected ?r1 = Some 3"
    "staffing_of first_selected (ab_assignment ?r1) = Some (staff True False ! 0)"
    "sf_role (staff True False ! 0) = ''examiner''"
    "sf_member (staff True False ! 0) = 3"
    "staffing_of first_selected (ab_assignment ?r2) = Some fallback_row"
    "sf_role fallback_row = ''fallback''"
    "sf_member fallback_row \<noteq> 3"
    "day_of (bd_day first_selected) (sf_day fallback_row) = Some (second_day\<lparr>dw_revision := 6\<rparr>)"
    "member_of first_selected (sf_member fallback_row) = Some (crew_member 2 Employee MemberRole)"
    "eligible_candidates first_selected (second_day\<lparr>dw_revision := 6\<rparr>) fallback_row (crew_member 2 Employee MemberRole) None = ([], None)"
    "report_of both_selected 1 = Some ?r1"
    "staffing_of both_selected (ab_assignment ?r1) = Some (staff True False ! 0)"
    "report_of both_selected 2 = Some ?r2"
    "ab_status ?r2 = AbReplacementSelected"
    "ab_selected ?r2 = Some 3"
    "staffing_of both_selected (ab_assignment ?r2) = Some (staff True True ! 1)"
    "sf_member (staff True True ! 1) = 3"
    "sf_role (staff True True ! 1) = ''fallback''"
    "sf_id (staff True False ! 0) \<noteq> sf_id (staff True True ! 1)"
    "sf_day (staff True False ! 0) = sf_day (staff True True ! 1)"
    "sf_part (staff True False ! 0) = sf_part (staff True True ! 1)"
    by code_simp+
  show ?thesis
    by (rule exI[of _ sample_absence], rule exI[of _ first_selected], rule exI[of _ both_selected], rule exI[of _ calm_env],
        rule exI[of _ sample_chair], rule exI[of _ v], rule exI[of _ 3], rule exI[of _ ?r1], rule exI[of _ ?r2],
        rule exI[of _ "staff True False ! 0"], rule exI[of _ "staff True True ! 1"], rule exI[of _ fallback_row],
        rule exI[of _ "second_day\<lparr>dw_revision := 6\<rparr>"], rule exI[of _ "crew_member 2 Employee MemberRole"])
      (intro conjI facts s absence_sample_reachable(2) absence_reachable_inv[OF absence_sample_reachable(2) sample_inv_start])
qed

end
