(* ===== verification/Identity_Scope.thy ===== *)
theory Identity_Scope
  imports Assess_Service Plan_Model
begin

text \<open>
  The authorization scope of a signed-in person (\<open>identity/authorization.py\<close>): every guard of the
  services asks it which committees the person may read and manage. The active memberships come from
  the identity store and are an argument.
\<close>

record membership =
  ms_id :: int
  ms_person :: int
  ms_committee :: int
  ms_role :: committee_role

text \<open>A dictionary comprehension keeps the last membership of a committee.\<close>

definition scope :: "(int \<Rightarrow> membership list) \<Rightarrow> int option \<Rightarrow> actor" where
  "scope memberships person = (let ms = (case person of None \<Rightarrow> [] | Some i \<Rightarrow> memberships i) in
     \<lparr>ac_committees = map ms_committee ms, ac_members = map ms_id ms,
      ac_management = map ms_committee (filter (\<lambda>m. ms_role m \<in> {ChairRole, DeputyChairRole}) ms),
      ac_member_by_committee = rev (map (\<lambda>m. (ms_committee m, ms_id m)) ms)\<rparr>)"

definition has_active_membership :: "actor \<Rightarrow> bool" where
  "has_active_membership ac \<longleftrightarrow> ac_members ac \<noteq> []"

definition member_for_committee :: "actor \<Rightarrow> int option \<Rightarrow> int option" where
  "member_for_committee ac c = Option.bind c (map_of (ac_member_by_committee ac))"

definition can_edit_member :: "actor \<Rightarrow> int option \<Rightarrow> int option \<Rightarrow> bool" where
  "can_edit_member ac m c \<longleftrightarrow> (case c of None \<Rightarrow> False | Some c \<Rightarrow> can_manage ac c)
     \<or> (case m of None \<Rightarrow> False | Some m \<Rightarrow> m \<in> set (ac_members ac))"

text \<open>Whoever manages a committee may read it and acts in it as one of their own memberships.\<close>

lemma scope_managed_readable: "can_manage (scope f i) c \<Longrightarrow> can_read (scope f i) c"
  by (auto simp: scope_def can_manage_def can_read_def Let_def)

lemma scope_readable_member:
  assumes "can_read (scope f i) c"
  shows "\<exists>m. member_for_committee (scope f i) (Some c) = Some m \<and> m \<in> set (ac_members (scope f i))"
proof -
  let ?ms = "case i of None \<Rightarrow> [] | Some j \<Rightarrow> f j"
  let ?t = "rev (map (\<lambda>m. (ms_committee m, ms_id m)) ?ms)"
  from assms have "c \<in> fst ` set ?t" by (force simp: scope_def can_read_def Let_def)
  then have "map_of ?t c \<noteq> None" by (simp only: map_of_eq_None_iff) simp
  then obtain m where m: "map_of ?t c = Some m" by blast
  then have "(c, m) \<in> set ?t" by (rule map_of_SomeD)
  then show ?thesis using m by (auto simp: scope_def member_for_committee_def Let_def)
qed

lemma scope_anonymous: "\<not> has_active_membership (scope f None)" "\<not> can_read (scope f None) c" "\<not> can_manage (scope f None) c"
  by (simp_all add: scope_def has_active_membership_def can_read_def can_manage_def)

end
