(* ===== verification/Spec2Isabelle.thy ===== *)
theory Spec2Isabelle
  imports Assess_Claims Round_Claims Plan_Claims Candidate_Claims Day_Claims Absence_Claims Identity_Scope
begin

text \<open>
  \<^bold>\<open>Verification of lzug, a backend for the organisation of vocational exams\<close>

  \<^bold>\<open>The program.\<close> A committee plans an exam round, holds its exam days and determines the results.
  The backend under \<open>src/backend/src/backend\<close> has one package for each part: \<open>planning\<close> generates the
  candidate days of a round and a proposal of days, slots and crews, validates, stores, confirms and
  revises it; \<open>execution\<close> runs the days (absences and their replacements, terminal statuses of the
  candidates, closing of days and rounds); \<open>assessment\<close> keeps the exam results from the first
  individual assessment to the signed and communicated record; \<open>identity\<close> says what a person may read
  and manage. \<open>persistence\<close> holds their tables behind ports, \<open>application\<close> the use cases that span
  several parts. Planning writes rounds, days, slots and assignments; Execution reads them and writes
  the assignments of an absent member and the closing state of a day; Assessment reads the slots of a
  day for its participants; the round policies read what Assessment has stored. Every change of an
  exam day passes one guard, which carries the revision of the day.

  \<^bold>\<open>Conventions.\<close>
  \<^item> A service method is one definition over the tables, in the order of the code: reads, guards, writes,
    the value returned. An exception is \<open>Inl\<close> of an error datatype, and since a method runs in one
    transaction the tables are then those before the call. Tables are lists of rows; a query without
    \<open>ORDER BY\<close> delivers them in list order, one with it is sorted stably; \<open>UNIQUE\<close> and \<open>CHECK\<close>
    constraints that can fail are part of the row operations.
  \<^item> Python integers are \<open>int\<close>, decimals are the pairs of \<open>PyNum\<close> with the rounding modes of the
    \<open>decimal\<close> module, dates are ordinals with the overflow error of \<open>datetime\<close>, texts are strings, a
    JSON payload is a value of its own type where the code inspects its form. An instant of the
    absence process is its number of microseconds.
  \<^item> What is not source of the repository is an argument: the digest of inputs, the clock, the provider
    of public holidays, the image of calendar entries, the geodata of venues. No theorem assumes
    anything about them beyond what it states.

  \<^bold>\<open>Basics.\<close>
  \<^item> \<open>Prelude\<close>: results as sums, updates of rows by key, and the interfaces the components share:
    \<^theory_text>\<open>optimistic_lock\<close> (a write names the version it was made for), \<^theory_text>\<open>invariant_system\<close> (steps that
    preserve an invariant) and \<^theory_text>\<open>monotone_system\<close>, which extends it by a measure that never falls.
  \<^item> \<open>PyNum\<close> (decimals), \<open>PyText\<close> (strip, casefold on ASCII, formatting), \<open>PyDate\<close> (proleptic calendar), \<open>PyIso\<close>
    (ISO texts of dates and their reading back), \<open>PyOrder\<close> (sorting keys of Python).

  \<^bold>\<open>Assessment\<close> (\<open>assessment/rules.py\<close>, \<open>assessment/service.py\<close>, \<open>assessment/ports.py\<close>,
  \<open>persistence/assessment.py\<close>).
  \<^item> \<open>Assess_Rules\<close>: rule records and every validator. \<open>Assess_Store\<close>: the tables of a result and the
    repository commands. \<open>Assess_Calc\<close>: scores, total, grade. \<open>Assess_Service\<close>, \<open>Assess_Decide\<close>: the
    methods of \<open>ExamResultService\<close>. \<open>Assess_Binding\<close>: models and their binding to rounds.
  \<^item> \<open>Assess_Inv\<close>: the invariant \<open>result_inv\<close>, one group of lemmas for each child table. \<open>Assess_Machine\<close>: the
    abstract exam result, a transition relation without requests and actors, and its invariant by rule
    induction. \<open>Assess_Sim\<close>, \<open>Assess_Steps\<close>, \<open>Assess_Decide_Steps\<close>: every method refines it.
    \<open>Assess_Reach\<close>: the transition system of all methods. \<open>Assess_Sample\<close>, \<open>Assess_Scenario\<close>: an exam run
    from the empty tables to the communicated result. \<open>Assess_Props\<close>, \<open>Assess_Claims\<close>: what follows.

  \<^bold>\<open>Round policies\<close> (\<open>execution/round_candidate_policy.py\<close>, \<open>execution/round_lifecycle_view.py\<close>).
  \<open>Round_Policy\<close> has the terminal statuses of a candidate with their evidence and the checklist of a
  round, \<open>Round_Claims\<close> relates them to the reachable states of Assessment.

  \<^bold>\<open>Planning\<close> (\<open>planning/proposals.py\<close>, \<open>planning/proposal_ports.py\<close>, \<open>persistence/planning.py\<close>).
  \<^item> \<open>Plan_Model\<close>: aggregate, snapshot, slot times. \<open>Plan_Validate\<close>: the validation. \<open>Plan_Generate\<close>: the
    generator. \<open>Plan_Store\<close>: tables and unit of work. \<open>Plan_Service\<close>: the use cases.
  \<^item> \<open>Plan_Spec\<close>: the contract \<open>plan_ok\<close>, which has no counters and no order of checks, and the proof that the
    validation accepts exactly the plans that meet it. \<open>Plan_Crew\<close>, \<open>Plan_Complete\<close>, \<open>Plan_Generated\<close>: the
    generator meets the contract exactly when it reports that everything was placed.
    \<open>Plan_Persist\<close>, \<open>Plan_Roundtrip\<close>, \<open>Plan_Replace\<close>: what is written is what is read, up to identities and
    order, and the validity of a plan depends on nothing else. \<open>Plan_Lifecycle\<close>, \<open>Plan_Revise\<close>: the use
    cases by the plan they leave, and the frame of a revision. \<open>Plan_Machine\<close>: reachable states.
    \<open>Plan_Sample\<close>, \<open>Plan_Claims\<close>: properties and instances.

  \<^bold>\<open>Candidate days\<close> (\<open>planning/candidate_days.py\<close>, \<open>persistence/candidate_days.py\<close>). \<open>Candidate_Days\<close> has the
  loop over the weekdays and the generation, \<open>Candidate_Claims\<close> its partition of the weekdays and its
  idempotence.

  \<^bold>\<open>The guard of an exam day\<close> (\<open>persistence/day_mutations.py\<close>). \<open>Day_Guard\<close> models the check against revision,
  closure and the window of a reopening, and the completion that counts it. \<open>Day_Claims\<close> states the
  interface \<^theory_text>\<open>revision_guard\<close>, whose laws are that a request is refused unless it names the current
  revision and that a counted mutation advances it, and interprets it on the guard.

  \<^bold>\<open>Absences\<close> (\<open>execution/absence.py\<close>, \<open>execution/absence_ports.py\<close>, \<open>persistence/absence_uow.py\<close>, the selection,
  reopening and cancellation of \<open>application/exam_lifecycle.py\<close> with their rows in
  \<open>persistence/planning_lifecycle.py\<close> and \<open>persistence/exam_lifecycle.py\<close>).
  \<^item> \<open>Absence_Model\<close>: tables and unit of work. \<open>Absence_Service\<close>: eligibility of members, recipients, round
    locks, sources of consequences. \<open>Absence_Cases\<close>: the six use cases.
  \<^item> \<open>Absence_Inv\<close>: the invariant; \<open>Absence_Steps\<close>, \<open>Absence_Keep\<close>, \<open>Absence_Report\<close>: effect of every use case
    and preservation. \<open>Absence_Machine\<close>: the steps, each of which is one counted mutation of the day
    guard. \<open>Absence_Sample\<close>, \<open>Absence_Claims\<close>: properties, and a run that books a member twice.

  \<^bold>\<open>Identity\<close> (\<open>identity/authorization.py\<close>). \<open>Identity_Scope\<close>: the committees a person may read and manage.

  \<^bold>\<open>Interfaces.\<close> \<^theory_text>\<open>optimistic_lock\<close> is interpreted on the version of a result; \<^theory_text>\<open>invariant_system\<close> on the
  abstract exam result, on Assessment and on Planning; \<^theory_text>\<open>monotone_system\<close> on the version of a result and
  on the status of a round; \<^theory_text>\<open>revision_guard\<close> on the guard of an exam day.

  \<^bold>\<open>Termination and bounds.\<close> No definition has fuel. Recursion is structural except for the digits of a number
  (\<open>ndigits\<close>) and the loop over weekdays (\<open>weekdays\<close>), which end by a measure; the latter raises the
  overflow of \<open>datetime\<close> behind the last ordinal, as the code does. The times of a day stay within
  the day up to 15 exams, 14 with a lunch break, and the grade search of a reachable result finds a
  grade.

  \<^bold>\<open>Not modelled.\<close>
  \<^item> The closing of days and rounds beyond the policies above (\<open>execution/exam_day_closures.py\<close>,
    \<open>execution/exam_round_lifecycle.py\<close>) and the exam protocols: they compose snapshots of every other
    part, most of which are columns that nothing here writes.
  \<^item> The replay of consequences after a commit, calendar, notifications and documents: their effect is
    text sent to other systems.
  \<^item> Venues, rooms and other resources: rows behind library geometry and plain create, read, update and
    delete requests.
  \<^item> Sessions, password hashing, backup and restore, the HTTP layer and the declarations of schema and
    contracts: library cryptography, files and processes, and code the frameworks interpret.
  \<^item> Foreign keys, time stamps that no guard reads, the German texts of messages, and reads that only
    rename fields.
\<close>

end
